(* ===== verification/Prelude.thy ===== *)
theory Prelude
  imports Main "HOL-Library.Word" "HOL-Library.Monad_Syntax"
begin

text \<open>
  Shared vocabulary of the development: machine integers, C strings and the
  string.h routines the code uses, decimal output of printf, the interface of
  a list searched by key (every lookup loop of the code has this shape), the
  interface of an encoder with its decoder, and the theorem collections the
  component theories extend.

  A C string is the list of its characters before the terminating NUL, so two
  strings are equal under \<open>strcmp\<close> when the lists are equal.
\<close>

named_theorems frame \<open>an operation leaves a field of the state alone\<close>
named_theorems inv_intro \<open>an operation keeps an invariant\<close>

section \<open>Machine integers\<close>

type_synonym u8 = "8 word"
type_synonym u16 = "16 word"
type_synonym u32 = "32 word"
type_synonym u64 = "64 word"
type_synonym bytes = "u8 list"

unbundle bit_operations_syntax

section \<open>C strings\<close>

text \<open>\<open>strncmp(s, t, n) == 0\<close> on NUL-terminated strings.\<close>

definition strncmp_eq :: "nat \<Rightarrow> string \<Rightarrow> string \<Rightarrow> bool" where
  "strncmp_eq n s t \<longleftrightarrow> take n s = take n t"

text \<open>\<open>tolower\<close> in the C locale, and \<open>strncasecmp(s, t, n) == 0\<close>, \<open>strcasecmp(s, t) == 0\<close>.\<close>

definition to_lower :: "char \<Rightarrow> char" where
  "to_lower c =
     (let n = (of_char c :: nat)
      in if 65 \<le> n \<and> n \<le> 90 then char_of (n + 32) else c)"

definition strncasecmp_eq :: "nat \<Rightarrow> string \<Rightarrow> string \<Rightarrow> bool" where
  "strncasecmp_eq n s t \<longleftrightarrow> map to_lower (take n s) = map to_lower (take n t)"

definition strcasecmp_eq :: "string \<Rightarrow> string \<Rightarrow> bool" where
  "strcasecmp_eq s t \<longleftrightarrow> map to_lower s = map to_lower t"

text \<open>\<open>strstr\<close>: the suffix of the haystack that starts with the first occurrence.\<close>

fun strstr :: "string \<Rightarrow> string \<Rightarrow> string option" where
  "strstr [] t = (if t = [] then Some [] else None)"
| "strstr (c # s) t = (if take (length t) (c # s) = t then Some (c # s) else strstr s t)"

text \<open>What \<open>snprintf\<close> leaves in a buffer of \<open>n\<close> bytes: at most \<open>n - 1\<close> characters and a NUL.\<close>

definition snprintf_buf :: "nat \<Rightarrow> string \<Rightarrow> string" where
  "snprintf_buf n s = take (n - 1) s"

text \<open>\<open>strtok(s, "'")\<close> twice: the non-empty pieces between single quotes.\<close>

fun split_quote :: "string \<Rightarrow> string \<Rightarrow> string list" where
  "split_quote acc [] = (if acc = [] then [] else [rev acc])"
| "split_quote acc (c # s) =
     (if of_char c = (39 :: nat)
      then (if acc = [] then split_quote [] s else rev acc # split_quote [] s)
      else split_quote (c # acc) s)"

definition strtok_quote :: "string \<Rightarrow> string list" where
  "strtok_quote s = split_quote [] s"

text \<open>\<open>%d\<close> of a non-negative number.\<close>

definition digit :: "nat \<Rightarrow> char" where
  "digit n = char_of (48 + n)"

fun decimal :: "nat \<Rightarrow> string" where
  "decimal n = (if n < 10 then [digit n] else decimal (n div 10) @ [digit (n mod 10)])"

declare decimal.simps [simp del]

lemma decimal_length_le: "n < 10 ^ k \<Longrightarrow> 0 < k \<Longrightarrow> length (decimal n) \<le> k"
proof (induction n arbitrary: k rule: decimal.induct)
  case (1 n)
  show ?case
  proof (cases "n < 10")
    case True
    then show ?thesis using "1.prems" by (subst decimal.simps) simp
  next
    case False
    then obtain j where k: "k = Suc j"
      using "1.prems" by (cases k) auto
    with False "1.prems" have j: "0 < j"
      by (cases j) auto
    have "n div 10 < 10 ^ j"
      using "1.prems"(1) k by (simp add: less_mult_imp_div_less mult.commute)
    with "1.IH" False j have "length (decimal (n div 10)) \<le> j" by blast
    then show ?thesis using False k by (subst decimal.simps) simp
  qed
qed

lemma decimal_nonempty [simp]: "decimal n \<noteq> []"
  by (subst decimal.simps) simp

lemma strncmp_eq_refl [simp]: "strncmp_eq n s s"
  by (simp add: strncmp_eq_def)

lemma strncmp_eq_short: "length s < n \<Longrightarrow> strncmp_eq n s t \<longleftrightarrow> s = t"
proof
  assume n: "length s < n" and "strncmp_eq n s t"
  then have e: "s = take n t" by (simp add: strncmp_eq_def)
  have "length s = min (length t) n"
    by (subst e) simp
  with n have "length t < n" by simp
  with e show "s = t" by simp
qed simp

lemma strncasecmp_eq_refl [simp]: "strncasecmp_eq n s s"
  by (simp add: strncasecmp_eq_def)

lemma strncasecmp_eq_sym: "strncasecmp_eq n s t \<Longrightarrow> strncasecmp_eq n t s"
  by (simp add: strncasecmp_eq_def)

lemma strncasecmp_eq_trans:
  "strncasecmp_eq n s t \<Longrightarrow> strncasecmp_eq n t u \<Longrightarrow> strncasecmp_eq n s u"
  by (simp add: strncasecmp_eq_def)

lemma strstr_prefix: "take (length t) s = t \<Longrightarrow> strstr s t = Some s"
  by (cases s) auto

lemma strstr_append:
  "(\<And>i. i < length s \<Longrightarrow> take (length t) (drop i s @ t @ u) \<noteq> t) \<Longrightarrow>
   strstr (s @ t @ u) t = Some (t @ u)"
proof (induction s)
  case Nil
  show ?case by (simp add: strstr_prefix)
next
  case (Cons c s)
  have h: "take (length t) ((c # s) @ t @ u) \<noteq> t"
    using Cons.prems [of 0] by simp
  have "strstr (s @ t @ u) t = Some (t @ u)"
  proof (rule Cons.IH)
    fix i assume "i < length s"
    then show "take (length t) (drop i s @ t @ u) \<noteq> t"
      using Cons.prems [of "Suc i"] by simp
  qed
  with h show ?case by simp
qed

section \<open>Interfaces shared by the components\<close>

text \<open>
  A list searched from its head for the first entry that matches a key:
  the \<open>ns_list_foreach\<close> and array loops of the code that return the first match.
\<close>

locale keyed_list =
  fixes hit :: "'k \<Rightarrow> 'a \<Rightarrow> bool"
    and lookup :: "'k \<Rightarrow> 'a list \<Rightarrow> 'a option"
  assumes lookup_Nil: "lookup k [] = None"
    and lookup_Cons: "lookup k (x # xs) = (if hit k x then Some x else lookup k xs)"
begin

lemma lookup_find: "lookup k xs = find (hit k) xs"
  by (induction xs) (auto simp: lookup_Nil lookup_Cons)

lemma lookup_SomeD: "lookup k xs = Some x \<Longrightarrow> x \<in> set xs \<and> hit k x"
  by (induction xs) (auto simp: lookup_Nil lookup_Cons split: if_splits)

lemma lookup_None_iff: "lookup k xs = None \<longleftrightarrow> (\<forall>x\<in>set xs. \<not> hit k x)"
  by (induction xs) (auto simp: lookup_Nil lookup_Cons)

lemma lookup_append:
  "lookup k (xs @ ys) = (case lookup k xs of None \<Rightarrow> lookup k ys | Some x \<Rightarrow> Some x)"
  by (induction xs) (auto simp: lookup_Nil lookup_Cons)

lemma lookup_first:
  "lookup k xs = Some x \<Longrightarrow>
   \<exists>ys zs. xs = ys @ x # zs \<and> hit k x \<and> (\<forall>y\<in>set ys. \<not> hit k y)"
proof (induction xs)
  case Nil
  then show ?case by (simp add: lookup_Nil)
next
  case (Cons a xs)
  show ?case
  proof (cases "hit k a")
    case True
    with Cons.prems have "a = x" by (simp add: lookup_Cons)
    with True show ?thesis by (metis append_Nil empty_iff list.set(1))
  next
    case False
    with Cons.prems have "lookup k xs = Some x" by (simp add: lookup_Cons)
    then obtain ys zs where e: "xs = ys @ x # zs" "hit k x" "\<forall>y\<in>set ys. \<not> hit k y"
      using Cons.IH by blast
    with False have "a # xs = (a # ys) @ x # zs \<and> hit k x \<and> (\<forall>y\<in>set (a # ys). \<not> hit k y)"
      by simp
    then show ?thesis by blast
  qed
qed

lemma lookup_ex: "(\<exists>x. lookup k xs = Some x) \<longleftrightarrow> (\<exists>x\<in>set xs. hit k x)"
  using lookup_None_iff [of k xs] by (cases "lookup k xs") auto

end

text \<open>The key is a field of the entry, compared for equality.\<close>

locale field_list = keyed_list hit lookup
  for hit :: "'k \<Rightarrow> 'a \<Rightarrow> bool" and lookup :: "'k \<Rightarrow> 'a list \<Rightarrow> 'a option" +
  fixes key :: "'a \<Rightarrow> 'k"
  assumes hit_key: "hit k x \<longleftrightarrow> key x = k"
begin

lemma lookup_unique:
  "distinct (map key xs) \<Longrightarrow> x \<in> set xs \<Longrightarrow> lookup (key x) xs = Some x"
proof (induction xs)
  case Nil
  then show ?case by simp
next
  case (Cons a xs)
  then show ?case by (auto simp: lookup_Cons hit_key rev_image_eqI)
qed

lemma lookup_None_key: "lookup k xs = None \<longleftrightarrow> k \<notin> key ` set xs"
  by (auto simp: lookup_None_iff hit_key)

lemma lookup_snoc_new:
  "lookup (key x) xs = None \<Longrightarrow> lookup (key x) (xs @ [x]) = Some x"
  by (simp add: lookup_append lookup_Cons hit_key)

lemma lookup_snoc_other:
  "k \<noteq> key x \<Longrightarrow> lookup k (xs @ [x]) = lookup k xs"
  by (simp add: lookup_append lookup_Cons lookup_Nil hit_key split: option.split)

lemma distinct_snoc:
  "distinct (map key xs) \<Longrightarrow> lookup (key x) xs = None \<Longrightarrow> distinct (map key (xs @ [x]))"
  by (auto simp: lookup_None_iff hit_key)

lemma lookup_map_same_key:
  "(\<And>x. x \<in> set xs \<Longrightarrow> key (f x) = key x) \<Longrightarrow> lookup k (map f xs) = map_option f (lookup k xs)"
  by (induction xs) (auto simp: lookup_Nil lookup_Cons hit_key)

end

text \<open>Fields packed into one value, each written and read by its index.\<close>

locale field_family =
  fixes put :: "'i \<Rightarrow> 'v \<Rightarrow> 'b \<Rightarrow> 'b" and get :: "'i \<Rightarrow> 'b \<Rightarrow> 'r" and val :: "'v \<Rightarrow> 'r"
    and ok :: "'i \<Rightarrow> bool"
  assumes get_put: "ok f \<Longrightarrow> get f (put f v b) = val v"
    and get_put_other: "ok f \<Longrightarrow> ok g \<Longrightarrow> f \<noteq> g \<Longrightarrow> get g (put f v b) = get g b"
begin

text \<open>After any sequence of writes a field holds the last value written to it.\<close>

lemma get_writes:
  "\<forall>x\<in>set ws. ok (fst x) \<Longrightarrow> ok g \<Longrightarrow>
   get g (fold (\<lambda>x. put (fst x) (snd x)) ws b) =
     (case find (\<lambda>x. fst x = g) (rev ws) of None \<Rightarrow> get g b | Some x \<Rightarrow> val (snd x))"
proof (induction ws rule: rev_induct)
  case Nil
  then show ?case by simp
next
  case (snoc x ws)
  then show ?case by (auto simp: get_put get_put_other)
qed

end

text \<open>An encoder with its decoder.\<close>

locale codec =
  fixes enc :: "'a \<Rightarrow> 'b" and dec :: "'b \<Rightarrow> 'a" and ok :: "'a \<Rightarrow> bool"
  assumes dec_enc: "ok x \<Longrightarrow> dec (enc x) = x"
begin

lemma enc_inj: "ok x \<Longrightarrow> ok y \<Longrightarrow> enc x = enc y \<Longrightarrow> x = y"
  by (metis dec_enc)

end

end
