(* ===== verification/C_Float.thy ===== *)
theory C_Float
  imports Prelude
begin

text \<open>
  The parts of C's arithmetic on \<open>float\<close> and \<open>double\<close> the code uses, on IEEE 754
  bit patterns: a \<open>float\<close> is its 32 bits. Comparison reads the bits as sign and
  magnitude; conversion of an integer, multiplication and narrowing round to the
  nearest value, ties to even. A double in the middle of a computation is kept as
  a pair of a significand and a binary exponent.
\<close>

type_synonym f32 = u32

section \<open>Comparison\<close>

definition FLT_MAX :: f32 where "FLT_MAX = 0x7F7FFFFF"
definition NEG_FLT_MAX :: f32 where "NEG_FLT_MAX = 0xFF7FFFFF"

definition f32_key :: "f32 \<Rightarrow> int" where
  "f32_key x = (let n = uint x in if n < 0x80000000 then n else - (n - 0x80000000))"

definition f32_nan :: "f32 \<Rightarrow> bool" where
  "f32_nan x \<longleftrightarrow> 0x7F800000 < \<bar>f32_key x\<bar>"

definition f32_finite :: "f32 \<Rightarrow> bool" where
  "f32_finite x \<longleftrightarrow> \<bar>f32_key x\<bar> < 0x7F800000"

text \<open>\<open>x < y\<close> on floats: false when either side is a NaN.\<close>

definition f32_less :: "f32 \<Rightarrow> f32 \<Rightarrow> bool" where
  "f32_less x y \<longleftrightarrow> \<not> f32_nan x \<and> \<not> f32_nan y \<and> f32_key x < f32_key y"

lemma f32_finite_not_nan: "f32_finite x \<Longrightarrow> \<not> f32_nan x"
  by (simp add: f32_finite_def f32_nan_def)

lemma f32_less_finite: "f32_finite x \<Longrightarrow> f32_finite y \<Longrightarrow> f32_less x y \<longleftrightarrow> f32_key x < f32_key y"
  by (simp add: f32_less_def f32_finite_not_nan)

lemma FLT_MAX_key [simp]: "f32_key FLT_MAX = 0x7F7FFFFF" "f32_key NEG_FLT_MAX = - 0x7F7FFFFF"
  by (simp_all add: f32_key_def FLT_MAX_def NEG_FLT_MAX_def)

lemma FLT_MAX_finite [simp]: "f32_finite FLT_MAX" "f32_finite NEG_FLT_MAX"
  by (simp_all add: f32_finite_def)

lemma FLT_MAX_bounds: "f32_finite x \<Longrightarrow> f32_key NEG_FLT_MAX \<le> f32_key x \<and> f32_key x \<le> f32_key FLT_MAX"
  by (auto simp: f32_finite_def)

section \<open>Rounding\<close>

text \<open>\<open>n / d\<close> rounded to the nearest integer, ties to even.\<close>

definition div_rne :: "int \<Rightarrow> int \<Rightarrow> int" where
  "div_rne n d =
     (let q = n div d; r = n mod d
      in if 2 * r < d then q
         else if d < 2 * r then q + 1
         else if even q then q else q + 1)"

fun bit_length :: "int \<Rightarrow> int" where
  "bit_length n = (if n \<le> 0 then 0 else 1 + bit_length (n div 2))"

declare bit_length.simps [simp del]

text \<open>\<open>n / d\<close> in units of \<open>2 ^ e\<close>, as a fraction of integers.\<close>

definition scaled :: "int \<Rightarrow> int \<Rightarrow> int \<Rightarrow> int \<times> int" where
  "scaled n d e = (if 0 \<le> e then (n, d * 2 ^ nat e) else (n * 2 ^ nat (- e), d))"

text \<open>
  \<open>n / d\<close> rounded to a significand of \<open>p\<close> bits, with the exponent at least
  \<open>emin\<close> (below it the value is subnormal and loses bits).
\<close>

definition round_to :: "nat \<Rightarrow> int \<Rightarrow> int \<Rightarrow> int \<Rightarrow> int \<times> int" where
  "round_to p emin n d =
     (let e0 = bit_length n - bit_length d - int p;
          (a, b) = scaled n d e0;
          e1 = (if a < 2 ^ p * b then e0 else e0 + 1);
          e = max e1 emin;
          (a', b') = scaled n d e
      in (div_rne a' b', e))"

definition dyadic :: "int \<times> int \<Rightarrow> int \<times> int" where
  "dyadic me = (case me of (m, e) \<Rightarrow> if 0 \<le> e then (m * 2 ^ nat e, 1) else (m, 2 ^ nat (- e)))"

text \<open>The bits of a float that is not negative: significands of 25 bits carry into the exponent.\<close>

definition f32_of_pair :: "int \<times> int \<Rightarrow> f32" where
  "f32_of_pair me = (case me of (m, e) \<Rightarrow> word_of_int (min 0x7F800000 ((e + 149) * 2 ^ 23 + m)))"

text \<open>\<open>(float) x\<close> for an unsigned 32-bit \<open>x\<close>, as a significand and an exponent.\<close>

definition float_of_u32 :: "u32 \<Rightarrow> int \<times> int" where
  "float_of_u32 x = round_to 24 (-149) (uint x) 1"

text \<open>\<open>pow(10, k)\<close>: the double nearest to the power of ten.\<close>

definition pow10 :: "int \<Rightarrow> int \<times> int" where
  "pow10 k =
     (if 0 \<le> k then round_to 53 (-1074) (10 ^ nat k) 1
      else round_to 53 (-1074) 1 (10 ^ nat (- k)))"

text \<open>Product of two doubles, and a double assigned to a \<open>float\<close>.\<close>

definition double_mult :: "int \<times> int \<Rightarrow> int \<times> int \<Rightarrow> int \<times> int" where
  "double_mult x y =
     (let (n, d) = dyadic (fst x * fst y, snd x + snd y) in round_to 53 (-1074) n d)"

definition narrow :: "int \<times> int \<Rightarrow> int \<times> int" where
  "narrow x = (let (n, d) = dyadic x in round_to 24 (-149) n d)"

text \<open>\<open>(float) raw * pow(10, exponent)\<close>, assigned to a \<open>float\<close>.\<close>

definition float_scaled :: "u32 \<Rightarrow> int \<Rightarrow> int \<times> int" where
  "float_scaled raw k = narrow (double_mult (float_of_u32 raw) (pow10 k))"

definition f32_scaled :: "u32 \<Rightarrow> int \<Rightarrow> f32" where
  "f32_scaled raw k = f32_of_pair (float_scaled raw k)"

end
