(* ===== verification/Float_Accuracy.thy ===== *)
theory Float_Accuracy
  imports Complex_Main C_Float
begin

text \<open>
  How far the float computed from a raw value and a decimal exponent is from the real
  number it stands for: error bounds of one rounding, of the product and of the
  narrowing, and the value of a float's bits.
\<close>

definition pair_val :: "int \<times> int \<Rightarrow> real" where
  "pair_val x = of_int (fst x) * 2 powi (snd x)"

definition f32_value :: "f32 \<Rightarrow> real" where
  "f32_value x =
     (let n = uint x; s = n div 2 ^ 31; e = (n div 2 ^ 23) mod 256; m = n mod 2 ^ 23
      in (if s = 0 then 1 else -1) *
         (if e = 0 then of_int m * 2 powi (-149) else of_int (2 ^ 23 + m) * 2 powi (e - 150)))"

section \<open>One rounding\<close>

lemma div_rne_error:
  assumes "0 < d"
  shows "\<bar>of_int (div_rne n d) - of_int n / of_int d\<bar> \<le> (1 / 2 :: real)"
proof -
  let ?q = "n div d" and ?r = "n mod d"
  have n: "of_int n / of_int d = (of_int ?q + of_int ?r / of_int d :: real)"
  proof -
    have "(of_int n :: real) = of_int (?q * d + ?r)" by simp
    then show ?thesis using assms by (simp only: of_int_add of_int_mult) (simp add: add_divide_distrib)
  qed
  have r: "0 \<le> ?r" "?r < d" using assms by simp_all
  define t where "t = (of_int ?r / of_int d :: real)"
  have f: "0 \<le> t" "t < 1"
    using r assms by (simp_all add: t_def)
  have half: "2 * ?r < d \<Longrightarrow> t \<le> 1 / 2" "d < 2 * ?r \<Longrightarrow> t \<ge> 1 / 2" "2 * ?r = d \<Longrightarrow> t = 1 / 2"
    using assms unfolding t_def by (simp_all add: divide_simps; linarith)+
  note n' = n [folded t_def]
  consider "2 * ?r < d" | "d < 2 * ?r" | "2 * ?r = d" by linarith
  then show ?thesis
  proof cases
    case 1
    then have "div_rne n d = ?q" by (simp add: div_rne_def Let_def)
    then show ?thesis using half(1) [OF 1] f by (simp add: n')
  next
    case 2
    then have "div_rne n d = ?q + 1" by (simp add: div_rne_def Let_def)
    then show ?thesis using half(2) [OF 2] f by (simp add: n')
  next
    case 3
    then have "div_rne n d = ?q \<or> div_rne n d = ?q + 1" by (auto simp: div_rne_def Let_def)
    then show ?thesis using half(3) [OF 3] by (auto simp: n')
  qed
qed

lemma div_rne_mono_bounds:
  assumes "0 < d"
  shows "c * d \<le> n \<Longrightarrow> c \<le> div_rne n d" and "n \<le> c * d \<Longrightarrow> div_rne n d \<le> c"
proof -
  have q: "n = n div d * d + n mod d" by simp
  have r: "0 \<le> n mod d" "n mod d < d" using assms by simp_all
  show "c \<le> div_rne n d" if "c * d \<le> n"
  proof -
    have "c \<le> n div d" using zdiv_mono1 [OF that assms] assms by simp
    then show ?thesis by (auto simp: div_rne_def Let_def)
  qed
  show "div_rne n d \<le> c" if "n \<le> c * d"
  proof (cases "n mod d = 0")
    case True
    then have "n div d \<le> c" using that assms q by (metis add.right_neutral mult_le_cancel_right not_le)
    with True assms show ?thesis by (simp add: div_rne_def Let_def)
  next
    case False
    with that r q have "n div d * d < c * d" by linarith
    then have "n div d < c" using assms by (simp add: mult_less_cancel_right)
    then show ?thesis by (auto simp: div_rne_def Let_def)
  qed
qed

lemma bit_length_bounds:
  "0 < n \<Longrightarrow> 0 < bit_length n \<and> (2 :: real) powi (bit_length n - 1) \<le> of_int n \<and>
     of_int n < (2 :: real) powi bit_length n"
proof (induction n rule: bit_length.induct)
  case (1 n)
  show ?case
  proof (cases "n = 1")
    case True
    then show ?thesis by (simp add: bit_length.simps)
  next
    case False
    then have h: "0 < n div 2" "\<not> n \<le> 0" using 1 by auto
    let ?b = "bit_length (n div 2)"
    have ih: "0 < ?b" "(2 :: real) powi (?b - 1) \<le> of_int (n div 2)" "of_int (n div 2) < (2 :: real) powi ?b"
      using "1.IH" h by auto
    have b: "bit_length n = 1 + ?b" using h by (subst bit_length.simps) simp
    have p: "(2 :: real) powi (1 + ?b) = 2 * 2 powi ?b" "(2 :: real) powi ?b = 2 * 2 powi (?b - 1)"
      using power_int_add_1' [of "2 :: real" "?b"] power_int_add_1' [of "2 :: real" "?b - 1"]
      by (simp_all add: add.commute)
    have int_lt: "n div 2 + 1 \<le> 2 ^ nat ?b"
    proof -
      have "(2 :: real) powi ?b = of_int (2 ^ nat ?b)"
        using ih(1) by (simp add: power_int_def)
      with ih(3) have "of_int (n div 2) < (of_int (2 ^ nat ?b) :: real)" by simp
      then show ?thesis by (simp only: of_int_less_iff)
    qed
    then have "n + 1 \<le> 2 * 2 ^ nat ?b" by linarith
    then have "of_int (n + 1) \<le> (of_int (2 * 2 ^ nat ?b) :: real)" by (simp only: of_int_le_iff)
    then have u: "of_int n < (2 :: real) * 2 powi ?b"
      using ih(1) by (simp add: power_int_def)
    have "2 * (n div 2) \<le> n" by simp
    then have "(of_int (2 * (n div 2)) :: real) \<le> of_int n" by (simp only: of_int_le_iff)
    with ih(2) have l: "2 * 2 powi (?b - 1) \<le> (of_int n :: real)" by simp
    show ?thesis using u l ih(1) by (simp add: b p)
  qed
qed

lemma scaled_val:
  assumes "0 < d" and "scaled n d e = (a, b)"
  shows "0 < b \<and> of_int a / of_int b = of_int n / of_int d * (2 :: real) powi (- e)"
proof (cases "0 \<le> e")
  case True
  with assms have "a = n" "b = d * 2 ^ nat e" by (simp_all add: scaled_def)
  with True assms(1) show ?thesis
    by (simp add: power_int_minus power_int_def divide_simps)
next
  case False
  with assms have "a = n * 2 ^ nat (- e)" "b = d" by (simp_all add: scaled_def)
  with False assms(1) show ?thesis
    by (simp add: power_int_def)
qed

lemma powi_two_split: "(2 :: real) powi (x + y) = 2 powi x * 2 powi y"
  by (rule power_int_add) simp

text \<open>The rounded value, and where its significand lies.\<close>

lemma round_to_bounds:
  assumes n: "0 < n" and d: "0 < d" and r: "round_to p emin n d = (m, e)"
  shows "\<bar>pair_val (m, e) - of_int n / of_int d\<bar> \<le> of_int n / of_int d * 2 powi (- int p) + 2 powi (emin - 1)"
    and "emin \<le> e" and "0 \<le> m" and "m \<le> 2 ^ p" and "emin < e \<Longrightarrow> 0 < p \<Longrightarrow> 2 ^ (p - 1) \<le> m"
proof -
  define x :: real where "x = of_int n / of_int d"
  define e0 where "e0 = bit_length n - bit_length d - int p"
  obtain a b where ab: "scaled n d e0 = (a, b)" by fastforce
  define e1 where "e1 = (if a < 2 ^ p * b then e0 else e0 + 1)"
  obtain a' b' where ab': "scaled n d (max e1 emin) = (a', b')" by fastforce
  from r have me: "e = max e1 emin" "m = div_rne a' b'"
    by (auto simp: round_to_def Let_def ab ab' e0_def [symmetric] e1_def [symmetric])
  have s: "0 < b" "of_int a / of_int b = x * 2 powi (- e0)"
    and s': "0 < b'" "of_int a' / of_int b' = x * 2 powi (- e)"
    using scaled_val [OF d ab] scaled_val [OF d ab'] by (auto simp: x_def me(1))
  have x: "0 < x" using n d by (simp add: x_def)
  have pp: "(2 :: real) ^ p = 2 powi int p" by (simp add: power_int_def)
  note bn = bit_length_bounds [OF n] and bd = bit_length_bounds [OF d]
  have lower: "2 powi (e0 + int p - 1) \<le> x"
  proof -
    have "(2 :: real) powi (e0 + int p - 1) * of_int d \<le> 2 powi (e0 + int p - 1) * 2 powi bit_length d"
      using bd by (intro mult_left_mono) auto
    also have "\<dots> = 2 powi (bit_length n - 1)" by (simp add: powi_two_split [symmetric] e0_def)
    also have "\<dots> \<le> of_int n" using bn by simp
    finally show ?thesis using d by (simp add: pos_le_divide_eq x_def)
  qed
  have upper: "x < 2 powi (e0 + int p + 1)"
  proof -
    have "(of_int n :: real) < 2 powi bit_length n" using bn by simp
    also have "\<dots> = 2 powi (e0 + int p + 1) * 2 powi (bit_length d - 1)"
      by (simp add: powi_two_split [symmetric] e0_def)
    also have "\<dots> \<le> 2 powi (e0 + int p + 1) * of_int d"
      using bd by (intro mult_left_mono) auto
    finally show ?thesis using d by (simp add: pos_divide_less_eq x_def)
  qed
  have scale: "x * 2 powi (- j) < 2 powi k \<longleftrightarrow> x < 2 powi (k + j)" for k j
    by (simp add: power_int_minus divide_simps powi_two_split)
  have "a < 2 ^ p * b \<longleftrightarrow> (of_int a :: real) < of_int (2 ^ p * b)" by (simp only: of_int_less_iff)
  also have "\<dots> \<longleftrightarrow> of_int a / of_int b < (2 ^ p :: real)" using s(1) by (simp add: pos_divide_less_eq)
  finally have pb: "a < 2 ^ p * b \<longleftrightarrow> x < 2 powi (int p + e0)" by (simp only: s(2) pp scale)
  have lo1: "2 powi (e1 + int p - 1) \<le> x"
    using lower pb by (auto simp: e1_def add.commute algebra_simps not_less)
  have hi1: "x < 2 powi (e1 + int p)"
    using upper pb by (auto simp: e1_def algebra_simps)
  have "\<bar>of_int m - x * 2 powi (- e)\<bar> \<le> 1 / 2"
    using div_rne_error [OF s'(1), of a'] unfolding me(2) s'(2) .
  from mult_right_mono [OF this, of "2 powi e"]
  have "\<bar>of_int m - x * 2 powi (- e)\<bar> * 2 powi e \<le> 2 powi e / 2" by simp
  moreover have "pair_val (m, e) - x = (of_int m - x * 2 powi (- e)) * 2 powi e"
    by (simp add: pair_val_def left_diff_distrib mult.assoc powi_two_split [symmetric])
  ultimately have err: "\<bar>pair_val (m, e) - x\<bar> \<le> 2 powi e / 2"
    by (simp add: abs_mult)
  have "(2 :: real) powi e / 2 \<le> x * 2 powi (- int p) + 2 powi (emin - 1)"
  proof (cases "e1 \<le> emin")
    case True
    have "(2 :: real) powi emin = 2 * 2 powi (emin - 1)"
      using power_int_add_1' [of "2 :: real" "emin - 1"] by simp
    with True x show ?thesis by (simp add: me(1) max_def)
  next
    case False
    have "2 powi (e1 + int p - 1) * 2 powi (- int p) \<le> x * (2 :: real) powi (- int p)"
      using lo1 by (intro mult_right_mono) auto
    moreover have "2 powi (e1 + int p - 1) * (2 :: real) powi (- int p) = 2 powi (e1 - 1)"
      by (simp add: powi_two_split [symmetric])
    moreover have "(2 :: real) powi e1 = 2 * 2 powi (e1 - 1)"
      using power_int_add_1' [of "2 :: real" "e1 - 1"] by simp
    ultimately show ?thesis using False by (simp add: me(1) max_def add_increasing2)
  qed
  with err have "\<bar>pair_val (m, e) - x\<bar> \<le> x * 2 powi (- int p) + 2 powi (emin - 1)"
    by linarith
  then show "\<bar>pair_val (m, e) - of_int n / of_int d\<bar>
      \<le> of_int n / of_int d * 2 powi (- int p) + 2 powi (emin - 1)"
    by (simp only: x_def)
  show "emin \<le> e" using me(1) by simp
  have a'b': "(of_int a' :: real) = x * 2 powi (- e) * of_int b'"
    using s' by (simp add: field_simps)
  have le_iff: "c * b' \<le> a' \<longleftrightarrow> of_int c \<le> x * 2 powi (- e)" for c
  proof -
    have "c * b' \<le> a' \<longleftrightarrow> (of_int (c * b') :: real) \<le> of_int a'" by (simp only: of_int_le_iff)
    then show ?thesis using s'(1) by (simp add: a'b')
  qed
  have ge_iff: "a' \<le> c * b' \<longleftrightarrow> x * 2 powi (- e) \<le> of_int c" for c
  proof -
    have "a' \<le> c * b' \<longleftrightarrow> (of_int a' :: real) \<le> of_int (c * b')" by (simp only: of_int_le_iff)
    then show ?thesis using s'(1) by (simp add: a'b')
  qed
  show "0 \<le> m"
    unfolding me(2) using x by (intro div_rne_mono_bounds(1) [OF s'(1)]) (simp only: le_iff, simp)
  show "m \<le> 2 ^ p"
  proof -
    have "x < 2 powi (e + int p)"
      using hi1 power_int_increasing [of "e1 + int p" "e + int p" "2 :: real"] by (simp add: me(1))
    then have "x * 2 powi (- e) < 2 powi int p" by (simp only: scale add.commute [of e])
    then have "x * 2 powi (- e) \<le> of_int (2 ^ p)" by simp
    then have "a' \<le> 2 ^ p * b'" by (rule ge_iff [THEN iffD2])
    then show ?thesis unfolding me(2) by (rule div_rne_mono_bounds(2) [OF s'(1)])
  qed
  show "2 ^ (p - 1) \<le> m" if "emin < e" "0 < p"
  proof -
    from that have e: "e = e1" by (auto simp: me(1))
    have "2 powi (int p - 1) = 2 powi (e1 + int p - 1) * (2 :: real) powi (- e)"
      by (simp add: powi_two_split [symmetric] e)
    also have "\<dots> \<le> x * 2 powi (- e)" using lo1 by (intro mult_right_mono) auto
    finally have "of_int (2 ^ (p - 1)) \<le> x * 2 powi (- e)"
      using that(2) by (simp add: power_int_def nat_diff_distrib)
    then show ?thesis
      unfolding me(2) by (intro div_rne_mono_bounds(1) [OF s'(1)]) (simp only: le_iff)
  qed
qed

section \<open>Relative errors\<close>

definition near :: "real \<Rightarrow> real \<Rightarrow> real \<Rightarrow> bool" where
  "near x y \<delta> \<longleftrightarrow> 0 < y \<and> 0 \<le> \<delta> \<and> \<bar>x - y\<bar> \<le> \<delta> * y"

lemma near_mono: "near x y \<delta> \<Longrightarrow> \<delta> \<le> \<epsilon> \<Longrightarrow> near x y \<epsilon>"
  by (auto simp: near_def intro: order_trans mult_right_mono)

lemma near_bounds: "near x y \<delta> \<Longrightarrow> y * (1 - \<delta>) \<le> x \<and> x \<le> y * (1 + \<delta>)"
  by (auto simp: near_def abs_le_iff algebra_simps)

lemma near_trans:
  assumes "near x y \<delta>" and "near y z \<epsilon>"
  shows "near x z (\<delta> + \<epsilon> + \<delta> * \<epsilon>)"
proof -
  from assms(2) have y: "y \<le> z * (1 + \<epsilon>)" by (simp add: near_bounds)
  have "\<bar>x - z\<bar> \<le> \<bar>x - y\<bar> + \<bar>y - z\<bar>" by simp
  also have "\<dots> \<le> \<delta> * y + \<epsilon> * z" using assms by (auto simp: near_def)
  also have "\<dots> \<le> \<delta> * (z * (1 + \<epsilon>)) + \<epsilon> * z"
    using y assms by (auto simp: near_def intro: mult_left_mono)
  finally show ?thesis using assms by (simp add: near_def algebra_simps)
qed

lemma near_mult:
  assumes "near x a \<delta>" and "near y b \<epsilon>"
  shows "near (x * y) (a * b) (\<delta> + \<epsilon> + \<delta> * \<epsilon>)"
proof -
  have tri: "\<bar>u + v + t\<bar> \<le> \<bar>u\<bar> + \<bar>v\<bar> + \<bar>t\<bar>" for u v t :: real by linarith
  have "\<bar>x * y - a * b\<bar> = \<bar>(x - a) * b + a * (y - b) + (x - a) * (y - b)\<bar>" by (simp add: algebra_simps)
  also have "\<dots> \<le> \<bar>x - a\<bar> * \<bar>b\<bar> + \<bar>a\<bar> * \<bar>y - b\<bar> + \<bar>x - a\<bar> * \<bar>y - b\<bar>"
    unfolding abs_mult [symmetric] by (rule tri)
  also have "\<dots> \<le> (\<delta> * a) * b + a * (\<epsilon> * b) + (\<delta> * a) * (\<epsilon> * b)"
    using assms by (intro add_mono mult_mono) (auto simp: near_def)
  finally show ?thesis using assms by (simp add: near_def algebra_simps)
qed

lemma round_to_near:
  assumes "0 < n" "0 < d" "p \<le> 53" "emin \<le> -149" "2 powi (-40) \<le> (of_int n / of_int d :: real)"
  shows "near (pair_val (round_to p emin n d)) (of_int n / of_int d) (2 powi (1 - int p))"
proof -
  obtain m e where r: "round_to p emin n d = (m, e)" by fastforce
  let ?x = "of_int n / of_int d :: real"
  have "(2 :: real) powi (emin - 1) \<le> 2 powi (-40 + - int p)"
    using assms(3,4) by (intro power_int_increasing) auto
  also have "\<dots> = 2 powi (-40) * 2 powi (- int p)" by (rule powi_two_split)
  also have "\<dots> \<le> ?x * 2 powi (- int p)" using assms(5) by (intro mult_right_mono) auto
  finally have small: "(2 :: real) powi (emin - 1) \<le> ?x * 2 powi (- int p)" .
  have two: "(2 :: real) powi (1 - int p) = 2 * 2 powi (- int p)"
    using powi_two_split [of 1 "- int p"] by simp
  have "\<bar>pair_val (m, e) - ?x\<bar> \<le> ?x * 2 powi (- int p) + 2 powi (emin - 1)"
    by (rule round_to_bounds(1) [OF assms(1,2) r])
  also have "\<dots> \<le> ?x * 2 powi (- int p) + ?x * 2 powi (- int p)" by (rule add_left_mono [OF small])
  also have "\<dots> = 2 powi (1 - int p) * ?x" by (simp only: two mult_2 distrib_right mult.commute [of ?x])
  finally have "\<bar>pair_val (m, e) - ?x\<bar> \<le> 2 powi (1 - int p) * ?x" .
  then show ?thesis using assms(1,2) by (simp add: near_def r)
qed

lemma dyadic_val: "dyadic x = (n, d) \<Longrightarrow> 0 < d \<and> of_int n / of_int d = pair_val x"
  by (cases x) (auto simp: dyadic_def pair_val_def power_int_def divide_simps split: if_splits)

lemma pair_val_mult: "pair_val (fst x * fst y, snd x + snd y) = pair_val x * pair_val y"
  by (simp add: pair_val_def powi_two_split)

lemma double_mult_near:
  assumes "2 powi (-40) \<le> pair_val x * pair_val y"
  shows "near (pair_val (double_mult x y)) (pair_val x * pair_val y) (2 powi (-52))"
proof -
  obtain n d where d: "dyadic (fst x * fst y, snd x + snd y) = (n, d)" by fastforce
  have v: "0 < d" "of_int n / of_int d = pair_val x * pair_val y"
    using dyadic_val [OF d] by (simp_all add: pair_val_mult)
  have "0 < (of_int n / of_int d :: real)"
    using assms less_le_trans [of 0 "2 powi (-40)" "pair_val x * pair_val y"] by (simp add: v)
  with v(1) have "0 < n" by (simp add: zero_less_divide_iff)
  from round_to_near [OF this v(1), of 53 "-1074"] assms show ?thesis
    by (simp add: double_mult_def d v(2))
qed

lemma narrow_near:
  assumes "2 powi (-40) \<le> pair_val x"
  shows "near (pair_val (narrow x)) (pair_val x) (2 powi (-23))"
proof -
  obtain n d where d: "dyadic x = (n, d)" by fastforce
  note v = dyadic_val [OF d]
  have "0 < (of_int n / of_int d :: real)"
    using assms less_le_trans [of 0 "2 powi (-40)" "pair_val x"] by (simp add: v)
  with conjunct1 [OF v] have "0 < n" by (simp add: zero_less_divide_iff)
  from round_to_near [OF this, of d 24 "-149"] v assms show ?thesis
    by (simp add: narrow_def d)
qed

section \<open>The value of a raw reading\<close>

lemma f32_value_fields:
  assumes "uint x = e * 2 ^ 23 + m" "0 \<le> e" "e < 256" "0 \<le> m" "m < 2 ^ 23"
  shows "f32_value x = (if e = 0 then of_int m * 2 powi (-149) else of_int (2 ^ 23 + m) * 2 powi (e - 150))"
proof -
  have "uint x div 2 ^ 23 = e" "uint x mod 2 ^ 23 = m" using assms by simp_all
  moreover from this have "uint x div 2 ^ 31 = e div 2 ^ 8"
    using div_mult2_eq' [of "uint x" "2 ^ 23" "2 ^ 8"] by simp
  ultimately show ?thesis
    using assms(2,3) by (simp add: f32_value_def Let_def)
qed

lemma f32_of_pair_value:
  assumes "0 \<le> m" "m \<le> 2 ^ 24" "-149 \<le> e" "-149 < e \<Longrightarrow> 2 ^ 23 \<le> m" "e \<le> 100"
  shows "f32_value (f32_of_pair (m, e)) = pair_val (m, e)"
proof -
  let ?n = "(e + 149) * 2 ^ 23 + m"
  have n: "0 \<le> ?n" "?n < 0x7F800000" using assms by simp_all
  have u: "uint (f32_of_pair (m, e)) = ?n"
  proof -
    have "uint (word_of_int k :: u32) = k" if "0 \<le> k" "k < 0x7F800000" for k
      using that by (simp add: uint_word_of_int)
    from this [OF n] show ?thesis using n by (simp only: f32_of_pair_def prod.case min_absorb2 less_imp_le)
  qed
  consider "m < 2 ^ 23" | "2 ^ 23 \<le> m" "m < 2 ^ 24" | "m = 2 ^ 24" using assms(2) by linarith
  then show ?thesis
  proof cases
    case 1
    then have e: "e = -149" using assms(3,4) by (cases "-149 < e") auto
    with 1 u assms(1) f32_value_fields [of "f32_of_pair (m, e)" 0 m] show ?thesis
      by (simp add: pair_val_def)
  next
    case 2
    have "f32_value (f32_of_pair (m, e)) = of_int (2 ^ 23 + (m - 2 ^ 23)) * 2 powi (e + 150 - 150)"
      using 2 u assms(3,5) f32_value_fields [of "f32_of_pair (m, e)" "e + 150" "m - 2 ^ 23"]
      by (simp add: algebra_simps)
    then show ?thesis by (simp add: pair_val_def)
  next
    case 3
    have p: "(2 :: real) powi (1 + e) = 2 * 2 powi e" using powi_two_split [of 1 e] by simp
    have "f32_value (f32_of_pair (m, e)) = of_int (2 ^ 23 + 0) * 2 powi (e + 151 - 150)"
      using 3 u assms(3,5) f32_value_fields [of "f32_of_pair (m, e)" "e + 151" 0]
      by (simp add: algebra_simps)
    then show ?thesis by (simp add: 3 pair_val_def p)
  qed
qed

lemma float_of_u32_near:
  assumes "raw \<noteq> 0"
  shows "near (pair_val (float_of_u32 raw)) (of_int (uint raw)) (2 powi (-23))"
proof -
  have r: "0 < uint raw" using assms by (simp add: word_neq_0_conv word_less_def)
  then have "1 \<le> uint raw" by simp
  then have "1 \<le> (of_int (uint raw) :: real)" by linarith
  moreover have "(2 :: real) powi (-40) \<le> 1" by (simp add: power_int_def power_divide)
  ultimately have "2 powi (-40) \<le> (of_int (uint raw) / of_int 1 :: real)" by simp
  from round_to_near [OF r _ _ _ this, of 24 "-149"] show ?thesis
    by (simp add: float_of_u32_def)
qed

lemma pow10_values: "pow10 (-2) = (5764607523034235, -59)" "pow10 (-1) = (7205759403792794, -56)"
  by code_simp+

lemma pow10_near:
  "near (pair_val (pow10 (-2))) (1 / 100) (2 powi (-52))"
  "near (pair_val (pow10 (-1))) (1 / 10) (2 powi (-52))"
  by (simp_all add: pow10_values pair_val_def near_def power_int_def power_divide)

lemma near_lower:
  assumes "near x y \<delta>" "1 / 100 \<le> y" "\<delta> \<le> 1 / 2"
  shows "2 powi (-40) \<le> x"
proof -
  have "1 / 100 * (1 / 2) \<le> y * (1 - \<delta>)" using assms(2,3) by (intro mult_mono) auto
  also have "\<dots> \<le> x" using near_bounds [OF assms(1)] by simp
  finally have "1 / 200 \<le> x" by simp
  moreover have "(2 :: real) powi (-40) \<le> 1 / 200" by (simp add: power_int_def power_divide)
  ultimately show ?thesis by linarith
qed

lemma float_scaled_near:
  assumes raw: "raw \<noteq> 0" and q: "near (pair_val (pow10 k)) q (2 powi (-52))" "1 / 100 \<le> q" "q \<le> 1"
  shows "0 < pair_val (double_mult (float_of_u32 raw) (pow10 k))"
    and "near (pair_val (float_scaled raw k)) (of_int (uint raw) * q) (2 powi (-21))"
proof -
  let ?r = "of_int (uint raw) :: real"
  have r: "1 \<le> ?r"
    using raw by (metis of_int_1 of_int_le_iff int_one_le_iff_zero_less uint_0_iff uint_ge_0 order_le_less)
  have rq: "1 / 100 \<le> ?r * q" using mult_mono [OF r q(2)] r by simp
  have p: "near (pair_val (float_of_u32 raw) * pair_val (pow10 k)) (?r * q)
      (2 powi (-23) + 2 powi (-52) + 2 powi (-23) * 2 powi (-52))"
    by (rule near_mult [OF float_of_u32_near [OF raw] q(1)])
  then have p': "near (pair_val (float_of_u32 raw) * pair_val (pow10 k)) (?r * q) (2 powi (-22))"
    by (rule near_mono) (simp add: power_int_def power_divide)
  have "2 powi (-40) \<le> pair_val (float_of_u32 raw) * pair_val (pow10 k)"
    by (rule near_lower [OF p' rq]) (simp add: power_int_def power_divide)
  note d = near_trans [OF double_mult_near [OF this] p]
  have d': "near (pair_val (double_mult (float_of_u32 raw) (pow10 k))) (?r * q) (2 powi (-23) + 2 powi (-50))"
    using d by (rule near_mono) (simp add: power_int_def power_divide)
  have low: "2 powi (-40) \<le> pair_val (double_mult (float_of_u32 raw) (pow10 k))"
    by (rule near_lower [OF d' rq]) (simp add: power_int_def power_divide)
  then show "0 < pair_val (double_mult (float_of_u32 raw) (pow10 k))"
    by (rule less_le_trans [rotated]) simp
  from near_trans [OF narrow_near [OF low] d']
  show "near (pair_val (float_scaled raw k)) (of_int (uint raw) * q) (2 powi (-21))"
    unfolding float_scaled_def by (rule near_mono) (simp add: power_int_def power_divide)
qed

lemma narrow_range:
  assumes "0 < pair_val x" and "narrow x = (m, e)" and "pair_val (m, e) < 2 ^ 40"
  shows "0 \<le> m" "m \<le> 2 ^ 24" "-149 \<le> e" "-149 < e \<Longrightarrow> 2 ^ 23 \<le> m" "e \<le> 100"
proof -
  obtain n d where d: "dyadic x = (n, d)" by fastforce
  note v = dyadic_val [OF d]
  have "0 < (of_int n / of_int d :: real)" using v assms(1) by simp
  with conjunct1 [OF v] have n: "0 < n" by (simp add: zero_less_divide_iff)
  have r: "round_to 24 (-149) n d = (m, e)" using assms(2) by (simp add: narrow_def d)
  note b = round_to_bounds [OF n conjunct1 [OF v] r]
  show "0 \<le> m" "m \<le> 2 ^ 24" "-149 \<le> e" using b(2,3,4) by simp_all
  show m: "-149 < e \<Longrightarrow> 2 ^ 23 \<le> m" using b(5) by simp
  show "e \<le> 100"
  proof (rule ccontr)
    assume e: "\<not> e \<le> 100"
    with m have "1 \<le> m" by simp
    then have "1 \<le> (of_int m :: real)" by linarith
    moreover have "(2 :: real) powi 40 \<le> 2 powi e" using e by (intro power_int_increasing) auto
    ultimately have "2 powi 40 \<le> pair_val (m, e)"
      using mult_mono [of "1 :: real" "of_int m" "2 powi 40" "2 powi e"] by (simp add: pair_val_def)
    with assms(3) show False by (simp add: power_int_def)
  qed
qed

lemma f32_scaled_zero: "f32_scaled 0 (-2) = 0" "f32_scaled 0 (-1) = 0"
  by code_simp+

text \<open>
  The float written for a raw reading is within a 2-million-th part of the reading times the
  power of ten.
\<close>

lemma f32_scaled_value:
  assumes "k = -2 \<and> q = 1 / 100 \<or> k = -1 \<and> q = 1 / 10"
  shows "\<bar>f32_value (f32_scaled raw k) - of_int (uint raw) * q\<bar> \<le> of_int (uint raw) * q / 2 ^ 21"
proof (cases "raw = 0")
  case True
  have "f32_value 0 = 0" by (simp add: f32_value_def)
  with True assms show ?thesis by (auto simp: f32_scaled_zero)
next
  case False
  have q: "near (pair_val (pow10 k)) q (2 powi (-52))"
    using assms pow10_near by (elim disjE conjE) (simp_all only:)
  have q1: "1 / 100 \<le> q" "q \<le> 1" using assms by auto
  note n = float_scaled_near(2) [OF False q q1] and pos = float_scaled_near(1) [OF False q q1]
  have r: "1 \<le> (of_int (uint raw) :: real)"
    using False by (metis of_int_1 of_int_le_iff int_one_le_iff_zero_less uint_0_iff uint_ge_0 order_le_less)
  obtain m e where me: "float_scaled raw k = (m, e)" by fastforce
  have "uint raw < 2 ^ 32" using uint_lt2p [of raw] by simp
  then have "(of_int (uint raw) :: real) < of_int (2 ^ 32)" by (simp only: of_int_less_iff)
  then have rq: "of_int (uint raw) * q \<le> 2 ^ 32"
    using mult_mono [of "of_int (uint raw)" "2 ^ 32" q 1] q1 by simp
  have up: "pair_val (m, e) < 2 ^ 40"
  proof -
    have "pair_val (m, e) \<le> of_int (uint raw) * q * (1 + 2 powi (-21))"
      using near_bounds [OF n] by (simp add: me)
    also have "\<dots> \<le> 2 ^ 32 * 2" using rq by (intro mult_mono) (simp_all add: power_int_def power_divide)
    finally show ?thesis by simp
  qed
  note R = narrow_range [OF pos _ up]
  have "f32_value (f32_scaled raw k) = pair_val (m, e)"
    using R me unfolding f32_scaled_def by (simp add: f32_of_pair_value float_scaled_def)
  with n show ?thesis by (simp add: near_def me power_int_def power_divide)
qed

end
