(* ===== verification/Byte_Order.thy ===== *)
theory Byte_Order
  imports C_Float
begin

text \<open>
  \<^verbatim>\<open>byte-order/byte_order.c\<close>: a float as four bytes in network order. The host is
  little-endian (x86 and ARM Linux, the targets of the build). A float is its bit
  pattern, so \<open>memcpy\<close> between a float and a \<open>uint32_t\<close> is the identity.
  Reading a float from fewer than four bytes reads past the buffer: undefined
  behaviour, \<open>None\<close> in the model.
\<close>

text \<open>The bytes of a 32-bit integer in the memory of a little-endian host.\<close>

definition mem_of_u32 :: "u32 \<Rightarrow> bytes" where
  "mem_of_u32 w = [ucast w, ucast (drop_bit 8 w), ucast (drop_bit 16 w), ucast (drop_bit 24 w)]"

definition u32_of_bytes :: "u8 \<Rightarrow> u8 \<Rightarrow> u8 \<Rightarrow> u8 \<Rightarrow> u32" where
  "u32_of_bytes a b c d =
     ucast a OR push_bit 8 (ucast b) OR push_bit 16 (ucast c) OR push_bit 24 (ucast d)"

fun u32_of_mem :: "bytes \<Rightarrow> u32 option" where
  "u32_of_mem (a # b # c # d # _) = Some (u32_of_bytes a b c d)"
| "u32_of_mem _ = None"

definition htonl :: "u32 \<Rightarrow> u32" where
  "htonl w = u32_of_bytes (ucast (drop_bit 24 w)) (ucast (drop_bit 16 w)) (ucast (drop_bit 8 w)) (ucast w)"

definition ntohl :: "u32 \<Rightarrow> u32" where
  "ntohl w = htonl w"

definition htons :: "u16 \<Rightarrow> u16" where
  "htons w = push_bit 8 w OR drop_bit 8 w"

definition convert_value_to_host_order_float :: "bytes \<Rightarrow> f32 option" where
  "convert_value_to_host_order_float value = map_option ntohl (u32_of_mem value)"

definition convert_float_value_to_network_byte_order :: "f32 \<Rightarrow> bytes" where
  "convert_float_value_to_network_byte_order value = mem_of_u32 (htonl value)"

lemma u32_of_bytes_extract [simp]:
  "ucast (u32_of_bytes a b c d) = a"
  "ucast (drop_bit 8 (u32_of_bytes a b c d)) = b"
  "ucast (drop_bit 16 (u32_of_bytes a b c d)) = c"
  "ucast (drop_bit 24 (u32_of_bytes a b c d)) = d"
  by (rule bit_word_eqI; auto simp: u32_of_bytes_def bit_simps dest: bit_imp_le_length)+

lemma u32_of_bytes_split [simp]:
  "u32_of_bytes (ucast w) (ucast (drop_bit 8 w)) (ucast (drop_bit 16 w)) (ucast (drop_bit 24 w)) = w"
proof (rule bit_word_eqI)
  fix n
  assume "n < LENGTH(32)"
  then consider "n < 8" | "8 \<le> n" "n < 16" | "16 \<le> n" "n < 24" | "24 \<le> n" "n < 32"
    by fastforce
  then show "bit (u32_of_bytes (ucast w) (ucast (drop_bit 8 w)) (ucast (drop_bit 16 w))
      (ucast (drop_bit 24 w))) n = bit w n"
    by cases (auto simp: u32_of_bytes_def bit_simps)
qed

lemma htonl_bytes: "htonl (u32_of_bytes a b c d) = u32_of_bytes d c b a"
  by (simp add: htonl_def)

lemma htonl_htonl [simp]: "htonl (htonl w) = w"
  by (subst (2) htonl_def) (simp add: htonl_bytes)

lemma u32_of_mem_of_u32 [simp]: "u32_of_mem (mem_of_u32 w @ bs) = Some w"
  by (simp add: mem_of_u32_def)

lemma length_mem_of_u32 [simp]: "length (mem_of_u32 w) = 4"
  by (simp add: mem_of_u32_def)

lemma length_float_to_network [simp]: "length (convert_float_value_to_network_byte_order x) = 4"
  by (simp add: convert_float_value_to_network_byte_order_def)

lemma mem_of_u32_of_mem:
  "u32_of_mem bs = Some w \<Longrightarrow> length bs = 4 \<Longrightarrow> mem_of_u32 w = bs"
  by (induction bs rule: u32_of_mem.induct) (auto simp: mem_of_u32_def)

lemma float_network_host [simp]:
  "convert_value_to_host_order_float (convert_float_value_to_network_byte_order x @ bs) = Some x"
  by (simp add: convert_value_to_host_order_float_def convert_float_value_to_network_byte_order_def ntohl_def)

lemma float_network_host' [simp]:
  "convert_value_to_host_order_float (convert_float_value_to_network_byte_order x) = Some x"
  using float_network_host [of x "[]"] by simp

interpretation float_codec: codec convert_float_value_to_network_byte_order
  "\<lambda>bs. the (convert_value_to_host_order_float bs)" "\<lambda>_. True"
  by unfold_locales simp

text \<open>
  C19: Converting a float to network byte order writes exactly four bytes, most significant
  byte first; reading them back gives the same float (every bit pattern, NaN payloads
  included), and converting what was read from any four bytes gives those bytes again.
\<close>

theorem byte_order_roundtrip:
  "convert_float_value_to_network_byte_order x =
     [ucast (drop_bit 24 x), ucast (drop_bit 16 x), ucast (drop_bit 8 x), ucast x] \<and>
   convert_value_to_host_order_float (convert_float_value_to_network_byte_order x) = Some x \<and>
   (length bs = 4 \<longrightarrow>
      map_option convert_float_value_to_network_byte_order (convert_value_to_host_order_float bs) = Some bs)"
  (is "?order \<and> ?there \<and> (_ \<longrightarrow> ?again)")
proof (intro conjI impI)
  show ?order
    by (simp add: convert_float_value_to_network_byte_order_def mem_of_u32_def htonl_def)
  show ?there by simp
next
  assume l: "length bs = 4"
  then obtain w where w: "u32_of_mem bs = Some w"
    by (cases bs rule: u32_of_mem.cases) auto
  then have "mem_of_u32 w = bs" using l by (rule mem_of_u32_of_mem)
  with w show ?again
    by (simp add: convert_value_to_host_order_float_def convert_float_value_to_network_byte_order_def ntohl_def)
qed

theorem byte_order_roundtrip_witness:
  "map_option convert_float_value_to_network_byte_order
     (convert_value_to_host_order_float [0x41, 0xC8, 0, 0]) = Some [0x41, 0xC8, 0, 0]"
  using byte_order_roundtrip [of 0 "[0x41, 0xC8, 0, 0]"] by simp

end
