(* ===== verification/Json.thy ===== *)
theory Json
  imports Prelude "HOL-Library.AList"
begin

text \<open>
  JSON documents as jansson hands them out, and its accessors as documented: an accessor
  applied to a value of another type answers NULL, zero or an empty size. Parsing is outside
  the repository and a parameter of what uses it.
\<close>

datatype json =
    JObject "(string \<times> json) list"
  | JArray "json list"
  | JString string
  | JInteger int
  | JBoolean bool
  | JOther

fun json_object_get :: "json \<Rightarrow> string \<Rightarrow> json option" where
  "json_object_get (JObject ms) k = map_of ms k"
| "json_object_get _ k = None"

text \<open>The accessors take NULL as well.\<close>

definition json_get :: "json option \<Rightarrow> string \<Rightarrow> json option" where
  "json_get j k = Option.bind j (\<lambda>j. json_object_get j k)"

fun json_string_value :: "json option \<Rightarrow> string option" where
  "json_string_value (Some (JString s)) = Some s"
| "json_string_value _ = None"

fun json_integer_value :: "json option \<Rightarrow> int" where
  "json_integer_value (Some (JInteger n)) = n"
| "json_integer_value _ = 0"

fun json_boolean_value :: "json option \<Rightarrow> bool" where
  "json_boolean_value (Some (JBoolean b)) = b"
| "json_boolean_value _ = False"

text \<open>The elements \<open>json_array_size\<close> and \<open>json_array_get\<close> run over.\<close>

fun json_elements :: "json option \<Rightarrow> json list" where
  "json_elements (Some (JArray js)) = js"
| "json_elements _ = []"

fun json_is_object :: "json option \<Rightarrow> bool" where
  "json_is_object (Some (JObject ms)) = True"
| "json_is_object _ = False"

text \<open>
  \<open>json_object_set_new\<close> on an object built by the code: a NULL value leaves it alone; a member
  of that name is replaced.
\<close>

fun json_set :: "(string \<times> json) list \<Rightarrow> string \<Rightarrow> json option \<Rightarrow> (string \<times> json) list" where
  "json_set ms k None = ms"
| "json_set ms k (Some v) = AList.update k v ms"

end
