(* ===== verification/External.thy ===== *)
theory External
  imports Json
begin

text \<open>
  Everything the program asks of code outside the repository: the pt-client-2
  library (a git submodule), D-Bus and BlueZ through GLib, the GLib main loop, mosquitto, the
  allocator and the clock. Each call the program makes is a constructor of \<open>ev\<close>
  with its arguments. The state keeps the calls made so far, newest first, and an
  environment \<open>env\<close>, a parameter of every definition that calls out, answers each
  call from that history. Nothing is assumed of the answers here: a property that
  relies on documented behaviour of a library names it as a hypothesis on the
  environment.
\<close>

section \<open>Types of the pt-client-2 interface\<close>

type_synonym conn = int

datatype pt_status =
    PT_STATUS_SUCCESS
  | PT_STATUS_ERROR
  | PT_STATUS_ITEM_EXISTS
  | PT_STATUS_ALLOCATION_FAIL
  | PT_STATUS_INVALID_PARAMETERS
  | PT_STATUS_OTHER int

datatype lwm2m_type =
    LWM2M_STRING | LWM2M_INTEGER | LWM2M_FLOAT | LWM2M_BOOLEAN
  | LWM2M_OPAQUE | LWM2M_TIME | LWM2M_OBJLINK

text \<open>An operation mask is the set of its bits; \<open>ops & OPERATION_WRITE\<close> is membership.\<close>

datatype operation = OPERATION_READ | OPERATION_WRITE | OPERATION_EXECUTE

type_synonym operations = "operation set"

datatype queue_mode = NONE | QUEUE

text \<open>The callbacks the code hands to the library, by name.\<close>

datatype callback =
    no_callback
  | cb_resource_callback_handler
  | cb_ipso_reset_min_max_object
  | cb_ipso_write_set_point_value
  | cb_devices_reboot_callback
  | cb_ble_services_reboot_callback
  | cb_client_config_example_reboot_callback
  | cb_mqtt_minmax_reset_callback
  | cb_mqtt_write_callback
  | cb_mqtt_example_callback
  | cb_other nat

record device_object_data =
  dod_manufacturer :: "string option"
  dod_model_number :: "string option"
  dod_serial_number :: "string option"
  dod_firmware_version :: "string option"
  dod_hardware_version :: "string option"
  dod_software_version :: "string option"
  dod_device_type :: "string option"
  dod_reboot_callback :: callback

section \<open>Calls\<close>

text \<open>A D-Bus proxy: the object path and interface it was made for, and its handle.\<close>

datatype proxy = Proxy (px_path: string) (px_iface: string) (px_handle: int)

text \<open>Callbacks queued on the GLib main loop with \<open>g_idle_add\<close>.\<close>

datatype idle_task =
    Pt_ble_g_main_quit_loop
  | Pt_ble_graceful_shutdown
  | Pt_ble_pt_ready
  | Device_registered string
  | Device_unregistered string bool

datatype crypto_request =
    GetCertificate string
  | GetPublicKey string
  | GenerateRandom nat
  | AsymmetricSign string bytes
  | AsymmetricVerify string bytes bytes
  | EcdhKeyAgreement string bytes

datatype pt_call =
    PtDeviceCreate conn string nat queue_mode
  | PtDeviceCreateUserdata conn string nat queue_mode int
  | PtInitializeDeviceObject conn string device_object_data
  | PtDeviceRegister conn string
  | PtDeviceUnregister conn string bool
  | PtDeviceExists conn string
  | PtAddResource conn string u16 u16 u16 lwm2m_type bytes
  | PtAddResourceCb conn string u16 u16 u16 lwm2m_type operations bytes callback
  | PtSetResourceValue conn string u16 u16 u16 bytes
  | PtGetResourceValue conn string u16 u16 u16
  | PtNextFreeInstance conn string u16
  | PtWriteValues conn string
  | PtClientCreate string
  | PtClientStart string
  | PtClientShutdown
  | PtDeviceCreateFeatures conn string nat queue_mode bool
  | PtDeviceResourceExists conn string u16 u16 u16
  | PtDevicesRegister conn
  | PtDevicesUnregister conn
  | PtDevicesUpdate conn
  | PtCertificateRenewalListSet conn "string list" string
  | PtCertificateRenew conn string string
  | PtCrypto conn crypto_request string
  | PtDeviceCertificateRenew conn string string bytes string
  | PtDeviceCertificateRenewFinish conn string bool
  | PtAddManifestCallback conn
  | PtDownloadAsset conn string u64 string string
  | PtUpdateFirmwareResources conn string string
  | PtRegisterTranslator conn
  | PtConnectionShutdown conn

text \<open>mosquitto, and the calls of jansson that allocate.\<close>

datatype mq_call =
    MqLibInit
  | MqNew
  | MqConnect string int int
  | MqSubscribe string nat
  | MqPublish string json
  | MqLoop
  | MqDestroy
  | JsonNew
  | JsonDumps json

datatype bus_call =
    ProxyNew string string
  | CachedProperty proxy string
  | CachedPropertyNames proxy
  | PrintProperty proxy string
  | GetProperty string string string
  | SetProperty string string string bool
  | BusConnect string
  | ObjectManager
  | ManagedObjects
  | SetDiscoveryFilter "string list option"
  | SignalConnect string
  | CallMethod string string string "string list"
  | CallMethodSync string string string "string list"
  | ReadValue string
  | ReadValueAsync string string nat nat
  | WriteValue string bytes

datatype sys_call =
    Malloc nat
  | Gettimeofday
  | ClockGettime
  | Rand
  | GTimeoutAdd nat
  | GSourceRemove int
  | GIdleAdd idle_task
  | GMainLoopNew
  | GMainLoopRun
  | GMainLoopQuit
  | UnixSignalAdd nat
  | ReadFile string
  | ReadNoFile
  | ReadDir string
  | AccessFile string
  | ThreadCreate
  | ThreadJoin
  | CondSignal
  | CondWait
  | Sleep nat
  | Sigaction nat

datatype ev = Pt pt_call | Bus bus_call | Sys sys_call | Mq mq_call

text \<open>The variants D-Bus properties hold, as far as the code looks into them.\<close>

datatype gvariant = GBoolean bool | GString string | GArray "gvariant list" | GOther

text \<open>
  The answers, by type. \<open>env_data\<close> and \<open>env_str\<close> answer \<open>None\<close> where the C call
  returns NULL or an error.
\<close>

record env =
  env_status :: "ev list \<Rightarrow> ev \<Rightarrow> pt_status"
  env_ok :: "ev list \<Rightarrow> ev \<Rightarrow> bool"
  env_int :: "ev list \<Rightarrow> ev \<Rightarrow> int"
  env_data :: "ev list \<Rightarrow> ev \<Rightarrow> bytes option"
  env_str :: "ev list \<Rightarrow> ev \<Rightarrow> string option"
  env_strs :: "ev list \<Rightarrow> ev \<Rightarrow> string list"
  env_variant :: "ev list \<Rightarrow> ev \<Rightarrow> gvariant option"
  env_objects :: "ev list \<Rightarrow> ev \<Rightarrow> (string \<times> string list) list option"
  env_junk :: "ev list \<Rightarrow> bytes"
  PT_API_CONNECTION_ID_INVALID :: conn

record ext =
  trace :: "ev list"

definition call :: "ev \<Rightarrow> 'a ext_scheme \<Rightarrow> 'a ext_scheme" where
  "call e w = w\<lparr>trace := e # trace w\<rparr>"

definition ask_status :: "env \<Rightarrow> ev \<Rightarrow> 'a ext_scheme \<Rightarrow> pt_status \<times> 'a ext_scheme" where
  "ask_status E e w = (env_status E (trace w) e, call e w)"

definition ask_ok :: "env \<Rightarrow> ev \<Rightarrow> 'a ext_scheme \<Rightarrow> bool \<times> 'a ext_scheme" where
  "ask_ok E e w = (env_ok E (trace w) e, call e w)"

definition ask_int :: "env \<Rightarrow> ev \<Rightarrow> 'a ext_scheme \<Rightarrow> int \<times> 'a ext_scheme" where
  "ask_int E e w = (env_int E (trace w) e, call e w)"

definition ask_data :: "env \<Rightarrow> ev \<Rightarrow> 'a ext_scheme \<Rightarrow> bytes option \<times> 'a ext_scheme" where
  "ask_data E e w = (env_data E (trace w) e, call e w)"

definition ask_str :: "env \<Rightarrow> ev \<Rightarrow> 'a ext_scheme \<Rightarrow> string option \<times> 'a ext_scheme" where
  "ask_str E e w = (env_str E (trace w) e, call e w)"

definition ask_strs :: "env \<Rightarrow> ev \<Rightarrow> 'a ext_scheme \<Rightarrow> string list \<times> 'a ext_scheme" where
  "ask_strs E e w = (env_strs E (trace w) e, call e w)"

definition ask_variant :: "env \<Rightarrow> ev \<Rightarrow> 'a ext_scheme \<Rightarrow> gvariant option \<times> 'a ext_scheme" where
  "ask_variant E e w = (env_variant E (trace w) e, call e w)"

definition ask_objects ::
  "env \<Rightarrow> ev \<Rightarrow> 'a ext_scheme \<Rightarrow> (string \<times> string list) list option \<times> 'a ext_scheme" where
  "ask_objects E e w = (env_objects E (trace w) e, call e w)"

text \<open>The contents of \<open>n\<close> bytes of memory nothing has been written to.\<close>

definition uninit :: "env \<Rightarrow> nat \<Rightarrow> 'a ext_scheme \<Rightarrow> bytes" where
  "uninit E n w = take n (env_junk E (trace w) @ replicate n 0)"

lemma length_uninit [simp]: "length (uninit E n w) = n"
  by (simp add: uninit_def)

lemmas ask_defs =
  ask_status_def ask_ok_def ask_int_def ask_data_def ask_str_def ask_strs_def
  ask_variant_def ask_objects_def

lemma trace_call [simp]: "trace (call e w) = e # trace w"
  by (simp add: call_def)

lemma more_call [simp]: "ext.more (call e w) = ext.more w"
  by (simp add: call_def)

section \<open>Operations that only call out\<close>

text \<open>
  An operation of the components above the library that changes nothing of the
  program's own state: it extends the history and leaves the rest.
\<close>

definition calls_only :: "'a ext_scheme \<Rightarrow> 'a ext_scheme \<Rightarrow> bool" where
  "calls_only w w' \<longleftrightarrow> ext.more w' = ext.more w \<and> (\<exists>es. trace w' = es @ trace w)"

lemma calls_only_refl [simp]: "calls_only w w"
  by (simp add: calls_only_def)

lemma calls_only_call [simp]: "calls_only w (call e w)"
  by (simp add: calls_only_def)

lemma calls_only_trans: "calls_only u v \<Longrightarrow> calls_only v w \<Longrightarrow> calls_only u w"
  by (auto simp: calls_only_def)

lemma calls_only_call' [simp]: "calls_only w v \<Longrightarrow> calls_only w (call e v)"
  by (rule calls_only_trans [OF _ calls_only_call])

lemma calls_only_more: "calls_only w w' \<Longrightarrow> ext.more w' = ext.more w"
  by (simp add: calls_only_def)

end
