(* ===== verification/Ipso_Objects.thy ===== *)
theory Ipso_Objects
  imports Byte_Order External
begin

text \<open>
  \<^verbatim>\<open>examples-common-2/ipso_objects.c\<close>: creation of IPSO sensor, set point and
  min/max resources through pt-client-2, the running minimum and maximum of a
  sensor, and the hex rendering of a value. Values are handed to the library as
  byte lists. \<open>malloc\<close> is a call whose answer decides each branch that tests it;
  \<open>strdup\<close> and the \<open>malloc\<close>s whose result is not tested are taken to succeed.
  \<open>None\<close> is undefined behaviour.
\<close>

section \<open>Identifiers\<close>

abbreviation (input) DIGITAL_OUTPUT :: u16 where "DIGITAL_OUTPUT \<equiv> 3201"
abbreviation (input) TEMPERATURE_SENSOR :: u16 where "TEMPERATURE_SENSOR \<equiv> 3303"
abbreviation (input) HUMIDITY_SENSOR :: u16 where "HUMIDITY_SENSOR \<equiv> 3304"
abbreviation (input) SET_POINT :: u16 where "SET_POINT \<equiv> 3308"
abbreviation (input) LIGHT_CONTROL :: u16 where "LIGHT_CONTROL \<equiv> 3311"
abbreviation (input) BAROMETER_SENSOR :: u16 where "BAROMETER_SENSOR \<equiv> 3315"
abbreviation (input) PUSH_BUTTON :: u16 where "PUSH_BUTTON \<equiv> 3347"

abbreviation (input) DIGITAL_INPUT_STATE :: u16 where "DIGITAL_INPUT_STATE \<equiv> 5500"
abbreviation (input) MIN_MEASURED_VALUE :: u16 where "MIN_MEASURED_VALUE \<equiv> 5601"
abbreviation (input) MAX_MEASURED_VALUE :: u16 where "MAX_MEASURED_VALUE \<equiv> 5602"
abbreviation (input) RESET_MIN_MAX_MEASURED_VALUES :: u16 where "RESET_MIN_MAX_MEASURED_VALUES \<equiv> 5605"
abbreviation (input) SENSOR_VALUE :: u16 where "SENSOR_VALUE \<equiv> 5700"
abbreviation (input) SENSOR_UNITS :: u16 where "SENSOR_UNITS \<equiv> 5701"
abbreviation (input) SENSOR_TYPE :: u16 where "SENSOR_TYPE \<equiv> 5751"
abbreviation (input) ON_OFF_VALUE :: u16 where "ON_OFF_VALUE \<equiv> 5850"

text \<open>The bytes of a C string, without its NUL.\<close>

definition string_bytes :: "string \<Rightarrow> bytes" where
  "string_bytes s = map of_char s"

definition malloc :: "env \<Rightarrow> nat \<Rightarrow> 'a ext_scheme \<Rightarrow> bool \<times> 'a ext_scheme" where
  "malloc E n w = ask_ok E (Sys (Malloc n)) w"

section \<open>Creating objects\<close>

definition ipso_add_min_max_fields ::
  "env \<Rightarrow> conn \<Rightarrow> string \<Rightarrow> u16 \<Rightarrow> u16 \<Rightarrow> callback \<Rightarrow> 'a ext_scheme \<Rightarrow> 'a ext_scheme" where
  "ipso_add_min_max_fields E c device_id object_id object_instance_id reset_callback w =
     (let (min_ok, w) = malloc E 4 w in
      if \<not> min_ok then w else
      let min_default_data = convert_float_value_to_network_byte_order FLT_MAX;
          (max_ok, w) = malloc E 4 w in
      if \<not> max_ok then w else
      let max_default_data = convert_float_value_to_network_byte_order NEG_FLT_MAX;
          w = call (Pt (PtAddResource c device_id object_id object_instance_id
                          MIN_MEASURED_VALUE LWM2M_FLOAT min_default_data)) w;
          w = call (Pt (PtAddResource c device_id object_id object_instance_id
                          MAX_MEASURED_VALUE LWM2M_FLOAT max_default_data)) w
      in call (Pt (PtAddResourceCb c device_id object_id object_instance_id
                     RESET_MIN_MAX_MEASURED_VALUES LWM2M_OPAQUE {OPERATION_EXECUTE} [] reset_callback)) w)"

definition ipso_add_resource ::
  "env \<Rightarrow> conn \<Rightarrow> string \<Rightarrow> u16 \<Rightarrow> u16 \<Rightarrow> u16 \<Rightarrow> lwm2m_type \<Rightarrow> operations \<Rightarrow> bytes \<Rightarrow> callback \<Rightarrow>
   'a ext_scheme \<Rightarrow> pt_status \<times> 'a ext_scheme" where
  "ipso_add_resource E c device_id object_id object_instance_id resource_id rtype ops value cb w =
     ask_status E (Pt (PtAddResourceCb c device_id object_id object_instance_id resource_id rtype ops value cb)) w"

definition ipso_create_custom_object ::
  "env \<Rightarrow> conn \<Rightarrow> string \<Rightarrow> u16 \<Rightarrow> u16 \<Rightarrow> u16 \<Rightarrow> lwm2m_type \<Rightarrow> operations \<Rightarrow> bytes \<Rightarrow> callback \<Rightarrow>
   'a ext_scheme \<Rightarrow> 'a ext_scheme" where
  "ipso_create_custom_object E c device_id object_id object_instance_id resource_id rtype ops value cb w =
     (let (ok, w) = malloc E (length value) w in
      if \<not> ok then w else
      snd (ipso_add_resource E c device_id object_id object_instance_id resource_id rtype ops value cb w))"

definition ipso_create_thermometer ::
  "env \<Rightarrow> conn \<Rightarrow> string \<Rightarrow> u16 \<Rightarrow> f32 \<Rightarrow> bool \<Rightarrow> callback \<Rightarrow> 'a ext_scheme \<Rightarrow> 'a ext_scheme" where
  "ipso_create_thermometer E c device_id object_instance_id temperature optional_fields reset_cb w =
     (let temperature_data = convert_float_value_to_network_byte_order temperature;
          w = call (Pt (PtAddResource c device_id TEMPERATURE_SENSOR object_instance_id
                          SENSOR_VALUE LWM2M_FLOAT temperature_data)) w;
          w = call (Pt (PtAddResource c device_id TEMPERATURE_SENSOR object_instance_id
                          SENSOR_UNITS LWM2M_STRING (string_bytes ''Cel''))) w
      in if optional_fields
         then (if reset_cb \<noteq> no_callback
               then ipso_add_min_max_fields E c device_id TEMPERATURE_SENSOR object_instance_id reset_cb w
               else ipso_add_min_max_fields E c device_id TEMPERATURE_SENSOR object_instance_id
                      cb_ipso_reset_min_max_object w)
         else w)"

definition ipso_create_sensor_object ::
  "env \<Rightarrow> conn \<Rightarrow> string \<Rightarrow> u16 \<Rightarrow> u16 \<Rightarrow> string option \<Rightarrow> string option \<Rightarrow>
   'a ext_scheme \<Rightarrow> 'a ext_scheme" where
  "ipso_create_sensor_object E c device_id sensor_id object_instance_id sensor_units sensor_type w =
     (let (ok, w) = malloc E 4 w in
      if \<not> ok then w else
      let (_, w) = ipso_add_resource E c device_id sensor_id object_instance_id SENSOR_VALUE LWM2M_FLOAT
                     {OPERATION_READ} (convert_float_value_to_network_byte_order 0) no_callback w;
          w = (case sensor_units of None \<Rightarrow> w | Some u \<Rightarrow>
                 snd (ipso_add_resource E c device_id sensor_id object_instance_id SENSOR_UNITS LWM2M_STRING
                   {OPERATION_READ} (string_bytes u) no_callback w))
      in (case sensor_type of None \<Rightarrow> w | Some t \<Rightarrow>
            snd (ipso_add_resource E c device_id sensor_id object_instance_id SENSOR_TYPE LWM2M_STRING
              {OPERATION_READ} (string_bytes t) no_callback w)))"

section \<open>Running minimum and maximum\<close>

definition ipso_reset_min_max_object ::
  "env \<Rightarrow> conn \<Rightarrow> string \<Rightarrow> u16 \<Rightarrow> u16 \<Rightarrow> 'a ext_scheme \<Rightarrow> pt_status \<times> 'a ext_scheme" where
  "ipso_reset_min_max_object E c device_id object_id object_instance_id w =
     (let (ok, w) = malloc E 4 w in
      if \<not> ok then (PT_STATUS_ALLOCATION_FAIL, w) else
      let w = call (Pt (PtSetResourceValue c device_id object_id object_instance_id MIN_MEASURED_VALUE
                          (convert_float_value_to_network_byte_order FLT_MAX))) w;
          (ok, w) = malloc E 4 w in
      if \<not> ok then (PT_STATUS_ALLOCATION_FAIL, w) else
      (PT_STATUS_SUCCESS,
       call (Pt (PtSetResourceValue c device_id object_id object_instance_id MAX_MEASURED_VALUE
                   (convert_float_value_to_network_byte_order NEG_FLT_MAX))) w))"

text \<open>\<open>pt_device_get_resource_value\<close>: a status, and the value's buffer or NULL.\<close>

definition pt_device_get_resource_value ::
  "env \<Rightarrow> conn \<Rightarrow> string \<Rightarrow> u16 \<Rightarrow> u16 \<Rightarrow> u16 \<Rightarrow> 'a ext_scheme \<Rightarrow>
   (pt_status \<times> bytes option) \<times> 'a ext_scheme" where
  "pt_device_get_resource_value E c d obj i r w =
     (let e = Pt (PtGetResourceValue c d obj i r)
      in ((env_status E (trace w) e, env_data E (trace w) e), call e w))"

text \<open>
  The comparison \<open>new_value < temp_value\<close> (or \<open>>\<close>) and the write it guards; the third
  component is the status the function returns early with.
\<close>

definition ipso_write_extremum ::
  "env \<Rightarrow> conn \<Rightarrow> string \<Rightarrow> u16 \<Rightarrow> u16 \<Rightarrow> u16 \<Rightarrow> bool \<Rightarrow> f32 \<Rightarrow> 'a ext_scheme \<Rightarrow>
   pt_status option \<times> 'a ext_scheme" where
  "ipso_write_extremum E c device_id object_id object_instance_id resource_id beyond new_value w =
     (if beyond then
        let (ok, w) = malloc E 4 w in
        if \<not> ok then (Some PT_STATUS_ALLOCATION_FAIL, w)
        else (None, call (Pt (PtSetResourceValue c device_id object_id object_instance_id resource_id
                               (convert_float_value_to_network_byte_order new_value))) w)
      else (None, w))"

definition ipso_update_min_max_fields ::
  "env \<Rightarrow> conn \<Rightarrow> string \<Rightarrow> u16 \<Rightarrow> u16 \<Rightarrow> f32 \<Rightarrow> 'a ext_scheme \<Rightarrow> (pt_status \<times> 'a ext_scheme) option" where
  "ipso_update_min_max_fields E c device_id object_id object_instance_id new_value w =
     (let ((status, min_current_data), w) =
            pt_device_get_resource_value E c device_id object_id object_instance_id MIN_MEASURED_VALUE w in
      if status \<noteq> PT_STATUS_SUCCESS \<or> min_current_data = None then Some (status, w) else
      let ((status, max_current_data), w) =
            pt_device_get_resource_value E c device_id object_id object_instance_id MAX_MEASURED_VALUE w in
      if status \<noteq> PT_STATUS_SUCCESS \<or> max_current_data = None then Some (status, w) else
      do {
        temp_value \<leftarrow> convert_value_to_host_order_float (the min_current_data);
        let (err, w) = ipso_write_extremum E c device_id object_id object_instance_id MIN_MEASURED_VALUE
                         (f32_less new_value temp_value) new_value w;
        (case err of Some s \<Rightarrow> Some (s, w) | None \<Rightarrow> do {
          temp_value \<leftarrow> convert_value_to_host_order_float (the max_current_data);
          let (err, w) = ipso_write_extremum E c device_id object_id object_instance_id MAX_MEASURED_VALUE
                           (f32_less temp_value new_value) new_value w;
          (case err of Some s \<Rightarrow> Some (s, w) | None \<Rightarrow> Some (PT_STATUS_SUCCESS, w))
        })
      })"

section \<open>Set points and hex strings\<close>

definition ipso_write_set_point_value :: "bytes \<Rightarrow> pt_status" where
  "ipso_write_set_point_value value = PT_STATUS_SUCCESS"

text \<open>The value is copied with \<open>memcpy\<close>: the host's byte order, not the network's.\<close>

definition ipso_create_set_point ::
  "env \<Rightarrow> conn \<Rightarrow> string \<Rightarrow> u16 \<Rightarrow> f32 \<Rightarrow> 'a ext_scheme \<Rightarrow> 'a ext_scheme" where
  "ipso_create_set_point E c device_id object_instance_id target_temperature w =
     (let (ok, w) = malloc E 4 w in
      if \<not> ok then w else
      let (status, w) =
            ask_status E (Pt (PtAddResourceCb c device_id SET_POINT object_instance_id SENSOR_VALUE LWM2M_FLOAT
                       {OPERATION_READ, OPERATION_WRITE} (mem_of_u32 target_temperature)
                       cb_ipso_write_set_point_value)) w in
      if status \<noteq> PT_STATUS_SUCCESS then w
      else call (Pt (PtAddResource c device_id SET_POINT object_instance_id SENSOR_UNITS LWM2M_STRING
                       (string_bytes ''Cel''))) w)"

definition HEX_CHARS :: string where "HEX_CHARS = ''0123456789ABCDEF''"

definition hex_byte :: "u8 \<Rightarrow> string" where
  "hex_byte b =
     [HEX_CHARS ! unat (drop_bit 4 b AND 0xF), HEX_CHARS ! unat (b AND 0xF), CHR '':'']"

text \<open>
  The buffer's size is computed in 32 bits; a buffer smaller than what the loop writes is
  undefined behaviour.
\<close>

definition ipso_convert_value_to_hex_string ::
  "env \<Rightarrow> bytes \<Rightarrow> 'a ext_scheme \<Rightarrow> (string option \<times> 'a ext_scheme) option" where
  "ipso_convert_value_to_hex_string E data w =
     (let size = (3 * length data + 1) mod 2 ^ 32;
          (ok, w) = malloc E size w in
      if \<not> ok then Some (None, w)
      else if size < 3 * length data + 1 then None
      else Some (Some (concat (map hex_byte data)), w))"

section \<open>The operations only call the library\<close>

lemma malloc_calls_only [frame]: "calls_only w (snd (malloc E n w))"
  by (simp add: malloc_def ask_defs)

lemma ask_calls_only [frame]:
  "calls_only w (snd (ask_status E e w))" "calls_only w (snd (ask_ok E e w))"
  "calls_only w (snd (ask_int E e w))" "calls_only w (snd (ask_data E e w))"
  "calls_only w (snd (ask_str E e w))" "calls_only w (snd (ask_strs E e w))"
  "calls_only w (snd (ask_objects E e w))" "calls_only w (snd (ask_variant E e w))"
  by (simp_all add: ask_defs)

lemmas ipso_create_defs =
  ipso_add_min_max_fields_def ipso_add_resource_def ipso_create_custom_object_def
  ipso_create_thermometer_def ipso_create_sensor_object_def ipso_create_set_point_def
  ipso_reset_min_max_object_def

lemma ipso_create_calls_only [frame]:
  "calls_only w (ipso_add_min_max_fields E c d obj i cb w)"
  "calls_only w (snd (ipso_add_resource E c d obj i r rt ops v cb w))"
  "calls_only w (ipso_create_custom_object E c d obj i r rt ops v cb w)"
  "calls_only w (ipso_create_thermometer E c d i t opt cb w)"
  "calls_only w (ipso_create_sensor_object E c d obj i u ty w)"
  "calls_only w (ipso_create_set_point E c d i t w)"
  "calls_only w (snd (ipso_reset_min_max_object E c d obj i w))"
  by (simp_all add: ipso_create_defs malloc_def ask_defs Let_def split: option.split)

lemma ipso_write_extremum_calls_only [frame]:
  "calls_only w (snd (ipso_write_extremum E c d obj i r b v w))"
  by (simp add: ipso_write_extremum_def malloc_def ask_defs Let_def)

lemma ipso_update_calls_only [frame]:
  assumes "ipso_update_min_max_fields E c d obj i v w = Some (s, w')"
  shows "calls_only w w'"
proof -
  have step: "calls_only u (snd (ipso_write_extremum E c d obj i r b v u'))"
    if "calls_only u u'" for u u' :: "'a ext_scheme" and r b
    using that ipso_write_extremum_calls_only by (rule calls_only_trans)
  let ?w1 = "call (Pt (PtGetResourceValue c d obj i MIN_MEASURED_VALUE)) w"
  let ?w2 = "call (Pt (PtGetResourceValue c d obj i MAX_MEASURED_VALUE)) ?w1"
  from assms show ?thesis
    using step [of w ?w2] step [OF step [of w ?w2]]
    by (auto simp: ipso_update_min_max_fields_def pt_device_get_resource_value_def Let_def
             split: if_splits prod.splits option.splits Option.bind_splits) (metis snd_conv calls_only_call calls_only_call')+
qed

section \<open>What the library stores\<close>

text \<open>
  The value of a resource after a history of calls, as pt-client-2 documents it: adding a
  resource gives it its first value, setting the value of a resource that exists replaces
  it. \<open>keeps_values\<close> is the hypothesis that the library answers
  \<open>pt_device_get_resource_value\<close> accordingly for one sensor.
\<close>

fun resource_value :: "ev list \<Rightarrow> conn \<Rightarrow> string \<Rightarrow> u16 \<Rightarrow> u16 \<Rightarrow> u16 \<Rightarrow> bytes option" where
  "resource_value [] c d obj i r = None"
| "resource_value (e # es) c d obj i r =
     (let old = resource_value es c d obj i r
      in case e of
           Pt (PtAddResource c' d' obj' i' r' _ v) \<Rightarrow>
             (if (c', d', obj', i', r') = (c, d, obj, i, r) \<and> old = None then Some v else old)
         | Pt (PtAddResourceCb c' d' obj' i' r' _ _ v _) \<Rightarrow>
             (if (c', d', obj', i', r') = (c, d, obj, i, r) \<and> old = None then Some v else old)
         | Pt (PtSetResourceValue c' d' obj' i' r' v) \<Rightarrow>
             (if (c', d', obj', i', r') = (c, d, obj, i, r) \<and> old \<noteq> None then Some v else old)
         | _ \<Rightarrow> old)"

definition keeps_values :: "env \<Rightarrow> conn \<Rightarrow> string \<Rightarrow> u16 \<Rightarrow> u16 \<Rightarrow> bool" where
  "keeps_values E c d obj i \<longleftrightarrow>
     (\<forall>es r. env_data E es (Pt (PtGetResourceValue c d obj i r)) = resource_value es c d obj i r \<and>
             (env_status E es (Pt (PtGetResourceValue c d obj i r)) = PT_STATUS_SUCCESS
                \<longleftrightarrow> resource_value es c d obj i r \<noteq> None))"

definition never_out_of_memory :: "env \<Rightarrow> bool" where
  "never_out_of_memory E \<longleftrightarrow> (\<forall>es n. env_ok E es (Sys (Malloc n)))"

definition adding_succeeds :: "env \<Rightarrow> bool" where
  "adding_succeeds E \<longleftrightarrow>
     (\<forall>es c d obj i r rt ops v cb.
        env_status E es (Pt (PtAddResourceCb c d obj i r rt ops v cb)) = PT_STATUS_SUCCESS)"

text \<open>The sensor's minimum and maximum in the library, as floats.\<close>

definition sensor_range ::
  "'a ext_scheme \<Rightarrow> conn \<Rightarrow> string \<Rightarrow> u16 \<Rightarrow> u16 \<Rightarrow> (f32 \<times> f32) option" where
  "sensor_range w c d obj i =
     (case (resource_value (trace w) c d obj i MIN_MEASURED_VALUE,
            resource_value (trace w) c d obj i MAX_MEASURED_VALUE) of
        (Some lo, Some hi) \<Rightarrow>
          (case (convert_value_to_host_order_float lo, convert_value_to_host_order_float hi) of
             (Some l, Some h) \<Rightarrow> Some (l, h) | _ \<Rightarrow> None)
      | _ \<Rightarrow> None)"

lemma sensor_range_Some:
  "sensor_range w c d obj i = Some (l, h) \<longleftrightarrow>
   (\<exists>lo hi. resource_value (trace w) c d obj i MIN_MEASURED_VALUE = Some lo \<and>
            resource_value (trace w) c d obj i MAX_MEASURED_VALUE = Some hi \<and>
            convert_value_to_host_order_float lo = Some l \<and>
            convert_value_to_host_order_float hi = Some h)"
  by (auto simp: sensor_range_def split: option.splits)

text \<open>One update: the range becomes the smaller minimum and the larger maximum.\<close>

lemma update_min_max_step:
  assumes E: "keeps_values E c d obj i" "never_out_of_memory E"
    and r: "sensor_range w c d obj i = Some (l, h)"
  shows "\<exists>w'. ipso_update_min_max_fields E c d obj i v w = Some (PT_STATUS_SUCCESS, w') \<and>
    sensor_range w' c d obj i =
      Some (if f32_less v l then v else l, if f32_less h v then v else h)"
proof -
  obtain lo hi where v: "resource_value (trace w) c d obj i MIN_MEASURED_VALUE = Some lo"
    "resource_value (trace w) c d obj i MAX_MEASURED_VALUE = Some hi"
    "convert_value_to_host_order_float lo = Some l"
    "convert_value_to_host_order_float hi = Some h"
    using r by (auto simp: sensor_range_Some)
  have q: "env_data E es (Pt (PtGetResourceValue c d obj i r)) = resource_value es c d obj i r"
    "env_status E es (Pt (PtGetResourceValue c d obj i r)) = PT_STATUS_SUCCESS
        \<longleftrightarrow> resource_value es c d obj i r \<noteq> None" "env_ok E es (Sys (Malloc 4))" for es r
    using E by (auto simp: keeps_values_def never_out_of_memory_def)
  show ?thesis
    by (simp add: ipso_update_min_max_fields_def pt_device_get_resource_value_def Let_def
          ipso_write_extremum_def malloc_def ask_defs q v sensor_range_Some)
qed

fun ipso_updates ::
  "env \<Rightarrow> conn \<Rightarrow> string \<Rightarrow> u16 \<Rightarrow> u16 \<Rightarrow> f32 list \<Rightarrow> 'a ext_scheme \<Rightarrow> 'a ext_scheme option" where
  "ipso_updates E c d obj i [] w = Some w"
| "ipso_updates E c d obj i (v # vs) w =
     (case ipso_update_min_max_fields E c d obj i v w of
        None \<Rightarrow> None | Some (_, w') \<Rightarrow> ipso_updates E c d obj i vs w')"

lemma ipso_updates_range:
  assumes "keeps_values E c d obj i" "never_out_of_memory E"
  shows "sensor_range w c d obj i = Some (l, h) \<Longrightarrow> f32_finite l \<Longrightarrow> f32_finite h \<Longrightarrow>
    \<forall>v\<in>set vs. f32_finite v \<Longrightarrow>
    \<exists>w' l' h'. ipso_updates E c d obj i vs w = Some w' \<and> sensor_range w' c d obj i = Some (l', h') \<and>
      f32_key l' = Min (insert (f32_key l) (f32_key ` set vs)) \<and>
      f32_key h' = Max (insert (f32_key h) (f32_key ` set vs))"
proof (induction vs arbitrary: w l h)
  case Nil
  then show ?case by simp
next
  case (Cons v vs)
  let ?l = "if f32_less v l then v else l" and ?h = "if f32_less h v then v else h"
  have k: "f32_key ?l = min (f32_key v) (f32_key l)" "f32_key ?h = max (f32_key v) (f32_key h)"
    "f32_finite ?l" "f32_finite ?h"
    using Cons.prems by (auto simp: f32_less_finite)
  obtain w1 where w1: "ipso_update_min_max_fields E c d obj i v w = Some (PT_STATUS_SUCCESS, w1)"
    "sensor_range w1 c d obj i = Some (?l, ?h)"
    using update_min_max_step [OF assms Cons.prems(1)] by blast
  have fin: "\<forall>v\<in>set vs. f32_finite v" using Cons.prems(4) by simp
  have m: "insert (f32_key l) (f32_key ` set (v # vs)) = insert (f32_key v) (insert (f32_key l) (f32_key ` set vs))"
    "insert (f32_key h) (f32_key ` set (v # vs)) = insert (f32_key v) (insert (f32_key h) (f32_key ` set vs))"
    by auto
  have mm: "Min (insert (f32_key l) (f32_key ` set (v # vs))) = Min (insert (min (f32_key v) (f32_key l)) (f32_key ` set vs))"
    "Max (insert (f32_key h) (f32_key ` set (v # vs))) = Max (insert (max (f32_key v) (f32_key h)) (f32_key ` set vs))"
    unfolding m by (cases "vs = []"; simp add: min.assoc max.assoc)+
  show ?case
    using Cons.IH [OF w1(2) k(3,4) fin] unfolding k(1,2) mm by (simp add: w1(1))
qed

lemma reset_range:
  assumes "never_out_of_memory E" and "sensor_range w c d obj i = Some (l, h)"
  shows "fst (ipso_reset_min_max_object E c d obj i w) = PT_STATUS_SUCCESS"
    and "sensor_range (snd (ipso_reset_min_max_object E c d obj i w)) c d obj i = Some (FLT_MAX, NEG_FLT_MAX)"
  using assms
  by (auto simp: never_out_of_memory_def ipso_reset_min_max_object_def malloc_def ask_defs Let_def
        sensor_range_Some)

section \<open>Properties\<close>


text \<open>A library that stores values as documented, for the witnesses.\<close>

definition storing_env :: env where
  "storing_env =
     \<lparr>env_status = (\<lambda>es e. case e of
          Pt (PtGetResourceValue c d obj i r) \<Rightarrow>
            if resource_value es c d obj i r = None then PT_STATUS_ERROR else PT_STATUS_SUCCESS
        | _ \<Rightarrow> PT_STATUS_SUCCESS),
      env_ok = (\<lambda>_ _. True), env_int = (\<lambda>_ _. 0),
      env_data = (\<lambda>es e. case e of
          Pt (PtGetResourceValue c d obj i r) \<Rightarrow> resource_value es c d obj i r
        | _ \<Rightarrow> None),
      env_str = (\<lambda>_ _. None), env_strs = (\<lambda>_ _. []), env_variant = (\<lambda>_ _. None),
      env_objects = (\<lambda>_ _. None), env_junk = (\<lambda>_. []),
      PT_API_CONNECTION_ID_INVALID = -1\<rparr>"

lemma storing_env_laws: "keeps_values storing_env c d obj i" "never_out_of_memory storing_env"
  "adding_succeeds storing_env"
  by (simp_all add: keeps_values_def never_out_of_memory_def adding_succeeds_def storing_env_def)

definition sensor_world :: ext where
  "sensor_world = ipso_add_min_max_fields storing_env 1 ''dev'' 3303 0 no_callback \<lparr>trace = []\<rparr>"

lemma sensor_world_range: "sensor_range sensor_world 1 ''dev'' 3303 0 \<noteq> None"
  by (simp add: sensor_world_def ipso_add_min_max_fields_def malloc_def ask_defs Let_def
        storing_env_def sensor_range_def call_def)


text \<open>
  When the sensor has no minimum or no maximum resource, an update fails with the library's
  status and changes no resource.
\<close>

theorem ipso_update_missing_resource:
  assumes "keeps_values E c d obj i"
    and "resource_value (trace w) c d obj i MIN_MEASURED_VALUE = None \<or>
         resource_value (trace w) c d obj i MAX_MEASURED_VALUE = None"
  shows "\<exists>s w'. ipso_update_min_max_fields E c d obj i v w = Some (s, w') \<and> s \<noteq> PT_STATUS_SUCCESS \<and>
    resource_value (trace w') = resource_value (trace w) \<and> ext.more w' = ext.more w"
proof -
  have q: "env_data E es (Pt (PtGetResourceValue c d obj i r)) = resource_value es c d obj i r"
    "env_status E es (Pt (PtGetResourceValue c d obj i r)) = PT_STATUS_SUCCESS
        \<longleftrightarrow> resource_value es c d obj i r \<noteq> None" for es r
    using assms(1) by (auto simp: keeps_values_def)
  show ?thesis
    using assms(2)
    by (cases "resource_value (trace w) c d obj i MIN_MEASURED_VALUE")
      (auto simp: ipso_update_min_max_fields_def pt_device_get_resource_value_def Let_def q fun_eq_iff)
qed

theorem ipso_update_missing_resource_witness:
  "\<exists>s w'. ipso_update_min_max_fields storing_env 1 ''dev'' 3303 0 0x41C80000 \<lparr>trace = []\<rparr> = Some (s, w') \<and>
    s \<noteq> PT_STATUS_SUCCESS \<and> resource_value (trace w') = resource_value []"
  using ipso_update_missing_resource
    [where E = storing_env and c = 1 and d = "''dev''" and obj = 3303 and i = 0
       and v = "0x41C80000" and w = "\<lparr>trace = []\<rparr>", OF storing_env_laws(1)]
  by simp

text \<open>
  A set point is created with its target temperature in the host's byte order, while every
  other float resource is written in network order: a reader that converts the value from network
  order gets the byte-reversed bit pattern, for 25 degrees a different number.
\<close>

theorem ipso_set_point_byte_order:
  assumes "never_out_of_memory E"
    and "adding_succeeds E"
    and "resource_value (trace w) c d SET_POINT i SENSOR_VALUE = None"
  shows "(\<exists>v. resource_value (trace (ipso_create_set_point E c d i t w)) c d SET_POINT i SENSOR_VALUE = Some v \<and>
      convert_value_to_host_order_float v = Some (htonl t)) \<and> htonl 0x41C80000 \<noteq> (0x41C80000 :: f32)"
proof
  have "u32_of_mem (mem_of_u32 t) = Some t"
    using u32_of_mem_of_u32 [of t "[]"] by simp
  then show "\<exists>v. resource_value (trace (ipso_create_set_point E c d i t w)) c d SET_POINT i SENSOR_VALUE = Some v \<and>
      convert_value_to_host_order_float v = Some (htonl t)"
    using assms
    by (simp add: ipso_create_set_point_def malloc_def ask_defs Let_def never_out_of_memory_def
          adding_succeeds_def convert_value_to_host_order_float_def ntohl_def)
  show "htonl 0x41C80000 \<noteq> (0x41C80000 :: f32)"
    by (simp add: htonl_def u32_of_bytes_def ucast_eq drop_bit_eq_div)
qed

theorem ipso_set_point_byte_order_witness:
  "\<exists>v. resource_value (trace (ipso_create_set_point storing_env 1 ''dev'' 0 0x41C80000 \<lparr>trace = []\<rparr>))
        1 ''dev'' SET_POINT 0 SENSOR_VALUE = Some v \<and>
      convert_value_to_host_order_float v = Some 0x0000C841"
proof -
  have "htonl 0x41C80000 = (0x0000C841 :: f32)"
    by (simp add: htonl_def u32_of_bytes_def ucast_eq drop_bit_eq_div)
  then show ?thesis
    using ipso_set_point_byte_order [where E = storing_env and c = 1 and d = "''dev''" and i = 0
        and t = "0x41C80000" and w = "\<lparr>trace = []\<rparr>", OF storing_env_laws(2,3)]
    by simp
qed

lemma length_hex_byte [simp]: "length (hex_byte b) = 3"
  by (simp add: hex_byte_def)

lemma HEX_CHARS_inj: "i < 16 \<Longrightarrow> j < 16 \<Longrightarrow> HEX_CHARS ! i = HEX_CHARS ! j \<Longrightarrow> i = j"
proof -
  have "distinct HEX_CHARS" "length HEX_CHARS = 16" by (simp_all add: HEX_CHARS_def)
  then show "i < 16 \<Longrightarrow> j < 16 \<Longrightarrow> HEX_CHARS ! i = HEX_CHARS ! j \<Longrightarrow> i = j"
    by (simp add: nth_eq_iff_index_eq)
qed

lemma nibble_bound: "unat ((b :: u8) AND 0xF) < 16"
proof -
  have "b AND 0xF \<le> 0xF" by (rule word_and_le1)
  then show ?thesis by (simp add: word_le_nat_alt)
qed

lemma nibbles_inj:
  assumes "(drop_bit 4 b AND 0xF :: u8) = drop_bit 4 c AND 0xF" and "b AND 0xF = c AND 0xF"
  shows "b = c"
proof (rule bit_word_eqI)
  have m: "(0xF :: u8) = mask 4" by (simp add: mask_eq_exp_minus_1)
  fix n
  assume n: "n < LENGTH(8)"
  show "bit b n = bit c n"
  proof (cases "n < 4")
    case True
    with arg_cong [OF assms(2), of "\<lambda>x. bit x n"] show ?thesis by (simp add: m bit_simps)
  next
    case False
    then have "n - 4 < 4" "4 + (n - 4) = n" using n by auto
    with arg_cong [OF assms(1), of "\<lambda>x. bit x (n - 4)"] show ?thesis by (simp add: m bit_simps)
  qed
qed

lemma hex_byte_inj: "hex_byte b = hex_byte c \<Longrightarrow> b = c"
  by (rule nibbles_inj; rule word_unat_eq_iff [THEN iffD2])
    (auto simp: hex_byte_def dest!: HEX_CHARS_inj [OF nibble_bound nibble_bound])

lemma concat_hex_inj: "concat (map hex_byte xs) = concat (map hex_byte ys) \<Longrightarrow> xs = ys"
proof (induction xs arbitrary: ys)
  case Nil
  then show ?case by (cases ys) (auto simp: hex_byte_def)
next
  case (Cons x xs)
  then obtain y zs where ys: "ys = y # zs" by (cases ys) (auto simp: hex_byte_def)
  with Cons.prems have "hex_byte x = hex_byte y" "concat (map hex_byte xs) = concat (map hex_byte zs)"
    by (auto simp: append_eq_append_conv)
  with Cons.IH ys hex_byte_inj show ?case by auto
qed

text \<open>
  For a value of fewer than 1431655765 bytes the hex string is three characters per byte
  (upper-case high digit, low digit and a colon, the last one included), fits its buffer, and
  determines the value: two values with the same string are equal.
\<close>

theorem ipso_hex_string:
  assumes "length xs < 1431655765" and "length ys < 1431655765" and "never_out_of_memory E"
  shows "\<exists>s w'. ipso_convert_value_to_hex_string E xs w = Some (Some s, w') \<and>
      length s = 3 * length xs \<and>
      (xs \<noteq> [] \<longrightarrow> last s = CHR '':'') \<and>
      (\<forall>u u'. ipso_convert_value_to_hex_string E ys u = Some (Some s, u') \<longrightarrow> ys = xs)"
proof -
  have big: "3 * length zs + 1 < 2 ^ 32" if "length zs < 1431655765" for zs :: bytes
    using that by simp
  have ok: "ipso_convert_value_to_hex_string E zs u =
      Some (Some (concat (map hex_byte zs)), call (Sys (Malloc (3 * length zs + 1))) u)"
    if "length zs < 1431655765" for zs and u :: "'b ext_scheme"
    using big [OF that] assms(3)
    by (simp add: ipso_convert_value_to_hex_string_def malloc_def ask_defs Let_def never_out_of_memory_def)
  have ok': "ipso_convert_value_to_hex_string E zs u =
      Some (Some (concat (map hex_byte zs)), call (Sys (Malloc (3 * length zs + 1))) u)"
    if "length zs < 1431655765" for zs and u :: "'a ext_scheme"
    using big [OF that] assms(3)
    by (simp add: ipso_convert_value_to_hex_string_def malloc_def ask_defs Let_def never_out_of_memory_def)
  have len: "length (concat (map hex_byte zs)) = 3 * length zs" for zs
    by (induction zs) auto
  have lst: "zs \<noteq> [] \<Longrightarrow> last (concat (map hex_byte zs)) = CHR '':''" for zs
    by (induction zs rule: rev_induct) (auto simp: hex_byte_def)
  show ?thesis
    using ok [OF assms(2)] ok' [OF assms(1)] len lst concat_hex_inj by fastforce
qed

theorem ipso_hex_string_witness:
  "\<exists>s w'. ipso_convert_value_to_hex_string storing_env [0xAB, 0x05] \<lparr>trace = []\<rparr> = Some (Some s, w') \<and>
     length s = 6 \<and> last s = CHR '':''"
  using ipso_hex_string [of "[0xAB, 0x05]" "[]" storing_env "\<lparr>trace = []\<rparr>"] storing_env_laws by auto

end
