(* ===== verification/Devices.thy ===== *)
theory Devices
  imports Ipso_Objects
begin

text \<open>
  The BLE translator's data and the part of \<^verbatim>\<open>blept-example/devices.c\<close> that owns
  it: the device list, the flags, the GATT tables of a device, identifiers and
  timestamps. An array with its count is a list. A \<open>struct ble_device *\<close> is the
  device's address \<open>d_ptr\<close>; the device list holds the devices themselves, and an
  update through a pointer changes the device with that address. The fields of the
  state that stand for GLib's main loop (queued idle callbacks and running
  timers) are changed by the calls that GLib documents to change them.
\<close>

section \<open>Data\<close>

abbreviation (input) FORMATTED_UUID_LEN :: nat where "FORMATTED_UUID_LEN \<equiv> 36"

abbreviation (input) BLE_DEVICE_FLAG_REGISTERED :: int where "BLE_DEVICE_FLAG_REGISTERED \<equiv> 1"
abbreviation (input) BLE_DEVICE_FLAG_CONNECTED :: int where "BLE_DEVICE_FLAG_CONNECTED \<equiv> 2"
abbreviation (input) BLE_GATT_PROP_PERM_READ :: int where "BLE_GATT_PROP_PERM_READ \<equiv> 1"
abbreviation (input) BLE_GATT_PROP_PERM_WRITE :: int where "BLE_GATT_PROP_PERM_WRITE \<equiv> 2"
abbreviation (input) BLE_GATT_PROP_PERM_NOTIFY :: int where "BLE_GATT_PROP_PERM_NOTIFY \<equiv> 4"

datatype ble_device_type =
    BLE_DEVICE_UNKNOWN
  | BLE_DEVICE_PERSISTENT_GATT_SERVER
  | BLE_DEVICE_GAP_ADVERTISEMENT_ONLY

datatype ble_datatype = BLE_BOOLEAN | BLE_INTEGER | BLE_FLOAT | BLE_STRING | BLE_STRUCT

record ble_gatt_char =
  ch_properties :: int
  ch_uuid :: string
  ch_dbus_path :: "string option"
  ch_dtype :: ble_datatype
  ch_resource_id :: u16
  ch_proxy :: "proxy option"
  ch_value :: bytes
  ch_value_size :: nat
  ch_value_length :: nat

record ble_gatt_service =
  sv_dbus_path :: "string option"
  sv_chars :: "ble_gatt_char list"
  sv_uuid :: string

record translation_context =
  tc_object_id :: u16
  tc_object_instance_id :: u16
  tc_resource_id :: u16
  tc_characteristic_extra_flags :: u32
  tc_ch_idx :: nat
  tc_sv_idx :: nat

record ble_device =
  d_ptr :: nat
  d_last_connected_timestamp_secs :: u64
  d_flags :: int
  d_device_id :: string
  d_proxy :: "proxy option"
  d_services :: "ble_gatt_service list"
  d_bt_addr :: string
  d_dbus_path :: string
  d_json_list :: "string option"
  d_device_type :: ble_device_type
  d_translations :: "translation_context list"
  d_retry_timer_source :: int
  d_connection_retries :: int
  d_services_resolved :: bool

record ble_world = ext +
  devices :: "ble_device list"
  next_ptr :: nat
  g_connection_id :: conn
  unregistering_devices :: bool
  global_keep_running :: bool
  cfg_postfix :: string
  cfg_adapter :: string
  cfg_bluez_hci_path :: string
  cfg_white_list :: "(string \<times> bool) list option"
  cfg_service_based_discovery :: bool
  idle_queue :: "idle_task list"
  timers :: "(int \<times> nat) list"
  g_source_id_1 :: int
  loop_quit :: bool

section \<open>Access through a pointer\<close>

definition update_device :: "nat \<Rightarrow> (ble_device \<Rightarrow> ble_device) \<Rightarrow> 'a ble_world_scheme \<Rightarrow> 'a ble_world_scheme" where
  "update_device p f w = w\<lparr>devices := map (\<lambda>d. if d_ptr d = p then f d else d) (devices w)\<rparr>"

fun device_at :: "nat \<Rightarrow> ble_device list \<Rightarrow> ble_device option" where
  "device_at p [] = None"
| "device_at p (d # ds) = (if d_ptr d = p then Some d else device_at p ds)"

section \<open>GLib's main loop\<close>

definition g_idle_add :: "idle_task \<Rightarrow> 'a ble_world_scheme \<Rightarrow> 'a ble_world_scheme" where
  "g_idle_add t w = call (Sys (GIdleAdd t)) (w\<lparr>idle_queue := idle_queue w @ [t]\<rparr>)"

definition g_source_remove :: "int \<Rightarrow> 'a ble_world_scheme \<Rightarrow> 'a ble_world_scheme" where
  "g_source_remove s w =
     call (Sys (GSourceRemove s)) (w\<lparr>timers := filter (\<lambda>t. fst t \<noteq> s) (timers w)\<rparr>)"

definition g_main_loop_quit :: "'a ble_world_scheme \<Rightarrow> 'a ble_world_scheme" where
  "g_main_loop_quit w = call (Sys GMainLoopQuit) (w\<lparr>loop_quit := True\<rparr>)"

text \<open>\<open>g_timeout_add_full\<close> for the device \<open>p\<close>: GLib answers the identifier of the new source.\<close>

definition g_timeout_add :: "env \<Rightarrow> nat \<Rightarrow> nat \<Rightarrow> 'a ble_world_scheme \<Rightarrow> int \<times> 'a ble_world_scheme" where
  "g_timeout_add E ms p w =
     (let (s, w) = ask_int E (Sys (GTimeoutAdd ms)) w in (s, w\<lparr>timers := timers w @ [(s, p)]\<rparr>))"

section \<open>Flags\<close>

definition device_is_connected :: "ble_device \<Rightarrow> bool" where
  "device_is_connected ble \<longleftrightarrow> d_flags ble AND BLE_DEVICE_FLAG_CONNECTED \<noteq> 0"

definition device_set_connected :: "ble_device \<Rightarrow> bool \<Rightarrow> ble_device" where
  "device_set_connected ble is_connected =
     (if is_connected then ble\<lparr>d_flags := d_flags ble OR BLE_DEVICE_FLAG_CONNECTED\<rparr>
      else ble\<lparr>d_flags := d_flags ble AND NOT BLE_DEVICE_FLAG_CONNECTED\<rparr>)"

definition device_is_registered :: "ble_device \<Rightarrow> bool" where
  "device_is_registered ble \<longleftrightarrow> d_flags ble AND BLE_DEVICE_FLAG_REGISTERED \<noteq> 0"

definition device_set_registered :: "ble_device \<Rightarrow> bool \<Rightarrow> ble_device" where
  "device_set_registered ble is_registered =
     (if is_registered then ble\<lparr>d_flags := d_flags ble OR BLE_DEVICE_FLAG_REGISTERED\<rparr>
      else ble\<lparr>d_flags := d_flags ble AND NOT BLE_DEVICE_FLAG_REGISTERED\<rparr>)"

section \<open>The device list\<close>

fun devices_find_device_by_dbus_path :: "string \<Rightarrow> ble_device list \<Rightarrow> ble_device option" where
  "devices_find_device_by_dbus_path dbus_path [] = None"
| "devices_find_device_by_dbus_path dbus_path (dev # ds) =
     (if d_dbus_path dev = dbus_path then Some dev else devices_find_device_by_dbus_path dbus_path ds)"

fun devices_find_device_by_device_id :: "string \<Rightarrow> ble_device list \<Rightarrow> ble_device option" where
  "devices_find_device_by_device_id device_id [] = None"
| "devices_find_device_by_device_id device_id (dev # ds) =
     (if d_device_id dev = device_id then Some dev else devices_find_device_by_device_id device_id ds)"

definition devices_make_device_id :: "nat \<Rightarrow> string \<Rightarrow> string \<Rightarrow> string \<Rightarrow> string" where
  "devices_make_device_id out_size prefix ble_id postfix =
     snprintf_buf out_size (prefix @ ''-'' @ ble_id @ ''-'' @ postfix)"

definition device_stop_retry_timer :: "nat \<Rightarrow> 'a ble_world_scheme \<Rightarrow> 'a ble_world_scheme" where
  "device_stop_retry_timer p w =
     (case device_at p (devices w) of
        None \<Rightarrow> w
      | Some ble \<Rightarrow>
          if d_retry_timer_source ble \<noteq> 0
          then update_device p (\<lambda>d. d\<lparr>d_retry_timer_source := 0\<rparr>) (g_source_remove (d_retry_timer_source ble) w)
          else w)"

text \<open>
  \<open>device_free\<close> runs on a device already taken out of the list, so the timer it stops is
  read from the device; the rest of it releases memory.
\<close>

definition device_free :: "ble_device \<Rightarrow> 'a ble_world_scheme \<Rightarrow> 'a ble_world_scheme" where
  "device_free ble w =
     (if d_retry_timer_source ble \<noteq> 0 then g_source_remove (d_retry_timer_source ble) w else w)"

definition devices_del_device :: "nat \<Rightarrow> 'a ble_world_scheme \<Rightarrow> 'a ble_world_scheme" where
  "devices_del_device p w =
     (case device_at p (devices w) of
        None \<Rightarrow> w
      | Some ble \<Rightarrow>
          device_free ble (w\<lparr>devices := filter (\<lambda>d. d_ptr d \<noteq> p) (devices w)\<rparr>))"

definition devices_link_device :: "ble_device \<Rightarrow> string \<Rightarrow> 'a ble_world_scheme \<Rightarrow> 'a ble_world_scheme" where
  "devices_link_device entry device_id w =
     w\<lparr>devices := devices w @ [entry\<lparr>d_device_id := device_id\<rparr>]\<rparr>"

definition devices_init :: "'a ble_world_scheme \<Rightarrow> 'a ble_world_scheme" where
  "devices_init w = w\<lparr>devices := []\<rparr>"

section \<open>Time\<close>

definition seconds_since_epoch :: "env \<Rightarrow> 'a ext_scheme \<Rightarrow> u64 \<times> 'a ext_scheme" where
  "seconds_since_epoch E w = (let (s, w) = ask_int E (Sys Gettimeofday) w in (word_of_int s, w))"

definition devices_duration_in_sec_since_last_connection ::
  "env \<Rightarrow> ble_device \<Rightarrow> 'a ext_scheme \<Rightarrow> u64 \<times> 'a ext_scheme" where
  "devices_duration_in_sec_since_last_connection E ble w =
     (let (s, w) = seconds_since_epoch E w in (s - d_last_connected_timestamp_secs ble, w))"

definition device_update_last_connected_timestamp ::
  "env \<Rightarrow> nat \<Rightarrow> 'a ble_world_scheme \<Rightarrow> 'a ble_world_scheme" where
  "device_update_last_connected_timestamp E p w =
     (let (s, w) = seconds_since_epoch E w
      in update_device p (\<lambda>d. d\<lparr>d_last_connected_timestamp_secs := s\<rparr>) w)"

text \<open>
  A new device: zeroed memory at a fresh address, the Bluetooth address copied into 21
  bytes, and the current time. It is in the list only once it is linked.
\<close>

definition device_create :: "env \<Rightarrow> string \<Rightarrow> 'a ble_world_scheme \<Rightarrow> ble_device \<times> 'a ble_world_scheme" where
  "device_create E addr w =
     (let p = next_ptr w; w = w\<lparr>next_ptr := Suc p\<rparr>; (s, w) = seconds_since_epoch E w
      in (\<lparr>d_ptr = p, d_last_connected_timestamp_secs = s, d_flags = 0, d_device_id = [],
           d_proxy = None, d_services = [], d_bt_addr = take 21 addr, d_dbus_path = [],
           d_json_list = None, d_device_type = BLE_DEVICE_UNKNOWN, d_translations = [],
           d_retry_timer_source = 0, d_connection_retries = 0, d_services_resolved = False\<rparr>, w))"

section \<open>GATT tables\<close>

text \<open>The fake-device branches of \<open>map_uuid_to_datatype\<close> are compiled out; the resource
  identifier is left as it is.\<close>

definition map_uuid_to_datatype :: "string \<Rightarrow> ble_datatype \<times> nat" where
  "map_uuid_to_datatype uuid =
     (if uuid = ''0000ed01-0000-1000-8000-00805f9b34fb'' then (BLE_INTEGER, 4)
      else if uuid = ''0000ed02-0000-1000-8000-00805f9b34fb'' then (BLE_STRING, 32)
      else (BLE_STRUCT, 512))"

text \<open>The search loop of \<open>get_service\<close>: the index of the first service with the UUID.\<close>

fun service_index :: "string \<Rightarrow> ble_gatt_service list \<Rightarrow> nat option" where
  "service_index uuid [] = None"
| "service_index uuid (s # ss) =
     (if strncmp_eq (FORMATTED_UUID_LEN + 1) (sv_uuid s) uuid then Some 0
      else map_option Suc (service_index uuid ss))"

definition get_service :: "string \<Rightarrow> ble_gatt_service list \<Rightarrow> nat \<times> ble_gatt_service list" where
  "get_service uuid services =
     (case service_index uuid services of
        Some svc \<Rightarrow> (svc, services)
      | None \<Rightarrow>
          (length services,
           services @ [\<lparr>sv_dbus_path = None, sv_chars = [], sv_uuid = take FORMATTED_UUID_LEN uuid\<rparr>]))"

definition set_service_path :: "ble_gatt_service \<Rightarrow> string \<Rightarrow> ble_gatt_service" where
  "set_service_path srvc srvc_dbus_path =
     (if sv_dbus_path srvc = None then srvc\<lparr>sv_dbus_path := Some srvc_dbus_path\<rparr> else srvc)"

definition add_char_to_service ::
  "ble_gatt_service \<Rightarrow> string \<Rightarrow> string option \<Rightarrow> int \<Rightarrow> ble_datatype \<Rightarrow> nat \<Rightarrow> u16 \<Rightarrow> proxy option \<Rightarrow>
   ble_gatt_service" where
  "add_char_to_service srvc uuid dbus_path properties dtype dsize resource_id proxy =
     (let ch = length (sv_chars srvc)
      in srvc\<lparr>sv_chars := sv_chars srvc @
           [\<lparr>ch_properties = properties, ch_uuid = take (FORMATTED_UUID_LEN + 1) uuid,
             ch_dbus_path = dbus_path, ch_dtype = dtype,
             ch_resource_id = (if resource_id \<noteq> 0 then resource_id else of_nat ch),
             ch_proxy = proxy, ch_value = replicate dsize 0, ch_value_size = dsize,
             ch_value_length = 0\<rparr>]\<rparr>)"

definition device_add_gatt_characteristic ::
  "ble_device \<Rightarrow> string \<Rightarrow> string \<Rightarrow> string \<Rightarrow> string option \<Rightarrow> int \<Rightarrow> proxy option \<Rightarrow> ble_device" where
  "device_add_gatt_characteristic ble srvc_uuid srvc_dbus_path char_uuid char_dbus_path char_properties proxy =
     (case get_service srvc_uuid (d_services ble) of (svc, services) \<Rightarrow>
      case map_uuid_to_datatype char_uuid of (dtype, dsize) \<Rightarrow>
        let srvc = set_service_path (services ! svc) srvc_dbus_path
        in ble\<lparr>d_services := services[svc :=
             add_char_to_service srvc char_uuid char_dbus_path char_properties dtype dsize 0 proxy]\<rparr>)"

section \<open>Interfaces\<close>

text \<open>A flag with its getter and setter, and two flags kept in one word.\<close>

locale flag_field =
  fixes get :: "'s \<Rightarrow> bool" and put :: "'s \<Rightarrow> bool \<Rightarrow> 's"
  assumes get_put: "get (put s b) = b"
    and put_put: "put (put s b) c = put s c"
    and put_get: "put s (get s) = s"
begin

lemma put_same: "get s = b \<Longrightarrow> put s b = s"
  using put_get by blast

lemma put_twice: "put (put s b) b = put s b"
  by (simp add: put_put)

end

locale two_flags = A: flag_field get1 put1 + B: flag_field get2 put2
  for get1 :: "'s \<Rightarrow> bool" and put1 :: "'s \<Rightarrow> bool \<Rightarrow> 's"
    and get2 :: "'s \<Rightarrow> bool" and put2 :: "'s \<Rightarrow> bool \<Rightarrow> 's" +
  assumes get1_put2: "get1 (put2 s b) = get1 s"
    and get2_put1: "get2 (put1 s b) = get2 s"
    and put_commute: "put1 (put2 s b) c = put2 (put1 s c) b"
begin

lemma get_put_both: "get1 (put1 (put2 s b) c) = c" "get2 (put1 (put2 s b) c) = b"
  by (simp_all add: A.get_put B.get_put get2_put1)

end

definition with_bit :: "int \<Rightarrow> int \<Rightarrow> bool \<Rightarrow> int" where
  "with_bit m f b = (if b then f OR m else f AND NOT m)"

lemma bit_2_int: "bit (2 :: int) n \<longleftrightarrow> n = Suc 0"
  using bit_exp_iff [of 1 n, where 'a = int] by auto

lemma flag_bit: "(f :: int) AND 1 \<noteq> 0 \<longleftrightarrow> bit f 0" "(f :: int) AND 2 \<noteq> 0 \<longleftrightarrow> bit f (Suc 0)"
  using and_exp_eq_0_iff_not_bit [of f 0] and_exp_eq_0_iff_not_bit [of f 1] by simp_all

lemma with_bit_same: "with_bit m (with_bit m f b) c = with_bit m f c"
  by (rule bit_eqI) (auto simp: with_bit_def bit_or_iff bit_and_iff bit_not_iff)

lemma with_bit_commute: "with_bit 1 (with_bit 2 f b) c = with_bit 2 (with_bit 1 f c) b"
  unfolding with_bit_def
  by (rule bit_eqI; simp only: bit_or_iff bit_and_iff bit_not_iff bit_2_int bit_1_iff split: if_split; blast)

lemma bit_with_bit:
  "bit (with_bit 1 f b) 0 = b" "bit (with_bit 2 f b) (Suc 0) = b"
  "bit (with_bit 1 f b) (Suc 0) = bit f (Suc 0)" "bit (with_bit 2 f b) 0 = bit f 0"
  unfolding with_bit_def
  by (simp_all only: bit_or_iff bit_and_iff bit_not_iff bit_2_int bit_1_iff split: if_split) auto

lemma with_bit_bit: "with_bit 1 f (bit f 0) = f" "with_bit 2 f (bit f (Suc 0)) = f"
  by (rule bit_eqI; simp only: with_bit_def bit_or_iff bit_and_iff bit_not_iff bit_2_int bit_1_iff
        split: if_split; metis)+

lemma device_set_with_bit:
  "device_set_connected ble b = ble\<lparr>d_flags := with_bit 2 (d_flags ble) b\<rparr>"
  "device_set_registered ble b = ble\<lparr>d_flags := with_bit 1 (d_flags ble) b\<rparr>"
  by (simp_all only: device_set_connected_def device_set_registered_def with_bit_def split: if_split) simp_all

lemma device_is_bit:
  "device_is_connected ble = bit (d_flags ble) (Suc 0)" "device_is_registered ble = bit (d_flags ble) 0"
  by (simp_all only: device_is_connected_def device_is_registered_def flag_bit)

lemmas flag_simps = device_set_with_bit device_is_bit

interpretation flags: two_flags device_is_registered device_set_registered
  device_is_connected device_set_connected
  by unfold_locales (simp_all add: flag_simps with_bit_same with_bit_commute bit_with_bit with_bit_bit)

interpretation by_id: field_list "\<lambda>k d. d_device_id d = k" devices_find_device_by_device_id d_device_id
  by unfold_locales auto

interpretation by_path: field_list "\<lambda>k d. d_dbus_path d = k" devices_find_device_by_dbus_path d_dbus_path
  by unfold_locales auto

interpretation by_ptr: field_list "\<lambda>k d. d_ptr d = k" device_at d_ptr
  by unfold_locales auto

section \<open>The GATT tables stay well formed\<close>

definition char_ok :: "nat \<Rightarrow> ble_gatt_char \<Rightarrow> bool" where
  "char_ok i c \<longleftrightarrow>
     ch_resource_id c = of_nat i \<and> length (ch_value c) = ch_value_size c \<and> 0 < ch_value_size c"

definition service_ok :: "ble_gatt_service \<Rightarrow> bool" where
  "service_ok s \<longleftrightarrow>
     length (sv_uuid s) \<le> FORMATTED_UUID_LEN \<and> (\<forall>i<length (sv_chars s). char_ok i (sv_chars s ! i))"

definition services_ok :: "ble_gatt_service list \<Rightarrow> bool" where
  "services_ok ss \<longleftrightarrow> distinct (map sv_uuid ss) \<and> (\<forall>s\<in>set ss. service_ok s)"

lemma service_index_Some:
  "service_index uuid ss = Some i \<Longrightarrow> length uuid \<le> FORMATTED_UUID_LEN \<Longrightarrow>
   i < length ss \<and> sv_uuid (ss ! i) = uuid"
proof (induction ss arbitrary: i)
  case Nil
  then show ?case by simp
next
  case (Cons s ss)
  have e: "strncmp_eq 37 (sv_uuid s) uuid \<longleftrightarrow> sv_uuid s = uuid"
    using Cons.prems(2) strncmp_eq_short [of uuid 37 "sv_uuid s"]
    by (auto simp: strncmp_eq_def)
  from Cons show ?case by (auto simp: e split: if_splits)
qed

lemma service_index_None:
  "service_index uuid ss = None \<Longrightarrow> \<forall>s\<in>set ss. sv_uuid s \<noteq> uuid"
  by (induction ss) (auto split: if_splits)

lemma services_ok_update:
  assumes "services_ok ss" and "i < length ss" and "sv_uuid s = sv_uuid (ss ! i)" and "service_ok s"
  shows "services_ok (ss[i := s])"
proof -
  have "map sv_uuid (ss[i := s]) = map sv_uuid ss"
    using assms(2,3) by (simp add: map_update) (metis list_update_id nth_map)
  with assms show ?thesis
    by (auto simp: services_ok_def dest: set_update_subset_insert [THEN subsetD])
qed

lemma add_char_uuid [simp]: "sv_uuid (add_char_to_service s u p f t n r px) = sv_uuid s"
  by (simp add: add_char_to_service_def Let_def)

lemma add_char_ok:
  assumes "service_ok s" and "0 < n"
  shows "service_ok (add_char_to_service s uuid path props ty n 0 px)"
  using assms
  by (auto simp: service_ok_def add_char_to_service_def Let_def nth_append char_ok_def less_Suc_eq)

lemma get_service_ok:
  assumes "services_ok ss" and "length uuid \<le> FORMATTED_UUID_LEN"
    and "get_service uuid ss = (i, ss')"
  shows "services_ok ss' \<and> i < length ss' \<and> sv_uuid (ss' ! i) = uuid \<and>
    set ss \<subseteq> set ss'"
proof (cases "service_index uuid ss")
  case (Some j)
  with assms service_index_Some [OF Some assms(2)] show ?thesis
    by (simp add: get_service_def)
next
  case None
  let ?s = "\<lparr>sv_dbus_path = None, sv_chars = [], sv_uuid = uuid\<rparr>"
  have e: "i = length ss" "ss' = ss @ [?s]"
    using assms(2,3) None by (auto simp: get_service_def)
  have "services_ok ss'"
    using assms(1,2) service_index_None [OF None] by (auto simp: e services_ok_def service_ok_def)
  then show ?thesis by (simp add: e subset_insertI)
qed

lemma map_uuid_to_datatype_pos: "map_uuid_to_datatype u = (t, n) \<Longrightarrow> 0 < n"
  unfolding map_uuid_to_datatype_def
  by (simp only: split: if_split_asm) (simp_all only: prod.inject, linarith+)

lemma set_service_path_simps [simp]:
  "sv_uuid (set_service_path s p) = sv_uuid s" "sv_chars (set_service_path s p) = sv_chars s"
  by (simp_all add: set_service_path_def)

lemma set_service_path_ok: "service_ok s \<Longrightarrow> service_ok (set_service_path s p)"
  by (simp add: service_ok_def)

lemma add_gatt_characteristic_services:
  assumes "get_service su (d_services ble) = (i, ss)" and "map_uuid_to_datatype cu = (t, n)"
  shows "d_services (device_add_gatt_characteristic ble su sp cu cp props px) =
    ss[i := add_char_to_service (set_service_path (ss ! i) sp) cu cp props t n 0 px]"
  by (simp add: device_add_gatt_characteristic_def assms Let_def)

lemma add_gatt_characteristic_ok:
  assumes "services_ok (d_services ble)" and "length su \<le> FORMATTED_UUID_LEN"
  shows "services_ok (d_services (device_add_gatt_characteristic ble su sp cu cp props px))"
proof -
  obtain i ss where g: "get_service su (d_services ble) = (i, ss)" by fastforce
  note ok = get_service_ok [OF assms g]
  obtain t n where t: "map_uuid_to_datatype cu = (t, n)" by fastforce
  let ?s = "add_char_to_service (set_service_path (ss ! i) sp) cu cp props t n 0 px"
  have "service_ok (ss ! i)" using ok by (auto simp: services_ok_def)
  then have "service_ok ?s"
    using map_uuid_to_datatype_pos [OF t] by (intro add_char_ok set_service_path_ok)
  with ok have "services_ok (ss[i := ?s])"
    by (intro services_ok_update) auto
  then show ?thesis by (simp add: add_gatt_characteristic_services [OF g t])
qed

end
