(* ===== verification/Descriptors.thy ===== *)
theory Descriptors
  imports Devices
begin

text \<open>
  The translation tables and their lookups: the descriptor types of
  \<^verbatim>\<open>blept-example/pt_ble_translations.h\<close>, the tables of
  \<^verbatim>\<open>pt_ble_supported_translations.c\<close> and the functions of \<^verbatim>\<open>pt_ble_translations.c\<close>
  that search them and keep a device's list of translation contexts. A function
  pointer of a descriptor is a constructor that names the function, NULL one of its own.
\<close>

section \<open>Descriptor types\<close>

text \<open>\<open>value_format_t\<close>, an enumeration stored in eight bits.\<close>

abbreviation (input) VALUE_FORMAT_RESERVED1 :: nat where "VALUE_FORMAT_RESERVED1 \<equiv> 0"
abbreviation (input) VALUE_FORMAT_BOOLEAN :: nat where "VALUE_FORMAT_BOOLEAN \<equiv> 1"
abbreviation (input) VALUE_FORMAT_UINT2 :: nat where "VALUE_FORMAT_UINT2 \<equiv> 2"
abbreviation (input) VALUE_FORMAT_UINT4 :: nat where "VALUE_FORMAT_UINT4 \<equiv> 3"
abbreviation (input) VALUE_FORMAT_UINT8 :: nat where "VALUE_FORMAT_UINT8 \<equiv> 4"
abbreviation (input) VALUE_FORMAT_UINT12 :: nat where "VALUE_FORMAT_UINT12 \<equiv> 5"
abbreviation (input) VALUE_FORMAT_UINT16 :: nat where "VALUE_FORMAT_UINT16 \<equiv> 6"
abbreviation (input) VALUE_FORMAT_UINT24 :: nat where "VALUE_FORMAT_UINT24 \<equiv> 7"
abbreviation (input) VALUE_FORMAT_UINT32 :: nat where "VALUE_FORMAT_UINT32 \<equiv> 8"
abbreviation (input) VALUE_FORMAT_INT8 :: nat where "VALUE_FORMAT_INT8 \<equiv> 12"
abbreviation (input) VALUE_FORMAT_INT12 :: nat where "VALUE_FORMAT_INT12 \<equiv> 13"
abbreviation (input) VALUE_FORMAT_INT16 :: nat where "VALUE_FORMAT_INT16 \<equiv> 14"
abbreviation (input) VALUE_FORMAT_INT24 :: nat where "VALUE_FORMAT_INT24 \<equiv> 15"
abbreviation (input) VALUE_FORMAT_INT32 :: nat where "VALUE_FORMAT_INT32 \<equiv> 16"
abbreviation (input) VALUE_FORMAT_FLOAT32_IEEE754 :: nat where "VALUE_FORMAT_FLOAT32_IEEE754 \<equiv> 20"

datatype service_construct_cb = no_service_construct | construct_dis_service_cb

datatype characteristic_construct_cb =
    no_characteristic_construct
  | construct_temperature_cb
  | construct_humidity_cb
  | construct_barometer_cb
  | construct_automation_io_cb

datatype value_decode_cb = no_value_decode | decode_format_descriptor_cb | decode_2bit_bitfield_cb

datatype value_encode_cb = no_value_encode | encode_2bit_bitfield_cb

record ble_characteristic =
  bc_uuid :: string
  characteristic_construct :: characteristic_construct_cb
  characteristic_value_decode :: value_decode_cb
  characteristic_value_encode :: value_encode_cb
  vf_format :: nat
  vf_exponent :: int

record ble_service =
  bs_uuid :: string
  service_construct :: service_construct_cb
  characteristics :: "ble_characteristic list"

section \<open>Tables\<close>

definition environment_sensing_characteristics :: "ble_characteristic list" where
  "environment_sensing_characteristics =
     [\<lparr>bc_uuid = ''00002A6E-0000-1000-8000-00805F9B34FB'',
       characteristic_construct = construct_temperature_cb,
       characteristic_value_decode = decode_format_descriptor_cb,
       characteristic_value_encode = no_value_encode,
       vf_format = VALUE_FORMAT_INT16, vf_exponent = -2\<rparr>,
      \<lparr>bc_uuid = ''00002A6F-0000-1000-8000-00805F9B34FB'',
       characteristic_construct = construct_humidity_cb,
       characteristic_value_decode = decode_format_descriptor_cb,
       characteristic_value_encode = no_value_encode,
       vf_format = VALUE_FORMAT_UINT16, vf_exponent = -2\<rparr>,
      \<lparr>bc_uuid = ''00002A6D-0000-1000-8000-00805F9B34FB'',
       characteristic_construct = construct_barometer_cb,
       characteristic_value_decode = decode_format_descriptor_cb,
       characteristic_value_encode = no_value_encode,
       vf_format = VALUE_FORMAT_UINT32, vf_exponent = -1\<rparr>]"

definition automation_io_characteristics :: "ble_characteristic list" where
  "automation_io_characteristics =
     [\<lparr>bc_uuid = ''00002A56-0000-1000-8000-00805F9B34FB'',
       characteristic_construct = construct_automation_io_cb,
       characteristic_value_decode = decode_2bit_bitfield_cb,
       characteristic_value_encode = encode_2bit_bitfield_cb,
       vf_format = 0, vf_exponent = 0\<rparr>]"

definition ble_services :: "ble_service list" where
  "ble_services =
     [\<lparr>bs_uuid = ''0000181A-0000-1000-8000-00805F9B34FB'',
       service_construct = no_service_construct, characteristics = environment_sensing_characteristics\<rparr>,
      \<lparr>bs_uuid = ''00001815-0000-1000-8000-00805F9B34FB'',
       service_construct = no_service_construct, characteristics = automation_io_characteristics\<rparr>,
      \<lparr>bs_uuid = ''0000180A-0000-1000-8000-00805F9B34FB'',
       service_construct = construct_dis_service_cb, characteristics = []\<rparr>,
      \<lparr>bs_uuid = ''0000A000-0000-1000-8000-00805F9B34FB'',
       service_construct = no_service_construct, characteristics = []\<rparr>,
      \<lparr>bs_uuid = ''0000ED00-0000-1000-8000-00805F9B34FB'',
       service_construct = no_service_construct, characteristics = []\<rparr>,
      \<lparr>bs_uuid = ''0000F000-0000-1000-8000-00805F9B34FB'',
       service_construct = no_service_construct, characteristics = []\<rparr>]"

section \<open>Lookups\<close>

fun find_service :: "string \<Rightarrow> ble_service list \<Rightarrow> ble_service option" where
  "find_service service_uuid [] = None"
| "find_service service_uuid (s # ss) =
     (if strncasecmp_eq FORMATTED_UUID_LEN (bs_uuid s) service_uuid then Some s
      else find_service service_uuid ss)"

definition ble_services_get_service_descriptor :: "string \<Rightarrow> ble_service option" where
  "ble_services_get_service_descriptor service_uuid = find_service service_uuid ble_services"

fun find_characteristic :: "string \<Rightarrow> ble_characteristic list \<Rightarrow> ble_characteristic option" where
  "find_characteristic characteristic_uuid [] = None"
| "find_characteristic characteristic_uuid (c # cs) =
     (if strncasecmp_eq FORMATTED_UUID_LEN (bc_uuid c) characteristic_uuid then Some c
      else find_characteristic characteristic_uuid cs)"

definition ble_services_get_characteristic_descriptor ::
  "ble_service \<Rightarrow> string \<Rightarrow> ble_characteristic option" where
  "ble_services_get_characteristic_descriptor service characteristic_uuid =
     find_characteristic characteristic_uuid (characteristics service)"

definition ble_services_get_characteristic_descriptor_by_uuids ::
  "string option \<Rightarrow> string option \<Rightarrow> ble_characteristic option" where
  "ble_services_get_characteristic_descriptor_by_uuids service_uuid characteristic_uuid =
     (case (service_uuid, characteristic_uuid) of
        (Some su, Some cu) \<Rightarrow>
          (case ble_services_get_service_descriptor su of
             None \<Rightarrow> None
           | Some service \<Rightarrow> ble_services_get_characteristic_descriptor service cu)
      | _ \<Rightarrow> None)"

definition ble_services_is_supported_service :: "string \<Rightarrow> bool" where
  "ble_services_is_supported_service service_uuid \<longleftrightarrow>
     ble_services_get_service_descriptor service_uuid \<noteq> None"

definition ble_services_is_supported_characteristic :: "string \<Rightarrow> string \<Rightarrow> bool" where
  "ble_services_is_supported_characteristic service_uuid characteristic_uuid \<longleftrightarrow>
     ble_services_get_characteristic_descriptor_by_uuids (Some service_uuid) (Some characteristic_uuid) \<noteq> None"

definition ble_services_get_service_uuid_filter :: "string list" where
  "ble_services_get_service_uuid_filter = map bs_uuid ble_services"

section \<open>Translation contexts\<close>

fun find_context :: "u16 \<times> u16 \<times> u16 \<Rightarrow> translation_context list \<Rightarrow> translation_context option" where
  "find_context k [] = None"
| "find_context k (ctx # cs) =
     (case k of (object_id, instance_id, resource_id) \<Rightarrow>
        if tc_object_id ctx = object_id \<and> tc_object_instance_id ctx = instance_id \<and>
           tc_resource_id ctx = resource_id then Some ctx
        else find_context k cs)"

definition ble_services_find_translation_context ::
  "ble_device \<Rightarrow> u16 \<Rightarrow> u16 \<Rightarrow> u16 \<Rightarrow> translation_context option" where
  "ble_services_find_translation_context device object_id instance_id resource_id =
     find_context (object_id, instance_id, resource_id) (d_translations device)"

definition ble_services_free_translation_contexts :: "ble_device \<Rightarrow> ble_device" where
  "ble_services_free_translation_contexts device = device\<lparr>d_translations := []\<rparr>"

text \<open>A failed \<open>calloc\<close> leaves the list as it was, and the caller is not told.\<close>

definition ble_services_configure_translation_context ::
  "env \<Rightarrow> ble_device \<Rightarrow> nat \<Rightarrow> nat \<Rightarrow> u16 \<Rightarrow> u16 \<Rightarrow> u16 \<Rightarrow> u32 \<Rightarrow> 'a ext_scheme \<Rightarrow>
   ble_device \<times> 'a ext_scheme" where
  "ble_services_configure_translation_context E device sv_idx ch_idx object_id instance_id resource_id flags w =
     (let (tc, w) = malloc E 40 w in
      if \<not> tc then (device, w) else
      (device\<lparr>d_translations := d_translations device @
         [\<lparr>tc_object_id = object_id, tc_object_instance_id = instance_id, tc_resource_id = resource_id,
           tc_characteristic_extra_flags = flags, tc_ch_idx = ch_idx, tc_sv_idx = sv_idx\<rparr>]\<rparr>, w))"

section \<open>The lookups are first-match searches\<close>

interpretation services: keyed_list "\<lambda>u s. strncasecmp_eq FORMATTED_UUID_LEN (bs_uuid s) u" find_service
  by unfold_locales auto

interpretation chars: keyed_list "\<lambda>u c. strncasecmp_eq FORMATTED_UUID_LEN (bc_uuid c) u" find_characteristic
  by unfold_locales auto

interpretation contexts: field_list
  "\<lambda>k ctx. (tc_object_id ctx, tc_object_instance_id ctx, tc_resource_id ctx) = k" find_context
  "\<lambda>ctx. (tc_object_id ctx, tc_object_instance_id ctx, tc_resource_id ctx)"
  by unfold_locales (auto split: prod.splits)

lemma find_service_cong:
  "strncasecmp_eq FORMATTED_UUID_LEN u v \<Longrightarrow> find_service u ss = find_service v ss"
  by (induction ss) (auto simp: strncasecmp_eq_def)

lemma find_characteristic_cong:
  "strncasecmp_eq FORMATTED_UUID_LEN u v \<Longrightarrow> find_characteristic u cs = find_characteristic v cs"
  by (induction cs) (auto simp: strncasecmp_eq_def)

lemma to_lower_idem [simp]: "to_lower (to_lower c) = to_lower c"
proof -
  have "of_char (char_of n :: char) = (n :: nat)" if "n < 256" for n
    using that by (simp add: of_char_of)
  then show ?thesis by (auto simp: to_lower_def Let_def)
qed

lemma lower_case_same: "strncasecmp_eq n (map to_lower u) u"
  by (simp add: strncasecmp_eq_def take_map comp_def)

text \<open>The table has no service twice and no characteristic twice in a service.\<close>

lemma ble_services_distinct:
  "distinct (map (map to_lower \<circ> bs_uuid) ble_services)"
  "\<forall>s\<in>set ble_services. distinct (map (map to_lower \<circ> bc_uuid) (characteristics s))"
  by code_simp+

lemma ble_services_uuid_length:
  "\<forall>s\<in>set ble_services. length (bs_uuid s) = FORMATTED_UUID_LEN \<and>
     (\<forall>c\<in>set (characteristics s). length (bc_uuid c) = FORMATTED_UUID_LEN)"
  by (simp add: ble_services_def environment_sensing_characteristics_def
        automation_io_characteristics_def)

end
