(* ===== verification/Bus_Access.thy ===== *)
theory Bus_Access
  imports Descriptors
begin

text \<open>
  The part of \<^verbatim>\<open>blept-example/pt_ble.c\<close> that talks to BlueZ over D-Bus: proxies,
  properties, reading and writing characteristics, and the strings of D-Bus paths and
  flags. A failed call answers an error code; the code can be 0 (the value of
  \<open>G_DBUS_ERROR_FAILED\<close> and \<open>G_IO_ERROR_FAILED\<close>).
\<close>

definition ADAPTER_IFACE :: string where "ADAPTER_IFACE = ''org.bluez.Adapter1''"
definition DEVICE_IFACE :: string where "DEVICE_IFACE = ''org.bluez.Device1''"
definition GATT_SERVICE_IFACE :: string where "GATT_SERVICE_IFACE = ''org.bluez.GattService1''"
definition GATT_CHARACTERISTIC_IFACE :: string where
  "GATT_CHARACTERISTIC_IFACE = ''org.bluez.GattCharacteristic1''"
definition DBUS_PROPERTIES_IFACE :: string where
  "DBUS_PROPERTIES_IFACE = ''org.freedesktop.DBus.Properties''"

abbreviation (input) BLE_DEVICE_ADDRESS_SIZE :: nat where "BLE_DEVICE_ADDRESS_SIZE \<equiv> 18"
abbreviation (input) BLE_DEVICE_NAME_MAX_LENGTH :: nat where "BLE_DEVICE_NAME_MAX_LENGTH \<equiv> 33"

section \<open>Proxies and properties\<close>

text \<open>\<open>g_dbus_proxy_new_sync\<close>: a proxy, or an error code.\<close>

definition g_dbus_proxy_new :: "env \<Rightarrow> string \<Rightarrow> string \<Rightarrow> 'a ext_scheme \<Rightarrow> (int + proxy) \<times> 'a ext_scheme" where
  "g_dbus_proxy_new E path iface w =
     (let e = Bus (ProxyNew path iface); n = env_int E (trace w) e
      in ((if env_ok E (trace w) e then Inr (Proxy path iface n) else Inl n), call e w))"

text \<open>A cached boolean property: absent is false, another type fails the assertion.\<close>

definition cached_boolean :: "env \<Rightarrow> proxy \<Rightarrow> string \<Rightarrow> 'a ext_scheme \<Rightarrow> (bool \<times> 'a ext_scheme) option" where
  "cached_boolean E proxy name w =
     (let (v, w) = ask_variant E (Bus (CachedProperty proxy name)) w
      in case v of
           None \<Rightarrow> Some (False, w)
         | Some (GBoolean b) \<Rightarrow> Some (b, w)
         | Some _ \<Rightarrow> None)"

definition ble_device_is_connected :: "env \<Rightarrow> proxy \<Rightarrow> 'a ext_scheme \<Rightarrow> (bool \<times> 'a ext_scheme) option" where
  "ble_device_is_connected E proxy w = cached_boolean E proxy ''Connected'' w"

definition ble_services_are_resolved :: "env \<Rightarrow> proxy \<Rightarrow> 'a ext_scheme \<Rightarrow> (bool \<times> 'a ext_scheme) option" where
  "ble_services_are_resolved E proxy w = cached_boolean E proxy ''ServicesResolved'' w"

definition ble_get_property ::
  "env \<Rightarrow> string \<Rightarrow> string \<Rightarrow> string \<Rightarrow> 'a ext_scheme \<Rightarrow> gvariant option \<times> 'a ext_scheme" where
  "ble_get_property E dbus_path dbus_interface property_name w =
     (let (proxy, w) = g_dbus_proxy_new E dbus_path DBUS_PROPERTIES_IFACE w
      in case proxy of
           Inl _ \<Rightarrow> (None, w)
         | Inr _ \<Rightarrow> ask_variant E (Bus (GetProperty dbus_path dbus_interface property_name)) w)"

definition ble_set_property ::
  "env \<Rightarrow> string \<Rightarrow> string \<Rightarrow> string \<Rightarrow> bool \<Rightarrow> 'a ext_scheme \<Rightarrow> bool \<times> 'a ext_scheme" where
  "ble_set_property E dbus_path dbus_interface property_name value w =
     (let (proxy, w) = g_dbus_proxy_new E dbus_path DBUS_PROPERTIES_IFACE w
      in case proxy of
           Inl _ \<Rightarrow> (False, w)
         | Inr _ \<Rightarrow> ask_ok E (Bus (SetProperty dbus_path dbus_interface property_name value)) w)"

definition ble_is_device_interface_proxy :: "proxy \<Rightarrow> bool" where
  "ble_is_device_interface_proxy proxy \<longleftrightarrow> px_iface proxy = DEVICE_IFACE"

text \<open>Reading the address as a string when it has another type passes NULL to \<open>strncpy\<close>.\<close>

definition ble_device_proxy_get_address ::
  "env \<Rightarrow> nat \<Rightarrow> proxy \<Rightarrow> 'a ext_scheme \<Rightarrow> (string option \<times> 'a ext_scheme) option" where
  "ble_device_proxy_get_address E buf_size proxy w =
     (let (v, w) = ask_variant E (Bus (CachedProperty proxy ''Address'')) w
      in case v of
           None \<Rightarrow> Some (None, w)
         | Some (GString bt_address) \<Rightarrow> Some (Some (take (buf_size - 1) bt_address), w)
         | Some _ \<Rightarrow> None)"

definition ble_find_device_from_address :: "string \<Rightarrow> 'a ble_world_scheme \<Rightarrow> ble_device option" where
  "ble_find_device_from_address bt_address w =
     devices_find_device_by_device_id
       (devices_make_device_id BLE_DEVICE_NAME_MAX_LENGTH ''BLE'' bt_address (cfg_postfix w)) (devices w)"

definition ble_find_device_from_proxy ::
  "env \<Rightarrow> proxy \<Rightarrow> 'a ble_world_scheme \<Rightarrow> (ble_device option \<times> 'a ble_world_scheme) option" where
  "ble_find_device_from_proxy E proxy w =
     (if \<not> ble_is_device_interface_proxy proxy then Some (None, w)
      else case ble_device_proxy_get_address E BLE_DEVICE_ADDRESS_SIZE proxy w of
             None \<Rightarrow> None
           | Some (None, w) \<Rightarrow> Some (None, w)
           | Some (Some bt_address, w) \<Rightarrow> Some (ble_find_device_from_address bt_address w, w))"

definition ble_adapter_is_powered :: "env \<Rightarrow> 'a ble_world_scheme \<Rightarrow> bool \<times> 'a ble_world_scheme" where
  "ble_adapter_is_powered E w =
     (let (prop, w) = ble_get_property E (cfg_bluez_hci_path w) ADAPTER_IFACE ''Powered'' w
      in case prop of Some (GBoolean powered) \<Rightarrow> (powered, w) | _ \<Rightarrow> (False, w))"

definition ble_adapter_set_powered :: "env \<Rightarrow> bool \<Rightarrow> 'a ble_world_scheme \<Rightarrow> bool \<times> 'a ble_world_scheme" where
  "ble_adapter_set_powered E powered w =
     ble_set_property E (cfg_bluez_hci_path w) ADAPTER_IFACE ''Powered'' powered w"

section \<open>Paths and flags\<close>

text \<open>
  The 17 characters after \<open>dev_\<close> (padded with NULs by \<open>strncpy\<close>) with colons put in; the
  C string ends at the first NUL. Without \<open>dev_\<close> in the path the buffer is not written.
\<close>

definition get_device_address_from_characteristic_path :: "string \<Rightarrow> string option" where
  "get_device_address_from_characteristic_path path =
     (case strstr path ''dev_'' of
        None \<Rightarrow> None
      | Some dev \<Rightarrow>
          let b = take 17 (drop 4 dev @ replicate 17 (CHR 0x00));
              b = b[2 := CHR '':'', 5 := CHR '':'', 8 := CHR '':'', 11 := CHR '':'', 14 := CHR '':'']
          in Some (takeWhile (\<lambda>c. c \<noteq> CHR 0x00) b))"

definition translate_ble_flags :: "string \<Rightarrow> int" where
  "translate_ble_flags flags_str =
     (let flags = 0;
          flags = (if strstr flags_str ''read'' \<noteq> None then flags OR BLE_GATT_PROP_PERM_READ else flags);
          flags = (if strstr flags_str ''write'' \<noteq> None then flags OR BLE_GATT_PROP_PERM_WRITE else flags)
      in if strstr flags_str ''notify'' \<noteq> None then flags OR BLE_GATT_PROP_PERM_NOTIFY else flags)"

definition object_on_adapter :: "string \<Rightarrow> string \<Rightarrow> bool" where
  "object_on_adapter objpath adapter =
     (let adapter_path = snprintf_buf 32 (''/org/bluez/'' @ adapter @ ''/'')
      in strncmp_eq (length adapter_path) objpath adapter_path)"

section \<open>Reading and writing values\<close>

text \<open>
  The loop of \<open>parse_result_variant\<close>: the index is incremented before the iterator says
  that the array has ended.
\<close>

fun parse_result_loop :: "bytes \<Rightarrow> bytes \<Rightarrow> nat \<Rightarrow> nat \<Rightarrow> bytes \<times> nat" where
  "parse_result_loop [] data maxsize datasize =
     (data, if datasize < maxsize then Suc datasize else datasize)"
| "parse_result_loop (v # vs) data maxsize datasize =
     (if datasize < maxsize then parse_result_loop vs (data[datasize := v]) maxsize (Suc datasize)
      else (data, datasize))"

definition parse_result_variant :: "bytes \<Rightarrow> bytes \<Rightarrow> nat \<Rightarrow> bytes \<times> nat" where
  "parse_result_variant ret data buf_size = parse_result_loop ret data buf_size 0"

definition ble_read_characteristic ::
  "env \<Rightarrow> string option \<Rightarrow> bytes \<Rightarrow> nat \<Rightarrow> 'a ext_scheme \<Rightarrow> (int \<times> bytes \<times> nat) \<times> 'a ext_scheme" where
  "ble_read_characteristic E characteristic_path data buf_size w =
     (case characteristic_path of
        None \<Rightarrow> ((-1, data, buf_size), w)
      | Some path \<Rightarrow>
          let (charProxy, w) = g_dbus_proxy_new E path GATT_CHARACTERISTIC_IFACE w
          in case charProxy of
               Inl rc \<Rightarrow> ((rc, data, buf_size), w)
             | Inr _ \<Rightarrow>
                 let e = Bus (ReadValue path)
                 in case env_data E (trace w) e of
                      None \<Rightarrow> ((env_int E (trace w) e, data, buf_size), call e w)
                    | Some ret \<Rightarrow> ((0, parse_result_variant ret data buf_size), call e w))"

definition ble_read_characteristic_async ::
  "env \<Rightarrow> string option \<Rightarrow> string \<Rightarrow> nat \<Rightarrow> nat \<Rightarrow> 'a ext_scheme \<Rightarrow> int \<times> 'a ext_scheme" where
  "ble_read_characteristic_async E characteristic_path device_id srvc ch w =
     (case characteristic_path of
        None \<Rightarrow> (-1, w)
      | Some path \<Rightarrow>
          let (charProxy, w) = g_dbus_proxy_new E path GATT_CHARACTERISTIC_IFACE w
          in case charProxy of
               Inl rc \<Rightarrow> (rc, w)
             | Inr _ \<Rightarrow> (0, call (Bus (ReadValueAsync path device_id srvc ch)) w))"

text \<open>A NULL path makes GLib return NULL without an error, and its error is dereferenced.\<close>

definition ble_write_characteristic ::
  "env \<Rightarrow> string option \<Rightarrow> bytes \<Rightarrow> 'a ext_scheme \<Rightarrow> (int \<times> 'a ext_scheme) option" where
  "ble_write_characteristic E characteristic_path data w =
     (case characteristic_path of
        None \<Rightarrow> None
      | Some path \<Rightarrow>
          let (charProxy, w) = g_dbus_proxy_new E path GATT_CHARACTERISTIC_IFACE w
          in case charProxy of
               Inl rc \<Rightarrow> Some (rc, w)
             | Inr _ \<Rightarrow>
                 let e = Bus (WriteValue path data)
                 in Some (if env_ok E (trace w) e then 0 else env_int E (trace w) e, call e w))"

section \<open>These only call out\<close>

lemma g_dbus_proxy_new_calls_only [frame]: "calls_only w (snd (g_dbus_proxy_new E p i w))"
  by (simp add: g_dbus_proxy_new_def Let_def)

lemma cached_boolean_calls_only [frame]: "cached_boolean E px n w = Some (b, w') \<Longrightarrow> calls_only w w'"
  by (auto simp: cached_boolean_def ask_defs split: option.splits gvariant.splits)

lemma ble_device_is_connected_calls_only [frame]:
  "ble_device_is_connected E px w = Some (b, w') \<Longrightarrow> calls_only w w'"
  by (simp add: ble_device_is_connected_def cached_boolean_calls_only)

lemma ble_services_are_resolved_calls_only [frame]:
  "ble_services_are_resolved E px w = Some (b, w') \<Longrightarrow> calls_only w w'"
  by (simp add: ble_services_are_resolved_def cached_boolean_calls_only)

lemma ble_get_property_calls_only [frame]: "calls_only w (snd (ble_get_property E p i n w))"
  by (simp add: ble_get_property_def g_dbus_proxy_new_def ask_defs Let_def split: sum.split)

lemma ble_set_property_calls_only [frame]: "calls_only w (snd (ble_set_property E p i n b w))"
  by (simp add: ble_set_property_def g_dbus_proxy_new_def ask_defs Let_def split: sum.split)

lemma proxy_get_address_calls_only [frame]:
  "ble_device_proxy_get_address E n px w = Some (a, w') \<Longrightarrow> calls_only w w'"
  by (auto simp: ble_device_proxy_get_address_def ask_defs split: option.splits gvariant.splits)

lemma find_device_from_proxy_calls_only [frame]:
  "ble_find_device_from_proxy E px w = Some (d, w') \<Longrightarrow> calls_only w w'"
  by (auto simp: ble_find_device_from_proxy_def split: if_splits option.splits
        dest: proxy_get_address_calls_only)

lemma ble_read_characteristic_calls_only [frame]:
  "calls_only w (snd (ble_read_characteristic E p d n w))"
  by (simp add: ble_read_characteristic_def g_dbus_proxy_new_def Let_def split: option.split sum.split)

lemma ble_read_async_calls_only [frame]:
  "calls_only w (snd (ble_read_characteristic_async E p d s c w))"
  by (simp add: ble_read_characteristic_async_def g_dbus_proxy_new_def Let_def
        split: option.split sum.split)

lemma ble_write_characteristic_calls_only [frame]:
  "ble_write_characteristic E p d w = Some (rc, w') \<Longrightarrow> calls_only w w'"
  by (auto simp: ble_write_characteristic_def g_dbus_proxy_new_def Let_def
        split: option.splits sum.splits if_splits)

end
