(* ===== verification/Edge_Api.thy ===== *)
theory Edge_Api
  imports Devices
begin

text \<open>
  The calls \<^verbatim>\<open>blept-example/pt_edge.c\<close> offers the other modules: creating, registering
  and unregistering a device in Edge Core and its resources. They ask the
  pt-client-2 library and change nothing of the translator's own state; the
  callbacks of the library are in the theory that models the event loop.
\<close>

abbreviation (input) LIFETIME :: nat where "LIFETIME \<equiv> 300"

definition edge_add_resource ::
  "env \<Rightarrow> string \<Rightarrow> u16 \<Rightarrow> u16 \<Rightarrow> u16 \<Rightarrow> lwm2m_type \<Rightarrow> operations \<Rightarrow> bytes \<Rightarrow> 'a ble_world_scheme \<Rightarrow>
   bool \<times> 'a ble_world_scheme" where
  "edge_add_resource E device_id object_id instance_id resource_id rtype ops value w =
     (let (buf, w) = malloc E (length value) w in
      if \<not> buf then (False, w) else
      let (status, w) = ask_status E (Pt (PtAddResourceCb (g_connection_id w) device_id object_id instance_id
                          resource_id rtype ops value cb_resource_callback_handler)) w
      in (status = PT_STATUS_SUCCESS, w))"

definition edge_set_resource_value ::
  "env \<Rightarrow> string \<Rightarrow> u16 \<Rightarrow> u16 \<Rightarrow> u16 \<Rightarrow> bytes \<Rightarrow> 'a ble_world_scheme \<Rightarrow> 'a ble_world_scheme" where
  "edge_set_resource_value E device_id object_id instance_id resource_id value w =
     (let (buf, w) = malloc E (length value) w in
      if buf then call (Pt (PtSetResourceValue (g_connection_id w) device_id object_id instance_id
                              resource_id value)) w
      else w)"

definition edge_write_values :: "string \<Rightarrow> 'a ble_world_scheme \<Rightarrow> 'a ble_world_scheme" where
  "edge_write_values device_id w = call (Pt (PtWriteValues (g_connection_id w) device_id)) w"

definition edge_create_device ::
  "env \<Rightarrow> string \<Rightarrow> string \<Rightarrow> string \<Rightarrow> string \<Rightarrow> string \<Rightarrow> nat \<Rightarrow> callback \<Rightarrow> 'a ble_world_scheme \<Rightarrow>
   bool \<times> 'a ble_world_scheme" where
  "edge_create_device E device_id manufacturer model_number serial_number device_type lifetime reboot_callback w =
     (let (status, w) = ask_status E (Pt (PtDeviceCreate (g_connection_id w) device_id lifetime QUEUE)) w in
      if status \<noteq> PT_STATUS_SUCCESS then (status = PT_STATUS_ITEM_EXISTS, w) else
      (True, call (Pt (PtInitializeDeviceObject (g_connection_id w) device_id
         \<lparr>dod_manufacturer = Some manufacturer, dod_model_number = Some model_number,
          dod_serial_number = Some serial_number, dod_firmware_version = Some ''N/A'',
          dod_hardware_version = Some ''N/A'', dod_software_version = Some ''N/A'',
          dod_device_type = Some device_type, dod_reboot_callback = reboot_callback\<rparr>)) w))"

definition edge_register_device :: "string \<Rightarrow> 'a ble_world_scheme \<Rightarrow> 'a ble_world_scheme" where
  "edge_register_device device_id w = call (Pt (PtDeviceRegister (g_connection_id w) device_id)) w"

definition edge_unregister_device ::
  "env \<Rightarrow> string \<Rightarrow> bool \<Rightarrow> 'a ble_world_scheme \<Rightarrow> bool \<times> 'a ble_world_scheme" where
  "edge_unregister_device E device_id remove_device_context w =
     (let (exists, w) = ask_ok E (Pt (PtDeviceExists (g_connection_id w) device_id)) w in
      if exists then
        let (status, w) = ask_status E (Pt (PtDeviceUnregister (g_connection_id w) device_id
                            remove_device_context)) w
        in (status = PT_STATUS_SUCCESS, w)
      else (False, w))"

definition edge_is_connected :: "env \<Rightarrow> 'a ble_world_scheme \<Rightarrow> bool" where
  "edge_is_connected E w \<longleftrightarrow> g_connection_id w \<noteq> PT_API_CONNECTION_ID_INVALID E"

definition edge_device_exists :: "env \<Rightarrow> string \<Rightarrow> 'a ble_world_scheme \<Rightarrow> bool \<times> 'a ble_world_scheme" where
  "edge_device_exists E device_id w = ask_ok E (Pt (PtDeviceExists (g_connection_id w) device_id)) w"

text \<open>\<^verbatim>\<open>devices.c\<close>: the functions that wrap these for a device.\<close>

definition devices_create_pt_device ::
  "env \<Rightarrow> string \<Rightarrow> string \<Rightarrow> string \<Rightarrow> string \<Rightarrow> string \<Rightarrow> 'a ble_world_scheme \<Rightarrow> bool \<times> 'a ble_world_scheme" where
  "devices_create_pt_device E device_id manufacturer model_number serial_number device_type w =
     edge_create_device E device_id manufacturer model_number serial_number device_type LIFETIME
       cb_devices_reboot_callback w"

definition devices_reboot_callback :: "pt_status" where
  "devices_reboot_callback = PT_STATUS_SUCCESS"

definition device_write_values_to_pt :: "ble_device \<Rightarrow> 'a ble_world_scheme \<Rightarrow> 'a ble_world_scheme" where
  "device_write_values_to_pt dev w = edge_write_values (d_device_id dev) w"

definition device_register_device :: "ble_device \<Rightarrow> 'a ble_world_scheme \<Rightarrow> 'a ble_world_scheme" where
  "device_register_device dev w =
     (if \<not> device_is_registered dev then edge_register_device (d_device_id dev) w else w)"

lemmas edge_defs =
  edge_add_resource_def edge_set_resource_value_def edge_write_values_def edge_create_device_def
  edge_register_device_def edge_unregister_device_def edge_device_exists_def
  devices_create_pt_device_def device_write_values_to_pt_def device_register_device_def

lemma edge_calls_only [frame]:
  "calls_only w (snd (edge_add_resource E d ob i r rt ops v w))"
  "calls_only w (edge_set_resource_value E d ob i r v w)"
  "calls_only w (edge_write_values d w)"
  "calls_only w (snd (edge_create_device E d m mn sn ty l cb w))"
  "calls_only w (edge_register_device d w)"
  "calls_only w (snd (edge_unregister_device E d b w))"
  "calls_only w (snd (edge_device_exists E d w))"
  "calls_only w (snd (devices_create_pt_device E d m mn sn ty w))"
  "calls_only w (device_write_values_to_pt dev w)"
  "calls_only w (device_register_device dev w)"
  by (simp_all add: edge_defs malloc_def ask_defs Let_def)

end
