(* ===== verification/Translations.thy ===== *)
theory Translations
  imports Bus_Access Edge_Api
begin

text \<open>
  The translation functions of \<^verbatim>\<open>blept-example/pt_ble_supported_translations.c\<close> and
  their callers in \<^verbatim>\<open>pt_ble_translations.c\<close>: constructing LwM2M objects for known
  services and characteristics, and decoding and encoding characteristic values. A
  function that changes the device's translation list takes the device and returns it
  changed. \<open>None\<close> is undefined behaviour or a failed assertion.
\<close>

text \<open>\<open>&device->attrs.services[sv_idx].chars[ch_idx]\<close> with its service; outside the arrays it is undefined.\<close>

definition gatt_char :: "ble_device \<Rightarrow> nat \<Rightarrow> nat \<Rightarrow> (ble_gatt_service \<times> ble_gatt_char) option" where
  "gatt_char device sv_idx ch_idx =
     (if sv_idx < length (d_services device) \<and> ch_idx < length (sv_chars (d_services device ! sv_idx))
      then Some (d_services device ! sv_idx, sv_chars (d_services device ! sv_idx) ! ch_idx) else None)"

section \<open>Construction\<close>

definition ble_services_construct_sensor ::
  "env \<Rightarrow> ble_device \<Rightarrow> nat \<Rightarrow> nat \<Rightarrow> u16 \<Rightarrow> string \<Rightarrow> string \<Rightarrow> 'a ble_world_scheme \<Rightarrow>
   bool \<times> ble_device \<times> 'a ble_world_scheme" where
  "ble_services_construct_sensor E device sv_idx ch_idx sensor_id sensor_units sensor_description w =
     (let c = g_connection_id w; d = d_device_id device;
          (instance_id, w) = ask_int E (Pt (PtNextFreeInstance c d sensor_id)) w in
      if instance_id < 0 \<or> 0xFFFF < instance_id then (False, device, w) else
      let i = word_of_int instance_id;
          w = ipso_create_sensor_object E c d sensor_id i (Some sensor_units) (Some sensor_description) w;
          w = ipso_add_min_max_fields E c d sensor_id i cb_ipso_reset_min_max_object w
      in (True, ble_services_configure_translation_context E device sv_idx ch_idx sensor_id i SENSOR_VALUE 0 w))"

definition ble_services_construct_temperature_characteristic ::
  "env \<Rightarrow> ble_device \<Rightarrow> nat \<Rightarrow> nat \<Rightarrow> 'a ble_world_scheme \<Rightarrow> bool \<times> ble_device \<times> 'a ble_world_scheme" where
  "ble_services_construct_temperature_characteristic E device sv_idx ch_idx =
     ble_services_construct_sensor E device sv_idx ch_idx TEMPERATURE_SENSOR ''Cel'' ''Ambient temperature''"

definition ble_services_construct_humidity_characteristic ::
  "env \<Rightarrow> ble_device \<Rightarrow> nat \<Rightarrow> nat \<Rightarrow> 'a ble_world_scheme \<Rightarrow> bool \<times> ble_device \<times> 'a ble_world_scheme" where
  "ble_services_construct_humidity_characteristic E device sv_idx ch_idx =
     ble_services_construct_sensor E device sv_idx ch_idx HUMIDITY_SENSOR ''RH%'' ''Relative humidity''"

definition ble_services_construct_barometer_characteristic ::
  "env \<Rightarrow> ble_device \<Rightarrow> nat \<Rightarrow> nat \<Rightarrow> 'a ble_world_scheme \<Rightarrow> bool \<times> ble_device \<times> 'a ble_world_scheme" where
  "ble_services_construct_barometer_characteristic E device sv_idx ch_idx =
     ble_services_construct_sensor E device sv_idx ch_idx BAROMETER_SENSOR ''Pa'' ''Atmospheric pressure''"

text \<open>The loop over the digital outputs (inputs) of an Automation IO characteristic.\<close>

fun construct_digitals ::
  "env \<Rightarrow> nat \<Rightarrow> nat \<Rightarrow> u16 \<Rightarrow> u16 \<Rightarrow> operations \<Rightarrow> u32 list \<Rightarrow> ble_device \<Rightarrow> 'a ble_world_scheme \<Rightarrow>
   bool \<times> ble_device \<times> 'a ble_world_scheme" where
  "construct_digitals E sv_idx ch_idx object_id resource_id ops [] device w = (True, device, w)"
| "construct_digitals E sv_idx ch_idx object_id resource_id ops (bitfield_offset # offsets) device w =
     (let (n, w) = ask_int E (Pt (PtNextFreeInstance (g_connection_id w) (d_device_id device) object_id)) w in
      if n < 0 \<or> 0xFFFF < n then (False, device, w) else
      let instance_id = word_of_int n;
          (ok, w) = edge_add_resource E (d_device_id device) object_id instance_id resource_id
                      LWM2M_BOOLEAN ops [0] w in
      if \<not> ok then (False, device, w) else
      let (device, w) = ble_services_configure_translation_context E device sv_idx ch_idx object_id
                          instance_id resource_id bitfield_offset w
      in construct_digitals E sv_idx ch_idx object_id resource_id ops offsets device w)"

definition ble_services_construct_lightcontrol_from_characteristic ::
  "env \<Rightarrow> ble_device \<Rightarrow> nat \<Rightarrow> nat \<Rightarrow> 'a ble_world_scheme \<Rightarrow> bool \<times> ble_device \<times> 'a ble_world_scheme" where
  "ble_services_construct_lightcontrol_from_characteristic E device sv_idx ch_idx w =
     construct_digitals E sv_idx ch_idx LIGHT_CONTROL ON_OFF_VALUE {OPERATION_READ, OPERATION_WRITE}
       [0, 1] device w"

definition ble_services_construct_pushbutton_from_characteristic ::
  "env \<Rightarrow> ble_device \<Rightarrow> nat \<Rightarrow> nat \<Rightarrow> 'a ble_world_scheme \<Rightarrow> bool \<times> ble_device \<times> 'a ble_world_scheme" where
  "ble_services_construct_pushbutton_from_characteristic E device sv_idx ch_idx w =
     construct_digitals E sv_idx ch_idx PUSH_BUTTON DIGITAL_INPUT_STATE {OPERATION_WRITE}
       [0, 1] device w"

definition ble_services_construct_automation_io_characteristic ::
  "env \<Rightarrow> ble_device \<Rightarrow> nat \<Rightarrow> nat \<Rightarrow> 'a ble_world_scheme \<Rightarrow>
   (bool \<times> ble_device \<times> 'a ble_world_scheme) option" where
  "ble_services_construct_automation_io_characteristic E device sv_idx ch_idx w =
     (case gatt_char device sv_idx ch_idx of
        None \<Rightarrow> None
      | Some (_, ch) \<Rightarrow>
          if ch_properties ch AND BLE_GATT_PROP_PERM_WRITE \<noteq> 0
          then Some (ble_services_construct_lightcontrol_from_characteristic E device sv_idx ch_idx w)
          else if ch_properties ch AND BLE_GATT_PROP_PERM_READ \<noteq> 0
          then Some (ble_services_construct_pushbutton_from_characteristic E device sv_idx ch_idx w)
          else Some (False, device, w))"

definition ble_services_reboot_callback :: "pt_status" where
  "ble_services_reboot_callback = PT_STATUS_SUCCESS"

text \<open>The function pointer \<open>characteristic_construct\<close> of a descriptor, called.\<close>

fun run_characteristic_construct ::
  "env \<Rightarrow> characteristic_construct_cb \<Rightarrow> ble_device \<Rightarrow> nat \<Rightarrow> nat \<Rightarrow> 'a ble_world_scheme \<Rightarrow>
   (bool \<times> ble_device \<times> 'a ble_world_scheme) option" where
  "run_characteristic_construct E construct_temperature_cb device sv ch w =
     Some (ble_services_construct_temperature_characteristic E device sv ch w)"
| "run_characteristic_construct E construct_humidity_cb device sv ch w =
     Some (ble_services_construct_humidity_characteristic E device sv ch w)"
| "run_characteristic_construct E construct_barometer_cb device sv ch w =
     Some (ble_services_construct_barometer_characteristic E device sv ch w)"
| "run_characteristic_construct E construct_automation_io_cb device sv ch w =
     ble_services_construct_automation_io_characteristic E device sv ch w"
| "run_characteristic_construct E no_characteristic_construct device sv ch w = None"

definition ble_services_construct_characteristic ::
  "env \<Rightarrow> ble_device \<Rightarrow> nat \<Rightarrow> nat \<Rightarrow> 'a ble_world_scheme \<Rightarrow> (ble_device \<times> 'a ble_world_scheme) option" where
  "ble_services_construct_characteristic E device sv_idx ch_idx w =
     (case gatt_char device sv_idx ch_idx of
        None \<Rightarrow> None
      | Some (service, characteristic) \<Rightarrow>
          case ble_services_get_service_descriptor (sv_uuid service) of
            None \<Rightarrow> Some (device, w)
          | Some service_descriptor \<Rightarrow>
              case ble_services_get_characteristic_descriptor service_descriptor (ch_uuid characteristic) of
                None \<Rightarrow> Some (device, w)
              | Some cd \<Rightarrow>
                  if characteristic_construct cd = no_characteristic_construct then Some (device, w)
                  else map_option snd (run_characteristic_construct E (characteristic_construct cd)
                                         device sv_idx ch_idx w))"

section \<open>Device Information Service\<close>

text \<open>
  The five buffers of 128 bytes are not initialised, and a value read into one is not
  terminated; a C string starts at the buffer and ends at its first NUL. Without one the
  reader runs past the buffer.
\<close>

definition c_string :: "bytes \<Rightarrow> string option" where
  "c_string b = (if 0 \<in> set b then Some (map (\<lambda>x. char_of (unat x)) (takeWhile (\<lambda>x. x \<noteq> 0) b)) else None)"

text \<open>The buffer a characteristic of the service is read into: manufacturer, model, serial, firmware, hardware.\<close>

definition dis_slot :: "string \<Rightarrow> nat option" where
  "dis_slot uuid =
     (if strcasecmp_eq uuid ''00002A29-0000-1000-8000-00805F9B34FB'' then Some 0
      else if strcasecmp_eq uuid ''00002A24-0000-1000-8000-00805F9B34FB'' then Some 1
      else if strcasecmp_eq uuid ''00002A25-0000-1000-8000-00805F9B34FB'' then Some 2
      else if strcasecmp_eq uuid ''00002A26-0000-1000-8000-00805F9B34FB'' then Some 3
      else if strcasecmp_eq uuid ''00002A27-0000-1000-8000-00805F9B34FB'' then Some 4
      else None)"

text \<open>The loop over the service's characteristics; a buffer is used once a read into it succeeded.\<close>

fun dis_loop ::
  "env \<Rightarrow> ble_gatt_char list \<Rightarrow> (bytes \<times> bool) list \<Rightarrow> 'a ext_scheme \<Rightarrow> (bytes \<times> bool) list \<times> 'a ext_scheme" where
  "dis_loop E [] bufs w = (bufs, w)"
| "dis_loop E (ch # chs) bufs w =
     (case (ch_dbus_path ch, dis_slot (ch_uuid ch)) of
        (Some path, Some k) \<Rightarrow>
          let ((rc, data, _), w) = ble_read_characteristic E (Some path) (fst (bufs ! k)) 128 w
          in dis_loop E chs (bufs[k := (data, rc = 0 \<or> snd (bufs ! k))]) w
      | _ \<Rightarrow> dis_loop E chs bufs w)"

definition dis_string :: "bytes \<times> bool \<Rightarrow> string option option" where
  "dis_string b = (if snd b then map_option Some (c_string (fst b)) else Some None)"

definition ble_services_construct_dis_service ::
  "env \<Rightarrow> ble_device \<Rightarrow> nat \<Rightarrow> 'a ble_world_scheme \<Rightarrow> (bool \<times> 'a ble_world_scheme) option" where
  "ble_services_construct_dis_service E device sv_idx w =
     (if \<not> sv_idx < length (d_services device) then None else
      let stack = uninit E 640 w;
          bufs = map (\<lambda>k. (take 128 (drop (128 * k) stack), False)) [0..<5];
          (bufs, w) = dis_loop E (sv_chars (d_services device ! sv_idx)) bufs w
      in do {
        manufacturer \<leftarrow> dis_string (bufs ! 0);
        model \<leftarrow> dis_string (bufs ! 1);
        serial \<leftarrow> dis_string (bufs ! 2);
        firmware \<leftarrow> dis_string (bufs ! 3);
        hardware \<leftarrow> dis_string (bufs ! 4);
        Some (True, call (Pt (PtInitializeDeviceObject (g_connection_id w) (d_device_id device)
          \<lparr>dod_manufacturer = manufacturer, dod_model_number = model, dod_serial_number = serial,
           dod_firmware_version = firmware, dod_hardware_version = hardware,
           dod_software_version = Some ''N/A'', dod_device_type = Some ''Bluetooth 4.0'',
           dod_reboot_callback = cb_ble_services_reboot_callback\<rparr>)) w)
      })"

definition ble_services_construct_service ::
  "env \<Rightarrow> ble_device \<Rightarrow> nat \<Rightarrow> 'a ble_world_scheme \<Rightarrow> 'a ble_world_scheme option" where
  "ble_services_construct_service E device sv_idx w =
     (if \<not> sv_idx < length (d_services device) then None else
      case ble_services_get_service_descriptor (sv_uuid (d_services device ! sv_idx)) of
        None \<Rightarrow> Some w
      | Some sd \<Rightarrow>
          (case service_construct sd of
             no_service_construct \<Rightarrow> Some w
           | construct_dis_service_cb \<Rightarrow>
               map_option snd (ble_services_construct_dis_service E device sv_idx w)))"

section \<open>Decoding\<close>

fun raw_value_loop :: "bytes \<Rightarrow> nat \<Rightarrow> u32 \<Rightarrow> u32" where
  "raw_value_loop [] i raw_value = raw_value"
| "raw_value_loop (b # bs) i raw_value =
     raw_value_loop bs (Suc i) (raw_value + push_bit (i * 8) (ucast b))"

text \<open>
  The integer branch: \<open>raw_value * pow(10, exponent)\<close> converted back to 32 bits is
  undefined when it does not fit. For the 16 and 32 bit formats \<open>*temp_buf\<close> is one byte
  of the allocated buffer; the others stay as they were allocated.
\<close>

definition decode_integer :: "env \<Rightarrow> nat \<Rightarrow> int \<Rightarrow> u32 \<Rightarrow> 'a ext_scheme \<Rightarrow> bytes option option" where
  "decode_integer E format exponent raw_value w =
     (if 2 ^ 32 \<le> uint raw_value * 10 ^ nat exponent then None else
      let raw_value = word_of_int (uint raw_value * 10 ^ nat exponent) :: u32
      in if format = VALUE_FORMAT_BOOLEAN then
           Some (Some [if raw_value AND 0xFF > 0 then 1 else 0])
         else if format \<in> {VALUE_FORMAT_UINT2, VALUE_FORMAT_UINT4, VALUE_FORMAT_UINT8, VALUE_FORMAT_INT8} then
           Some (Some [ucast (raw_value AND 0xFF)])
         else if format \<in> {VALUE_FORMAT_UINT12, VALUE_FORMAT_UINT16, VALUE_FORMAT_INT12, VALUE_FORMAT_INT16} then
           Some (Some ((uninit E 2 w)[0 := ucast (htonl (ucast (ucast raw_value :: u16)))]))
         else if format \<in> {VALUE_FORMAT_UINT24, VALUE_FORMAT_UINT32, VALUE_FORMAT_INT24, VALUE_FORMAT_INT32} then
           Some (Some ((uninit E 4 w)[0 := ucast (htonl raw_value)]))
         else Some None)"

definition ble_services_decode_value_with_format_descriptor ::
  "env \<Rightarrow> ble_device \<Rightarrow> translation_context \<Rightarrow> bytes \<Rightarrow> 'a ble_world_scheme \<Rightarrow>
   (bytes option \<times> 'a ble_world_scheme) option" where
  "ble_services_decode_value_with_format_descriptor E device ctx value w = do {
     (service, characteristic) \<leftarrow> gatt_char device (tc_sv_idx ctx) (tc_ch_idx ctx);
     char_descriptor \<leftarrow> ble_services_get_characteristic_descriptor_by_uuids
                          (Some (sv_uuid service)) (Some (ch_uuid characteristic));
     let format = vf_format char_descriptor; exponent = vf_exponent char_descriptor in
     if format = 0 then Some (None, w) else
     let raw_value = raw_value_loop (take 4 value) 0 0 in
     if exponent < 0 \<or> format = VALUE_FORMAT_FLOAT32_IEEE754 then do {
       let float_value = f32_scaled raw_value exponent;
       (_, w) \<leftarrow> ipso_update_min_max_fields E (g_connection_id w) (d_device_id device)
                  (tc_object_id ctx) (tc_object_instance_id ctx) float_value w;
       Some (Some (convert_float_value_to_network_byte_order float_value), w)
     } else do {
       out \<leftarrow> decode_integer E format exponent raw_value w;
       Some (out, w)
     }
   }"

definition ble_services_decode_2bit_bitfield_value ::
  "env \<Rightarrow> translation_context \<Rightarrow> bytes \<Rightarrow> 'a ext_scheme \<Rightarrow> (bytes option \<times> 'a ext_scheme) option" where
  "ble_services_decode_2bit_bitfield_value E ctx value w =
     (if value = [] then None else
      let raw_value = value ! 0; offset = tc_characteristic_extra_flags ctx in
      if 32 \<le> uint (offset * 2) then None else
      let raw_value = drop_bit (unat (offset * 2)) raw_value AND 0x03;
          (ok, w) = malloc E 1 w
      in Some (if ok then Some [raw_value] else None, w))"

text \<open>The function pointer \<open>characteristic_value_decode\<close> of a descriptor, called.\<close>

fun run_value_decode ::
  "env \<Rightarrow> value_decode_cb \<Rightarrow> ble_device \<Rightarrow> translation_context \<Rightarrow> bytes \<Rightarrow> 'a ble_world_scheme \<Rightarrow>
   (bytes option \<times> 'a ble_world_scheme) option" where
  "run_value_decode E decode_format_descriptor_cb device ctx value w =
     ble_services_decode_value_with_format_descriptor E device ctx value w"
| "run_value_decode E decode_2bit_bitfield_cb device ctx value w =
     ble_services_decode_2bit_bitfield_value E ctx value w"
| "run_value_decode E no_value_decode device ctx value w = None"

text \<open>The loop over the device's translation contexts.\<close>

fun decode_contexts ::
  "env \<Rightarrow> value_decode_cb \<Rightarrow> ble_device \<Rightarrow> nat \<Rightarrow> nat \<Rightarrow> bytes \<Rightarrow> translation_context list \<Rightarrow>
   'a ble_world_scheme \<Rightarrow> 'a ble_world_scheme option" where
  "decode_contexts E cb device sv_idx ch_idx value [] w = Some w"
| "decode_contexts E cb device sv_idx ch_idx value (ctx # ctxs) w =
     (if tc_sv_idx ctx = sv_idx \<and> tc_ch_idx ctx = ch_idx then
        (case run_value_decode E cb device ctx value w of
           None \<Rightarrow> None
         | Some (None, w) \<Rightarrow> decode_contexts E cb device sv_idx ch_idx value ctxs w
         | Some (Some decoded_value, w) \<Rightarrow>
             decode_contexts E cb device sv_idx ch_idx value ctxs
               (call (Pt (PtSetResourceValue (g_connection_id w) (d_device_id device) (tc_object_id ctx)
                  (tc_object_instance_id ctx) (tc_resource_id ctx) decoded_value)) w))
      else decode_contexts E cb device sv_idx ch_idx value ctxs w)"

definition ble_services_decode_and_write_characteristic_translation ::
  "env \<Rightarrow> ble_device \<Rightarrow> nat \<Rightarrow> nat \<Rightarrow> bytes \<Rightarrow> 'a ble_world_scheme \<Rightarrow> 'a ble_world_scheme option" where
  "ble_services_decode_and_write_characteristic_translation E ble_dev sv_idx ch_idx value w = do {
     (service, characteristic) \<leftarrow> gatt_char ble_dev sv_idx ch_idx;
     service_descriptor \<leftarrow> ble_services_get_service_descriptor (sv_uuid service);
     (case ble_services_get_characteristic_descriptor service_descriptor (ch_uuid characteristic) of
        None \<Rightarrow> Some w
      | Some char_descriptor \<Rightarrow>
          if characteristic_value_decode char_descriptor = no_value_decode then Some w
          else decode_contexts E (characteristic_value_decode char_descriptor) ble_dev sv_idx ch_idx value
                 (d_translations ble_dev) w)
   }"

section \<open>Encoding\<close>

text \<open>The two assignments to the byte: clear the field's bits, then set the lower one.\<close>

definition clear_field :: "nat \<Rightarrow> u8 \<Rightarrow> u8" where
  "clear_field bit_offset b = b AND NOT (push_bit bit_offset 3)"

definition set_active :: "nat \<Rightarrow> u8 \<Rightarrow> u8" where
  "set_active bit_offset b = b OR push_bit bit_offset 1"

definition ble_services_encode_2bit_bitfield_value ::
  "env \<Rightarrow> translation_context \<Rightarrow> bytes \<Rightarrow> bytes \<Rightarrow> 'a ext_scheme \<Rightarrow>
   (bytes option \<times> 'a ext_scheme) option" where
  "ble_services_encode_2bit_bitfield_value E ctx current_value new_value w =
     (let offset = unat (tc_characteristic_extra_flags ctx * 2);
          byte_offset = offset div 8;
          bit_offset = offset mod 8;
          out_size = byte_offset + 1 in
      if length current_value < out_size then Some (None, w) else
      let (ok, w) = malloc E out_size w in
      if \<not> ok then Some (None, w) else
      let buf = take out_size current_value;
          buf = buf[byte_offset := clear_field bit_offset (buf ! byte_offset)] in
      if new_value = [] then None else
      Some (Some (if new_value ! 0 \<noteq> 0
                  then buf[byte_offset := set_active bit_offset (buf ! byte_offset)]
                  else buf), w))"

definition ble_services_encode_characteristic_value ::
  "env \<Rightarrow> ble_device \<Rightarrow> translation_context \<Rightarrow> bytes \<Rightarrow> bytes \<Rightarrow> 'a ext_scheme \<Rightarrow>
   (bytes option \<times> 'a ext_scheme) option" where
  "ble_services_encode_characteristic_value E device ctx current_value new_value w = do {
     (service, characteristic) \<leftarrow> gatt_char device (tc_sv_idx ctx) (tc_ch_idx ctx);
     (case ble_services_get_characteristic_descriptor_by_uuids
             (Some (sv_uuid service)) (Some (ch_uuid characteristic)) of
        None \<Rightarrow> Some (None, w)
      | Some cd \<Rightarrow>
          (case characteristic_value_encode cd of
             no_value_encode \<Rightarrow> Some (None, w)
           | encode_2bit_bitfield_cb \<Rightarrow>
               ble_services_encode_2bit_bitfield_value E ctx current_value new_value w))
   }"

section \<open>Construction appends contexts of its own characteristic\<close>

definition extends_contexts :: "nat \<Rightarrow> nat \<Rightarrow> ble_device \<Rightarrow> ble_device \<Rightarrow> bool" where
  "extends_contexts sv ch dev dev' \<longleftrightarrow>
     (\<exists>new. dev' = dev\<lparr>d_translations := d_translations dev @ new\<rparr> \<and>
        (\<forall>ctx\<in>set new. tc_sv_idx ctx = sv \<and> tc_ch_idx ctx = ch \<and> tc_characteristic_extra_flags ctx < 2))"

lemma extends_contexts_refl [simp]: "extends_contexts sv ch dev dev"
  unfolding extends_contexts_def by (rule exI [of _ "[]"]) simp

lemma extends_contexts_trans:
  "extends_contexts sv ch d1 d2 \<Longrightarrow> extends_contexts sv ch d2 d3 \<Longrightarrow> extends_contexts sv ch d1 d3"
  unfolding extends_contexts_def
proof (elim exE conjE)
  fix n1 n2
  assume "d2 = d1\<lparr>d_translations := d_translations d1 @ n1\<rparr>"
    and "d3 = d2\<lparr>d_translations := d_translations d2 @ n2\<rparr>"
    and "\<forall>ctx\<in>set n1. tc_sv_idx ctx = sv \<and> tc_ch_idx ctx = ch \<and> tc_characteristic_extra_flags ctx < 2"
    and "\<forall>ctx\<in>set n2. tc_sv_idx ctx = sv \<and> tc_ch_idx ctx = ch \<and> tc_characteristic_extra_flags ctx < 2"
  then show "\<exists>new. d3 = d1\<lparr>d_translations := d_translations d1 @ new\<rparr> \<and>
      (\<forall>ctx\<in>set new. tc_sv_idx ctx = sv \<and> tc_ch_idx ctx = ch \<and> tc_characteristic_extra_flags ctx < 2)"
    by (intro exI [of _ "n1 @ n2"]) auto
qed

lemma extends_contexts_fields:
  "extends_contexts sv ch dev dev' \<Longrightarrow>
   d_services dev' = d_services dev \<and> d_device_id dev' = d_device_id dev \<and> d_ptr dev' = d_ptr dev"
  by (auto simp: extends_contexts_def)

lemma configure_extends:
  "ble_services_configure_translation_context E dev sv ch ob i r f w = (dev', w') \<Longrightarrow> f < 2 \<Longrightarrow>
   extends_contexts sv ch dev dev' \<and> calls_only w w'"
  by (cases "env_ok E (trace w) (Sys (Malloc 40))")
     (auto simp: ble_services_configure_translation_context_def malloc_def ask_defs Let_def,
      auto simp: extends_contexts_def)

lemma construct_sensor_extends:
  assumes "ble_services_construct_sensor E dev sv ch sid u t w = (ok, dev', w')"
  shows "extends_contexts sv ch dev dev' \<and> calls_only w w'"
proof -
  let ?c = "g_connection_id w" and ?d = "d_device_id dev"
  let ?e = "Pt (PtNextFreeInstance ?c ?d sid)"
  let ?i = "word_of_int (env_int E (trace w) ?e) :: u16"
  let ?w1 = "ipso_create_sensor_object E ?c ?d sid ?i (Some u) (Some t) (call ?e w)"
  let ?w2 = "ipso_add_min_max_fields E ?c ?d sid ?i cb_ipso_reset_min_max_object ?w1"
  obtain dev2 w2 where conf: "ble_services_configure_translation_context E dev sv ch sid ?i SENSOR_VALUE 0 ?w2 = (dev2, w2)"
    by fastforce
  have "calls_only w ?w2"
    by (rule calls_only_trans [OF _ ipso_create_calls_only(1)],
        rule calls_only_trans [OF _ ipso_create_calls_only(5)]) simp
  with configure_extends [OF conf] have "extends_contexts sv ch dev dev2 \<and> calls_only w w2"
    by (auto intro: calls_only_trans)
  with assms show ?thesis
    by (auto simp: ble_services_construct_sensor_def ask_int_def Let_def conf split: if_splits)
qed

lemma calls_only_snd: "calls_only w (snd x) \<Longrightarrow> x = (a, w') \<Longrightarrow> calls_only w w'"
  by simp

lemma construct_digitals_extends:
  "construct_digitals E sv ch ob r ops offs dev w = (ok, dev', w') \<Longrightarrow> \<forall>f\<in>set offs. f < 2 \<Longrightarrow>
   extends_contexts sv ch dev dev' \<and> calls_only w w'"
proof (induction offs arbitrary: dev w)
  case Nil
  then show ?case by simp
next
  case (Cons f offs)
  let ?e = "Pt (PtNextFreeInstance (g_connection_id w) (d_device_id dev) ob)"
  let ?i = "word_of_int (env_int E (trace w) ?e) :: u16"
  obtain b w1 where a: "edge_add_resource E (d_device_id dev) ob ?i r LWM2M_BOOLEAN ops [0] (call ?e w) = (b, w1)"
    by fastforce
  then have w1: "calls_only w w1"
    using calls_only_trans [OF calls_only_call edge_calls_only(1)] by (metis snd_conv)
  obtain dev2 w2 where c: "ble_services_configure_translation_context E dev sv ch ob ?i r f w1 = (dev2, w2)"
    by fastforce
  with configure_extends [OF c] Cons.prems(2)
  have c': "extends_contexts sv ch dev dev2" "calls_only w1 w2" by simp_all
  show ?case
  proof (cases "\<not> (env_int E (trace w) ?e < 0 \<or> 0xFFFF < env_int E (trace w) ?e) \<and> b")
    case True
    with Cons.prems(1) a c have "construct_digitals E sv ch ob r ops offs dev2 w2 = (ok, dev', w')"
      by (simp add: ask_int_def Let_def)
    from Cons.IH [OF this] Cons.prems(2) c' w1 show ?thesis
      by (auto intro: extends_contexts_trans calls_only_trans)
  next
    case False
    with Cons.prems(1) a w1 show ?thesis
      by (auto simp: ask_int_def Let_def split: if_splits)
  qed
qed

lemma construct_automation_extends:
  "ble_services_construct_automation_io_characteristic E dev sv ch w = Some (ok, dev', w') \<Longrightarrow>
   extends_contexts sv ch dev dev' \<and> calls_only w w'"
  by (auto simp del: construct_digitals.simps
        simp: ble_services_construct_automation_io_characteristic_def
        ble_services_construct_lightcontrol_from_characteristic_def
        ble_services_construct_pushbutton_from_characteristic_def
        split: option.splits if_splits dest!: construct_digitals_extends)

lemma run_characteristic_construct_extends:
  "run_characteristic_construct E cb dev sv ch w = Some (ok, dev', w') \<Longrightarrow>
   extends_contexts sv ch dev dev' \<and> calls_only w w'"
  by (cases cb)
     (auto simp: ble_services_construct_temperature_characteristic_def
        ble_services_construct_humidity_characteristic_def
        ble_services_construct_barometer_characteristic_def
        dest: construct_sensor_extends construct_automation_extends)

lemma construct_characteristic_extends:
  "ble_services_construct_characteristic E dev sv ch w = Some (dev', w') \<Longrightarrow>
   extends_contexts sv ch dev dev' \<and> calls_only w w'"
  by (auto simp: ble_services_construct_characteristic_def
        split: option.splits if_splits prod.splits dest: run_characteristic_construct_extends)

text \<open>A construct callback of the table never fails on an existing characteristic.\<close>

lemma construct_characteristic_defined:
  "gatt_char dev sv ch \<noteq> None \<Longrightarrow> ble_services_construct_characteristic E dev sv ch w \<noteq> None"
proof -
  assume g: "gatt_char dev sv ch \<noteq> None"
  then have "run_characteristic_construct E cb dev sv ch w \<noteq> None"
    if "cb \<noteq> no_characteristic_construct" for cb
    using that
    by (cases cb) (auto simp: ble_services_construct_automation_io_characteristic_def
          simp del: not_None_eq split: option.splits)
  with g show ?thesis
    by (auto simp: ble_services_construct_characteristic_def simp del: not_None_eq split: option.splits)
qed

lemma dis_loop_calls_only: "dis_loop E chs bufs w = (bufs', w') \<Longrightarrow> calls_only w w'"
proof (induction chs arbitrary: bufs w)
  case Nil
  then show ?case by simp
next
  case (Cons c chs)
  show ?case
  proof (cases "ch_dbus_path c = None \<or> dis_slot (ch_uuid c) = None")
    case True
    with Cons show ?thesis by (auto split: option.splits)
  next
    case False
    then obtain p k where pk: "ch_dbus_path c = Some p" "dis_slot (ch_uuid c) = Some k" by auto
    obtain rc data n w1 where r:
      "ble_read_characteristic E (Some p) (fst (bufs ! k)) 128 w = ((rc, data, n), w1)"
      by (metis prod.exhaust)
    then have "calls_only w w1"
      using ble_read_characteristic_calls_only by (metis snd_conv)
    moreover from Cons.prems have "calls_only w1 w'"
      by (auto simp: pk r intro: Cons.IH)
    ultimately show ?thesis by (rule calls_only_trans)
  qed
qed

lemma construct_service_calls_only:
  "ble_services_construct_service E dev sv w = Some w' \<Longrightarrow> calls_only w w'"
  by (auto simp: ble_services_construct_service_def ble_services_construct_dis_service_def Let_def
        split: if_splits option.splits service_construct_cb.splits prod.splits Option.bind_splits
        dest: dis_loop_calls_only)

section \<open>Decoding only sets resources\<close>

lemma decode_formatted_calls_only:
  "ble_services_decode_value_with_format_descriptor E dev ctx v w = Some (out, w') \<Longrightarrow> calls_only w w'"
  by (auto simp: ble_services_decode_value_with_format_descriptor_def Let_def
        split: if_splits prod.splits Option.bind_splits dest: ipso_update_calls_only)

lemma decode_2bit_calls_only:
  "ble_services_decode_2bit_bitfield_value E ctx v w = Some (out, w') \<Longrightarrow> calls_only w w'"
  by (auto simp: ble_services_decode_2bit_bitfield_value_def malloc_def ask_defs Let_def split: if_splits)

lemma run_value_decode_calls_only:
  "run_value_decode E cb dev ctx v w = Some (out, w') \<Longrightarrow> calls_only w w'"
  by (cases cb) (auto dest: decode_formatted_calls_only decode_2bit_calls_only)

lemma decode_contexts_calls_only:
  "decode_contexts E cb dev sv ch v ctxs w = Some w' \<Longrightarrow> calls_only w w'"
proof (induction ctxs arbitrary: w)
  case Nil
  then show ?case by simp
next
  case (Cons ctx ctxs)
  show ?case
  proof (cases "tc_sv_idx ctx = sv \<and> tc_ch_idx ctx = ch")
    case True
    with Cons.prems obtain out w1 where r: "run_value_decode E cb dev ctx v w = Some (out, w1)"
      by (auto split: option.splits)
    note w1 = run_value_decode_calls_only [OF r]
    show ?thesis
    proof (cases out)
      case None
      with True Cons.prems r have "decode_contexts E cb dev sv ch v ctxs w1 = Some w'" by simp
      from calls_only_trans [OF w1 Cons.IH [OF this]] show ?thesis .
    next
      case (Some d)
      let ?w2 = "call (Pt (PtSetResourceValue (g_connection_id w1) (d_device_id dev) (tc_object_id ctx)
                  (tc_object_instance_id ctx) (tc_resource_id ctx) d)) w1"
      from Some True Cons.prems r have "decode_contexts E cb dev sv ch v ctxs ?w2 = Some w'" by simp
      from calls_only_trans [OF calls_only_call' [OF w1] Cons.IH [OF this]] show ?thesis .
    qed
  next
    case False
    then show ?thesis using Cons by (auto split: if_splits)
  qed
qed

lemma decode_and_write_calls_only [frame]:
  "ble_services_decode_and_write_characteristic_translation E dev sv ch v w = Some w' \<Longrightarrow> calls_only w w'"
  by (auto simp: ble_services_decode_and_write_characteristic_translation_def
        split: Option.bind_splits prod.splits option.splits if_splits dest: decode_contexts_calls_only)

lemma encode_characteristic_calls_only [frame]:
  "ble_services_encode_characteristic_value E dev ctx c v w = Some (out, w') \<Longrightarrow> calls_only w w'"
  by (auto simp: ble_services_encode_characteristic_value_def ble_services_encode_2bit_bitfield_value_def
        malloc_def ask_defs Let_def
        split: Option.bind_splits prod.splits option.splits value_encode_cb.splits if_splits)
end
