(* ===== verification/Translation_Laws.thy ===== *)
theory Translation_Laws
  imports Translations Float_Accuracy
begin

text \<open>
  What the translations promise: which descriptor a UUID finds, how accurate a decoded
  sensor reading is, which bits of a light's characteristic an encoded value changes, and
  that decoding inverts encoding.
\<close>

section \<open>Descriptors\<close>

lemma descriptor_by_uuids:
  "ble_services_get_characteristic_descriptor_by_uuids (Some su) (Some cu) = Some cd \<longleftrightarrow>
   (\<exists>s. find_service su ble_services = Some s \<and> find_characteristic cu (characteristics s) = Some cd)"
  by (simp add: ble_services_get_characteristic_descriptor_by_uuids_def
        ble_services_get_service_descriptor_def ble_services_get_characteristic_descriptor_def
        split: option.split)

lemma descriptor_cases:
  "ble_services_get_characteristic_descriptor_by_uuids (Some su) (Some cu) = Some cd \<Longrightarrow>
   cd \<in> set environment_sensing_characteristics \<or> cd \<in> set automation_io_characteristics"
proof -
  assume "ble_services_get_characteristic_descriptor_by_uuids (Some su) (Some cu) = Some cd"
  then obtain s where "find_service su ble_services = Some s" "find_characteristic cu (characteristics s) = Some cd"
    by (auto simp: descriptor_by_uuids)
  then have "s \<in> set ble_services" "cd \<in> set (characteristics s)"
    by (auto dest: services.lookup_SomeD chars.lookup_SomeD)
  then show ?thesis by (auto simp: ble_services_def)
qed

lemma sensor_descriptor:
  "cd \<in> set environment_sensing_characteristics \<Longrightarrow>
   characteristic_value_decode cd = decode_format_descriptor_cb \<and>
   characteristic_value_encode cd = no_value_encode \<and> vf_format cd \<noteq> 0 \<and>
   (vf_exponent cd = -1 \<or> vf_exponent cd = -2)"
  by (auto simp: environment_sensing_characteristics_def)

lemma light_descriptor:
  "cd \<in> set automation_io_characteristics \<Longrightarrow>
   characteristic_value_decode cd = decode_2bit_bitfield_cb \<and>
   characteristic_value_encode cd = encode_2bit_bitfield_cb \<and> vf_format cd = 0"
  by (auto simp: automation_io_characteristics_def)

text \<open>A list without two entries that agree up to case: the search finds any entry by its UUID in any case.\<close>

lemma strncasecmp_full:
  "length s = n \<Longrightarrow> length t = n \<Longrightarrow> strncasecmp_eq n s t \<longleftrightarrow> map to_lower s = map to_lower t"
  by (simp add: strncasecmp_eq_def)

lemma find_service_entry:
  assumes "distinct (map (map to_lower \<circ> bs_uuid) ss)" and "\<forall>s\<in>set ss. length (bs_uuid s) = 36"
    and "s \<in> set ss" and "map to_lower u = map to_lower (bs_uuid s)"
  shows "find_service u ss = Some s"
proof -
  have l: "length u = 36" using assms(2,3,4) by (metis length_map)
  have "find_service u ss \<noteq> None"
    using assms(2-4) l by (auto simp: services.lookup_None_iff strncasecmp_full simp del: not_None_eq)
  then obtain t where t: "find_service u ss = Some t" by blast
  then have "t \<in> set ss" "map to_lower (bs_uuid t) = map to_lower u"
    using services.lookup_SomeD [OF t] assms(2) l by (auto simp: strncasecmp_full)
  with assms(1,3,4) have "t = s" by (auto simp: distinct_map inj_on_def)
  with t show ?thesis by simp
qed

lemma find_characteristic_entry:
  assumes "distinct (map (map to_lower \<circ> bc_uuid) cs)" and "\<forall>c\<in>set cs. length (bc_uuid c) = 36"
    and "c \<in> set cs" and "map to_lower u = map to_lower (bc_uuid c)"
  shows "find_characteristic u cs = Some c"
proof -
  have l: "length u = 36" using assms(2,3,4) by (metis length_map)
  have "find_characteristic u cs \<noteq> None"
    using assms(2-4) l by (auto simp: chars.lookup_None_iff strncasecmp_full simp del: not_None_eq)
  then obtain t where t: "find_characteristic u cs = Some t" by blast
  then have "t \<in> set cs" "map to_lower (bc_uuid t) = map to_lower u"
    using chars.lookup_SomeD [OF t] assms(2) l by (auto simp: strncasecmp_full)
  with assms(1,3,4) have "t = c" by (auto simp: distinct_map inj_on_def)
  with t show ?thesis by simp
qed

text \<open>
  A UUID finds a service of the table exactly when it is one of the table's UUIDs in some
  mixture of upper and lower case, and then it finds that very entry; in that service, a
  characteristic UUID in any case finds the characteristic with that UUID.
\<close>

theorem descriptor_lookup:
  assumes "length su = FORMATTED_UUID_LEN" and "length cu = FORMATTED_UUID_LEN"
  shows "(ble_services_is_supported_service su \<longleftrightarrow>
      (\<exists>s\<in>set ble_services. map to_lower su = map to_lower (bs_uuid s))) \<and>
    (ble_services_get_characteristic_descriptor_by_uuids (Some su) (Some cu) = Some c \<longleftrightarrow>
      (\<exists>s\<in>set ble_services. map to_lower su = map to_lower (bs_uuid s) \<and>
         c \<in> set (characteristics s) \<and> map to_lower cu = map to_lower (bc_uuid c)))"
proof (rule conjI)
  note len = ble_services_uuid_length
  have S: "find_service su ble_services = Some s \<longleftrightarrow>
      s \<in> set ble_services \<and> map to_lower su = map to_lower (bs_uuid s)" for s
    using find_service_entry [OF ble_services_distinct(1), of s su] services.lookup_SomeD [of su ble_services s]
      len assms(1) by (auto simp: strncasecmp_full)
  have C: "find_characteristic cu (characteristics s) = Some c \<longleftrightarrow>
      c \<in> set (characteristics s) \<and> map to_lower cu = map to_lower (bc_uuid c)" if "s \<in> set ble_services" for s
    using that find_characteristic_entry [of "characteristics s" c cu]
      chars.lookup_SomeD [of cu "characteristics s" c] len ble_services_distinct(2) assms(2)
    by (auto simp: strncasecmp_full)
  show "ble_services_is_supported_service su \<longleftrightarrow>
      (\<exists>s\<in>set ble_services. map to_lower su = map to_lower (bs_uuid s))"
    using S by (auto simp: ble_services_is_supported_service_def ble_services_get_service_descriptor_def)
  show "ble_services_get_characteristic_descriptor_by_uuids (Some su) (Some cu) = Some c \<longleftrightarrow>
      (\<exists>s\<in>set ble_services. map to_lower su = map to_lower (bs_uuid s) \<and>
         c \<in> set (characteristics s) \<and> map to_lower cu = map to_lower (bc_uuid c))"
    unfolding descriptor_by_uuids using S C by blast
qed

section \<open>Little-endian readings\<close>

fun le_value :: "bytes \<Rightarrow> int" where
  "le_value [] = 0"
| "le_value (b # bs) = uint b + 256 * le_value bs"

lemma le_value_bounds: "0 \<le> le_value bs \<and> le_value bs < 256 ^ length bs"
proof (induction bs)
  case Nil
  then show ?case by simp
next
  case (Cons b bs)
  have "0 \<le> uint b" "uint b < 256" using uint_lt2p [of b] by simp_all
  with Cons show ?case by simp
qed

lemma uint_of_small: "0 \<le> k \<Longrightarrow> k < 2 ^ 32 \<Longrightarrow> uint (word_of_int k :: u32) = k"
  by (simp add: uint_word_of_int)

lemma raw_value_loop_le:
  "length bs + i \<le> 4 \<Longrightarrow> uint acc < 256 ^ i \<Longrightarrow>
   uint (raw_value_loop bs i acc) = uint acc + 256 ^ i * le_value bs"
proof (induction bs i acc rule: raw_value_loop.induct)
  case (1 i acc)
  then show ?case by simp
next
  case (2 b bs i acc)
  have ub: "0 \<le> uint b" "uint b < 256" using uint_lt2p [of b] by simp_all
  have i: "i \<le> 3" using "2.prems"(1) by simp
  have "(256 :: int) ^ Suc i \<le> 256 ^ 4" using i by (intro power_increasing) simp_all
  then have p: "(256 :: int) ^ Suc i \<le> 2 ^ 32" by simp
  have "uint acc + 256 ^ i * uint b \<le> (256 ^ i - 1) + 256 ^ i * 255"
    using "2.prems"(2) ub by (intro add_mono mult_left_mono) auto
  then have s: "uint acc + 256 ^ i * uint b < 256 ^ Suc i" by simp
  have "uint (push_bit (i * 8) (ucast b :: u32)) = 256 ^ i * uint b"
  proof -
    have e: "push_bit (i * 8) (ucast b :: u32) = word_of_int (256 ^ i * uint b)"
      using power_mult [of "2 :: u32" 8 i] by (simp add: push_bit_eq_mult mult.commute)
    have "256 ^ i * uint b < 2 ^ 32" using s p uint_ge_0 [of acc] by linarith
    moreover have "0 \<le> 256 ^ i * uint b" using ub by simp
    ultimately show ?thesis unfolding e by (rule uint_of_small [rotated])
  qed
  then have "uint (acc + push_bit (i * 8) (ucast b)) = uint acc + 256 ^ i * uint b"
    using s p by (simp add: uint_word_ariths)
  with "2.IH" "2.prems"(1) s show ?case by (simp add: algebra_simps)
qed

lemma raw_value_le: "uint (raw_value_loop (take 4 bs) 0 0) = le_value (take 4 bs)"
  using raw_value_loop_le [of "take 4 bs" 0 0] by simp

section \<open>Sensor readings\<close>

text \<open>The library answers a float resource with the bytes of a float, at least.\<close>

definition stores_floats :: "env \<Rightarrow> bool" where
  "stores_floats E \<longleftrightarrow>
     (\<forall>es c d ob i r v. env_data E es (Pt (PtGetResourceValue c d ob i r)) = Some v \<longrightarrow> 4 \<le> length v)"

lemma u32_of_mem_defined: "4 \<le> length bs \<Longrightarrow> \<exists>v. u32_of_mem bs = Some v"
  by (cases bs rule: u32_of_mem.cases) auto

lemma host_order_defined: "4 \<le> length bs \<Longrightarrow> \<exists>v. convert_value_to_host_order_float bs = Some v"
  using u32_of_mem_defined [of bs] by (auto simp: convert_value_to_host_order_float_def)

lemma update_min_max_defined:
  assumes "stores_floats E"
  shows "\<exists>s w'. ipso_update_min_max_fields E c d ob i v w = Some (s, w')"
proof -
  let ?mn = "Pt (PtGetResourceValue c d ob i MIN_MEASURED_VALUE)"
  let ?mx = "Pt (PtGetResourceValue c d ob i MAX_MEASURED_VALUE)"
  have lo: "\<exists>f. convert_value_to_host_order_float b = Some f" if "env_data E (trace w) ?mn = Some b" for b
    using that assms host_order_defined unfolding stores_floats_def by blast
  have hi: "\<exists>f. convert_value_to_host_order_float b = Some f"
    if "env_data E (trace (call ?mn w)) ?mx = Some b" for b
    using that assms host_order_defined unfolding stores_floats_def by blast
  show ?thesis
    using lo hi
    by (auto simp: ipso_update_min_max_fields_def pt_device_get_resource_value_def Let_def
          split: prod.splits option.splits)
qed

lemma sensor_decode_accurate_lemma:
  assumes ch: "gatt_char dev (tc_sv_idx ctx) (tc_ch_idx ctx) = Some (s, c)"
    and cd: "ble_services_get_characteristic_descriptor_by_uuids (Some (sv_uuid s)) (Some (ch_uuid c)) = Some cd"
      "cd \<in> set environment_sensing_characteristics"
    and E: "stores_floats E"
  shows "\<exists>f w'. ble_services_decode_value_with_format_descriptor E dev ctx v w =
      Some (Some (convert_float_value_to_network_byte_order f), w') \<and>
    \<bar>f32_value f - of_int (le_value (take 4 v)) * 10 powi vf_exponent cd\<bar>
      \<le> of_int (le_value (take 4 v)) * 10 powi vf_exponent cd / 2 ^ 21"
proof -
  let ?raw = "raw_value_loop (take 4 v) 0 0" and ?k = "vf_exponent cd"
  note d = sensor_descriptor [OF cd(2)]
  then have neg: "?k < 0" by auto
  obtain st w' where u: "ipso_update_min_max_fields E (g_connection_id w) (d_device_id dev)
      (tc_object_id ctx) (tc_object_instance_id ctx) (f32_scaled ?raw ?k) w = Some (st, w')"
    using update_min_max_defined [OF E] by blast
  have "ble_services_decode_value_with_format_descriptor E dev ctx v w =
      Some (Some (convert_float_value_to_network_byte_order (f32_scaled ?raw ?k)), w')"
    using d neg by (simp add: ble_services_decode_value_with_format_descriptor_def ch cd(1) Let_def u)
  moreover have "?k = -2 \<and> (10 :: real) powi ?k = 1 / 100 \<or> ?k = -1 \<and> (10 :: real) powi ?k = 1 / 10"
    using d by (auto simp: power_int_def power_divide)
  then have "\<bar>f32_value (f32_scaled ?raw ?k) - of_int (uint ?raw) * 10 powi ?k\<bar>
      \<le> of_int (uint ?raw) * 10 powi ?k / 2 ^ 21"
    by (rule f32_scaled_value)
  ultimately show ?thesis by (auto simp: raw_value_le)
qed


definition sensor_env :: env where
  "sensor_env = storing_env\<lparr>env_data := \<lambda>_ _. Some [0x7F, 0x7F, 0xFF, 0xFF]\<rparr>"

lemma sensor_env_floats: "stores_floats sensor_env"
  by (simp add: stores_floats_def sensor_env_def)

definition example_char :: "string \<Rightarrow> int \<Rightarrow> bytes \<Rightarrow> ble_gatt_char" where
  "example_char uuid properties value =
     \<lparr>ch_properties = properties, ch_uuid = uuid, ch_dbus_path = Some ''/char'', ch_dtype = BLE_STRUCT,
      ch_resource_id = 0, ch_proxy = None, ch_value = value, ch_value_size = length value,
      ch_value_length = length value\<rparr>"

definition example_device :: "ble_gatt_service list \<Rightarrow> translation_context list \<Rightarrow> ble_device" where
  "example_device services translations =
     \<lparr>d_ptr = 1, d_last_connected_timestamp_secs = 0, d_flags = 0, d_device_id = ''dev'', d_proxy = None,
      d_services = services, d_bt_addr = ''AA:BB:CC:DD:EE:FF'', d_dbus_path = ''/dev'', d_json_list = None,
      d_device_type = BLE_DEVICE_PERSISTENT_GATT_SERVER, d_translations = translations,
      d_retry_timer_source = 0, d_connection_retries = 0, d_services_resolved = False\<rparr>"

definition example_context :: "u16 \<Rightarrow> u16 \<Rightarrow> u16 \<Rightarrow> u32 \<Rightarrow> translation_context" where
  "example_context object_id instance_id resource_id flags =
     \<lparr>tc_object_id = object_id, tc_object_instance_id = instance_id, tc_resource_id = resource_id,
      tc_characteristic_extra_flags = flags, tc_ch_idx = 0, tc_sv_idx = 0\<rparr>"

definition example_world :: ble_world where
  "example_world =
     \<lparr>trace = [], devices = [], next_ptr = 2, g_connection_id = 7, unregistering_devices = False,
      global_keep_running = True, cfg_postfix = ''0'', cfg_adapter = ''hci0'',
      cfg_bluez_hci_path = ''/org/bluez/hci0'', cfg_white_list = None,
      cfg_service_based_discovery = True, idle_queue = [], timers = [], g_source_id_1 = 0, loop_quit = False\<rparr>"

definition weather_device :: ble_device where
  "weather_device = example_device
     [\<lparr>sv_dbus_path = Some ''/s'',
       sv_chars = [example_char ''00002a6e-0000-1000-8000-00805f9b34fb'' 1 [0x10, 0x0A]],
       sv_uuid = ''0000181a-0000-1000-8000-00805f9b34fb''\<rparr>]
     [example_context TEMPERATURE_SENSOR 0 SENSOR_VALUE 0]"

lemma weather_device_facts:
  "gatt_char weather_device 0 0 = Some (d_services weather_device ! 0,
     example_char ''00002a6e-0000-1000-8000-00805f9b34fb'' 1 [0x10, 0x0A])"
  "ble_services_get_characteristic_descriptor_by_uuids
     (Some (sv_uuid (d_services weather_device ! 0)))
     (Some (ch_uuid (example_char ''00002a6e-0000-1000-8000-00805f9b34fb'' 1 [0x10, 0x0A]))) =
   Some (environment_sensing_characteristics ! 0)"
  by code_simp+


text \<open>
  A temperature is read as an unsigned number although its descriptor says
  \<open>VALUE_FORMAT_INT16\<close>: every negative 16-bit reading is reported as a temperature above 327
  degrees (and becomes the sensor's maximum).
\<close>

theorem negative_temperature_misread:
  assumes ch: "gatt_char dev (tc_sv_idx ctx) (tc_ch_idx ctx) = Some (s, c)"
    and cd: "ble_services_get_characteristic_descriptor_by_uuids (Some (sv_uuid s)) (Some (ch_uuid c)) =
      Some (environment_sensing_characteristics ! 0)"
    and E: "stores_floats E"
    and v: "length v = 2" "0x80 \<le> v ! 1"
  shows "vf_format (environment_sensing_characteristics ! 0) = VALUE_FORMAT_INT16 \<and>
    (\<exists>f w'. ble_services_decode_value_with_format_descriptor E dev ctx v w =
       Some (Some (convert_float_value_to_network_byte_order f), w') \<and> 327 < f32_value f)"
proof -
  let ?cd = "environment_sensing_characteristics ! 0"
  have m: "?cd \<in> set environment_sensing_characteristics" "vf_format ?cd = VALUE_FORMAT_INT16"
    "vf_exponent ?cd = -2"
    by (simp_all add: environment_sensing_characteristics_def)
  obtain a b where ab: "v = [a, b]" using v(1) by (auto simp: length_Suc_conv numeral_2_eq_2)
  have "0x80 \<le> uint b" using v(2) by (simp add: ab word_le_def)
  then have "0x8000 \<le> le_value (take 4 v)" by (simp add: ab) (use uint_ge_0 [of a] in linarith)
  then have x: "32768 \<le> (of_int (le_value (take 4 v)) :: real)" by linarith
  have p: "(10 :: real) powi (-2) = 1 / 100" by (simp add: power_int_def power_divide)
  obtain f w' where f: "ble_services_decode_value_with_format_descriptor E dev ctx v w =
       Some (Some (convert_float_value_to_network_byte_order f), w')"
    "\<bar>f32_value f - of_int (le_value (take 4 v)) * (1 / 100)\<bar>
      \<le> of_int (le_value (take 4 v)) * (1 / 100) / 2 ^ 21"
    using sensor_decode_accurate_lemma [OF ch cd m(1) E] unfolding m(3) p by blast
  define r where "r = (of_int (le_value (take 4 v)) :: real)"
  have "r * (1 / 100) - r * (1 / 100) / 2 ^ 21 \<le> f32_value f"
    using f(2) unfolding r_def [symmetric] by linarith
  then have "327 < f32_value f" using x unfolding r_def [symmetric] by simp
  with f(1) m(2) show ?thesis by blast
qed

theorem negative_temperature_misread_witness:
  "\<exists>f w'. ble_services_decode_value_with_format_descriptor sensor_env weather_device
      (example_context TEMPERATURE_SENSOR 0 SENSOR_VALUE 0) [0xFF, 0xFF] example_world =
      Some (Some (convert_float_value_to_network_byte_order f), w') \<and> 327 < f32_value f"
  using negative_temperature_misread [where ctx = "example_context TEMPERATURE_SENSOR 0 SENSOR_VALUE 0"
      and v = "[0xFF, 0xFF]" and w = example_world, simplified example_context_def translation_context.simps,
      OF weather_device_facts sensor_env_floats]
  by (simp add: example_context_def)

section \<open>Two-bit fields\<close>

definition put_light :: "nat \<Rightarrow> bool \<Rightarrow> u8 \<Rightarrow> u8" where
  "put_light f v b = (if v then set_active (2 * f) (clear_field (2 * f) b) else clear_field (2 * f) b)"

definition get_light :: "nat \<Rightarrow> u8 \<Rightarrow> u8" where
  "get_light f b = drop_bit (2 * f) b AND 0x03"

lemma bit_3: "bit (3 :: int) n \<longleftrightarrow> n = 0 \<or> n = Suc 0"
  by (cases n; cases "n - 1") (auto simp: bit_Suc)

lemma bit_put_light:
  "f < 4 \<Longrightarrow> bit (put_light f v b) j \<longleftrightarrow>
     (if j = 2 * f then v else if j = 2 * f + 1 then False else bit b j)"
  by (cases "j < 8")
     (auto simp: put_light_def set_active_def clear_field_def bit_simps bit_3 dest: bit_imp_le_length)

lemma bit_get_light: "bit (get_light f b) j \<longleftrightarrow> j < 2 \<and> bit b (2 * f + j)"
  by (auto simp: get_light_def bit_simps bit_3 add.commute less_2_cases_iff dest: bit_imp_le_length)

lemma get_put_light: "f < 4 \<Longrightarrow> get_light f (put_light f v b) = (if v then 1 else 0)"
  by (rule bit_word_eqI) (auto simp: bit_get_light bit_put_light bit_1_iff less_2_cases_iff)

lemma get_put_other_light: "f < 4 \<Longrightarrow> g < 4 \<Longrightarrow> f \<noteq> g \<Longrightarrow> get_light g (put_light f v b) = get_light g b"
  by (rule bit_word_eqI) (auto simp: bit_get_light bit_put_light bit_1_iff less_2_cases_iff)

interpretation light: field_family put_light get_light "\<lambda>v. if v then 1 else 0" "\<lambda>f. f < 4"
  by unfold_locales (simp_all add: get_put_light get_put_other_light)

lemma encode_2bit_eq:
  assumes "unat (tc_characteristic_extra_flags ctx) < 2 ^ 31" and "new \<noteq> []" and "never_out_of_memory E"
    and "unat (tc_characteristic_extra_flags ctx) div 4 < length cur"
  defines "f \<equiv> unat (tc_characteristic_extra_flags ctx)"
  shows "\<exists>w'. ble_services_encode_2bit_bitfield_value E ctx cur new w =
    Some (Some ((take (f div 4 + 1) cur)[f div 4 := put_light (f mod 4) (new ! 0 \<noteq> 0) (cur ! (f div 4))]), w')"
proof -
  have u: "unat (tc_characteristic_extra_flags ctx * 2) = 2 * f"
    using assms(1) by (simp add: f_def unat_mult_lem [THEN iffD1] mult.commute)
  have d: "2 * f div 8 = f div 4" "2 * f mod 8 = 2 * (f mod 4)" by presburger+
  have l: "\<not> length cur < f div 4 + 1" "f div 4 < length cur" using assms(4) by (simp_all add: f_def)
  have m: "malloc E n w = (True, call (Sys (Malloc n)) w)" for n
    using assms(3) by (simp add: malloc_def ask_defs never_out_of_memory_def)
  show ?thesis
    using l assms(2)
    by (simp add: ble_services_encode_2bit_bitfield_value_def u d m Let_def put_light_def)
qed

lemma encode_light:
  assumes "unat (tc_characteristic_extra_flags ctx) < 4" and "new \<noteq> []" and "never_out_of_memory E"
  shows "\<exists>w'. ble_services_encode_2bit_bitfield_value E ctx (b # bs) new w =
    Some (Some [put_light (unat (tc_characteristic_extra_flags ctx)) (new ! 0 \<noteq> 0) b], w')"
proof -
  have "unat (tc_characteristic_extra_flags ctx) div 4 = 0"
    "unat (tc_characteristic_extra_flags ctx) mod 4 = unat (tc_characteristic_extra_flags ctx)"
    "unat (tc_characteristic_extra_flags ctx) < 2 ^ 31"
    using assms(1) by simp_all
  with encode_2bit_eq [of ctx new E "b # bs" w] assms(2,3) show ?thesis by simp
qed

lemma decode_light:
  assumes "unat (tc_characteristic_extra_flags ctx) < 4" and "never_out_of_memory E"
  shows "\<exists>w'. ble_services_decode_2bit_bitfield_value E ctx (b # bs) w =
    Some (Some [get_light (unat (tc_characteristic_extra_flags ctx)) b], w')"
proof -
  have u: "unat (tc_characteristic_extra_flags ctx * 2) = 2 * unat (tc_characteristic_extra_flags ctx)"
    using assms(1) by (simp add: unat_mult_lem [THEN iffD1] mult.commute)
  then have "uint (tc_characteristic_extra_flags ctx * 2) < 32"
    using assms(1) by (simp only: uint_nat)
  with u assms(2) show ?thesis
    by (simp add: ble_services_decode_2bit_bitfield_value_def malloc_def ask_defs
          never_out_of_memory_def get_light_def)
qed

text \<open>Values written one after the other, each encoded into the value the one before produced.\<close>

fun encode_writes ::
  "env \<Rightarrow> (translation_context \<times> bytes) list \<Rightarrow> bytes \<Rightarrow> 'a ext_scheme \<Rightarrow> (bytes \<times> 'a ext_scheme) option" where
  "encode_writes E [] cur w = Some (cur, w)"
| "encode_writes E (x # xs) cur w =
     (case ble_services_encode_2bit_bitfield_value E (fst x) cur (snd x) w of
        None \<Rightarrow> None
      | Some (None, w) \<Rightarrow> encode_writes E xs cur w
      | Some (Some buf, w) \<Rightarrow> encode_writes E xs buf w)"

definition light_writes :: "(translation_context \<times> bytes) list \<Rightarrow> (nat \<times> bool) list" where
  "light_writes ws = map (\<lambda>x. (unat (tc_characteristic_extra_flags (fst x)), snd x ! 0 \<noteq> 0)) ws"

lemma encode_writes_fold:
  assumes "never_out_of_memory E"
  shows "\<forall>x\<in>set ws. unat (tc_characteristic_extra_flags (fst x)) < 4 \<and> snd x \<noteq> [] \<Longrightarrow>
    \<exists>w'. encode_writes E ws [b] w =
      Some ([fold (\<lambda>x. put_light (fst x) (snd x)) (light_writes ws) b], w')"
proof (induction ws arbitrary: b w)
  case Nil
  then show ?case by (simp add: light_writes_def)
next
  case (Cons x ws)
  obtain w1 where "ble_services_encode_2bit_bitfield_value E (fst x) [b] (snd x) w =
      Some (Some [put_light (unat (tc_characteristic_extra_flags (fst x))) (snd x ! 0 \<noteq> 0) b], w1)"
    using encode_light [of "fst x" "snd x" E b "[]" w] Cons.prems assms by auto
  with Cons show ?case by (simp add: light_writes_def)
qed

lemma find_last_write:
  "\<forall>y\<in>set vs. f y \<noteq> f x \<Longrightarrow> find (\<lambda>y. f y = f x) (rev (us @ x # vs)) = Some x"
proof (induction vs rule: rev_induct)
  case Nil
  then show ?case by simp
next
  case (snoc y vs)
  then show ?case by auto
qed

text \<open>
  C14: Encoding into an Automation IO value is a family of independent fields: after any sequence
  of writes to the lights of a characteristic (each encoded into the result of the one
  before), decoding a light gives 1 or 0 as the last value written to that light was non-zero
  or zero, and a light that was not written decodes as in the original value.
\<close>

theorem light_fields_independent:
  assumes E: "never_out_of_memory E"
    and ws: "\<forall>x\<in>set ws. unat (tc_characteristic_extra_flags (fst x)) < 4 \<and> snd x \<noteq> []"
    and ctx: "unat (tc_characteristic_extra_flags ctx) < 4"
  shows "\<exists>b' w'. encode_writes E ws [b] w = Some ([b'], w') \<and>
    (\<forall>us new vs. ws = us @ (ctx, new) # vs \<and>
       (\<forall>y\<in>set vs. tc_characteristic_extra_flags (fst y) \<noteq> tc_characteristic_extra_flags ctx) \<longrightarrow>
       map_option fst (ble_services_decode_2bit_bitfield_value E ctx [b'] w') =
         Some (Some [if new ! 0 \<noteq> 0 then 1 else 0])) \<and>
    ((\<forall>y\<in>set ws. tc_characteristic_extra_flags (fst y) \<noteq> tc_characteristic_extra_flags ctx) \<longrightarrow>
       map_option fst (ble_services_decode_2bit_bitfield_value E ctx [b'] w') =
       map_option fst (ble_services_decode_2bit_bitfield_value E ctx [b] w'))"
proof -
  let ?g = "unat (tc_characteristic_extra_flags ctx)"
  let ?b = "fold (\<lambda>x. put_light (fst x) (snd x)) (light_writes ws) b"
  obtain w' where w': "encode_writes E ws [b] w = Some ([?b], w')"
    using encode_writes_fold [OF E ws] by blast
  have D: "map_option fst (ble_services_decode_2bit_bitfield_value E ctx [c] w') = Some (Some [get_light ?g c])" for c
    using decode_light [OF ctx E, of c "[]" w'] by auto
  have ok: "\<forall>x\<in>set (light_writes ws). fst x < 4" using ws by (auto simp: light_writes_def)
  note G = light.get_writes [OF ok ctx, of b]
  have "get_light ?g ?b = (if new ! 0 \<noteq> 0 then 1 else 0)"
    if "ws = us @ (ctx, new) # vs"
      "\<forall>y\<in>set vs. tc_characteristic_extra_flags (fst y) \<noteq> tc_characteristic_extra_flags ctx" for us new vs
  proof -
    have "light_writes ws = light_writes us @ (?g, new ! 0 \<noteq> 0) # light_writes vs"
      by (simp add: that(1) light_writes_def)
    moreover have "\<forall>y\<in>set (light_writes vs). fst y \<noteq> ?g"
      using that(2) by (auto simp: light_writes_def word_unat_eq_iff)
    ultimately have "find (\<lambda>x. fst x = ?g) (rev (light_writes ws)) = Some (?g, new ! 0 \<noteq> 0)"
      using find_last_write [of "light_writes vs" fst "(?g, new ! 0 \<noteq> 0)" "light_writes us"] by simp
    with G show ?thesis by simp
  qed
  moreover have "get_light ?g ?b = get_light ?g b"
    if "\<forall>y\<in>set ws. tc_characteristic_extra_flags (fst y) \<noteq> tc_characteristic_extra_flags ctx"
  proof -
    have "find (\<lambda>x. fst x = ?g) (rev (light_writes ws)) = None"
      using that by (auto simp: find_None_iff light_writes_def word_unat_eq_iff)
    with G show ?thesis by simp
  qed
  ultimately show ?thesis
    by (intro exI [of _ ?b] exI [of _ w']) (simp add: w' D)
qed

theorem light_fields_independent_witness:
  "\<exists>b' w'. encode_writes storing_env
      [(example_context LIGHT_CONTROL 0 ON_OFF_VALUE 0, [1]),
       (example_context LIGHT_CONTROL 1 ON_OFF_VALUE 1, [1]),
       (example_context LIGHT_CONTROL 0 ON_OFF_VALUE 0, [0])] [0xF0] example_world = Some ([b'], w') \<and>
    map_option fst (ble_services_decode_2bit_bitfield_value storing_env
      (example_context LIGHT_CONTROL 0 ON_OFF_VALUE 0) [b'] w') = Some (Some [0])"
proof -
  let ?a = "example_context LIGHT_CONTROL 0 ON_OFF_VALUE 0"
  let ?ws = "[(?a, [1]), (example_context LIGHT_CONTROL 1 ON_OFF_VALUE 1, [1]), (?a, [0])] ::
    (translation_context \<times> bytes) list"
  have w: "\<forall>x\<in>set ?ws. unat (tc_characteristic_extra_flags (fst x)) < 4 \<and> snd x \<noteq> []"
    "unat (tc_characteristic_extra_flags ?a) < 4"
    by (simp_all add: example_context_def)
  obtain b' w' where r: "encode_writes storing_env ?ws [0xF0] example_world = Some ([b'], w')"
    "\<And>us new vs. ?ws = us @ (?a, new) # vs \<Longrightarrow>
       \<forall>y\<in>set vs. tc_characteristic_extra_flags (fst y) \<noteq> tc_characteristic_extra_flags ?a \<Longrightarrow>
       map_option fst (ble_services_decode_2bit_bitfield_value storing_env ?a [b'] w') =
         Some (Some [if new ! 0 \<noteq> 0 then 1 else 0])"
    using light_fields_independent [OF storing_env_laws(2) w, of "0xF0" example_world] by blast
  have "map_option fst (ble_services_decode_2bit_bitfield_value storing_env ?a [b'] w') = Some (Some [0])"
    using r(2) [of "take 2 ?ws" "[0]" "[]"] by simp
  with r(1) show ?thesis by blast
qed

theorem descriptor_lookup_witness:
  "ble_services_is_supported_service ''0000181a-0000-1000-8000-00805f9b34fb''"
proof -
  have "\<exists>s\<in>set ble_services. map to_lower ''0000181a-0000-1000-8000-00805f9b34fb'' = map to_lower (bs_uuid s)"
    by code_simp
  with conjunct1 [OF descriptor_lookup [of "''0000181a-0000-1000-8000-00805f9b34fb''" "''0000181a-0000-1000-8000-00805f9b34fb''"]]
  show ?thesis by simp
qed

section \<open>Which resources a decoded value sets\<close>

fun is_set_value :: "ev \<Rightarrow> bool" where
  "is_set_value (Pt (PtSetResourceValue _ _ _ _ _ _)) = True"
| "is_set_value _ = False"

definition light_event :: "conn \<Rightarrow> string \<Rightarrow> bytes \<Rightarrow> translation_context \<Rightarrow> ev" where
  "light_event c d v ctx = Pt (PtSetResourceValue c d (tc_object_id ctx) (tc_object_instance_id ctx)
     (tc_resource_id ctx) [get_light (unat (tc_characteristic_extra_flags ctx)) (v ! 0)])"

lemma decode_light_contexts:
  assumes "never_out_of_memory E" and "v \<noteq> []"
  shows "\<forall>ctx\<in>set ctxs. unat (tc_characteristic_extra_flags ctx) < 4 \<Longrightarrow>
    \<exists>w'. decode_contexts E decode_2bit_bitfield_cb dev sv ch v ctxs w = Some w' \<and>
      filter is_set_value (trace w') =
        rev (map (light_event (g_connection_id w) (d_device_id dev) v)
          (filter (\<lambda>ctx. tc_sv_idx ctx = sv \<and> tc_ch_idx ctx = ch) ctxs)) @ filter is_set_value (trace w)"
proof (induction ctxs arbitrary: w)
  case Nil
  then show ?case by simp
next
  case (Cons ctx ctxs)
  show ?case
  proof (cases "tc_sv_idx ctx = sv \<and> tc_ch_idx ctx = ch")
    case True
    let ?m = "call (Sys (Malloc 1)) w"
    let ?d = "[get_light (unat (tc_characteristic_extra_flags ctx)) (v ! 0)]"
    have f: "unat (tc_characteristic_extra_flags ctx) < 4" using Cons.prems by simp
    have v: "v = v ! 0 # tl v" using assms(2) by (cases v) auto
    have r: "run_value_decode E decode_2bit_bitfield_cb dev ctx v w = Some (Some ?d, ?m)"
    proof -
      obtain w' where "ble_services_decode_2bit_bitfield_value E ctx v w = Some (Some ?d, w')"
        using decode_light [OF f assms(1), of "v ! 0" "tl v" w] v by metis
      moreover from this have "w' = ?m"
        using assms(1) by (auto simp: ble_services_decode_2bit_bitfield_value_def malloc_def ask_defs
              never_out_of_memory_def Let_def split: if_splits)
      ultimately show ?thesis by simp
    qed
    let ?w2 = "call (light_event (g_connection_id w) (d_device_id dev) v ctx) ?m"
    have g: "g_connection_id ?m = g_connection_id w" "g_connection_id ?w2 = g_connection_id w"
      by (simp_all add: call_def)
    obtain w' where w': "decode_contexts E decode_2bit_bitfield_cb dev sv ch v ctxs ?w2 = Some w'"
      "filter is_set_value (trace w') =
        rev (map (light_event (g_connection_id w) (d_device_id dev) v)
          (filter (\<lambda>ctx. tc_sv_idx ctx = sv \<and> tc_ch_idx ctx = ch) ctxs)) @ filter is_set_value (trace ?w2)"
      using Cons.IH [of ?w2] Cons.prems g by auto
    from w'(1) r True g have
      "decode_contexts E decode_2bit_bitfield_cb dev sv ch v (ctx # ctxs) w = Some w'"
      by (simp add: light_event_def)
    with w'(2) True show ?thesis by (simp add: light_event_def)
  next
    case False
    with Cons show ?thesis by auto
  qed
qed

text \<open>
  C17: A value read from (or written to) an Automation IO characteristic sets exactly the resources
  of that characteristic's translation contexts, once each and in their order, each to the
  two bits of its own light; no other resource is set.
\<close>

theorem light_decode_sets_resources:
  assumes ch: "gatt_char dev sv ch = Some (s, c)"
    and cd: "ble_services_get_characteristic_descriptor_by_uuids (Some (sv_uuid s)) (Some (ch_uuid c)) = Some cd"
      "cd \<in> set automation_io_characteristics"
    and E: "never_out_of_memory E" and v: "v \<noteq> []"
    and ctxs: "\<forall>ctx\<in>set (d_translations dev). unat (tc_characteristic_extra_flags ctx) < 4"
  shows "\<exists>w'. ble_services_decode_and_write_characteristic_translation E dev sv ch v w = Some w' \<and>
    filter is_set_value (trace w') =
      rev (map (light_event (g_connection_id w) (d_device_id dev) v)
        (filter (\<lambda>ctx. tc_sv_idx ctx = sv \<and> tc_ch_idx ctx = ch) (d_translations dev))) @
      filter is_set_value (trace w)"
proof -
  obtain sd where sd: "ble_services_get_service_descriptor (sv_uuid s) = Some sd"
    "ble_services_get_characteristic_descriptor sd (ch_uuid c) = Some cd"
    using cd(1) by (auto simp: descriptor_by_uuids ble_services_get_service_descriptor_def
        ble_services_get_characteristic_descriptor_def)
  have "ble_services_decode_and_write_characteristic_translation E dev sv ch v w =
      decode_contexts E decode_2bit_bitfield_cb dev sv ch v (d_translations dev) w"
    using light_descriptor [OF cd(2)]
    by (simp add: ble_services_decode_and_write_characteristic_translation_def ch sd)
  with decode_light_contexts [OF E v ctxs, of dev sv ch w] show ?thesis by simp
qed

definition light_device :: ble_device where
  "light_device = example_device
     [\<lparr>sv_dbus_path = Some ''/s'',
       sv_chars = [example_char ''00002a56-0000-1000-8000-00805f9b34fb'' 3 [0x00]],
       sv_uuid = ''00001815-0000-1000-8000-00805f9b34fb''\<rparr>]
     [example_context LIGHT_CONTROL 0 ON_OFF_VALUE 0, example_context LIGHT_CONTROL 1 ON_OFF_VALUE 1]"

lemma light_device_facts:
  "gatt_char light_device 0 0 = Some (d_services light_device ! 0,
     example_char ''00002a56-0000-1000-8000-00805f9b34fb'' 3 [0x00])"
  "ble_services_get_characteristic_descriptor_by_uuids
     (Some (sv_uuid (d_services light_device ! 0)))
     (Some (ch_uuid (example_char ''00002a56-0000-1000-8000-00805f9b34fb'' 3 [0x00]))) =
   Some (automation_io_characteristics ! 0)"
  "automation_io_characteristics ! 0 \<in> set automation_io_characteristics"
  "\<forall>ctx\<in>set (d_translations light_device). unat (tc_characteristic_extra_flags ctx) < 4"
  by code_simp+

theorem light_decode_sets_resources_witness:
  "\<exists>w'. ble_services_decode_and_write_characteristic_translation storing_env light_device 0 0 [0x04]
      example_world = Some w' \<and>
    filter is_set_value (trace w') =
      [Pt (PtSetResourceValue 7 ''dev'' LIGHT_CONTROL 1 ON_OFF_VALUE [1]),
       Pt (PtSetResourceValue 7 ''dev'' LIGHT_CONTROL 0 ON_OFF_VALUE [0])]"
  using light_decode_sets_resources [OF light_device_facts(1,2,3) storing_env_laws(2) _ light_device_facts(4),
      of "[0x04]" example_world]
  by (simp add: light_device_def example_device_def example_context_def example_world_def
        light_event_def get_light_def)

end
