(* ===== verification/Gatt_Resources.thy ===== *)
theory Gatt_Resources
  imports Translation_Laws
begin

text \<open>
  The part of \<^verbatim>\<open>blept-example/devices.c\<close> between the GATT tables and Edge Core's
  resources: adding a resource for every characteristic, the JSON introspection string,
  constructing the known translations, and writing a value from Edge to a
  characteristic. An operation on a device takes its value and returns it changed;
  \<open>None\<close> is undefined behaviour or a failed assertion.
\<close>

abbreviation (input) IPSO_OID_BLE_INTROSPECT :: u16 where "IPSO_OID_BLE_INTROSPECT \<equiv> 18131"
abbreviation (input) IPSO_OID_BLE_SERVICE :: u16 where "IPSO_OID_BLE_SERVICE \<equiv> 18135"

section \<open>The introspection string\<close>

definition JSON_DEVICE_FMT :: string where "JSON_DEVICE_FMT = ''{\"services\":[''"
definition JSON_SRVC_FMT :: string where
  "JSON_SRVC_FMT = ''%s{\"uuid\":\"%s\",\"path\":\"/%d/%d\",\"characteristics\":[''"
definition JSON_CHAR_FMT :: string where
  "JSON_CHAR_FMT = ''%s{\"uuid\":\"%s\",\"path\":\"/%d/%d/%d\"}''"
definition JSON_ARRAY_END :: string where "JSON_ARRAY_END = '']}''"

definition JSON_FORMATTED_DEV_LEN :: nat where
  "JSON_FORMATTED_DEV_LEN = (length JSON_DEVICE_FMT + 1) + (length JSON_ARRAY_END + 1)"
definition JSON_FORMATTED_SRVC_LEN :: nat where
  "JSON_FORMATTED_SRVC_LEN = FORMATTED_UUID_LEN + (length JSON_SRVC_FMT + 1) + (length JSON_ARRAY_END + 1)"
definition JSON_FORMATTED_CHAR_LEN :: nat where
  "JSON_FORMATTED_CHAR_LEN = FORMATTED_UUID_LEN + (length JSON_CHAR_FMT + 1) + (length JSON_ARRAY_END + 1)"

text \<open>\<open>printf\<close> of a format with \<open>%s\<close> and \<open>%d\<close>, the conversions in order.\<close>

fun printf :: "string \<Rightarrow> string list \<Rightarrow> string" where
  "printf (CHR ''%'' # c # s) (a # args) = a @ printf s args"
| "printf (c # s) args = c # printf s args"
| "printf [] args = []"

text \<open>\<open>snprintf\<close> at the end of the string in a buffer of \<open>n\<close> bytes, and \<open>strncat\<close> with what is left.\<close>

definition append_buf :: "nat \<Rightarrow> string \<Rightarrow> string \<Rightarrow> string" where
  "append_buf n buf s = buf @ snprintf_buf (n - length buf) s"

fun json_chars :: "nat \<Rightarrow> nat \<Rightarrow> nat \<Rightarrow> ble_gatt_char list \<Rightarrow> string \<Rightarrow> string" where
  "json_chars n srvc ch [] buf = buf"
| "json_chars n srvc ch (c # cs) buf =
     json_chars n srvc (Suc ch) cs
       (append_buf n buf (printf JSON_CHAR_FMT
          [if 0 < ch then '','' else [], ch_uuid c, decimal (unat IPSO_OID_BLE_SERVICE), decimal srvc,
           decimal (unat (ch_resource_id c))]))"

fun json_services :: "nat \<Rightarrow> nat \<Rightarrow> ble_gatt_service list \<Rightarrow> string \<Rightarrow> string" where
  "json_services n srvc [] buf = buf"
| "json_services n srvc (s # ss) buf =
     (let buf = append_buf n buf (printf JSON_SRVC_FMT
                  [if 0 < srvc then '','' else [], sv_uuid s, decimal (unat IPSO_OID_BLE_SERVICE), decimal srvc]);
          buf = json_chars n srvc 0 (sv_chars s) buf
      in json_services n (Suc srvc) ss (append_buf n buf JSON_ARRAY_END))"

definition json_retsize :: "ble_gatt_service list \<Rightarrow> nat" where
  "json_retsize ss = JSON_FORMATTED_DEV_LEN + JSON_FORMATTED_SRVC_LEN * length ss +
     JSON_FORMATTED_CHAR_LEN * sum_list (map (length \<circ> sv_chars) ss)"

definition json_list_device_services :: "env \<Rightarrow> ble_device \<Rightarrow> 'a ext_scheme \<Rightarrow> string option \<times> 'a ext_scheme" where
  "json_list_device_services E ble w =
     (let retsize = json_retsize (d_services ble);
          (ok, w) = malloc E retsize w in
      if \<not> ok then (None, w) else
      let buf = snprintf_buf retsize JSON_DEVICE_FMT;
          buf = json_services retsize 0 (d_services ble) buf
      in (Some (append_buf retsize buf JSON_ARRAY_END), w))"

section \<open>Resources for the GATT tables\<close>

fun resource_type :: "ble_datatype \<Rightarrow> lwm2m_type" where
  "resource_type BLE_BOOLEAN = LWM2M_BOOLEAN"
| "resource_type BLE_INTEGER = LWM2M_INTEGER"
| "resource_type BLE_FLOAT = LWM2M_FLOAT"
| "resource_type BLE_STRING = LWM2M_STRING"
| "resource_type BLE_STRUCT = LWM2M_OPAQUE"

definition resource_operations :: "int \<Rightarrow> operations" where
  "resource_operations properties =
     (if properties AND BLE_GATT_PROP_PERM_READ \<noteq> 0 then {OPERATION_READ} else {}) \<union>
     (if properties AND BLE_GATT_PROP_PERM_WRITE \<noteq> 0 then {OPERATION_WRITE} else {})"

fun add_char_resources :: "env \<Rightarrow> string \<Rightarrow> nat \<Rightarrow> ble_gatt_char list \<Rightarrow> 'a ble_world_scheme \<Rightarrow> 'a ble_world_scheme" where
  "add_char_resources E device_id instance_no [] w = w"
| "add_char_resources E device_id instance_no (c # cs) w =
     (let (_, w) = edge_add_resource E device_id IPSO_OID_BLE_SERVICE (of_nat instance_no) (ch_resource_id c)
                     (resource_type (ch_dtype c)) (resource_operations (ch_properties c)) (ch_value c) w
      in add_char_resources E device_id instance_no cs w)"

fun add_service_resources :: "env \<Rightarrow> string \<Rightarrow> nat \<Rightarrow> ble_gatt_service list \<Rightarrow> 'a ble_world_scheme \<Rightarrow> 'a ble_world_scheme" where
  "add_service_resources E device_id instance_no [] w = w"
| "add_service_resources E device_id instance_no (s # ss) w =
     add_service_resources E device_id (Suc instance_no) ss
       (add_char_resources E device_id instance_no (sv_chars s) w)"

text \<open>\<open>strlen\<close> of a NULL \<open>json_list\<close> (out of memory) is undefined.\<close>

definition device_add_resources_from_gatt ::
  "env \<Rightarrow> ble_device \<Rightarrow> 'a ble_world_scheme \<Rightarrow> (ble_device \<times> 'a ble_world_scheme) option" where
  "device_add_resources_from_gatt E ble w =
     (let w = add_service_resources E (d_device_id ble) 0 (d_services ble) w in
      if d_json_list ble \<noteq> None then None else
      let (json_list, w) = json_list_device_services E ble w
      in case json_list of
           None \<Rightarrow> None
         | Some json \<Rightarrow>
             let (_, w) = edge_add_resource E (d_device_id ble) IPSO_OID_BLE_INTROSPECT 0 0 LWM2M_STRING
                            {OPERATION_READ} (string_bytes json @ [0]) w
             in Some (ble\<lparr>d_json_list := Some json\<rparr>, w))"

section \<open>Known translations\<close>

fun construct_chars ::
  "env \<Rightarrow> nat \<Rightarrow> nat \<Rightarrow> string \<Rightarrow> ble_gatt_char list \<Rightarrow> ble_device \<Rightarrow> 'a ble_world_scheme \<Rightarrow>
   (ble_device \<times> 'a ble_world_scheme) option" where
  "construct_chars E i j su [] ble w = Some (ble, w)"
| "construct_chars E i j su (c # cs) ble w =
     (if ble_services_is_supported_characteristic su (ch_uuid c)
      then (case ble_services_construct_characteristic E ble i j w of
              None \<Rightarrow> None | Some (ble, w) \<Rightarrow> construct_chars E i (Suc j) su cs ble w)
      else construct_chars E i (Suc j) su cs ble w)"

fun construct_services ::
  "env \<Rightarrow> nat \<Rightarrow> ble_gatt_service list \<Rightarrow> ble_device \<Rightarrow> 'a ble_world_scheme \<Rightarrow>
   (ble_device \<times> 'a ble_world_scheme) option" where
  "construct_services E i [] ble w = Some (ble, w)"
| "construct_services E i (s # ss) ble w =
     (if \<not> ble_services_is_supported_service (sv_uuid s) then construct_services E (Suc i) ss ble w
      else case ble_services_construct_service E ble i w of
             None \<Rightarrow> None
           | Some w \<Rightarrow>
               (case construct_chars E i 0 (sv_uuid s) (sv_chars s) ble w of
                  None \<Rightarrow> None
                | Some (ble, w) \<Rightarrow> construct_services E (Suc i) ss ble w))"

definition device_add_known_translations_from_gatt ::
  "env \<Rightarrow> ble_device \<Rightarrow> 'a ble_world_scheme \<Rightarrow> (ble_device \<times> 'a ble_world_scheme) option" where
  "device_add_known_translations_from_gatt E ble w = construct_services E 0 (d_services ble) ble w"

section \<open>Values\<close>

definition update_char :: "nat \<Rightarrow> nat \<Rightarrow> (ble_gatt_char \<Rightarrow> ble_gatt_char) \<Rightarrow> ble_device \<Rightarrow> ble_device" where
  "update_char svc ch f ble =
     (let s = d_services ble ! svc
      in ble\<lparr>d_services := (d_services ble)[svc := s\<lparr>sv_chars := (sv_chars s)[ch := f (sv_chars s ! ch)]\<rparr>]\<rparr>)"

definition set_local_characteristic_value ::
  "env \<Rightarrow> ble_device \<Rightarrow> nat \<Rightarrow> nat \<Rightarrow> bytes \<Rightarrow> 'a ble_world_scheme \<Rightarrow> ble_device \<times> 'a ble_world_scheme" where
  "set_local_characteristic_value E ble svc ch val w =
     (case gatt_char ble svc ch of
        None \<Rightarrow> (ble, w)
      | Some (_, charact) \<Rightarrow>
          let sz = length val;
              value = (if sz < ch_value_size charact then val @ replicate (ch_value_size charact - sz) 0
                       else take (ch_value_size charact) val)
          in (update_char svc ch (\<lambda>c. c\<lparr>ch_value := value, ch_value_length := sz\<rparr>) ble,
              edge_set_resource_value E (d_device_id ble) IPSO_OID_BLE_SERVICE (of_nat svc)
                (ch_resource_id charact) val w))"

definition device_update_characteristic_resource_value ::
  "env \<Rightarrow> ble_device \<Rightarrow> nat \<Rightarrow> nat \<Rightarrow> bytes \<Rightarrow> 'a ble_world_scheme \<Rightarrow> 'a ble_world_scheme" where
  "device_update_characteristic_resource_value E ble svc ch val w =
     (case gatt_char ble svc ch of
        None \<Rightarrow> w
      | Some (_, charact) \<Rightarrow>
          edge_set_resource_value E (d_device_id ble) IPSO_OID_BLE_SERVICE (of_nat svc)
            (ch_resource_id charact) val w)"

text \<open>The search loop for the characteristic with a resource identifier.\<close>

fun char_index :: "u16 \<Rightarrow> ble_gatt_char list \<Rightarrow> nat" where
  "char_index resource_id [] = 0"
| "char_index resource_id (c # cs) =
     (if ch_resource_id c = resource_id then 0 else Suc (char_index resource_id cs))"

definition write_translated ::
  "env \<Rightarrow> ble_device \<Rightarrow> translation_context \<Rightarrow> bytes \<Rightarrow> 'a ble_world_scheme \<Rightarrow>
   (int \<times> ble_device \<times> 'a ble_world_scheme) option" where
  "write_translated E ble ctx value w = do {
     (_, c) \<leftarrow> gatt_char ble (tc_sv_idx ctx) (tc_ch_idx ctx);
     (translated_value, w) \<leftarrow> ble_services_encode_characteristic_value E ble ctx (ch_value c) value w;
     (case translated_value of
        None \<Rightarrow> Some (-1, ble, w)
      | Some tv \<Rightarrow> do {
          (rc, w) \<leftarrow> ble_write_characteristic E (ch_dbus_path c) tv w;
          if rc = 0 then
            let (ble, w) = set_local_characteristic_value E ble (tc_sv_idx ctx) (tc_ch_idx ctx) value w
            in Some (rc, ble, w)
          else Some (rc, ble, w)
        })
   }"

definition write_service_resource ::
  "env \<Rightarrow> ble_device \<Rightarrow> nat \<Rightarrow> u16 \<Rightarrow> bytes \<Rightarrow> 'a ble_world_scheme \<Rightarrow>
   (int \<times> ble_device \<times> 'a ble_world_scheme) option" where
  "write_service_resource E ble svc resource_id value w =
     (let s = d_services ble ! svc; char_idx = char_index resource_id (sv_chars s) in
      if char_idx < length (sv_chars s) then do {
        (rc, w) \<leftarrow> ble_write_characteristic E (ch_dbus_path (sv_chars s ! char_idx)) value w;
        if rc = 0 then
          let (ble, w) = set_local_characteristic_value E ble svc char_idx value w in
          if ble_services_is_supported_characteristic (sv_uuid s) (ch_uuid (sv_chars s ! char_idx)) then do {
            w \<leftarrow> ble_services_decode_and_write_characteristic_translation E ble svc char_idx value w;
            Some (rc, ble, w)
          }
          else Some (rc, ble, w)
        else Some (rc, ble, w)
      }
      else Some (-1, ble, w))"

definition device_write_characteristic ::
  "env \<Rightarrow> ble_device \<Rightarrow> u16 \<Rightarrow> u16 \<Rightarrow> u16 \<Rightarrow> bytes \<Rightarrow> 'a ble_world_scheme \<Rightarrow>
   (int \<times> ble_device \<times> 'a ble_world_scheme) option" where
  "device_write_characteristic E ble object_id instance_id resource_id value w =
     (if object_id \<noteq> IPSO_OID_BLE_SERVICE then
        (case ble_services_find_translation_context ble object_id instance_id resource_id of
           None \<Rightarrow> Some (-1, ble, w)
         | Some ctx \<Rightarrow> write_translated E ble ctx value w)
      else if unat instance_id < length (d_services ble)
      then write_service_resource E ble (unat instance_id) resource_id value w
      else Some (-1, ble, w))"

end
