(* ===== verification/Reconnect.thy ===== *)
theory Reconnect
  imports Gatt_Resources
begin

text \<open>
  The life of a device after it is known: the reconnection back-off, the timer that retries
  a connection, giving up on a device, removing one, and unregistering all of them at
  shutdown (\<^verbatim>\<open>blept-example/pt_ble.c\<close> and \<^verbatim>\<open>pt_edge.c\<close>). A device is named by its address; \<open>None\<close>
  is a failed assertion or the use of a device that is not in the list any more.
\<close>

abbreviation (input) BLE_RETRY_SLEEP_TIME_INITIAL_SECS :: int where "BLE_RETRY_SLEEP_TIME_INITIAL_SECS \<equiv> 4"
abbreviation (input) BLE_MAX_BACK_OFF_TIME_SECS :: nat where "BLE_MAX_BACK_OFF_TIME_SECS \<equiv> 300"
abbreviation (input) BLE_SLEEP_TIME_MULTIPLIER :: int where "BLE_SLEEP_TIME_MULTIPLIER \<equiv> 2"
abbreviation (input) MAX_CONNECTION_RETRY_TIME_SECONDS :: u64 where "MAX_CONNECTION_RETRY_TIME_SECONDS \<equiv> 86400"
abbreviation (input) BLE_MAX_CONNECTION_RETRIES :: int where "BLE_MAX_CONNECTION_RETRIES \<equiv> 10000"

section \<open>Deleting a device\<close>

definition pt_edge_del_device :: "nat \<Rightarrow> ble_world \<Rightarrow> ble_world" where
  "pt_edge_del_device p w =
     (let w = devices_del_device p w in
      if unregistering_devices w \<and> devices w = [] then g_idle_add Pt_ble_g_main_quit_loop w else w)"

section \<open>Back-off\<close>

function back_off_loop :: "int \<Rightarrow> int \<Rightarrow> int" where
  "back_off_loop retry_index sleep_time =
     (if 1 < retry_index \<and> sleep_time < int BLE_MAX_BACK_OFF_TIME_SECS
      then back_off_loop (retry_index - 1) (sleep_time + sleep_time * BLE_SLEEP_TIME_MULTIPLIER)
      else sleep_time)"
  by pat_completeness auto
termination by (relation "measure (\<lambda>(r, s). nat r)") auto

declare back_off_loop.simps [simp del]

definition ble_back_off_time_in_ms :: "int \<Rightarrow> nat option" where
  "ble_back_off_time_in_ms retry_index =
     (if retry_index \<le> 0 then None
      else Some (nat (back_off_loop retry_index BLE_RETRY_SLEEP_TIME_INITIAL_SECS * 1000)))"

section \<open>Reconnecting\<close>

definition ble_proxy_connect :: "proxy option \<Rightarrow> ble_world \<Rightarrow> ble_world" where
  "ble_proxy_connect devProxy w =
     (case devProxy of
        None \<Rightarrow> w
      | Some proxy \<Rightarrow> call (Bus (CallMethod (px_path proxy) (px_iface proxy) ''Connect'' [])) w)"

text \<open>
  The timer \<open>s\<close> fires for the device it was started for; the callback's return value
  makes GLib remove it.
\<close>

definition ble_retry_connect :: "int \<Rightarrow> nat \<Rightarrow> ble_world \<Rightarrow> ble_world option" where
  "ble_retry_connect s p w =
     (case device_at p (devices w) of
        None \<Rightarrow> None
      | Some ble_dev \<Rightarrow>
          let w = ble_proxy_connect (d_proxy ble_dev) w;
              w = update_device p (\<lambda>d. d\<lparr>d_retry_timer_source := 0\<rparr>) w
          in Some (w\<lparr>timers := filter (\<lambda>t. fst t \<noteq> s) (timers w)\<rparr>))"

text \<open>Giving up: whether the context is to be removed, and the world after unregistering.\<close>

definition give_up_unreachable :: "env \<Rightarrow> nat \<Rightarrow> ble_device \<Rightarrow> nat \<Rightarrow> u64 \<Rightarrow> ble_world \<Rightarrow> bool \<times> ble_world" where
  "give_up_unreachable E p ble_dev retry_time_out_in_ms duration w =
     (if BLE_MAX_BACK_OFF_TIME_SECS * 1000 < retry_time_out_in_ms then
        let remove_device_context = MAX_CONNECTION_RETRY_TIME_SECONDS \<le> duration in
        if of_nat BLE_MAX_BACK_OFF_TIME_SECS \<le> duration then
          let (call_succeeded, w) = edge_unregister_device E (d_device_id ble_dev) remove_device_context w
          in (remove_device_context,
              if \<not> call_succeeded \<and> remove_device_context then pt_edge_del_device p w else w)
        else (remove_device_context, w)
      else (False, w))"

definition ble_start_reconnection_timer_or_unregister_device ::
  "env \<Rightarrow> nat \<Rightarrow> ble_world \<Rightarrow> ble_world option" where
  "ble_start_reconnection_timer_or_unregister_device E p w =
     (case device_at p (devices w) of
        None \<Rightarrow> None
      | Some ble_dev \<Rightarrow>
          if d_retry_timer_source ble_dev \<noteq> 0 then Some w else
          let retries = (if d_connection_retries ble_dev < BLE_MAX_CONNECTION_RETRIES
                         then d_connection_retries ble_dev + 1 else d_connection_retries ble_dev);
              w = update_device p (\<lambda>d. d\<lparr>d_connection_retries := retries\<rparr>) w
          in (case ble_back_off_time_in_ms retries of
                None \<Rightarrow> None
              | Some retry_time_out_in_ms \<Rightarrow>
                  let (duration, w) = devices_duration_in_sec_since_last_connection E ble_dev w;
                      (remove_device_context, w) =
                        give_up_unreachable E p ble_dev retry_time_out_in_ms duration w
                  in if remove_device_context then Some w
                     else let (s, w) = g_timeout_add E retry_time_out_in_ms p w
                          in Some (update_device p (\<lambda>d. d\<lparr>d_retry_timer_source := s\<rparr>) w)))"

section \<open>Removing devices\<close>

definition ble_remove_device :: "env \<Rightarrow> nat \<Rightarrow> ble_world \<Rightarrow> ble_world option" where
  "ble_remove_device E p w =
     (case device_at p (devices w) of
        None \<Rightarrow> None
      | Some ble_dev \<Rightarrow>
          let w = device_stop_retry_timer p w;
              (proxy, w) = g_dbus_proxy_new E (cfg_bluez_hci_path w) ADAPTER_IFACE w
          in (case proxy of
                Inl _ \<Rightarrow> Some w
              | Inr _ \<Rightarrow> Some (call (Bus (CallMethod (cfg_bluez_hci_path w) ADAPTER_IFACE ''RemoveDevice''
                           [d_dbus_path ble_dev, d_device_id ble_dev])) w)))"

text \<open>Unregister in Edge; when there is nothing to unregister, delete the device here.\<close>

definition unregister_or_delete :: "env \<Rightarrow> ble_device \<Rightarrow> ble_world \<Rightarrow> ble_world" where
  "unregister_or_delete E ble_dev w =
     (let (call_succeeded, w) = edge_unregister_device E (d_device_id ble_dev) True w
      in if \<not> call_succeeded then pt_edge_del_device (d_ptr ble_dev) w else w)"

definition ble_remove_device_done :: "env \<Rightarrow> string \<Rightarrow> ble_world \<Rightarrow> ble_world" where
  "ble_remove_device_done E device_id w =
     (case devices_find_device_by_device_id device_id (devices w) of
        None \<Rightarrow> w
      | Some ble_dev \<Rightarrow> unregister_or_delete E ble_dev w)"

fun remove_all :: "env \<Rightarrow> nat list \<Rightarrow> ble_world \<Rightarrow> ble_world option" where
  "remove_all E [] w = Some w"
| "remove_all E (p # ps) w =
     (case ble_remove_device E p w of None \<Rightarrow> None | Some w \<Rightarrow> remove_all E ps w)"

definition unregister_devices :: "env \<Rightarrow> ble_world \<Rightarrow> ble_world option" where
  "unregister_devices E w =
     (if unregistering_devices w then Some w else
      let w = w\<lparr>unregistering_devices := True\<rparr> in
      if devices w = [] then Some (g_idle_add Pt_ble_g_main_quit_loop w)
      else (case remove_all E (map d_ptr (devices w)) w of
              None \<Rightarrow> None
            | Some w \<Rightarrow>
                Some (if devices w = [] then g_idle_add Pt_ble_g_main_quit_loop w else w)))"

section \<open>Shutdown\<close>

definition pt_ble_g_main_quit_loop :: "ble_world \<Rightarrow> ble_world" where
  "pt_ble_g_main_quit_loop w = (if \<not> global_keep_running w then g_main_loop_quit w else w)"

definition pt_ble_graceful_shutdown :: "env \<Rightarrow> ble_world \<Rightarrow> ble_world option" where
  "pt_ble_graceful_shutdown E w =
     unregister_devices E
       (if \<not> global_keep_running w then g_idle_add Pt_ble_g_main_quit_loop w
        else w\<lparr>global_keep_running := False\<rparr>)"

section \<open>The back-off in closed form\<close>

lemma back_off_values:
  "back_off_loop r 324 = 324"
  "back_off_loop r 108 = (if 1 < r then 324 else 108)"
  "back_off_loop r 36 = (if 2 < r then 324 else if 1 < r then 108 else 36)"
  "back_off_loop r 12 = (if 3 < r then 324 else if 2 < r then 108 else if 1 < r then 36 else 12)"
  "back_off_loop r 4 = (if 4 < r then 324 else if 3 < r then 108 else if 2 < r then 36 else if 1 < r then 12 else 4)"
proof -
  show a: "back_off_loop r 324 = 324" for r by (subst back_off_loop.simps) simp
  show b: "back_off_loop r 108 = (if 1 < r then 324 else 108)" for r
    by (subst back_off_loop.simps) (simp add: a)
  show c: "back_off_loop r 36 = (if 2 < r then 324 else if 1 < r then 108 else 36)" for r
    by (subst back_off_loop.simps) (simp add: b)
  show d: "back_off_loop r 12 = (if 3 < r then 324 else if 2 < r then 108 else if 1 < r then 36 else 12)" for r
    by (subst back_off_loop.simps) (simp add: c)
  show "back_off_loop r 4 = (if 4 < r then 324 else if 3 < r then 108 else if 2 < r then 36 else if 1 < r then 12 else 4)"
    by (subst back_off_loop.simps) (simp add: d)
qed

text \<open>
  C18: The back-off time triples from 4 seconds with each retry and stays at 324 seconds from the
  fifth on: retry n waits 4 * 3^min(n - 1, 4) seconds; it never decreases, and it exceeds the
  limit of 300 seconds (when the translator starts to give up) exactly from the fifth retry.
\<close>

theorem back_off_closed_form:
  "ble_back_off_time_in_ms r = (if r \<le> 0 then None else Some (4000 * 3 ^ nat (min (r - 1) 4))) \<and>
   (0 < r \<longrightarrow> (300 * 1000 < the (ble_back_off_time_in_ms r) \<longleftrightarrow> 5 \<le> r))"
proof (cases "r \<le> 0")
  case True
  then show ?thesis by (simp add: ble_back_off_time_in_ms_def)
next
  case False
  then consider "r = 1" | "r = 2" | "r = 3" | "r = 4" | "4 < r" by linarith
  then show ?thesis
  proof cases
    case 5
    then have "min (r - 1) 4 = 4" by simp
    with 5 show ?thesis by (simp add: ble_back_off_time_in_ms_def back_off_values)
  qed (simp_all add: ble_back_off_time_in_ms_def back_off_values)
qed

theorem back_off_closed_form_witness:
  "the (ble_back_off_time_in_ms 7) = 324000 \<and> 300 * 1000 < the (ble_back_off_time_in_ms 7)"
  using back_off_closed_form [of 7] by simp

end
