(* ===== verification/Discovery.thy ===== *)
theory Discovery
  imports Reconnect
begin

text \<open>
  Discovering devices and their characteristics (\<^verbatim>\<open>blept-example/pt_ble.c\<close>): which devices
  are supported, the whitelist and its file, new device contexts, and reading the GATT
  tables from BlueZ's objects. \<open>None\<close> is undefined behaviour (a NULL or uninitialised
  string used).
\<close>

section \<open>Which devices are supported\<close>

fun any_supported_service :: "gvariant list \<Rightarrow> bool" where
  "any_supported_service [] = False"
| "any_supported_service (uuid # us) =
     (case uuid of
        GString u \<Rightarrow> ble_services_is_supported_service u \<or> any_supported_service us
      | _ \<Rightarrow> any_supported_service us)"

definition ble_identify_device_services :: "env \<Rightarrow> proxy \<Rightarrow> ble_world \<Rightarrow> bool \<times> ble_world" where
  "ble_identify_device_services E device_proxy w =
     (let (uuid_list, w) = ask_variant E (Bus (CachedProperty device_proxy ''UUIDs'')) w
      in case uuid_list of
           Some (GArray us) \<Rightarrow> (any_supported_service us, w)
         | _ \<Rightarrow> (False, w))"

fun white_list_match :: "string \<Rightarrow> (string \<times> bool) list \<Rightarrow> bool" where
  "white_list_match name [] = False"
| "white_list_match name ((entry_name, partial_match) # es) =
     (if partial_match then (if strstr name entry_name \<noteq> None then True else white_list_match name es)
      else if entry_name = name then True else white_list_match name es)"

definition ble_identify_device_using_whitelist :: "env \<Rightarrow> proxy \<Rightarrow> ble_world \<Rightarrow> ble_device_type \<times> ble_world" where
  "ble_identify_device_using_whitelist E device_proxy w =
     (let (name_prop, w) = ask_variant E (Bus (CachedProperty device_proxy ''Name'')) w
      in case (name_prop, cfg_white_list w) of
           (Some (GString name), Some entries) \<Rightarrow>
             (if white_list_match name entries then BLE_DEVICE_PERSISTENT_GATT_SERVER else BLE_DEVICE_UNKNOWN, w)
         | _ \<Rightarrow> (BLE_DEVICE_UNKNOWN, w))"

definition ble_identify_device_type :: "env \<Rightarrow> string \<Rightarrow> ble_world \<Rightarrow> ble_device_type \<times> ble_world" where
  "ble_identify_device_type E path w =
     (let (devProxy, w) = g_dbus_proxy_new E path DEVICE_IFACE w
      in case devProxy of
           Inl _ \<Rightarrow> (BLE_DEVICE_UNKNOWN, w)
         | Inr proxy \<Rightarrow>
             let (supported, w) = (if cfg_service_based_discovery w
                                   then ble_identify_device_services E proxy w else (False, w))
             in if supported then (BLE_DEVICE_PERSISTENT_GATT_SERVER, w)
                else ble_identify_device_using_whitelist E proxy w)"

section \<open>The whitelist file\<close>

text \<open>The loop over the array: the list read so far, or \<open>None\<close> for \<open>goto error_exit\<close>.\<close>

fun read_entries :: "json list \<Rightarrow> (string \<times> bool) list \<Rightarrow> (string \<times> bool) list option" where
  "read_entries [] acc = Some acc"
| "read_entries (entry # es) acc =
     (case json_object_get entry ''name'' of
        Some (JString name) \<Rightarrow>
          (case json_object_get entry ''partial-match'' of
             None \<Rightarrow> read_entries es (acc @ [(name, True)])
           | Some (JInteger n) \<Rightarrow> read_entries es (acc @ [(name, n \<noteq> 0)])
           | Some _ \<Rightarrow> None)
      | _ \<Rightarrow> None)"

text \<open>
  \<open>parse\<close> is jansson's parser. \<open>json_array_foreach\<close> over a value that is not an array runs no
  iteration.
\<close>

definition device_conf_list_read ::
  "env \<Rightarrow> (bytes \<Rightarrow> json option) \<Rightarrow> string option \<Rightarrow> 'a ext_scheme \<Rightarrow>
   (string \<times> bool) list option \<times> 'a ext_scheme" where
  "device_conf_list_read E parse file_path w =
     (case file_path of
        None \<Rightarrow> (None, w)
      | Some path \<Rightarrow>
          let (data, w) = ask_data E (Sys (ReadFile path)) w
          in (case data of
                None \<Rightarrow> None
              | Some d \<Rightarrow>
                  (case parse d of
                     None \<Rightarrow> None
                   | Some json \<Rightarrow>
                       (case json_object_get json ''whitelisted-devices'' of
                          None \<Rightarrow> None
                        | Some (JArray entries) \<Rightarrow> read_entries entries []
                        | Some _ \<Rightarrow> Some [])), w))"

section \<open>Characteristics\<close>

text \<open>The locals of \<open>process_characteristic_object\<close> the property loop assigns.\<close>

record char_info =
  ci_flags :: int
  ci_uuid :: "string option"
  ci_service_path :: "string option"

text \<open>One property: \<open>strtok\<close> of the printed value at single quotes; a missing token is NULL.\<close>

definition char_property :: "string \<Rightarrow> string \<Rightarrow> char_info \<Rightarrow> char_info option" where
  "char_property key value_str ci =
     (if key = ''Flags'' then Some (ci\<lparr>ci_flags := translate_ble_flags value_str\<rparr>)
      else if key = ''UUID'' then
        (case strtok_quote value_str of
           quoted # _ \<Rightarrow> Some (ci\<lparr>ci_uuid := Some (take FORMATTED_UUID_LEN quoted)\<rparr>)
         | [] \<Rightarrow> None)
      else if key = ''Service'' then
        (case strtok_quote value_str of
           _ # quoted # _ \<Rightarrow> Some (ci\<lparr>ci_service_path := Some (take 4095 quoted)\<rparr>)
         | _ \<Rightarrow> None)
      else Some ci)"

fun char_properties :: "env \<Rightarrow> proxy \<Rightarrow> string list \<Rightarrow> char_info \<Rightarrow> ble_world \<Rightarrow> (char_info \<times> ble_world) option" where
  "char_properties E proxy [] ci w = Some (ci, w)"
| "char_properties E proxy (key # keys) ci w =
     (let (value_str, w) = ask_str E (Bus (PrintProperty proxy key)) w
      in case value_str of
           None \<Rightarrow> None
         | Some v \<Rightarrow>
             (case char_property key v ci of
                None \<Rightarrow> None | Some ci \<Rightarrow> char_properties E proxy keys ci w))"

fun service_uuid_property :: "env \<Rightarrow> proxy \<Rightarrow> string list \<Rightarrow> string \<Rightarrow> ble_world \<Rightarrow> (string \<times> ble_world) option" where
  "service_uuid_property E proxy [] srvc_uuid w = Some (srvc_uuid, w)"
| "service_uuid_property E proxy (key # keys) srvc_uuid w =
     (let (value_str, w) = ask_str E (Bus (PrintProperty proxy key)) w
      in case value_str of
           None \<Rightarrow> None
         | Some v \<Rightarrow>
             if key = ''UUID'' then
               (case strtok_quote v of
                  quoted # _ \<Rightarrow> service_uuid_property E proxy keys (take FORMATTED_UUID_LEN quoted) w
                | [] \<Rightarrow> None)
             else service_uuid_property E proxy keys srvc_uuid w)"

definition DEFAULT_SERVICE_UUID :: string where
  "DEFAULT_SERVICE_UUID = ''ffffffff-ffff-ffff-ffff-ffffffffffff''"

definition read_service_uuid :: "env \<Rightarrow> string \<Rightarrow> ble_world \<Rightarrow> (string \<times> ble_world) option" where
  "read_service_uuid E service_path w =
     (let (service_proxy, w) = g_dbus_proxy_new E service_path GATT_SERVICE_IFACE w
      in case service_proxy of
           Inl _ \<Rightarrow> Some (DEFAULT_SERVICE_UUID, w)
         | Inr sp \<Rightarrow>
             let (property_names, w) = ask_strs E (Bus (CachedPropertyNames sp)) w
             in service_uuid_property E sp property_names DEFAULT_SERVICE_UUID w)"

definition process_characteristic_object ::
  "env \<Rightarrow> string \<Rightarrow> ble_device \<Rightarrow> ble_world \<Rightarrow> (ble_device \<times> ble_world) option" where
  "process_characteristic_object E path ble_dev w =
     (if \<not> object_on_adapter path (cfg_adapter w) then Some (ble_dev, w) else
      let (proxy, w) = g_dbus_proxy_new E path GATT_CHARACTERISTIC_IFACE w
      in case proxy of
           Inl _ \<Rightarrow> Some (ble_dev, w)
         | Inr px \<Rightarrow> do {
             char_device_address \<leftarrow> get_device_address_from_characteristic_path path;
             if char_device_address \<noteq> d_bt_addr ble_dev then Some (ble_dev, w) else
             let (property_names, w) = ask_strs E (Bus (CachedPropertyNames px)) w in do {
               (ci, w) \<leftarrow> char_properties E px property_names
                           \<lparr>ci_flags = 0, ci_uuid = None, ci_service_path = None\<rparr> w;
               service_path \<leftarrow> ci_service_path ci;
               (srvc_uuid, w) \<leftarrow> read_service_uuid E service_path w;
               (case ci_uuid ci of
                  None \<Rightarrow> Some (ble_dev, w)
                | Some char_uuid \<Rightarrow>
                    Some (device_add_gatt_characteristic ble_dev srvc_uuid service_path char_uuid
                            (Some path) (ci_flags ci) (Some px), w))
             }
           })"

fun handle_characteristics ::
  "env \<Rightarrow> (string \<times> string list) list \<Rightarrow> ble_device \<Rightarrow> ble_world \<Rightarrow> (ble_device \<times> ble_world) option" where
  "handle_characteristics E [] ble_dev w = Some (ble_dev, w)"
| "handle_characteristics E ((path, interfaces) # objects) ble_dev w =
     (if GATT_CHARACTERISTIC_IFACE \<in> set interfaces then
        (case process_characteristic_object E path ble_dev w of
           None \<Rightarrow> None | Some (ble_dev, w) \<Rightarrow> handle_characteristics E objects ble_dev w)
      else handle_characteristics E objects ble_dev w)"

text \<open>Without any object the error path reads the code of an error that was not set.\<close>

definition ble_discover_characteristics ::
  "env \<Rightarrow> ble_device \<Rightarrow> ble_world \<Rightarrow> (ble_device \<times> ble_world) option" where
  "ble_discover_characteristics E ble_dev w =
     (let (manager, w) = ask_ok E (Bus ObjectManager) w in
      if \<not> manager then Some (ble_dev, w) else
      let (objects, w) = ask_objects E (Bus ManagedObjects) w
      in case objects of
           None \<Rightarrow> None
         | Some obs \<Rightarrow> handle_characteristics E obs ble_dev w)"

section \<open>New devices\<close>

definition ble_create_device_proxy :: "env \<Rightarrow> string \<Rightarrow> ble_world \<Rightarrow> proxy option \<times> ble_world" where
  "ble_create_device_proxy E addr w =
     (let (devProxy, w) = g_dbus_proxy_new E addr DEVICE_IFACE w
      in case devProxy of
           Inl _ \<Rightarrow> (None, w)
         | Inr proxy \<Rightarrow>
             let (prop_handler, w) = ask_int E (Bus (SignalConnect addr)) w
             in (if prop_handler = 0 then None else Some proxy, w))"

text \<open>Without a proxy GLib answers no Address property.\<close>

definition ble_create_device_context ::
  "env \<Rightarrow> proxy option \<Rightarrow> ble_device_type \<Rightarrow> ble_world \<Rightarrow> ble_world option" where
  "ble_create_device_context E proxy device_type w =
     (case proxy of
        None \<Rightarrow> Some w
      | Some px \<Rightarrow>
          (case ble_device_proxy_get_address E BLE_DEVICE_ADDRESS_SIZE px w of
             None \<Rightarrow> None
           | Some (None, w) \<Rightarrow> Some w
           | Some (Some bt_address, w) \<Rightarrow>
               let ble_device_id = devices_make_device_id BLE_DEVICE_NAME_MAX_LENGTH ''BLE'' bt_address
                                     (cfg_postfix w) in
               if devices_find_device_by_device_id ble_device_id (devices w) \<noteq> None then Some w else
               let (ble_dev, w) = device_create E bt_address w;
                   ble_dev = ble_dev\<lparr>d_proxy := Some px, d_dbus_path := px_path px,
                               d_device_type := device_type\<rparr>
               in Some (devices_link_device ble_dev ble_device_id w)))"

definition ble_new_device :: "env \<Rightarrow> string \<Rightarrow> ble_world \<Rightarrow> ble_world option" where
  "ble_new_device E dbus_path w =
     (if \<not> global_keep_running w then Some w else
      let (device_type, w) = ble_identify_device_type E dbus_path w in
      if device_type = BLE_DEVICE_UNKNOWN then Some w else
      let (proxy, w) = ble_create_device_proxy E dbus_path w
      in (case ble_create_device_context E proxy device_type w of
            None \<Rightarrow> None
          | Some w \<Rightarrow>
              Some (if device_type = BLE_DEVICE_PERSISTENT_GATT_SERVER then ble_proxy_connect proxy w else w)))"

definition ble_on_object_added :: "env \<Rightarrow> string \<Rightarrow> string list \<Rightarrow> ble_world \<Rightarrow> ble_world option" where
  "ble_on_object_added E path interfaces w =
     (if DEVICE_IFACE \<in> set interfaces then ble_new_device E path w else Some w)"

fun ble_handle_known_devices :: "env \<Rightarrow> (string \<times> string list) list \<Rightarrow> ble_world \<Rightarrow> ble_world option" where
  "ble_handle_known_devices E [] w = Some w"
| "ble_handle_known_devices E ((path, interfaces) # objects) w =
     (if DEVICE_IFACE \<in> set interfaces \<and> object_on_adapter path (cfg_adapter w) then
        (case ble_new_device E path w of None \<Rightarrow> None | Some w \<Rightarrow> ble_handle_known_devices E objects w)
      else ble_handle_known_devices E objects w)"

definition ble_connect_to_known_devices :: "env \<Rightarrow> ble_world \<Rightarrow> ble_world option" where
  "ble_connect_to_known_devices E w =
     (let (objects, w) = ask_objects E (Bus ManagedObjects) w
      in case objects of None \<Rightarrow> Some w | Some obs \<Rightarrow> ble_handle_known_devices E obs w)"

text \<open>\<open>ble_discover\<close>: 0 or an error code; the filter holds the table's UUIDs when discovery is service based.\<close>

definition ble_discover :: "env \<Rightarrow> ble_world \<Rightarrow> int \<times> ble_world" where
  "ble_discover E w =
     (let (proxy, w) = g_dbus_proxy_new E (cfg_bluez_hci_path w) ADAPTER_IFACE w
      in case proxy of
           Inl _ \<Rightarrow> (1, w)
         | Inr _ \<Rightarrow>
             let e = Bus (SetDiscoveryFilter (if cfg_service_based_discovery w
                            then Some ble_services_get_service_uuid_filter else None))
             in if env_ok E (trace w) e
                then (0, call (Bus (CallMethod (cfg_bluez_hci_path w) ADAPTER_IFACE ''StartDiscovery'' [])) (call e w))
                else (env_int E (trace w) e, call e w))"

fun clear_devices :: "env \<Rightarrow> (string \<times> string list) list \<Rightarrow> ble_world \<Rightarrow> ble_world" where
  "clear_devices E [] w = w"
| "clear_devices E ((path, interfaces) # objects) w =
     (if DEVICE_IFACE \<in> set interfaces
      then clear_devices E objects
        (call (Bus (CallMethodSync (cfg_bluez_hci_path w) ADAPTER_IFACE ''RemoveDevice'' [path])) w)
      else clear_devices E objects w)"

definition ble_clear_device_cache :: "env \<Rightarrow> ble_world \<Rightarrow> ble_world" where
  "ble_clear_device_cache E w =
     (let (proxy, w) = g_dbus_proxy_new E (cfg_bluez_hci_path w) ADAPTER_IFACE w
      in case proxy of
           Inl _ \<Rightarrow> w
         | Inr _ \<Rightarrow>
             let (objects, w) = ask_objects E (Bus ManagedObjects) w
             in case objects of None \<Rightarrow> w | Some obs \<Rightarrow> clear_devices E obs w)"

end
