(* ===== verification/Event_Loop.thy ===== *)
theory Event_Loop
  imports Discovery
begin

text \<open>
  What runs on an event: the callbacks of BlueZ's signals and of finished D-Bus calls
  (\<^verbatim>\<open>blept-example/pt_ble.c\<close>) and those of the Edge protocol translator API
  (\<^verbatim>\<open>blept-example/pt_edge.c\<close>). Each runs with the device mutex held, so each is one
  operation on the state; \<open>None\<close> is a failed assertion or undefined behaviour.
\<close>

section \<open>Connection\<close>

text \<open>The device a proxy belongs to, and what to do with it when it is known.\<close>

definition with_device_of_proxy ::
  "env \<Rightarrow> proxy \<Rightarrow> (ble_device \<Rightarrow> ble_world \<Rightarrow> ble_world option) \<Rightarrow> ble_world \<Rightarrow> ble_world option" where
  "with_device_of_proxy E proxy f w =
     (case ble_find_device_from_proxy E proxy w of
        None \<Rightarrow> None
      | Some (None, w) \<Rightarrow> Some w
      | Some (Some ble_dev, w) \<Rightarrow> f ble_dev w)"

definition ble_on_connect :: "env \<Rightarrow> proxy \<Rightarrow> ble_world \<Rightarrow> ble_world option" where
  "ble_on_connect E proxy w =
     (if \<not> ble_is_device_interface_proxy proxy then None else
      with_device_of_proxy E proxy
        (\<lambda>ble_dev w. Some (update_device (d_ptr ble_dev) (\<lambda>d. device_set_connected d True) w)) w)"

definition ble_on_disconnect :: "env \<Rightarrow> proxy \<Rightarrow> ble_world \<Rightarrow> ble_world option" where
  "ble_on_disconnect E proxy w =
     (if \<not> ble_is_device_interface_proxy proxy then None else
      with_device_of_proxy E proxy
        (\<lambda>ble_dev w. ble_start_reconnection_timer_or_unregister_device E (d_ptr ble_dev)
           (update_device (d_ptr ble_dev) (\<lambda>d. device_set_connected d False) w)) w)"

text \<open>The body of \<open>ble_on_services_resolved\<close> for a device whose services are not resolved yet.\<close>

definition resolve_services :: "env \<Rightarrow> ble_device \<Rightarrow> ble_world \<Rightarrow> (ble_device \<times> ble_world) option" where
  "resolve_services E ble_dev w = do {
     (ble_dev, w) \<leftarrow> ble_discover_characteristics E ble_dev w;
     (ble_dev, w) \<leftarrow> device_add_resources_from_gatt E ble_dev w;
     (ble_dev, w) \<leftarrow> device_add_known_translations_from_gatt E ble_dev w;
     Some (ble_dev\<lparr>d_services_resolved := True\<rparr>, w)
   }"

definition services_resolved_of :: "env \<Rightarrow> ble_device \<Rightarrow> ble_world \<Rightarrow> ble_world option" where
  "services_resolved_of E ble_dev w =
     (if d_services_resolved ble_dev then Some (device_register_device ble_dev w) else
      case resolve_services E ble_dev w of
        None \<Rightarrow> None
      | Some (ble_dev, w) \<Rightarrow>
          Some (device_register_device ble_dev (update_device (d_ptr ble_dev) (\<lambda>_. ble_dev) w)))"

definition ble_on_services_resolved :: "env \<Rightarrow> proxy \<Rightarrow> ble_world \<Rightarrow> ble_world option" where
  "ble_on_services_resolved E proxy w =
     (if \<not> edge_is_connected E w then Some w
      else if \<not> ble_is_device_interface_proxy proxy then None
      else with_device_of_proxy E proxy (services_resolved_of E) w)"

text \<open>The key is compared with \<open>strncmp\<close> including its NUL.\<close>

fun ble_properties_changed :: "env \<Rightarrow> proxy \<Rightarrow> (string \<times> gvariant) list \<Rightarrow> ble_world \<Rightarrow> ble_world option" where
  "ble_properties_changed E proxy [] w = Some w"
| "ble_properties_changed E proxy ((key, value) # changed_properties) w =
     (case (if strncmp_eq 10 key ''Connected'' then
              (case value of
                 GBoolean True \<Rightarrow> ble_on_connect E proxy w
               | GBoolean False \<Rightarrow> ble_on_disconnect E proxy w
               | _ \<Rightarrow> None)
            else if strncmp_eq 17 key ''ServicesResolved'' then
              (case value of
                 GBoolean True \<Rightarrow> ble_on_services_resolved E proxy w
               | GBoolean False \<Rightarrow> Some w
               | _ \<Rightarrow> None)
            else Some w) of
        None \<Rightarrow> None
      | Some w \<Rightarrow> ble_properties_changed E proxy changed_properties w)"

text \<open>The \<open>Connect\<close> call succeeded for a device in the list.\<close>

definition connect_succeeded :: "env \<Rightarrow> proxy \<Rightarrow> ble_device \<Rightarrow> ble_world \<Rightarrow> ble_world option" where
  "connect_succeeded E proxy ble_dev w =
     (let w = device_update_last_connected_timestamp E (d_ptr ble_dev) w;
          w = update_device (d_ptr ble_dev) (\<lambda>d. d\<lparr>d_connection_retries := 0\<rparr>) w;
          (created, w) =
            (if edge_is_connected E w
             then devices_create_pt_device E (d_device_id ble_dev) ''ARM'' ''mept-ble'' (d_bt_addr ble_dev)
                    ''mept-ble'' w
             else (True, w))
      in if \<not> created then Some (devices_del_device (d_ptr ble_dev) w)
         else if edge_is_connected E w then
           (case ble_services_are_resolved E proxy w of
              None \<Rightarrow> None
            | Some (resolved, w) \<Rightarrow> if resolved then ble_on_services_resolved E proxy w else Some w)
         else Some w)"

text \<open>\<open>err\<close>: the D-Bus call failed.\<close>

definition ble_connect_done :: "env \<Rightarrow> proxy \<Rightarrow> bool \<Rightarrow> ble_world \<Rightarrow> ble_world option" where
  "ble_connect_done E proxy err w =
     with_device_of_proxy E proxy
       (\<lambda>ble_dev w. if err then ble_start_reconnection_timer_or_unregister_device E (d_ptr ble_dev) w
                    else connect_succeeded E proxy ble_dev w) w"

definition ble_on_object_removed :: "env \<Rightarrow> string \<Rightarrow> ble_world \<Rightarrow> ble_world" where
  "ble_on_object_removed E object_path w =
     (if cfg_bluez_hci_path w = object_path then g_main_loop_quit w else
      case devices_find_device_by_dbus_path object_path (devices w) of
        None \<Rightarrow> w
      | Some ble_dev \<Rightarrow> unregister_or_delete E ble_dev w)"

section \<open>Periodic reads\<close>

text \<open>The two loops over the services and characteristics.\<close>

fun read_chars :: "env \<Rightarrow> string \<Rightarrow> nat \<Rightarrow> nat \<Rightarrow> ble_gatt_char list \<Rightarrow> ble_world \<Rightarrow> ble_world" where
  "read_chars E device_id srvc ch [] w = w"
| "read_chars E device_id srvc ch (gattchar # cs) w =
     read_chars E device_id srvc (Suc ch) cs
       (if ch_properties gattchar AND BLE_GATT_PROP_PERM_READ = 0 then w
        else snd (ble_read_characteristic_async E (ch_dbus_path gattchar) device_id srvc ch w))"

fun read_services :: "env \<Rightarrow> string \<Rightarrow> nat \<Rightarrow> ble_gatt_service list \<Rightarrow> ble_world \<Rightarrow> ble_world" where
  "read_services E device_id srvc [] w = w"
| "read_services E device_id srvc (gattservice # ss) w =
     read_services E device_id (Suc srvc) ss (read_chars E device_id srvc 0 (sv_chars gattservice) w)"

text \<open>A property of a missing proxy is NULL, so its device counts as disconnected.\<close>

definition ble_read_all_characteristics_for_device :: "env \<Rightarrow> ble_device \<Rightarrow> ble_world \<Rightarrow> ble_world option" where
  "ble_read_all_characteristics_for_device E ble w =
     (case d_proxy ble of
        None \<Rightarrow> Some w
      | Some proxy \<Rightarrow>
          (case ble_device_is_connected E proxy w of
             None \<Rightarrow> None
           | Some (is_conn, w) \<Rightarrow>
               Some (if is_conn then read_services E (d_device_id ble) 0 (d_services ble) w else w)))"

fun read_devices :: "env \<Rightarrow> ble_device list \<Rightarrow> ble_world \<Rightarrow> ble_world option" where
  "read_devices E [] w = Some w"
| "read_devices E (ble # ds) w =
     (if device_is_registered ble \<and> device_is_connected ble then
        (case ble_read_all_characteristics_for_device E ble w of
           None \<Rightarrow> None
         | Some w \<Rightarrow> read_devices E ds (device_write_values_to_pt ble w))
      else read_devices E ds w)"

definition ble_read_everything :: "env \<Rightarrow> ble_world \<Rightarrow> ble_world option" where
  "ble_read_everything E w =
     (if \<not> global_keep_running w then Some w else read_devices E (devices w) w)"

text \<open>\<open>htons\<close> and \<open>htonl\<close> in place, by the size of the characteristic's value.\<close>

definition host_to_network_in_place :: "nat \<Rightarrow> bytes \<Rightarrow> bytes" where
  "host_to_network_in_place value_size value =
     (if value_size = 2 \<or> value_size = 4 then rev (take value_size value) @ drop value_size value else value)"

text \<open>\<open>ret\<close> is the value read, or \<open>None\<close> for an error. The device is looked up again by its identifier.\<close>

definition store_value_read ::
  "env \<Rightarrow> ble_device \<Rightarrow> nat \<Rightarrow> nat \<Rightarrow> bytes \<Rightarrow> ble_world \<Rightarrow> (ble_device \<times> ble_world) option" where
  "store_value_read E ble srvc ch ret w = do {
     (gattservice, gattchar) \<leftarrow> gatt_char ble srvc ch;
     let (value, sz) = parse_result_variant ret (ch_value gattchar) (ch_value_size gattchar);
         ble = update_char srvc ch (\<lambda>c. c\<lparr>ch_value := value, ch_value_length := sz\<rparr>) ble
     in do {
       w \<leftarrow> (if ble_services_is_supported_characteristic (sv_uuid gattservice) (ch_uuid gattchar)
            then ble_services_decode_and_write_characteristic_translation E ble srvc ch (take sz value) w
            else Some w);
       let value = (if ch_dtype gattchar = BLE_INTEGER
                    then host_to_network_in_place (ch_value_size gattchar) value else value);
           ble = update_char srvc ch (\<lambda>c. c\<lparr>ch_value := value\<rparr>) ble
       in Some (ble, device_update_characteristic_resource_value E ble srvc ch (take sz value) w)
     }
   }"

definition ble_read_characteristic_callback ::
  "env \<Rightarrow> string \<Rightarrow> nat \<Rightarrow> nat \<Rightarrow> bytes option \<Rightarrow> ble_world \<Rightarrow> ble_world option" where
  "ble_read_characteristic_callback E device_id srvc ch ret w =
     (case ret of
        None \<Rightarrow> Some w
      | Some vs \<Rightarrow>
          (case devices_find_device_by_device_id device_id (devices w) of
             None \<Rightarrow> None
           | Some ble \<Rightarrow>
               (case store_value_read E ble srvc ch vs w of
                  None \<Rightarrow> None
                | Some (ble, w) \<Rightarrow> Some (update_device (d_ptr ble) (\<lambda>_. ble) w))))"

section \<open>The Edge side becomes ready\<close>

text \<open>One device of the loop of \<open>pt_ble_pt_ready\<close>.\<close>

definition ready_device :: "env \<Rightarrow> ble_device \<Rightarrow> ble_world \<Rightarrow> ble_world option" where
  "ready_device E ble w =
     (let (exists, w) = edge_device_exists E (d_device_id ble) w in
      if exists then Some w else
      let (created, w) = devices_create_pt_device E (d_device_id ble) ''ARM'' ''mept-ble'' (d_bt_addr ble)
                           ''mept-ble'' w
      in if \<not> created \<or> \<not> edge_is_connected E w then Some w else
         case d_proxy ble of
           None \<Rightarrow> Some w
         | Some proxy \<Rightarrow>
             (case ble_services_are_resolved E proxy w of
                None \<Rightarrow> None
              | Some (resolved, w) \<Rightarrow> if resolved then ble_on_services_resolved E proxy w else Some w))"

fun ready_devices :: "env \<Rightarrow> nat list \<Rightarrow> ble_world \<Rightarrow> ble_world option" where
  "ready_devices E [] w = Some w"
| "ready_devices E (p # ps) w =
     (case device_at p (devices w) of
        None \<Rightarrow> None
      | Some ble \<Rightarrow>
          (case ready_device E ble w of None \<Rightarrow> None | Some w \<Rightarrow> ready_devices E ps w))"

definition pt_ble_pt_ready :: "env \<Rightarrow> ble_world \<Rightarrow> ble_world option" where
  "pt_ble_pt_ready E w = ready_devices E (map d_ptr (devices w)) w"

section \<open>Callbacks of the Edge protocol translator API\<close>

definition resource_callback_handler ::
  "env \<Rightarrow> string \<Rightarrow> u16 \<Rightarrow> u16 \<Rightarrow> u16 \<Rightarrow> operations \<Rightarrow> bytes \<Rightarrow> ble_world \<Rightarrow> (pt_status \<times> ble_world) option" where
  "resource_callback_handler E device_id object_id instance_id resource_id ops value w =
     (if \<not> global_keep_running w then Some (PT_STATUS_ERROR, w) else
      case devices_find_device_by_device_id device_id (devices w) of
        None \<Rightarrow> Some (PT_STATUS_ERROR, w)
      | Some ble \<Rightarrow>
          if OPERATION_WRITE \<in> ops then
            (case device_write_characteristic E ble object_id instance_id resource_id value w of
               None \<Rightarrow> None
             | Some (rc, ble, w) \<Rightarrow>
                 Some (if rc = 0 then PT_STATUS_SUCCESS else PT_STATUS_ERROR,
                       update_device (d_ptr ble) (\<lambda>_. ble) w))
          else if OPERATION_EXECUTE \<in> ops then Some (PT_STATUS_SUCCESS, w)
          else Some (PT_STATUS_ERROR, w))"

definition device_unregistered :: "string \<Rightarrow> bool \<Rightarrow> ble_world \<Rightarrow> ble_world" where
  "device_unregistered device_id delete_context w =
     (case devices_find_device_by_device_id device_id (devices w) of
        None \<Rightarrow> w
      | Some ble \<Rightarrow>
          if delete_context then pt_edge_del_device (d_ptr ble) w
          else update_device (d_ptr ble) (\<lambda>d. device_set_registered d False) w)"

definition device_unregistration_success :: "string \<Rightarrow> bool \<Rightarrow> ble_world \<Rightarrow> ble_world" where
  "device_unregistration_success device_id delete_context w =
     g_idle_add (Device_unregistered device_id delete_context) w"

definition device_unregistration_failure :: "string \<Rightarrow> bool \<Rightarrow> ble_world \<Rightarrow> ble_world" where
  "device_unregistration_failure device_id delete_context w =
     g_idle_add (Device_unregistered device_id delete_context) w"

definition device_registered :: "string \<Rightarrow> ble_world \<Rightarrow> ble_world" where
  "device_registered device_id w =
     (case devices_find_device_by_device_id device_id (devices w) of
        None \<Rightarrow> w
      | Some ble \<Rightarrow> update_device (d_ptr ble) (\<lambda>d. device_set_registered d True) w)"

definition device_registration_success :: "string \<Rightarrow> ble_world \<Rightarrow> ble_world" where
  "device_registration_success device_id w = g_idle_add (Device_registered device_id) w"

definition device_registration_failure :: "ble_world \<Rightarrow> ble_world" where
  "device_registration_failure w = call (Sys CondSignal) w"

fun register_all :: "ble_device list \<Rightarrow> ble_world \<Rightarrow> ble_world" where
  "register_all [] w = w"
| "register_all (dev # ds) w = register_all ds (edge_register_device (d_device_id dev) w)"

definition protocol_translator_registration_success :: "ble_world \<Rightarrow> ble_world" where
  "protocol_translator_registration_success w = register_all (devices w) (call (Sys CondSignal) w)"

definition protocol_translator_registration_failure :: "ble_world \<Rightarrow> ble_world" where
  "protocol_translator_registration_failure w =
     g_idle_add Pt_ble_graceful_shutdown (w\<lparr>global_keep_running := False\<rparr>)"

definition connection_ready_handler :: "conn \<Rightarrow> ble_world \<Rightarrow> ble_world" where
  "connection_ready_handler connection_id w =
     g_idle_add Pt_ble_pt_ready (w\<lparr>g_connection_id := connection_id\<rparr>)"

definition disconnected_handler :: "env \<Rightarrow> ble_world \<Rightarrow> ble_world" where
  "disconnected_handler E w = w\<lparr>g_connection_id := PT_API_CONNECTION_ID_INVALID E\<rparr>"

definition shutdown_cb_handler :: "ble_world \<Rightarrow> ble_world" where
  "shutdown_cb_handler w =
     (if \<not> global_keep_running w then w
      else g_idle_add Pt_ble_graceful_shutdown (w\<lparr>global_keep_running := False\<rparr>))"

definition device_certificate_renew_request_handler :: "pt_status" where
  "device_certificate_renew_request_handler = PT_STATUS_ERROR"

end
