(* ===== verification/Main_Loop.thy ===== *)
theory Main_Loop
  imports Event_Loop
begin

text \<open>
  The BLE translator as a whole: connecting to BlueZ and running GLib's main loop
  (\<^verbatim>\<open>ble_start\<close> of \<^verbatim>\<open>blept-example/pt_ble.c\<close>), the thread of the Edge client and its
  shutdown (\<^verbatim>\<open>pt_edge.c\<close>), \<^verbatim>\<open>main.c\<close>, and the transition system whose steps are one event
  handled to its end, with the states reachable from \<open>main\<close>.
\<close>

abbreviation (input) BLE_VALUE_READ_INTERVAL :: nat where "BLE_VALUE_READ_INTERVAL \<equiv> 5000"
abbreviation (input) BLUEZ_RECONNECT_RETRY_TIME_SECONDS :: nat where "BLUEZ_RECONNECT_RETRY_TIME_SECONDS \<equiv> 3"
abbreviation (input) SIGINT :: nat where "SIGINT \<equiv> 2"
abbreviation (input) SIGTERM :: nat where "SIGTERM \<equiv> 15"

section \<open>Arguments\<close>

text \<open>\<open>address\<close>, \<open>extended_discovery_file\<close> and \<open>protocol_translator_name\<close> can be NULL.\<close>

record blept_args =
  protocol_translator_name :: "string option"
  endpoint_postfix :: string
  edge_domain_socket :: string
  bluetooth_interface :: string
  address :: "string option"
  clear_cache :: bool
  extended_discovery_file :: "string option"

section \<open>Connecting to BlueZ\<close>

definition ble_connect_to_dbus :: "env \<Rightarrow> string option \<Rightarrow> ble_world \<Rightarrow> int \<times> ble_world" where
  "ble_connect_to_dbus E addr w =
     (let (connection, w) = ask_ok E (Bus (BusConnect (case addr of None \<Rightarrow> ''system'' | Some a \<Rightarrow> a))) w
      in (if connection then 0 else 1, w))"

text \<open>Powering on the adapter when it is off: whether the adapter is on in the end.\<close>

definition power_on_adapter :: "env \<Rightarrow> ble_world \<Rightarrow> bool \<times> ble_world" where
  "power_on_adapter E w =
     (let (powered, w) = ble_adapter_is_powered E w
      in if powered then (True, w) else ble_adapter_set_powered E True w)"

definition set_config :: "blept_args \<Rightarrow> ble_world \<Rightarrow> ble_world" where
  "set_config args w =
     w\<lparr>cfg_postfix := endpoint_postfix args, cfg_adapter := bluetooth_interface args,
       cfg_service_based_discovery := (extended_discovery_file args = None),
       cfg_bluez_hci_path := snprintf_buf 64 (''/org/bluez/'' @ bluetooth_interface args)\<rparr>"

text \<open>
  One round of the \<open>do\<close> loop up to \<open>g_main_loop_run\<close>: \<open>Inl\<close> with the value of \<open>ret_val\<close> for
  \<open>goto out\<close>, or \<open>Inr\<close> when the main loop runs. A new
  main loop has not been told to quit.
\<close>

definition ble_start_round :: "env \<Rightarrow> blept_args \<Rightarrow> ble_world \<Rightarrow> ((int + unit) \<times> ble_world) option" where
  "ble_start_round E args w =
     (let (rc, w) = ble_connect_to_dbus E (address args) (set_config args w) in
      if rc \<noteq> 0 then Some (Inl 2, w) else
      let (g_loop, w) = ask_ok E (Sys GMainLoopNew) w in
      if \<not> g_loop then Some (Inl 3, w) else
      let w = w\<lparr>loop_quit := False\<rparr>; (bluez_manager, w) = ask_ok E (Bus ObjectManager) w in
      if \<not> bluez_manager then Some (Inl 0, w) else
      let (powered, w) = power_on_adapter E w in
      if \<not> powered then Some (Inl 0, w) else
      case (if clear_cache args then Some (ble_clear_device_cache E w) else ble_connect_to_known_devices E w) of
        None \<Rightarrow> None
      | Some w \<Rightarrow>
          let w = call (Bus (SignalConnect ''object-removed'')) (call (Bus (SignalConnect ''object-added'')) w);
              (rc, w) = ble_discover E w in
          if rc \<noteq> 0 then Some (Inl 0, w) else
          let (s, w) = ask_int E (Sys (GTimeoutAdd BLE_VALUE_READ_INTERVAL)) w
          in Some (Inr (), call (Sys GMainLoopRun) (w\<lparr>g_source_id_1 := s\<rparr>)))"

text \<open>After the label \<open>out\<close>: \<open>Inl\<close> when \<open>ble_start\<close> returns, \<open>Inr\<close> for another round.\<close>

definition ble_start_out :: "int \<Rightarrow> ble_world \<Rightarrow> (int + unit) \<times> ble_world" where
  "ble_start_out ret_val w =
     (if ret_val = 0 \<and> global_keep_running w
      then (Inr (), call (Sys (Sleep BLUEZ_RECONNECT_RETRY_TIME_SECONDS)) w)
      else (Inl ret_val, w\<lparr>cfg_white_list := None\<rparr>))"

definition after_main_loop :: "ble_world \<Rightarrow> ble_world" where
  "after_main_loop w = g_source_remove (g_source_id_1 w) w"

text \<open>
  Before the loop: the whitelist. When it cannot be read, \<open>goto out\<close> enters the loop's body
  past the initialisation of \<open>bluez_manager\<close>, which is then released: undefined.
\<close>

definition read_whitelist :: "env \<Rightarrow> (bytes \<Rightarrow> json option) \<Rightarrow> blept_args \<Rightarrow> ble_world \<Rightarrow> ble_world option" where
  "read_whitelist E parse args w =
     (case extended_discovery_file args of
        None \<Rightarrow> Some w
      | Some path \<Rightarrow>
          let (entries, w) = device_conf_list_read E parse (Some path) w
          in case entries of None \<Rightarrow> None | Some es \<Rightarrow> Some (w\<lparr>cfg_white_list := Some es\<rparr>))"

section \<open>The thread of the Edge client\<close>

definition protocol_translator_api_start_func :: "env \<Rightarrow> blept_args \<Rightarrow> ble_world \<Rightarrow> ble_world" where
  "protocol_translator_api_start_func E args w =
     (let (g_client, w) = ask_ok E (Pt (PtClientCreate (edge_domain_socket args))) w in
      if \<not> g_client then w\<lparr>global_keep_running := False\<rparr> else
      let (started, w) = ask_ok E (Pt (PtClientStart (case protocol_translator_name args of None \<Rightarrow> [] | Some n \<Rightarrow> n))) w
      in if started then w else w\<lparr>global_keep_running := False\<rparr>)"

definition start_protocol_translator_api :: "ble_world \<Rightarrow> ble_world" where
  "start_protocol_translator_api w = call (Sys ThreadCreate) w"

definition stop_protocol_translator_api :: "bool \<Rightarrow> ble_world \<Rightarrow> ble_world" where
  "stop_protocol_translator_api g_client w =
     call (Pt PtClientShutdown) (if \<not> g_client then call (Sys CondWait) w else w)"

definition stop_protocol_translator_api_thread :: "ble_world \<Rightarrow> ble_world" where
  "stop_protocol_translator_api_thread w = call (Sys ThreadJoin) w"

section \<open>\<open>main\<close>\<close>

definition pt_ble_setup_signals :: "env \<Rightarrow> ble_world \<Rightarrow> bool \<times> ble_world" where
  "pt_ble_setup_signals E w =
     (let (source, w) = ask_int E (Sys (UnixSignalAdd SIGTERM)) w in
      if source = 0 then (False, w) else
      let (source, w) = ask_int E (Sys (UnixSignalAdd SIGINT)) w in (source \<noteq> 0, w))"

text \<open>\<open>main\<close> up to the call of \<open>ble_start\<close>, or its exit code.\<close>

definition main_init :: "env \<Rightarrow> blept_args \<Rightarrow> ble_world \<Rightarrow> (int + unit) \<times> ble_world" where
  "main_init E args w =
     (if protocol_translator_name args = None then (Inl 1, w) else
      let w = devices_init (w\<lparr>global_keep_running := True\<rparr>);
          (signals, w) = pt_ble_setup_signals E w
      in if \<not> signals then (Inl 1, w) else (Inr (), start_protocol_translator_api w))"

definition main_finish :: "bool \<Rightarrow> ble_world \<Rightarrow> int \<times> ble_world" where
  "main_finish g_client w = (0, stop_protocol_translator_api_thread (stop_protocol_translator_api g_client w))"

text \<open>The state of the translator's process before \<open>main\<close>.\<close>

definition zero_world :: "env \<Rightarrow> ble_world" where
  "zero_world E =
     \<lparr>trace = [], devices = [], next_ptr = 1, g_connection_id = PT_API_CONNECTION_ID_INVALID E,
      unregistering_devices = False, global_keep_running = False, cfg_postfix = [], cfg_adapter = [],
      cfg_bluez_hci_path = [], cfg_white_list = None, cfg_service_based_discovery = False,
      idle_queue = [], timers = [], g_source_id_1 = 0, loop_quit = False\<rparr>"

section \<open>Events\<close>

datatype edge_event =
    Resource_written string u16 u16 u16 operations bytes
  | Pt_registered
  | Pt_registration_failed
  | Device_registration_done string
  | Device_registration_failed
  | Device_unregistration_done string bool
  | Device_unregistration_failed string bool
  | Connection_ready conn
  | Disconnected
  | Client_shutdown

datatype event =
    Idle
  | Retry_timer int nat
  | Read_timer
  | Unix_signal
  | Properties_changed proxy "(string \<times> gvariant) list"
  | Object_added string "string list"
  | Object_removed string
  | Connect_done proxy bool
  | Remove_done string
  | Value_read string nat nat "bytes option"
  | Edge edge_event
  | Client_thread

text \<open>A callback the main loop takes from its idle queue.\<close>

fun run_idle :: "env \<Rightarrow> idle_task \<Rightarrow> ble_world \<Rightarrow> ble_world option" where
  "run_idle E Pt_ble_g_main_quit_loop w = Some (pt_ble_g_main_quit_loop w)"
| "run_idle E Pt_ble_graceful_shutdown w = pt_ble_graceful_shutdown E w"
| "run_idle E Pt_ble_pt_ready w = pt_ble_pt_ready E w"
| "run_idle E (Device_registered device_id) w = Some (device_registered device_id w)"
| "run_idle E (Device_unregistered device_id delete_context) w =
     Some (device_unregistered device_id delete_context w)"

definition handle_idle :: "env \<Rightarrow> ble_world \<Rightarrow> ble_world option" where
  "handle_idle E w =
     (case idle_queue w of [] \<Rightarrow> Some w | t # ts \<Rightarrow> run_idle E t (w\<lparr>idle_queue := ts\<rparr>))"

fun handle_edge :: "env \<Rightarrow> edge_event \<Rightarrow> ble_world \<Rightarrow> ble_world option" where
  "handle_edge E (Resource_written d ob i r ops v) w = map_option snd (resource_callback_handler E d ob i r ops v w)"
| "handle_edge E Pt_registered w = Some (protocol_translator_registration_success w)"
| "handle_edge E Pt_registration_failed w = Some (protocol_translator_registration_failure w)"
| "handle_edge E (Device_registration_done d) w = Some (device_registration_success d w)"
| "handle_edge E Device_registration_failed w = Some (device_registration_failure w)"
| "handle_edge E (Device_unregistration_done d c) w = Some (device_unregistration_success d c w)"
| "handle_edge E (Device_unregistration_failed d c) w = Some (device_unregistration_failure d c w)"
| "handle_edge E (Connection_ready c) w = Some (connection_ready_handler c w)"
| "handle_edge E Disconnected w = Some (disconnected_handler E w)"
| "handle_edge E Client_shutdown w = Some (shutdown_cb_handler w)"

text \<open>The arguments are those of \<open>main\<close>: the client's thread reads them.\<close>

fun handle :: "env \<Rightarrow> blept_args \<Rightarrow> event \<Rightarrow> ble_world \<Rightarrow> ble_world option" where
  "handle E args Idle w = handle_idle E w"
| "handle E args (Retry_timer s p) w = ble_retry_connect s p w"
| "handle E args Read_timer w = ble_read_everything E w"
| "handle E args Unix_signal w = pt_ble_graceful_shutdown E w"
| "handle E args (Properties_changed proxy props) w = ble_properties_changed E proxy props w"
| "handle E args (Object_added path ifaces) w = ble_on_object_added E path ifaces w"
| "handle E args (Object_removed path) w = Some (ble_on_object_removed E path w)"
| "handle E args (Connect_done proxy err) w = ble_connect_done E proxy err w"
| "handle E args (Remove_done d) w = Some (ble_remove_device_done E d w)"
| "handle E args (Value_read d srvc ch ret) w = ble_read_characteristic_callback E d srvc ch ret w"
| "handle E args (Edge ee) w = handle_edge E ee w"
| "handle E args Client_thread w = Some (protocol_translator_api_start_func E args w)"

section \<open>The transition system\<close>

text \<open>Where \<open>ble_start\<close> is: before a round, in the main loop, or back.\<close>

datatype phase = Starting | Running | Returned int

text \<open>
  A retry timer fires only while GLib runs it; the main loop handles nothing more once it has
  been told to quit, but the callbacks of the Edge client run on its own thread at any time.
\<close>

definition main_thread :: "event \<Rightarrow> bool" where
  "main_thread e = (case e of Edge _ \<Rightarrow> False | Client_thread \<Rightarrow> False | _ \<Rightarrow> True)"

definition enabled :: "ble_world \<Rightarrow> event \<Rightarrow> bool" where
  "enabled w e =
     ((main_thread e \<longrightarrow> \<not> loop_quit w) \<and>
      (case e of Retry_timer s p \<Rightarrow> (s, p) \<in> set (timers w) | Idle \<Rightarrow> idle_queue w \<noteq> [] | _ \<Rightarrow> True))"

inductive step :: "env \<Rightarrow> blept_args \<Rightarrow> phase \<times> ble_world \<Rightarrow> phase \<times> ble_world \<Rightarrow> bool"
  for E :: env and args :: blept_args where
  round_fails: "ble_start_round E args w = Some (Inl r, w') \<Longrightarrow> ble_start_out r w' = (Inr (), w'') \<Longrightarrow>
    step E args (Starting, w) (Starting, w'')"
| round_returns: "ble_start_round E args w = Some (Inl r, w') \<Longrightarrow> ble_start_out r w' = (Inl r', w'') \<Longrightarrow>
    step E args (Starting, w) (Returned r', w'')"
| round_runs: "ble_start_round E args w = Some (Inr (), w') \<Longrightarrow> step E args (Starting, w) (Running, w')"
| main_loop: "enabled w e \<Longrightarrow> handle E args e w = Some w' \<Longrightarrow> step E args (Running, w) (Running, w')"
| client_thread: "\<not> main_thread e \<Longrightarrow> handle E args e w = Some w' \<Longrightarrow> step E args (ph, w) (ph, w')"
| again: "loop_quit w \<Longrightarrow> ble_start_out 0 (after_main_loop w) = (Inr (), w') \<Longrightarrow>
    step E args (Running, w) (Starting, w')"
| returns: "loop_quit w \<Longrightarrow> ble_start_out 0 (after_main_loop w) = (Inl r, w') \<Longrightarrow>
    step E args (Running, w) (Returned r, w')"

inductive reachable :: "env \<Rightarrow> (bytes \<Rightarrow> json option) \<Rightarrow> blept_args \<Rightarrow> phase \<times> ble_world \<Rightarrow> bool"
  for E :: env and parse :: "bytes \<Rightarrow> json option" and args :: blept_args where
  start: "main_init E args (zero_world E) = (Inr (), w) \<Longrightarrow> read_whitelist E parse args w = Some w' \<Longrightarrow>
    reachable E parse args (Starting, w')"
| step: "reachable E parse args c \<Longrightarrow> step E args c c' \<Longrightarrow> reachable E parse args c'"

end
