(* ===== verification/Gatt_Laws.thy ===== *)
theory Gatt_Laws
  imports Gatt_Resources
begin

text \<open>
  What the operations on a device's tables promise: the introspection string fits its
  buffer, every characteristic becomes one resource, constructed contexts point at
  characteristics of the device, a write from Edge is defined, and what it leaves behind
  on each outcome.
\<close>

section \<open>Well-formed devices\<close>

definition context_ok :: "ble_device \<Rightarrow> translation_context \<Rightarrow> bool" where
  "context_ok ble ctx \<longleftrightarrow>
     gatt_char ble (tc_sv_idx ctx) (tc_ch_idx ctx) \<noteq> None \<and> tc_characteristic_extra_flags ctx < 4"

definition device_ok :: "ble_device \<Rightarrow> bool" where
  "device_ok ble \<longleftrightarrow>
     services_ok (d_services ble) \<and>
     (\<forall>s\<in>set (d_services ble). \<forall>c\<in>set (sv_chars s). ch_dbus_path c \<noteq> None) \<and>
     (\<forall>ctx\<in>set (d_translations ble). context_ok ble ctx)"

lemma gatt_char_Some:
  "gatt_char ble i j = Some (s, c) \<longleftrightarrow>
   i < length (d_services ble) \<and> s = d_services ble ! i \<and> j < length (sv_chars s) \<and> c = sv_chars s ! j"
  by (auto simp: gatt_char_def)

lemma gatt_char_None:
  "gatt_char ble i j = None \<longleftrightarrow>
   \<not> (i < length (d_services ble) \<and> j < length (sv_chars (d_services ble ! i)))"
  by (auto simp: gatt_char_def)

lemma gatt_char_services: "d_services ble' = d_services ble \<Longrightarrow> gatt_char ble' i j = gatt_char ble i j"
  by (simp add: gatt_char_def)

lemma context_ok_services: "d_services ble' = d_services ble \<Longrightarrow> context_ok ble' ctx = context_ok ble ctx"
  using gatt_char_services [of ble' ble] by (simp add: context_ok_def)

lemma device_ok_char:
  "device_ok ble \<Longrightarrow> gatt_char ble i j = Some (s, c) \<Longrightarrow>
   ch_dbus_path c \<noteq> None \<and> char_ok j c \<and> length (ch_value c) = ch_value_size c \<and> ch_value c \<noteq> []"
proof -
  assume ok: "device_ok ble" and g: "gatt_char ble i j = Some (s, c)"
  then have s: "s \<in> set (d_services ble)" "c \<in> set (sv_chars s)" "char_ok j c"
    by (auto simp: gatt_char_Some device_ok_def services_ok_def service_ok_def)
  with ok show ?thesis by (auto simp: device_ok_def char_ok_def)
qed

lemma update_char_simps [simp]:
  "d_ptr (update_char i j f ble) = d_ptr ble" "d_device_id (update_char i j f ble) = d_device_id ble"
  "d_translations (update_char i j f ble) = d_translations ble"
  "d_json_list (update_char i j f ble) = d_json_list ble"
  "d_services_resolved (update_char i j f ble) = d_services_resolved ble"
  "d_flags (update_char i j f ble) = d_flags ble"
  "d_retry_timer_source (update_char i j f ble) = d_retry_timer_source ble"
  "d_connection_retries (update_char i j f ble) = d_connection_retries ble"
  "d_dbus_path (update_char i j f ble) = d_dbus_path ble"
  "d_bt_addr (update_char i j f ble) = d_bt_addr ble"
  "d_proxy (update_char i j f ble) = d_proxy ble"
  by (simp_all add: update_char_def Let_def)

lemma gatt_char_update:
  "gatt_char ble i j = Some (s, c) \<Longrightarrow>
   gatt_char (update_char i j f ble) k l =
     (if k = i then (if l = j then Some (s\<lparr>sv_chars := (sv_chars s)[j := f c]\<rparr>, f c)
        else map_option (\<lambda>x. (s\<lparr>sv_chars := (sv_chars s)[j := f c]\<rparr>, snd x)) (gatt_char ble k l))
      else gatt_char ble k l)"
  by (auto simp: gatt_char_def update_char_def Let_def nth_list_update)

lemma device_ok_update_char:
  assumes ok: "device_ok ble" and g: "gatt_char ble i j = Some (s, c)"
    and f: "char_ok j (f c)" "ch_dbus_path (f c) = ch_dbus_path c"
  shows "device_ok (update_char i j f ble)"
proof -
  note gc = g [unfolded gatt_char_Some]
  let ?s = "s\<lparr>sv_chars := (sv_chars s)[j := f c]\<rparr>"
  have srv: "d_services (update_char i j f ble) = (d_services ble)[i := ?s]"
    using gc by (simp add: update_char_def Let_def)
  have so: "services_ok (d_services ble)" using ok by (simp add: device_ok_def)
  then have "service_ok s" using gc by (auto simp: services_ok_def)
  then have "service_ok ?s"
    using f(1) gc by (auto simp: service_ok_def nth_list_update)
  then have so': "services_ok ((d_services ble)[i := ?s])"
    using so gc by (intro services_ok_update) auto
  have paths: "\<forall>t\<in>set ((d_services ble)[i := ?s]). \<forall>c\<in>set (sv_chars t). ch_dbus_path c \<noteq> None"
  proof -
    have "ch_dbus_path (f c) \<noteq> None" using device_ok_char [OF ok g] f(2) by simp
    then have "\<forall>x\<in>set (sv_chars ?s). ch_dbus_path x \<noteq> None"
      using ok gc by (auto simp: device_ok_def dest!: set_update_subset_insert [THEN subsetD])
    then show ?thesis
      using ok by (auto simp: device_ok_def dest!: set_update_subset_insert [THEN subsetD])
  qed
  have "\<forall>ctx\<in>set (d_translations ble). context_ok (update_char i j f ble) ctx"
    using ok unfolding device_ok_def context_ok_def by (auto simp: gatt_char_update [OF g])
  with so' paths show ?thesis by (simp add: device_ok_def srv)
qed

section \<open>Construction keeps devices well formed\<close>

lemma extends_contexts_ok:
  assumes "device_ok ble" and "extends_contexts i j ble ble'" and "gatt_char ble i j \<noteq> None"
  shows "device_ok ble'"
proof -
  from assms(2) obtain new where n: "ble' = ble\<lparr>d_translations := d_translations ble @ new\<rparr>"
    "\<forall>ctx\<in>set new. tc_sv_idx ctx = i \<and> tc_ch_idx ctx = j \<and> tc_characteristic_extra_flags ctx < 2"
    unfolding extends_contexts_def by blast
  have srv: "d_services ble' = d_services ble" by (simp add: n(1))
  have "context_ok ble' ctx" if "ctx \<in> set new" for ctx
  proof -
    have "tc_characteristic_extra_flags ctx < 2" using n(2) that by blast
    then have "tc_characteristic_extra_flags ctx < 4" by (rule less_trans) simp
    with n(2) that assms(3) show ?thesis by (simp add: context_ok_def gatt_char_services [OF srv])
  qed
  moreover have "\<forall>ctx\<in>set (d_translations ble). context_ok ble' ctx"
    using assms(1) context_ok_services [OF srv] by (simp add: device_ok_def)
  ultimately have "\<forall>ctx\<in>set (d_translations ble'). context_ok ble' ctx" by (auto simp: n(1))
  with assms(1) show ?thesis by (simp add: device_ok_def srv)
qed

lemma construct_chars_ok:
  "device_ok ble \<Longrightarrow> i < length (d_services ble) \<Longrightarrow> sv_chars (d_services ble ! i) = pre @ cs \<Longrightarrow>
   \<exists>ble' w'. construct_chars E i (length pre) su cs ble w = Some (ble', w') \<and> device_ok ble' \<and>
     (\<exists>new. ble' = ble\<lparr>d_translations := d_translations ble @ new\<rparr>) \<and> calls_only w w'"
proof (induction cs arbitrary: pre ble w)
  case Nil
  then show ?case by (auto intro: exI [of _ "[]"])
next
  case (Cons c cs)
  have j: "length pre < length (sv_chars (d_services ble ! i))" using Cons.prems(3) by simp
  then have g: "gatt_char ble i (length pre) \<noteq> None" using Cons.prems(2) by (simp add: gatt_char_None)
  show ?case
  proof (cases "ble_services_is_supported_characteristic su (ch_uuid c)")
    case True
    obtain b1 w1 where r: "ble_services_construct_characteristic E ble i (length pre) w = Some (b1, w1)"
      using construct_characteristic_defined [OF g] by fastforce
    note ext = construct_characteristic_extends [OF r]
    then obtain n1 where n1: "b1 = ble\<lparr>d_translations := d_translations ble @ n1\<rparr>"
      unfolding extends_contexts_def by blast
    have "device_ok b1" using extends_contexts_ok [OF Cons.prems(1) _ g] ext by blast
    moreover have "i < length (d_services b1)" "sv_chars (d_services b1 ! i) = (pre @ [c]) @ cs"
      using Cons.prems(2,3) n1 by simp_all
    ultimately obtain b2 w2 n2 where s:
      "construct_chars E i (length (pre @ [c])) su cs b1 w1 = Some (b2, w2)" "device_ok b2"
      "b2 = b1\<lparr>d_translations := d_translations b1 @ n2\<rparr>" "calls_only w1 w2"
      using Cons.IH by blast
    have "b2 = ble\<lparr>d_translations := d_translations ble @ (n1 @ n2)\<rparr>" using s(3) n1 by simp
    moreover have "calls_only w w2" using ext s(4) by (blast intro: calls_only_trans)
    ultimately show ?thesis using s(1,2) True r by auto
  next
    case False
    have "sv_chars (d_services ble ! i) = (pre @ [c]) @ cs" using Cons.prems(3) by simp
    from Cons.IH [OF Cons.prems(1,2) this, of w] False show ?thesis by simp
  qed
qed

lemma construct_services_ok:
  "device_ok ble \<Longrightarrow> d_services ble = pre @ ss \<Longrightarrow>
   construct_services E (length pre) ss ble w = Some (ble', w') \<Longrightarrow>
   device_ok ble' \<and> (\<exists>new. ble' = ble\<lparr>d_translations := d_translations ble @ new\<rparr>) \<and> calls_only w w'"
proof (induction ss arbitrary: pre ble w)
  case Nil
  then show ?case by (auto intro: exI [of _ "[]"])
next
  case (Cons s ss)
  have i: "length pre < length (d_services ble)" "d_services ble ! length pre = s"
    using Cons.prems(2) by simp_all
  show ?case
  proof (cases "ble_services_is_supported_service (sv_uuid s)")
    case False
    then show ?thesis using Cons.IH [of ble "pre @ [s]" w] Cons.prems by simp
  next
    case True
    obtain w1 where w1: "ble_services_construct_service E ble (length pre) w = Some w1"
      using Cons.prems(3) True by (auto split: option.splits)
    obtain b2 w2 n1 where b2: "construct_chars E (length pre) 0 (sv_uuid s) (sv_chars s) ble w1 = Some (b2, w2)"
      "device_ok b2" "b2 = ble\<lparr>d_translations := d_translations ble @ n1\<rparr>" "calls_only w1 w2"
      using construct_chars_ok [OF Cons.prems(1) i(1), of "[]" "sv_chars s" E "sv_uuid s" w1] i(2) by auto
    have "construct_services E (length (pre @ [s])) ss b2 w2 = Some (ble', w')"
      using Cons.prems(3) True w1 b2(1) by simp
    moreover have "d_services b2 = (pre @ [s]) @ ss" using Cons.prems(2) b2(3) by simp
    ultimately obtain n2 where r: "device_ok ble'" "ble' = b2\<lparr>d_translations := d_translations b2 @ n2\<rparr>"
      "calls_only w2 w'"
      using Cons.IH [OF b2(2)] by blast
    have "ble' = ble\<lparr>d_translations := d_translations ble @ (n1 @ n2)\<rparr>" using r(2) b2(3) by simp
    moreover have "calls_only w w'"
      using construct_service_calls_only [OF w1] b2(4) r(3) by (blast intro: calls_only_trans)
    ultimately show ?thesis using r(1) by blast
  qed
qed

lemma add_translations_ok:
  assumes "device_ok ble" and "device_add_known_translations_from_gatt E ble w = Some (ble', w')"
  shows "device_ok ble' \<and> (\<exists>new. ble' = ble\<lparr>d_translations := d_translations ble @ new\<rparr>) \<and> calls_only w w'"
  using construct_services_ok [OF assms(1), of "[]" "d_services ble" E w ble' w'] assms(2)
  by (simp add: device_add_known_translations_from_gatt_def)

section \<open>Resources for every characteristic\<close>

lemma add_char_resources_calls_only: "calls_only w (add_char_resources E d i cs w)"
proof (induction cs arbitrary: w)
  case Nil
  then show ?case by simp
next
  case (Cons c cs)
  obtain b w1 where r: "edge_add_resource E d IPSO_OID_BLE_SERVICE (of_nat i) (ch_resource_id c)
      (resource_type (ch_dtype c)) (resource_operations (ch_properties c)) (ch_value c) w = (b, w1)" by fastforce
  then have "calls_only w w1" using edge_calls_only(1) by (metis snd_conv)
  from calls_only_trans [OF this Cons.IH] show ?case by (simp add: r)
qed

lemma add_service_resources_calls_only: "calls_only w (add_service_resources E d i ss w)"
proof (induction ss arbitrary: i w)
  case Nil
  then show ?case by simp
next
  case (Cons s ss)
  from calls_only_trans [OF add_char_resources_calls_only Cons.IH] show ?case by simp
qed

lemma add_resources_ok:
  assumes "device_add_resources_from_gatt E ble w = Some (ble', w')"
  shows "d_json_list ble = None \<and> (\<exists>j. ble' = ble\<lparr>d_json_list := Some j\<rparr>) \<and> calls_only w w'"
proof -
  let ?w1 = "add_service_resources E (d_device_id ble) 0 (d_services ble) w"
  obtain j w2 where j: "json_list_device_services E ble ?w1 = (j, w2)" by fastforce
  have w2: "calls_only ?w1 w2"
    using j by (auto simp: json_list_device_services_def malloc_def ask_defs Let_def split: if_splits)
  obtain js where js: "j = Some js" "d_json_list ble = None"
    using assms j by (auto simp: device_add_resources_from_gatt_def Let_def split: option.splits if_splits)
  obtain b w3 where r: "edge_add_resource E (d_device_id ble) IPSO_OID_BLE_INTROSPECT 0 0 LWM2M_STRING
      {OPERATION_READ} (string_bytes js @ [0]) w2 = (b, w3)" by fastforce
  then have "calls_only w2 w3" using edge_calls_only(1) by (metis snd_conv)
  then have "calls_only w w3"
    using w2 add_service_resources_calls_only by (blast intro: calls_only_trans)
  moreover have "ble' = ble\<lparr>d_json_list := Some js\<rparr>" "w' = w3"
    using assms j js r by (simp_all add: device_add_resources_from_gatt_def Let_def)
  ultimately show ?thesis using js(2) by blast
qed

text \<open>The resource a characteristic becomes, under its service's instance.\<close>

definition char_event :: "conn \<Rightarrow> string \<Rightarrow> nat \<Rightarrow> ble_gatt_char \<Rightarrow> ev" where
  "char_event c d i ch = Pt (PtAddResourceCb c d IPSO_OID_BLE_SERVICE (of_nat i) (ch_resource_id ch)
     (resource_type (ch_dtype ch)) (resource_operations (ch_properties ch)) (ch_value ch)
     cb_resource_callback_handler)"

fun is_add_resource :: "ev \<Rightarrow> bool" where
  "is_add_resource (Pt (PtAddResourceCb _ _ _ _ _ _ _ _ _)) = True"
| "is_add_resource _ = False"

lemma add_char_events:
  assumes "never_out_of_memory E"
  shows "filter is_add_resource (trace (add_char_resources E d i cs w)) =
    rev (map (char_event (g_connection_id w) d i) cs) @ filter is_add_resource (trace w)"
proof (induction cs arbitrary: w)
  case Nil
  then show ?case by simp
next
  case (Cons c cs)
  let ?w = "call (char_event (g_connection_id w) d i c) (call (Sys (Malloc (length (ch_value c)))) w)"
  have "add_char_resources E d i (c # cs) w = add_char_resources E d i cs ?w"
    using assms
    by (simp add: edge_add_resource_def malloc_def ask_defs never_out_of_memory_def Let_def
          char_event_def call_def)
  moreover have "g_connection_id ?w = g_connection_id w" by (simp add: call_def)
  ultimately show ?case using Cons.IH [of ?w] by (simp add: char_event_def)
qed

fun service_events :: "conn \<Rightarrow> string \<Rightarrow> nat \<Rightarrow> ble_gatt_service list \<Rightarrow> ev list" where
  "service_events c d i [] = []"
| "service_events c d i (s # ss) = map (char_event c d i) (sv_chars s) @ service_events c d (Suc i) ss"

lemma add_service_events:
  assumes "never_out_of_memory E"
  shows "filter is_add_resource (trace (add_service_resources E d i ss w)) =
    rev (service_events (g_connection_id w) d i ss) @ filter is_add_resource (trace w)"
proof (induction ss arbitrary: i w)
  case Nil
  then show ?case by simp
next
  case (Cons s ss)
  have "g_connection_id (add_char_resources E d i (sv_chars s) w) = g_connection_id w"
    using calls_only_more [OF add_char_resources_calls_only [of w E d i "sv_chars s"]]
    by (metis ble_world.select_convs(3) ble_world.surjective ext.surjective ext.select_convs(2))
  then show ?case using Cons.IH assms by (simp add: add_char_events)
qed

section \<open>The introspection string fits its buffer\<close>

definition char_text :: "nat \<Rightarrow> nat \<Rightarrow> ble_gatt_char \<Rightarrow> string" where
  "char_text srvc ch c = printf JSON_CHAR_FMT
     [if 0 < ch then '','' else [], ch_uuid c, decimal (unat IPSO_OID_BLE_SERVICE), decimal srvc,
      decimal (unat (ch_resource_id c))]"

definition service_head :: "nat \<Rightarrow> ble_gatt_service \<Rightarrow> string" where
  "service_head srvc s = printf JSON_SRVC_FMT
     [if 0 < srvc then '','' else [], sv_uuid s, decimal (unat IPSO_OID_BLE_SERVICE), decimal srvc]"

fun chars_text :: "nat \<Rightarrow> nat \<Rightarrow> ble_gatt_char list \<Rightarrow> string" where
  "chars_text srvc ch [] = []"
| "chars_text srvc ch (c # cs) = char_text srvc ch c @ chars_text srvc (Suc ch) cs"

fun services_text :: "nat \<Rightarrow> ble_gatt_service list \<Rightarrow> string" where
  "services_text srvc [] = []"
| "services_text srvc (s # ss) =
     service_head srvc s @ chars_text srvc 0 (sv_chars s) @ JSON_ARRAY_END @ services_text (Suc srvc) ss"

definition json_text :: "ble_gatt_service list \<Rightarrow> string" where
  "json_text ss = JSON_DEVICE_FMT @ services_text 0 ss @ JSON_ARRAY_END"

lemma append_buf_fits: "length buf + length s < n \<Longrightarrow> append_buf n buf s = buf @ s"
  by (simp add: append_buf_def snprintf_buf_def)

lemma json_lengths:
  "JSON_FORMATTED_DEV_LEN = 17" "JSON_FORMATTED_SRVC_LEN = 90" "JSON_FORMATTED_CHAR_LEN = 74"
  "length JSON_DEVICE_FMT = 13" "length JSON_ARRAY_END = 2"
  by (simp_all add: JSON_FORMATTED_DEV_LEN_def JSON_FORMATTED_SRVC_LEN_def JSON_FORMATTED_CHAR_LEN_def
        JSON_DEVICE_FMT_def JSON_ARRAY_END_def JSON_SRVC_FMT_def JSON_CHAR_FMT_def)

lemma decimal_oid: "length (decimal (unat IPSO_OID_BLE_SERVICE)) = 5"
  by (simp add: decimal.simps)

lemma decimal_srvc: "srvc < 1000 \<Longrightarrow> length (decimal srvc) \<le> 3"
  using decimal_length_le [of srvc 3] by simp

lemma char_text_length:
  assumes "length (ch_uuid c) \<le> FORMATTED_UUID_LEN" and "srvc < 1000"
  shows "length (char_text srvc ch c) \<le> 74"
proof -
  have "length (decimal srvc) \<le> 3" "length (decimal 0) \<le> 3"
    using assms(2) decimal_srvc by simp_all
  moreover have "uint (ch_resource_id c) < 65536" using uint_lt2p [of "ch_resource_id c"] by simp
  then have "unat (ch_resource_id c) < 65536" by (simp only: uint_nat)
  then have "unat (ch_resource_id c) < 10 ^ 5" by (rule less_trans) simp
  then have "length (decimal (unat (ch_resource_id c))) \<le> 5" by (rule decimal_length_le) simp
  ultimately show ?thesis
    using assms(1) decimal_oid by (simp add: char_text_def JSON_CHAR_FMT_def)
qed

lemma service_head_length:
  assumes "length (sv_uuid s) \<le> FORMATTED_UUID_LEN" and "srvc < 1000"
  shows "length (service_head srvc s) \<le> 87"
proof -
  have "length (decimal srvc) \<le> 3" "length (decimal 0) \<le> 3"
    using assms(2) decimal_srvc by simp_all
  then show ?thesis
    using assms(1) decimal_oid by (simp add: service_head_def JSON_SRVC_FMT_def)
qed

lemma json_chars_exact:
  assumes "srvc < 1000"
  shows "\<forall>c\<in>set cs. length (ch_uuid c) \<le> FORMATTED_UUID_LEN \<Longrightarrow> length buf + 74 * length cs < n \<Longrightarrow>
    json_chars n srvc ch cs buf = buf @ chars_text srvc ch cs \<and>
    length (chars_text srvc ch cs) \<le> 74 * length cs"
proof (induction cs arbitrary: ch buf)
  case Nil
  then show ?case by simp
next
  case (Cons c cs)
  have t: "length (char_text srvc ch c) \<le> 74" using char_text_length assms Cons.prems(1) by simp
  then have a: "append_buf n buf (char_text srvc ch c) = buf @ char_text srvc ch c"
    using Cons.prems(2) by (intro append_buf_fits) simp
  have "json_chars n srvc ch (c # cs) buf = json_chars n srvc (Suc ch) cs (buf @ char_text srvc ch c)"
    by (simp only: json_chars.simps char_text_def [symmetric] a)
  with Cons.IH [of "buf @ char_text srvc ch c" "Suc ch"] Cons.prems t show ?case by simp
qed

lemma json_services_exact:
  "\<forall>s\<in>set ss. length (sv_uuid s) \<le> FORMATTED_UUID_LEN \<and>
     (\<forall>c\<in>set (sv_chars s). length (ch_uuid c) \<le> FORMATTED_UUID_LEN) \<Longrightarrow>
   srvc + length ss \<le> 1000 \<Longrightarrow>
   length buf + 90 * length ss + 74 * sum_list (map (length \<circ> sv_chars) ss) < n \<Longrightarrow>
   json_services n srvc ss buf = buf @ services_text srvc ss \<and>
   length (services_text srvc ss) \<le> 90 * length ss + 74 * sum_list (map (length \<circ> sv_chars) ss)"
proof (induction ss arbitrary: srvc buf)
  case Nil
  then show ?case by simp
next
  case (Cons s ss)
  let ?h = "service_head srvc s" and ?c = "chars_text srvc 0 (sv_chars s)"
  have h: "length ?h \<le> 87" using Cons.prems by (intro service_head_length) simp_all
  have a: "append_buf n buf ?h = buf @ ?h"
    using Cons.prems(3) h by (intro append_buf_fits) simp
  have c: "json_chars n srvc 0 (sv_chars s) (buf @ ?h) = (buf @ ?h) @ ?c"
    "length ?c \<le> 74 * length (sv_chars s)"
    using json_chars_exact [of srvc "sv_chars s" "buf @ ?h" n 0] Cons.prems h by simp_all
  have e: "append_buf n ((buf @ ?h) @ ?c) JSON_ARRAY_END = (buf @ ?h) @ ?c @ JSON_ARRAY_END"
    using Cons.prems(3) h c(2) json_lengths(5) by (subst append_buf_fits) simp_all
  have "json_services n srvc (s # ss) buf =
      json_services n (Suc srvc) ss ((buf @ ?h) @ ?c @ JSON_ARRAY_END)"
    by (simp only: json_services.simps Let_def service_head_def [symmetric] a c(1) e [unfolded append_assoc] append_assoc)
  with Cons.IH [of "Suc srvc" "(buf @ ?h) @ ?c @ JSON_ARRAY_END"] Cons.prems h c(2) json_lengths(5)
  show ?case by simp
qed

text \<open>
  C16: The introspection string of a device with at most 1000 services is never truncated: the
  buffer whose size is computed from the numbers of services and characteristics has room
  for the whole JSON text and its NUL, for every UUID of up to 36 characters and every
  resource identifier.
\<close>

theorem json_never_truncated:
  assumes "length (d_services ble) \<le> 1000"
    and "\<forall>s\<in>set (d_services ble). length (sv_uuid s) \<le> FORMATTED_UUID_LEN \<and>
      (\<forall>c\<in>set (sv_chars s). length (ch_uuid c) \<le> FORMATTED_UUID_LEN)"
    and "fst (json_list_device_services E ble w) = Some json"
  shows "json = json_text (d_services ble) \<and> length json < json_retsize (d_services ble)"
proof -
  let ?n = "json_retsize (d_services ble)" and ?t = "services_text 0 (d_services ble)"
  have n: "?n = 17 + 90 * length (d_services ble) + 74 * sum_list (map (length \<circ> sv_chars) (d_services ble))"
    by (simp add: json_retsize_def json_lengths)
  have d: "snprintf_buf ?n JSON_DEVICE_FMT = JSON_DEVICE_FMT"
    by (simp add: snprintf_buf_def n json_lengths)
  have s: "json_services ?n 0 (d_services ble) JSON_DEVICE_FMT = JSON_DEVICE_FMT @ ?t"
    "length ?t \<le> 90 * length (d_services ble) + 74 * sum_list (map (length \<circ> sv_chars) (d_services ble))"
    using json_services_exact [OF assms(2), of 0 JSON_DEVICE_FMT ?n] assms(1) by (simp_all add: n json_lengths)
  have e: "append_buf ?n (JSON_DEVICE_FMT @ ?t) JSON_ARRAY_END = json_text (d_services ble)"
    using s(2) by (subst append_buf_fits) (simp_all add: n json_lengths json_text_def)
  have "json = json_text (d_services ble)"
    using assms(3) by (auto simp: json_list_device_services_def d s(1) e Let_def split: prod.splits if_splits)
  moreover have "length (json_text (d_services ble)) < ?n"
    using s(2) by (simp add: json_text_def n json_lengths)
  ultimately show ?thesis by simp
qed

lemma light_device_json:
  "json_text (d_services light_device) =
   ''{\"services\":[{\"uuid\":\"00001815-0000-1000-8000-00805f9b34fb\",\"path\":\"/18135/0\",\"characteristics\":['' @
   ''{\"uuid\":\"00002a56-0000-1000-8000-00805f9b34fb\",\"path\":\"/18135/0/0\"}]}]}''"
  by (simp add: json_text_def light_device_def example_device_def example_char_def service_head_def
        char_text_def JSON_DEVICE_FMT_def JSON_SRVC_FMT_def JSON_CHAR_FMT_def JSON_ARRAY_END_def
        decimal.simps digit_def) code_simp

theorem json_never_truncated_witness:
  "fst (json_list_device_services storing_env light_device example_world) = Some
   (''{\"services\":[{\"uuid\":\"00001815-0000-1000-8000-00805f9b34fb\",\"path\":\"/18135/0\",\"characteristics\":['' @
    ''{\"uuid\":\"00002a56-0000-1000-8000-00805f9b34fb\",\"path\":\"/18135/0/0\"}]}]}'')"
proof -
  obtain json where j: "fst (json_list_device_services storing_env light_device example_world) = Some json"
    using storing_env_laws(2)
    by (auto simp: json_list_device_services_def malloc_def ask_defs never_out_of_memory_def Let_def)
  have "length (d_services light_device) \<le> 1000"
    "\<forall>s\<in>set (d_services light_device). length (sv_uuid s) \<le> FORMATTED_UUID_LEN \<and>
      (\<forall>c\<in>set (sv_chars s). length (ch_uuid c) \<le> FORMATTED_UUID_LEN)"
    by (simp_all add: light_device_def example_device_def example_char_def)
  from json_never_truncated [OF this j] j light_device_json show ?thesis by simp
qed

section \<open>One resource per characteristic\<close>

text \<open>
  C15: Discovering a device's services adds, in the order of the tables, one Edge resource for
  every characteristic (its service's number as instance, its resource identifier, type,
  permissions and current value), then the introspection string with its NUL as
  /18131/0/0, and nothing else; the string is the JSON text of the same tables.
\<close>

theorem gatt_resources_added:
  assumes E: "never_out_of_memory E" and j: "d_json_list ble = None"
    and n: "length (d_services ble) \<le> 1000"
    and u: "\<forall>s\<in>set (d_services ble). length (sv_uuid s) \<le> FORMATTED_UUID_LEN \<and>
      (\<forall>c\<in>set (sv_chars s). length (ch_uuid c) \<le> FORMATTED_UUID_LEN)"
  shows "\<exists>w'. device_add_resources_from_gatt E ble w =
      Some (ble\<lparr>d_json_list := Some (json_text (d_services ble))\<rparr>, w') \<and>
    filter is_add_resource (trace w') =
      Pt (PtAddResourceCb (g_connection_id w) (d_device_id ble) IPSO_OID_BLE_INTROSPECT 0 0 LWM2M_STRING
            {OPERATION_READ} (string_bytes (json_text (d_services ble)) @ [0]) cb_resource_callback_handler) #
      rev (service_events (g_connection_id w) (d_device_id ble) 0 (d_services ble)) @
      filter is_add_resource (trace w)"
proof -
  let ?w1 = "add_service_resources E (d_device_id ble) 0 (d_services ble) w"
  let ?j = "json_text (d_services ble)"
  let ?w2 = "call (Sys (Malloc (json_retsize (d_services ble)))) ?w1"
  have snd2: "snd (json_list_device_services E ble ?w1) = ?w2" "fst (json_list_device_services E ble ?w1) \<noteq> None"
    using E by (auto simp: json_list_device_services_def malloc_def ask_defs never_out_of_memory_def Let_def)
  then obtain js where "fst (json_list_device_services E ble ?w1) = Some js" by blast
  with json_never_truncated [OF n u this] have r: "json_list_device_services E ble ?w1 = (Some ?j, ?w2)"
    using snd2 by (metis prod.collapse)
  have g: "g_connection_id ?w2 = g_connection_id w"
    using calls_only_more [OF calls_only_call' [OF add_service_resources_calls_only [of w E "d_device_id ble" 0 "d_services ble"]]]
    by (metis ble_world.select_convs(3) ble_world.surjective ext.surjective ext.select_convs(2))
  show ?thesis
    using add_service_events [OF E, of "d_device_id ble" 0 "d_services ble" w] E
    by (simp add: device_add_resources_from_gatt_def j r edge_add_resource_def malloc_def ask_defs
          never_out_of_memory_def Let_def g [simplified call_def ext.simps ble_world.simps] call_def)
qed

theorem gatt_resources_added_witness:
  "\<exists>w'. device_add_resources_from_gatt storing_env light_device example_world =
      Some (light_device\<lparr>d_json_list := Some (json_text (d_services light_device))\<rparr>, w') \<and>
    filter is_add_resource (trace w') =
      [Pt (PtAddResourceCb 7 ''dev'' IPSO_OID_BLE_INTROSPECT 0 0 LWM2M_STRING
         {OPERATION_READ} (string_bytes (json_text (d_services light_device)) @ [0]) cb_resource_callback_handler),
       Pt (PtAddResourceCb 7 ''dev'' IPSO_OID_BLE_SERVICE 0 0 LWM2M_OPAQUE
         {OPERATION_READ, OPERATION_WRITE} [0] cb_resource_callback_handler)]"
proof -
  have f: "d_json_list light_device = None" "length (d_services light_device) \<le> 1000"
    "\<forall>s\<in>set (d_services light_device). length (sv_uuid s) \<le> FORMATTED_UUID_LEN \<and>
      (\<forall>c\<in>set (sv_chars s). length (ch_uuid c) \<le> FORMATTED_UUID_LEN)"
    by (simp_all add: light_device_def example_device_def example_char_def)
  have e: "service_events 7 ''dev'' 0 (d_services light_device) =
      [Pt (PtAddResourceCb 7 ''dev'' IPSO_OID_BLE_SERVICE 0 0 LWM2M_OPAQUE
         {OPERATION_READ, OPERATION_WRITE} [0] cb_resource_callback_handler)]"
    by (simp add: light_device_def example_device_def example_char_def char_event_def resource_operations_def
          insert_commute)
  show ?thesis
    using gatt_resources_added [OF storing_env_laws(2) f, of example_world] e
    by (simp add: example_world_def light_device_def example_device_def)
qed

section \<open>Writing from Edge\<close>

lemma write_calls_only_sets:
  "ble_write_characteristic E p d w = Some (rc, w') \<Longrightarrow>
   filter is_set_value (trace w') = filter is_set_value (trace w) \<and> ext.more w' = ext.more w"
  by (auto simp: ble_write_characteristic_def g_dbus_proxy_new_def Let_def
        split: option.splits sum.splits if_splits)

lemma encode_calls_only_sets:
  "ble_services_encode_characteristic_value E dev ctx c v w = Some (out, w') \<Longrightarrow>
   filter is_set_value (trace w') = filter is_set_value (trace w) \<and> ext.more w' = ext.more w"
  by (auto simp: ble_services_encode_characteristic_value_def ble_services_encode_2bit_bitfield_value_def
        malloc_def ask_defs Let_def
        split: Option.bind_splits prod.splits option.splits value_encode_cb.splits if_splits)

text \<open>
  C10: A write from Edge that is reported as failed (a non-zero result) leaves no trace in the
  translator: the device's cached values, tables and translations are as before, no
  resource value was set in Edge, and the rest of the translator's state is unchanged.
\<close>

theorem failed_write_changes_nothing:
  assumes "device_write_characteristic E ble object_id instance_id resource_id value w = Some (rc, ble', w')"
    and "rc \<noteq> 0"
  shows "ble' = ble \<and> filter is_set_value (trace w') = filter is_set_value (trace w) \<and>
    ext.more w' = ext.more w"
proof -
  have t: "ble' = ble \<and> filter is_set_value (trace w') = filter is_set_value (trace w) \<and> ext.more w' = ext.more w"
    if "write_translated E ble ctx value w = Some (rc, ble', w')" for ctx
    using that assms(2)
    by (auto simp: write_translated_def split: Option.bind_splits prod.splits option.splits if_splits
          dest!: encode_calls_only_sets write_calls_only_sets)
  have s: "ble' = ble \<and> filter is_set_value (trace w') = filter is_set_value (trace w) \<and> ext.more w' = ext.more w"
    if "write_service_resource E ble i resource_id value w = Some (rc, ble', w')" for i
    using that assms(2)
    by (auto simp: write_service_resource_def Let_def split: Option.bind_splits prod.splits option.splits if_splits
          dest!: write_calls_only_sets)
  show ?thesis
    using assms(1) t s by (auto simp: device_write_characteristic_def split: option.splits if_splits)
qed

definition failing_bus :: "int \<Rightarrow> env" where
  "failing_bus code = storing_env\<lparr>
     env_ok := \<lambda>es e. case e of Bus (WriteValue p v) \<Rightarrow> False | _ \<Rightarrow> True,
     env_int := \<lambda>es e. code\<rparr>"

theorem failed_write_changes_nothing_witness:
  "\<exists>w'. device_write_characteristic (failing_bus 36) light_device LIGHT_CONTROL 0 ON_OFF_VALUE [1] example_world =
      Some (36, light_device, w') \<and> filter is_set_value (trace w') = []"
proof -
  have "map_option fst (device_write_characteristic (failing_bus 36) light_device LIGHT_CONTROL 0 ON_OFF_VALUE
      [1] example_world) = Some 36"
    by code_simp
  then obtain ble' w' where r: "device_write_characteristic (failing_bus 36) light_device LIGHT_CONTROL 0
      ON_OFF_VALUE [1] example_world = Some (36, ble', w')"
    by auto
  from failed_write_changes_nothing [OF r] r show ?thesis by (simp add: example_world_def)
qed

text \<open>Characteristics are found by their resource identifiers, which are their positions.\<close>

lemma char_index_position:
  assumes "service_ok s" and "j < length (sv_chars s)" and "length (sv_chars s) \<le> 65536"
  shows "char_index (of_nat j) (sv_chars s) = j"
proof -
  have ids: "ch_resource_id (sv_chars s ! k) = of_nat k" if "k < length (sv_chars s)" for k
    using assms(1) that by (simp add: service_ok_def char_ok_def)
  have gen: "\<forall>k<length cs. ch_resource_id (cs ! k) = of_nat (n + k) \<Longrightarrow> n + length cs \<le> 65536 \<Longrightarrow> i < length cs \<Longrightarrow>
      char_index (of_nat (n + i)) cs = i" for cs :: "ble_gatt_char list" and n i
  proof (induction cs arbitrary: n i)
    case Nil
    then show ?case by simp
  next
    case (Cons c cs)
    have c: "ch_resource_id c = of_nat n" using Cons.prems(1) by force
    show ?case
    proof (cases i)
      case 0
      with c show ?thesis by simp
    next
      case (Suc k)
      have "(of_nat n :: u16) \<noteq> of_nat (n + Suc k)"
        using Cons.prems(2,3) Suc by (simp add: word_of_nat_eq_iff take_bit_nat_eq_self del: of_nat_add of_nat_Suc)
      moreover have "char_index (of_nat (Suc n + k)) cs = k"
      proof (rule Cons.IH)
        show "\<forall>k<length cs. ch_resource_id (cs ! k) = of_nat (Suc n + k)"
        proof (intro allI impI)
          fix k assume "k < length cs"
          then show "ch_resource_id (cs ! k) = of_nat (Suc n + k)"
            using Cons.prems(1) [rule_format, of "Suc k"] by simp
        qed
      qed (use Cons.prems Suc in simp_all)
      ultimately show ?thesis using c Suc by simp
    qed
  qed
  from gen [of "sv_chars s" 0 j] ids assms(2,3) show ?thesis by simp
qed

fun is_bus_write :: "ev \<Rightarrow> bool" where
  "is_bus_write (Bus (WriteValue _ _)) = True"
| "is_bus_write _ = False"

definition proxies_available :: "env \<Rightarrow> bool" where
  "proxies_available E \<longleftrightarrow> (\<forall>es p i. env_ok E es (Bus (ProxyNew p i)))"

lemma write_characteristic_eq:
  assumes "proxies_available E"
  shows "ble_write_characteristic E (Some p) v w =
    (let w1 = call (Bus (ProxyNew p GATT_CHARACTERISTIC_IFACE)) w; e = Bus (WriteValue p v)
     in Some (if env_ok E (trace w1) e then 0 else env_int E (trace w1) e, call e w1))"
  using assms by (simp add: ble_write_characteristic_def g_dbus_proxy_new_def proxies_available_def Let_def)

lemma edge_set_resource_value_keeps [simp]:
  "filter is_bus_write (trace (edge_set_resource_value E d ob i r v w)) = filter is_bus_write (trace w)"
  by (simp add: edge_set_resource_value_def malloc_def ask_defs Let_def)

lemma set_local_simps:
  "gatt_char ble i j = Some (s, c) \<Longrightarrow>
   set_local_characteristic_value E ble i j v w =
     (update_char i j (\<lambda>x. x\<lparr>ch_value := (if length v < ch_value_size c
          then v @ replicate (ch_value_size c - length v) 0 else take (ch_value_size c) v),
        ch_value_length := length v\<rparr>) ble,
      edge_set_resource_value E (d_device_id ble) IPSO_OID_BLE_SERVICE (of_nat i) (ch_resource_id c) v w)"
  by (simp add: set_local_characteristic_value_def Let_def)

lemma decode_no_bus_write:
  "decode_contexts E cb dev sv ch v ctxs w = Some w' \<Longrightarrow>
   filter is_bus_write (trace w') = filter is_bus_write (trace w)"
proof (induction ctxs arbitrary: w)
  case Nil
  then show ?case by simp
next
  case (Cons ctx ctxs)
  have run: "filter is_bus_write (trace w1) = filter is_bus_write (trace w)"
    if "run_value_decode E cb dev ctx v w = Some (out, w1)" for out w1
  proof (cases cb)
    case decode_format_descriptor_cb
    with that show ?thesis
      by (auto simp: ble_services_decode_value_with_format_descriptor_def ipso_update_min_max_fields_def
            ipso_write_extremum_def pt_device_get_resource_value_def malloc_def ask_defs Let_def
            split: Option.bind_splits if_splits prod.splits option.splits)
  next
    case decode_2bit_bitfield_cb
    with that show ?thesis
      by (auto simp: ble_services_decode_2bit_bitfield_value_def malloc_def ask_defs Let_def split: if_splits)
  next
    case no_value_decode
    with that show ?thesis by simp
  qed
  show ?case
  proof (cases "tc_sv_idx ctx = sv \<and> tc_ch_idx ctx = ch")
    case True
    with Cons.prems obtain out w1 where r: "run_value_decode E cb dev ctx v w = Some (out, w1)"
      by (auto split: option.splits)
    with run True Cons show ?thesis by (cases out) fastforce+
  next
    case False
    with Cons show ?thesis by (auto split: if_splits)
  qed
qed

lemma decode_and_write_no_bus_write:
  "ble_services_decode_and_write_characteristic_translation E dev sv ch v w = Some w' \<Longrightarrow>
   filter is_bus_write (trace w') = filter is_bus_write (trace w)"
  by (auto simp: ble_services_decode_and_write_characteristic_translation_def
        split: Option.bind_splits prod.splits option.splits if_splits dest: decode_no_bus_write)



text \<open>
  A D-Bus failure with error code 0 (\<open>G_DBUS_ERROR_FAILED\<close>, \<open>G_IO_ERROR_FAILED\<close>) is taken for
  success: the write is reported as done and the value cached and set in Edge although
  BlueZ refused it.
\<close>

theorem failed_with_code_zero_counts_as_success:
  assumes g: "gatt_char ble i j = Some (s, c)" and ok: "device_ok ble"
    and small: "i < 65536" "length (sv_chars s) \<le> 65536"
    and n: "\<not> ble_services_is_supported_characteristic (sv_uuid s) (ch_uuid c)"
    and E: "proxies_available E" and p: "ch_dbus_path c = Some p"
    and fails: "\<And>es v. \<not> env_ok E es (Bus (WriteValue p v)) \<and> env_int E es (Bus (WriteValue p v)) = 0"
  shows "\<exists>ble' w'. device_write_characteristic E ble IPSO_OID_BLE_SERVICE (of_nat i) (of_nat j) v w =
      Some (0, ble', w') \<and>
    (\<exists>s' c'. gatt_char ble' i j = Some (s', c') \<and>
       ch_value c' = take (ch_value_size c) (v @ replicate (ch_value_size c - length v) 0))"
proof -
  note gc = g [unfolded gatt_char_Some]
  have so: "service_ok s" using ok gc by (auto simp: device_ok_def services_ok_def)
  have idx: "char_index (of_nat j) (sv_chars s) = j"
    using char_index_position [OF so _ small(2)] conjunct1 [OF gc [THEN conjunct2, THEN conjunct2]] by blast
  have i: "unat (of_nat i :: u16) = i" using small(1) by (simp add: unat_of_nat)
  have eqs: "d_services ble ! i = s" "sv_chars s ! j = c" "j < length (sv_chars s)" "i < length (d_services ble)"
    using gc by auto
  have "device_write_characteristic E ble IPSO_OID_BLE_SERVICE (of_nat i) (of_nat j) v w \<noteq> None"
    using fails n
    by (simp add: device_write_characteristic_def i write_service_resource_def eqs idx p
          write_characteristic_eq [OF E] set_local_simps [OF g] Let_def)
  then obtain rc ble' w' where
    r: "device_write_characteristic E ble IPSO_OID_BLE_SERVICE (of_nat i) (of_nat j) v w = Some (rc, ble', w')"
    by auto
  from fails have "rc = 0"
    using r n
    by (auto simp: device_write_characteristic_def i write_service_resource_def eqs idx p
          write_characteristic_eq [OF E] set_local_simps [OF g] Let_def)
  have d: "gatt_char ble' i j = Some (s\<lparr>sv_chars := (sv_chars s)[j := f c]\<rparr>, f c)"
    if "ble' = update_char i j f ble" for f
    using that gatt_char_update [OF g, of f i j] by simp
  have "\<exists>s' c'. gatt_char ble' i j = Some (s', c') \<and>
      ch_value c' = take (ch_value_size c) (v @ replicate (ch_value_size c - length v) 0)"
    using r n fails d
    by (auto simp: device_write_characteristic_def i write_service_resource_def eqs idx p
          write_characteristic_eq [OF E] set_local_simps [OF g] Let_def)
  with r \<open>rc = 0\<close> show ?thesis by blast
qed

definition plain_device :: ble_device where
  "plain_device = example_device
     [\<lparr>sv_dbus_path = Some ''/s'',
       sv_chars = [example_char ''0000ed02-0000-1000-8000-00805f9b34fb'' 3 [0x00, 0x00]],
       sv_uuid = ''0000ed00-0000-1000-8000-00805f9b34fb''\<rparr>] []"

theorem failed_with_code_zero_counts_as_success_witness:
  "\<exists>ble' w'. device_write_characteristic (failing_bus 0) plain_device IPSO_OID_BLE_SERVICE 0 0 [9]
      example_world = Some (0, ble', w') \<and>
    (\<exists>s' c'. gatt_char ble' 0 0 = Some (s', c') \<and> ch_value c' = [9, 0])"
proof -
  let ?c = "example_char ''0000ed02-0000-1000-8000-00805f9b34fb'' 3 [0x00, 0x00]"
  have g: "gatt_char plain_device 0 0 = Some (d_services plain_device ! 0, ?c)"
    by (simp add: gatt_char_def plain_device_def example_device_def)
  have ok: "device_ok plain_device"
    by (simp add: device_ok_def services_ok_def service_ok_def char_ok_def
          plain_device_def example_device_def example_char_def)
  have n: "\<not> ble_services_is_supported_characteristic (sv_uuid (d_services plain_device ! 0)) (ch_uuid ?c)"
    by code_simp
  have E: "proxies_available (failing_bus 0)" by (simp add: proxies_available_def failing_bus_def)
  have p: "ch_dbus_path ?c = Some ''/char''" by (simp add: example_char_def)
  have l: "length (sv_chars (d_services plain_device ! 0)) \<le> 65536"
    by (simp add: plain_device_def example_device_def)
  have f: "\<not> env_ok (failing_bus 0) es (Bus (WriteValue ''/char'' v)) \<and>
      env_int (failing_bus 0) es (Bus (WriteValue ''/char'' v)) = 0" for es v
    by (simp add: failing_bus_def)
  from failed_with_code_zero_counts_as_success [OF g ok _ l n E p f, of "[9]" example_world]
  show ?thesis by (simp add: example_char_def)
qed

section \<open>Lights forgotten by a write\<close>

definition bus_accepts :: "env \<Rightarrow> bool" where
  "bus_accepts E \<longleftrightarrow> proxies_available E \<and> (\<forall>es p v. env_ok E es (Bus (WriteValue p v)))"

lemma write_translated_light:
  assumes g: "gatt_char ble (tc_sv_idx ctx) (tc_ch_idx ctx) = Some (s, c)"
    and cd: "ble_services_get_characteristic_descriptor_by_uuids (Some (sv_uuid s)) (Some (ch_uuid c)) = Some cd"
      "cd \<in> set automation_io_characteristics"
    and c: "ch_dbus_path c = Some p" "ch_value c = b # bs" "length (ch_value c) = ch_value_size c"
    and f: "unat (tc_characteristic_extra_flags ctx) < 4" and v: "v = [x]"
    and E: "never_out_of_memory E" "bus_accepts E"
  shows "\<exists>w' n. write_translated E ble ctx v w =
      Some (0, update_char (tc_sv_idx ctx) (tc_ch_idx ctx)
        (\<lambda>c. c\<lparr>ch_value := x # replicate (length bs) 0, ch_value_length := n\<rparr>) ble, w') \<and>
    filter is_bus_write (trace w') =
      Bus (WriteValue p [put_light (unat (tc_characteristic_extra_flags ctx)) (x \<noteq> 0) b]) #
      filter is_bus_write (trace w)"
proof -
  let ?byte = "put_light (unat (tc_characteristic_extra_flags ctx)) (x \<noteq> 0) b"
  obtain w1 where e: "ble_services_encode_2bit_bitfield_value E ctx (b # bs) v w = Some (Some [?byte], w1)"
    using encode_light [OF f _ E(1), of v b bs w] v by auto
  then have enc: "ble_services_encode_characteristic_value E ble ctx (ch_value c) v w = Some (Some [?byte], w1)"
    using light_descriptor [OF cd(2)] by (simp add: ble_services_encode_characteristic_value_def g cd(1) c(2))
  note w1 = encode_calls_only_sets [OF enc]
  have w1b: "filter is_bus_write (trace w1) = filter is_bus_write (trace w)"
    using e by (auto simp: ble_services_encode_2bit_bitfield_value_def malloc_def ask_defs Let_def
        split: if_splits)
  let ?w2 = "call (Bus (WriteValue p [?byte])) (call (Bus (ProxyNew p GATT_CHARACTERISTIC_IFACE)) w1)"
  have wr: "ble_write_characteristic E (Some p) [?byte] w1 = Some (0, ?w2)"
    using E(2) by (simp add: write_characteristic_eq bus_accepts_def Let_def)
  have pad: "(if length v < ch_value_size c then v @ replicate (ch_value_size c - length v) 0
      else take (ch_value_size c) v) = x # replicate (length bs) 0"
    using c(2,3) v by (auto simp: not_less le_Suc_eq)
  show ?thesis
    using w1b pad
    by (auto simp: write_translated_def g enc c(1) wr set_local_simps [OF g])
qed

text \<open>
  After a light is switched on through its resource, switching another light of the same
  characteristic (on or off) switches the first one off again: the second write is encoded
  into the LwM2M value the first one left in the cache, not into the characteristic's value.
\<close>

theorem light_lost_by_next_write:
  assumes c1: "ble_services_find_translation_context ble o1 i1 r1 = Some ctx1" "o1 \<noteq> IPSO_OID_BLE_SERVICE"
    and c2: "ble_services_find_translation_context ble o2 i2 r2 = Some ctx2" "o2 \<noteq> IPSO_OID_BLE_SERVICE"
    and same: "tc_sv_idx ctx2 = tc_sv_idx ctx1" "tc_ch_idx ctx2 = tc_ch_idx ctx1"
    and f: "0 < unat (tc_characteristic_extra_flags ctx1)" "unat (tc_characteristic_extra_flags ctx1) < 4"
      "unat (tc_characteristic_extra_flags ctx2) < 4"
      "tc_characteristic_extra_flags ctx1 \<noteq> tc_characteristic_extra_flags ctx2"
    and g: "gatt_char ble (tc_sv_idx ctx1) (tc_ch_idx ctx1) = Some (s, c)"
    and cd: "ble_services_get_characteristic_descriptor_by_uuids (Some (sv_uuid s)) (Some (ch_uuid c)) = Some cd"
      "cd \<in> set automation_io_characteristics"
    and c: "ch_dbus_path c = Some p" "ch_value c \<noteq> []" "length (ch_value c) = ch_value_size c"
    and E: "never_out_of_memory E" "bus_accepts E"
  shows "\<exists>b1 b2 ble1 w1 ble2 w2. device_write_characteristic E ble o1 i1 r1 [1] w = Some (0, ble1, w1) \<and>
      device_write_characteristic E ble1 o2 i2 r2 [x] w1 = Some (0, ble2, w2) \<and>
      filter is_bus_write (trace w2) =
        [Bus (WriteValue p [b2]), Bus (WriteValue p [b1])] @ filter is_bus_write (trace w) \<and>
      get_light (unat (tc_characteristic_extra_flags ctx1)) b1 = 1 \<and>
      get_light (unat (tc_characteristic_extra_flags ctx1)) b2 = 0"
proof -
  let ?f = "unat (tc_characteristic_extra_flags ctx1)" and ?g = "unat (tc_characteristic_extra_flags ctx2)"
  obtain b bs where bs: "ch_value c = b # bs" using c(2) by (cases "ch_value c") auto
  let ?u = "\<lambda>n c. c\<lparr>ch_value := 1 # replicate (length bs) 0, ch_value_length := n\<rparr>"
  obtain w1 n where w1: "write_translated E ble ctx1 [1] w =
      Some (0, update_char (tc_sv_idx ctx1) (tc_ch_idx ctx1) (?u n) ble, w1)"
    "filter is_bus_write (trace w1) = Bus (WriteValue p [put_light ?f True b]) # filter is_bus_write (trace w)"
    using write_translated_light [OF g cd c(1) bs c(3) f(2) refl E, of 1 w] by auto
  let ?ble1 = "update_char (tc_sv_idx ctx1) (tc_ch_idx ctx1) (?u n) ble"
  let ?s1 = "s\<lparr>sv_chars := (sv_chars s)[tc_ch_idx ctx1 := ?u n c]\<rparr>"
  have g1: "gatt_char ?ble1 (tc_sv_idx ctx2) (tc_ch_idx ctx2) = Some (?s1, ?u n c)"
    using gatt_char_update [OF g, of "?u n" "tc_sv_idx ctx1" "tc_ch_idx ctx1"] by (simp add: same)
  obtain w2 ble2 where w2: "write_translated E ?ble1 ctx2 [x] w1 = Some (0, ble2, w2)"
    "filter is_bus_write (trace w2) = Bus (WriteValue p [put_light ?g (x \<noteq> 0) 1]) # filter is_bus_write (trace w1)"
    using write_translated_light [OF g1 _ cd(2) _ _ _ f(3) refl E, of p 1 "replicate (length bs) 0" x w1] cd(1) c bs
    by auto
  have "device_write_characteristic E ble o1 i1 r1 [1] w = Some (0, ?ble1, w1)"
    using c1 w1(1) by (simp add: device_write_characteristic_def)
  moreover have "device_write_characteristic E ?ble1 o2 i2 r2 [x] w1 = Some (0, ble2, w2)"
    using c2 w2(1) by (simp add: device_write_characteristic_def ble_services_find_translation_context_def)
  moreover have "get_light ?f (put_light ?f True b) = 1" using get_put_light [OF f(2)] by simp
  moreover have "?g \<noteq> ?f" using f(4) by (simp add: word_unat_eq_iff)
  then have "get_light ?f (put_light ?g (x \<noteq> 0) 1) = get_light ?f 1"
    using get_put_other_light [OF f(3,2)] by simp
  moreover have "get_light ?f 1 = 0"
    using f(1) by (intro bit_word_eqI) (simp add: bit_get_light bit_1_iff)
  ultimately show ?thesis using w1(2) w2(2) by (intro exI conjI) (assumption | simp)+
qed

lemma storing_env_bus: "bus_accepts storing_env"
  by (simp add: bus_accepts_def proxies_available_def storing_env_def)

theorem light_lost_by_next_write_witness:
  "\<exists>b1 b2 ble1 w1 ble2 w2.
      device_write_characteristic storing_env light_device LIGHT_CONTROL 1 ON_OFF_VALUE [1] example_world =
        Some (0, ble1, w1) \<and>
      device_write_characteristic storing_env ble1 LIGHT_CONTROL 0 ON_OFF_VALUE [1] w1 = Some (0, ble2, w2) \<and>
      filter is_bus_write (trace w2) = [Bus (WriteValue ''/char'' [b2]), Bus (WriteValue ''/char'' [b1])] \<and>
      get_light 1 b1 = 1 \<and> get_light 1 b2 = 0"
proof -
  let ?ctx1 = "example_context LIGHT_CONTROL 1 ON_OFF_VALUE 1" and ?ctx2 = "example_context LIGHT_CONTROL 0 ON_OFF_VALUE 0"
  let ?c = "example_char ''00002a56-0000-1000-8000-00805f9b34fb'' 3 [0x00]"
  have c: "ble_services_find_translation_context light_device LIGHT_CONTROL 1 ON_OFF_VALUE = Some ?ctx1"
    "ble_services_find_translation_context light_device LIGHT_CONTROL 0 ON_OFF_VALUE = Some ?ctx2"
    by (simp_all add: ble_services_find_translation_context_def light_device_def example_device_def
          example_context_def)
  have x: "tc_sv_idx ?ctx2 = tc_sv_idx ?ctx1" "tc_ch_idx ?ctx2 = tc_ch_idx ?ctx1"
    "0 < unat (tc_characteristic_extra_flags ?ctx1)" "unat (tc_characteristic_extra_flags ?ctx1) < 4"
    "unat (tc_characteristic_extra_flags ?ctx2) < 4"
    "tc_characteristic_extra_flags ?ctx1 \<noteq> tc_characteristic_extra_flags ?ctx2"
    "tc_sv_idx ?ctx1 = 0" "tc_ch_idx ?ctx1 = 0" "unat (tc_characteristic_extra_flags ?ctx1) = 1"
    by (simp_all add: example_context_def)
  have p: "ch_dbus_path ?c = Some ''/char''" "ch_value ?c \<noteq> []" "length (ch_value ?c) = ch_value_size ?c"
    by (simp_all add: example_char_def)
  have g: "gatt_char light_device (tc_sv_idx ?ctx1) (tc_ch_idx ?ctx1) = Some (d_services light_device ! 0, ?c)"
    by (simp only: x(7,8) light_device_facts(1))
  from light_lost_by_next_write [where x = 1 and w = example_world,
      OF c(1) _ c(2) _ x(1-6) g light_device_facts(2,3) p storing_env_laws(2) storing_env_bus]
  show ?thesis by (simp add: x(9) example_world_def)
qed

section \<open>Writes are defined\<close>

lemma run_value_decode_defined:
  assumes ok: "context_ok dev ctx" and s: "gatt_char dev (tc_sv_idx ctx) (tc_ch_idx ctx) = Some (s, c)"
    and cd: "ble_services_get_characteristic_descriptor_by_uuids (Some (sv_uuid s)) (Some (ch_uuid c)) = Some cd"
    and v: "v \<noteq> []" and E: "stores_floats E"
  shows "run_value_decode E (characteristic_value_decode cd) dev ctx v w \<noteq> None"
  using descriptor_cases [OF cd]
proof
  assume m: "cd \<in> set environment_sensing_characteristics"
  with sensor_decode_accurate_lemma [OF s cd m E, of v w] sensor_descriptor [OF m] show ?thesis by auto
next
  assume m: "cd \<in> set automation_io_characteristics"
  have "uint (tc_characteristic_extra_flags ctx) < 4"
    using ok by (simp add: context_ok_def word_less_def)
  then have "uint (tc_characteristic_extra_flags ctx * 2) < 32"
    by (simp add: uint_mult_lem [THEN iffD1])
  with v light_descriptor [OF m] show ?thesis
    by (simp add: ble_services_decode_2bit_bitfield_value_def Let_def split: prod.split)
qed

lemma decode_contexts_defined:
  assumes s: "gatt_char dev i j = Some (s, c)"
    and cd: "ble_services_get_characteristic_descriptor_by_uuids (Some (sv_uuid s)) (Some (ch_uuid c)) = Some cd"
    and v: "v \<noteq> []" and E: "stores_floats E"
  shows "\<forall>ctx\<in>set ctxs. context_ok dev ctx \<Longrightarrow>
    decode_contexts E (characteristic_value_decode cd) dev i j v ctxs w \<noteq> None"
proof (induction ctxs arbitrary: w)
  case Nil
  then show ?case by simp
next
  case (Cons ctx ctxs)
  show ?case
  proof (cases "tc_sv_idx ctx = i \<and> tc_ch_idx ctx = j")
    case True
    then have "run_value_decode E (characteristic_value_decode cd) dev ctx v w \<noteq> None"
      using run_value_decode_defined [OF _ _ cd v E, of dev ctx w] s Cons.prems by auto
    with Cons True show ?thesis by (auto split: option.split)
  next
    case False
    with Cons show ?thesis by auto
  qed
qed

lemma decode_and_write_defined:
  assumes ok: "device_ok dev" and s: "gatt_char dev i j = Some (s, c)"
    and sup: "ble_services_is_supported_characteristic (sv_uuid s) (ch_uuid c)"
    and v: "v \<noteq> []" and E: "stores_floats E"
  shows "ble_services_decode_and_write_characteristic_translation E dev i j v w \<noteq> None"
proof -
  obtain cd where cd: "ble_services_get_characteristic_descriptor_by_uuids (Some (sv_uuid s)) (Some (ch_uuid c)) = Some cd"
    using sup by (auto simp: ble_services_is_supported_characteristic_def)
  then obtain sd where "ble_services_get_service_descriptor (sv_uuid s) = Some sd"
    "ble_services_get_characteristic_descriptor sd (ch_uuid c) = Some cd"
    by (auto simp: descriptor_by_uuids ble_services_get_service_descriptor_def
        ble_services_get_characteristic_descriptor_def)
  with decode_contexts_defined [OF s cd v E] ok show ?thesis
    by (auto simp: ble_services_decode_and_write_characteristic_translation_def s device_ok_def)
qed

lemma ble_write_defined: "\<exists>rc w'. ble_write_characteristic E (Some p) d w = Some (rc, w')"
  by (auto simp: ble_write_characteristic_def g_dbus_proxy_new_def Let_def split: sum.split)

lemma encode_defined:
  "gatt_char ble (tc_sv_idx ctx) (tc_ch_idx ctx) \<noteq> None \<Longrightarrow> v \<noteq> [] \<Longrightarrow>
   \<exists>out w'. ble_services_encode_characteristic_value E ble ctx cur v w = Some (out, w')"
  by (auto simp: ble_services_encode_characteristic_value_def ble_services_encode_2bit_bitfield_value_def
        malloc_def ask_defs Let_def split: option.split value_encode_cb.split)

lemma set_local_ok:
  assumes ok: "device_ok ble"
  shows "device_ok (fst (set_local_characteristic_value E ble i j v w))"
proof (cases "gatt_char ble i j")
  case None
  then show ?thesis using ok by (simp add: set_local_characteristic_value_def)
next
  case (Some sc)
  then obtain s c where g: "gatt_char ble i j = Some (s, c)" by (cases sc) auto
  note dc = device_ok_char [OF ok g]
  show ?thesis
    unfolding set_local_simps [OF g] fst_conv
    by (rule device_ok_update_char [OF ok g]) (use dc in \<open>auto simp: char_ok_def\<close>)
qed

lemma write_translated_defined:
  assumes ok: "device_ok ble" and m: "ctx \<in> set (d_translations ble)" and v: "v \<noteq> []"
  shows "\<exists>rc ble' w'. write_translated E ble ctx v w = Some (rc, ble', w') \<and> device_ok ble'"
proof -
  obtain s c where g: "gatt_char ble (tc_sv_idx ctx) (tc_ch_idx ctx) = Some (s, c)"
    using ok m by (auto simp: device_ok_def context_ok_def)
  obtain p where p: "ch_dbus_path c = Some p" using device_ok_char [OF ok g] by auto
  obtain out w1 where e: "ble_services_encode_characteristic_value E ble ctx (ch_value c) v w = Some (out, w1)"
    using encode_defined [of ble ctx v] g v by fastforce
  show ?thesis
  proof (cases out)
    case None
    with ok show ?thesis by (simp add: write_translated_def g e)
  next
    case (Some tv)
    obtain rc w2 where wr: "ble_write_characteristic E (Some p) tv w1 = Some (rc, w2)"
      using ble_write_defined by blast
    obtain b3 w3 where l: "set_local_characteristic_value E ble (tc_sv_idx ctx) (tc_ch_idx ctx) v w2 = (b3, w3)"
      by fastforce
    with set_local_ok [OF ok] have "device_ok b3" by (metis fst_conv)
    with ok Some show ?thesis by (simp add: write_translated_def g e p wr l)
  qed
qed

lemma gatt_char_set_local:
  "gatt_char ble i j = Some (s, c) \<Longrightarrow> set_local_characteristic_value E ble i j v w = (ble', w') \<Longrightarrow>
   \<exists>s' c'. gatt_char ble' i j = Some (s', c') \<and> sv_uuid s' = sv_uuid s \<and> ch_uuid c' = ch_uuid c"
  by (auto simp: set_local_simps gatt_char_update)

lemma write_service_defined:
  assumes ok: "device_ok ble" and i: "i < length (d_services ble)" and v: "v \<noteq> []" and E: "stores_floats E"
  shows "\<exists>rc ble' w'. write_service_resource E ble i r v w = Some (rc, ble', w') \<and> device_ok ble'"
proof -
  let ?s = "d_services ble ! i"
  let ?j = "char_index r (sv_chars ?s)"
  show ?thesis
  proof (cases "?j < length (sv_chars ?s)")
    case False
    with ok show ?thesis by (simp add: write_service_resource_def Let_def)
  next
    case True
    let ?c = "sv_chars ?s ! ?j"
    have g: "gatt_char ble i ?j = Some (?s, ?c)" using i True by (simp add: gatt_char_Some)
    obtain p where p: "ch_dbus_path ?c = Some p" using device_ok_char [OF ok g] by auto
    obtain rc w2 where wr: "ble_write_characteristic E (Some p) v w = Some (rc, w2)"
      using ble_write_defined by blast
    obtain b3 w3 where l: "set_local_characteristic_value E ble i ?j v w2 = (b3, w3)" by fastforce
    with set_local_ok [OF ok] have b3: "device_ok b3" by (metis fst_conv)
    obtain s' c' where g3: "gatt_char b3 i ?j = Some (s', c')" "sv_uuid s' = sv_uuid ?s" "ch_uuid c' = ch_uuid ?c"
      using gatt_char_set_local [OF g l] by blast
    show ?thesis
    proof (cases "rc = 0 \<and> ble_services_is_supported_characteristic (sv_uuid ?s) (ch_uuid ?c)")
      case True
      then obtain w4 where
        "ble_services_decode_and_write_characteristic_translation E b3 i ?j v w3 = Some w4"
        using decode_and_write_defined [OF b3 g3(1) _ v E, of w3] g3(2,3) by auto
      with True b3 \<open>?j < length (sv_chars ?s)\<close> show ?thesis
        by (simp add: write_service_resource_def Let_def p wr l)
    next
      case False
      with ok b3 \<open>?j < length (sv_chars ?s)\<close> show ?thesis
        by (auto simp: write_service_resource_def Let_def p wr l)
    qed
  qed
qed

lemma device_write_ok:
  assumes ok: "device_ok ble" and v: "value \<noteq> []" and E: "stores_floats E"
  shows "\<exists>rc ble' w'. device_write_characteristic E ble object_id instance_id resource_id value w =
    Some (rc, ble', w') \<and> device_ok ble'"
proof (cases "object_id = IPSO_OID_BLE_SERVICE")
  case True
  with ok write_service_defined [OF ok _ v E] show ?thesis
    by (cases "unat instance_id < length (d_services ble)") (auto simp: device_write_characteristic_def)
next
  case False
  show ?thesis
  proof (cases "ble_services_find_translation_context ble object_id instance_id resource_id")
    case None
    with False ok show ?thesis by (simp add: device_write_characteristic_def)
  next
    case (Some ctx)
    then have "ctx \<in> set (d_translations ble)"
      by (auto simp: ble_services_find_translation_context_def dest: contexts.lookup_SomeD)
    from write_translated_defined [OF ok this v] False Some show ?thesis
      by (simp add: device_write_characteristic_def)
  qed
qed



section \<open>Values read from BlueZ\<close>

lemma parse_result_loop_spec:
  "n \<le> m \<Longrightarrow> m \<le> length data \<Longrightarrow>
   parse_result_loop vs data m n =
     (take n data @ take (m - n) vs @ drop (n + min (m - n) (length vs)) data, min m (n + length vs + 1))"
proof (induction vs arbitrary: data n)
  case Nil
  then show ?case by auto
next
  case (Cons v vs)
  show ?case
  proof (cases "n < m")
    case True
    with Cons.prems Cons.IH [of "Suc n" "data[n := v]"] show ?thesis
      by (auto simp: take_Suc_conv_app_nth upd_conv_take_nth_drop min_def drop_Cons' take_Cons' Suc_diff_Suc
            add.commute)
  next
    case False
    with Cons.prems show ?thesis by simp
  qed
qed

text \<open>
  Parsing a value of n bytes into a buffer of m copies the first min(n, m) bytes and leaves
  the rest of the buffer alone, but the size it reports is one too large whenever the value
  is shorter than the buffer.
\<close>

theorem parse_result_size_off_by_one:
  assumes "m \<le> length data"
  shows "parse_result_variant vs data m =
    (take m vs @ drop (min m (length vs)) data,
     if length vs < m then length vs + 1 else m)"
  using parse_result_loop_spec [of 0 m data vs] assms
  by (auto simp: parse_result_variant_def min_def)

theorem parse_result_size_off_by_one_witness:
  "parse_result_variant [1, 2] [0, 0, 0, 0] 4 = ([1, 2, 0, 0], 3)"
  using parse_result_size_off_by_one [of 4 "[0, 0, 0, 0]" "[1, 2]"] by simp

text \<open>
  A Device Information string is read correctly only by luck: after a value shorter than the
  128-byte buffer (and free of NULs) has been read, the C string handed to Edge is that value
  exactly when the uninitialised stack byte behind it happens to be 0.
\<close>

theorem dis_string_depends_on_stack:
  assumes "length stack = 128" and "length vs < 128" and "0 \<notin> set vs"
  shows "dis_string (fst (parse_result_variant vs stack 128), True) =
      Some (Some (map (\<lambda>x. char_of (unat x)) vs)) \<longleftrightarrow> stack ! length vs = 0"
proof -
  have buf: "fst (parse_result_variant vs stack 128) = vs @ drop (length vs) stack"
    using assms parse_result_loop_spec [of 0 128 stack vs] by (simp add: parse_result_variant_def)
  have d: "drop (length vs) stack = stack ! length vs # drop (Suc (length vs)) stack"
    using assms by (simp add: Cons_nth_drop_Suc)
  have tw: "takeWhile (\<lambda>x. x \<noteq> 0) (vs @ drop (length vs) stack) = vs @ takeWhile (\<lambda>x. x \<noteq> 0) (drop (length vs) stack)"
    using assms(3) by (intro takeWhile_append2) auto
  show ?thesis
  proof (cases "stack ! length vs = 0")
    case True
    then have "takeWhile (\<lambda>x. x \<noteq> 0) (vs @ drop (length vs) stack) = vs" unfolding tw by (simp add: d)
    moreover have "0 \<in> set (vs @ drop (length vs) stack)" using True by (simp add: d)
    ultimately show ?thesis unfolding dis_string_def buf c_string_def using True by simp
  next
    case False
    then have "length (takeWhile (\<lambda>x. x \<noteq> 0) (vs @ drop (length vs) stack)) \<noteq> length vs"
      unfolding tw by (simp add: d)
    then have "map (\<lambda>x. char_of (unat x)) (takeWhile (\<lambda>x. x \<noteq> 0) (vs @ drop (length vs) stack)) \<noteq>
        map (\<lambda>x. char_of (unat x) :: char) vs"
      by (metis length_map)
    then show ?thesis
      using False unfolding dis_string_def buf c_string_def by (simp del: takeWhile_append)
  qed
qed

theorem dis_string_depends_on_stack_witness:
  "dis_string (fst (parse_result_variant [65, 82, 77] (replicate 128 88) 128), True) \<noteq>
     Some (Some (map (\<lambda>x. char_of (unat x)) [65 :: u8, 82, 77]))"
proof -
  have "replicate 128 (88 :: u8) ! length [65 :: u8, 82, 77] \<noteq> 0" by (subst nth_replicate) simp_all
  then show ?thesis
    using dis_string_depends_on_stack [of "replicate 128 88" "[65, 82, 77]"] by fastforce
qed

end
