(* ===== verification/Event_Invariants.thy ===== *)
theory Event_Invariants
  imports Main_Loop Gatt_Laws "HOL-Library.Sublist"
begin

text \<open>
  The invariant of the BLE translator's state in every reachable state of the transition
  system: addresses and device identifiers are unique, a running retry timer belongs to
  exactly the device that remembers it, retry counters are bounded, and every device's
  tables are well formed. The properties about timers, reconnection and shutdown follow.
\<close>

section \<open>The invariant\<close>

text \<open>
  GLib's source identifiers: positive, and never one that was handed out before
  (documented for the sources of one main context).
\<close>

definition source_ids :: "env \<Rightarrow> bool" where
  "source_ids E \<longleftrightarrow>
     (\<forall>h n. 0 < env_int E h (Sys (GTimeoutAdd n))) \<and>
     (\<forall>h n h' n'. suffix (Sys (GTimeoutAdd n) # h) h' \<longrightarrow>
        env_int E h (Sys (GTimeoutAdd n)) \<noteq> env_int E h' (Sys (GTimeoutAdd n')))"

definition issued :: "env \<Rightarrow> ev list \<Rightarrow> int \<Rightarrow> bool" where
  "issued E es s \<longleftrightarrow> (\<exists>h n. s = env_int E h (Sys (GTimeoutAdd n)) \<and> suffix (Sys (GTimeoutAdd n) # h) es)"

definition dev_inv :: "ble_device \<Rightarrow> bool" where
  "dev_inv d \<longleftrightarrow>
     device_ok d \<and> 0 \<le> d_connection_retries d \<and> d_connection_retries d \<le> BLE_MAX_CONNECTION_RETRIES \<and>
     (\<exists>px. d_proxy d = Some px \<and> px_iface px = DEVICE_IFACE) \<and>
     (if d_services_resolved d then d_json_list d \<noteq> None
      else d_json_list d = None \<and> d_services d = [] \<and> d_translations d = [])"

text \<open>The running retry timers are those the devices remember, each for its device.\<close>

definition owned :: "ble_device list \<Rightarrow> (int \<times> nat) set" where
  "owned ds = {t \<in> (\<lambda>d. (d_retry_timer_source d, d_ptr d)) ` set ds. fst t \<noteq> 0}"

definition timers_inv :: "env \<Rightarrow> ev list \<Rightarrow> (int \<times> nat) list \<Rightarrow> ble_device list \<Rightarrow> bool" where
  "timers_inv E es ts ds \<longleftrightarrow>
     distinct (map fst ts) \<and> (\<forall>t\<in>set ts. issued E es (fst t)) \<and> set ts = owned ds"

text \<open>The periodic read has a source of its own.\<close>

definition source_inv :: "env \<Rightarrow> ble_world \<Rightarrow> bool" where
  "source_inv E w \<longleftrightarrow>
     (g_source_id_1 w \<noteq> 0 \<longrightarrow> issued E (trace w) (g_source_id_1 w)) \<and>
     (\<forall>t\<in>set (timers w). fst t \<noteq> g_source_id_1 w)"

definition world_inv :: "env \<Rightarrow> ble_world \<Rightarrow> bool" where
  "world_inv E w \<longleftrightarrow>
     distinct (map d_ptr (devices w)) \<and> (\<forall>p\<in>set (map d_ptr (devices w)). p < next_ptr w) \<and>
     distinct (map d_device_id (devices w)) \<and> (\<forall>d\<in>set (devices w). dev_inv d) \<and>
     timers_inv E (trace w) (timers w) (devices w) \<and> source_inv E w"

section \<open>Steps the invariant does not see\<close>

definition same_core :: "ble_world \<Rightarrow> ble_world \<Rightarrow> bool" where
  "same_core w w' \<longleftrightarrow> devices w' = devices w \<and> next_ptr w' = next_ptr w \<and> timers w' = timers w \<and>
     g_source_id_1 w' = g_source_id_1 w \<and> suffix (trace w) (trace w')"

lemma same_core_refl [simp]: "same_core w w"
  by (simp add: same_core_def)

lemma same_core_trans: "same_core u v \<Longrightarrow> same_core v w \<Longrightarrow> same_core u w"
  by (auto simp: same_core_def intro: suffix_order.trans)

lemma calls_only_same_core: "calls_only w w' \<Longrightarrow> same_core w w'"
proof -
  assume c: "calls_only w w'"
  then have "ext.more w' = ext.more w" "suffix (trace w) (trace w')"
    by (auto simp: calls_only_def suffix_def)
  then show ?thesis
    by (cases w; cases w') (simp add: same_core_def)
qed

lemma issued_mono: "issued E es s \<Longrightarrow> suffix es es' \<Longrightarrow> issued E es' s"
  unfolding issued_def by (blast intro: suffix_order.trans)

lemma timers_inv_mono: "timers_inv E es ts ds \<Longrightarrow> suffix es es' \<Longrightarrow> timers_inv E es' ts ds"
  by (auto simp: timers_inv_def intro: issued_mono)

lemma same_core_inv [inv_intro]: "same_core w w' \<Longrightarrow> world_inv E w \<Longrightarrow> world_inv E w'"
  by (auto simp: same_core_def world_inv_def source_inv_def intro: timers_inv_mono issued_mono)

lemmas calls_only_inv = same_core_inv [OF calls_only_same_core]

lemma world_inv_flags [simp]:
  "world_inv E (w\<lparr>idle_queue := q\<rparr>) = world_inv E w"
  "world_inv E (w\<lparr>global_keep_running := b\<rparr>) = world_inv E w"
  "world_inv E (w\<lparr>unregistering_devices := b\<rparr>) = world_inv E w"
  "world_inv E (w\<lparr>g_connection_id := c\<rparr>) = world_inv E w"
  "world_inv E (w\<lparr>loop_quit := b\<rparr>) = world_inv E w"
  "world_inv E (w\<lparr>cfg_white_list := l\<rparr>) = world_inv E w"
  by (simp_all add: world_inv_def source_inv_def)

lemma call_inv [inv_intro]: "world_inv E w \<Longrightarrow> world_inv E (call e w)"
  by (rule calls_only_inv) simp_all

lemma g_idle_add_inv [inv_intro]: "world_inv E w \<Longrightarrow> world_inv E (g_idle_add t w)"
  by (simp add: g_idle_add_def call_inv)

lemma g_main_loop_quit_inv [inv_intro]: "world_inv E w \<Longrightarrow> world_inv E (g_main_loop_quit w)"
  by (simp add: g_main_loop_quit_def call_inv)

section \<open>Updating a device\<close>

lemma devices_update [simp]: "devices (update_device p f w) = map (\<lambda>d. if d_ptr d = p then f d else d) (devices w)"
  "trace (update_device p f w) = trace w" "timers (update_device p f w) = timers w"
  "g_source_id_1 (update_device p f w) = g_source_id_1 w"
  "next_ptr (update_device p f w) = next_ptr w" "idle_queue (update_device p f w) = idle_queue w"
  "global_keep_running (update_device p f w) = global_keep_running w"
  "unregistering_devices (update_device p f w) = unregistering_devices w"
  "loop_quit (update_device p f w) = loop_quit w" "g_connection_id (update_device p f w) = g_connection_id w"
  by (simp_all add: update_device_def)

lemma map_key_same: "(\<And>d. d \<in> set ds \<Longrightarrow> k (g d) = k d) \<Longrightarrow> map k (map g ds) = map k ds"
  by simp

lemma update_device_inv [inv_intro]:
  assumes inv: "world_inv E w"
    and f: "\<And>d. d \<in> set (devices w) \<Longrightarrow> d_ptr d = p \<Longrightarrow>
      dev_inv (f d) \<and> d_ptr (f d) = p \<and> d_device_id (f d) = d_device_id d \<and>
      d_retry_timer_source (f d) = d_retry_timer_source d"
  shows "world_inv E (update_device p f w)"
proof -
  define g where "g d = (if d_ptr d = p then f d else d)" for d
  have g: "d_ptr (g d) = d_ptr d" "d_device_id (g d) = d_device_id d"
    "d_retry_timer_source (g d) = d_retry_timer_source d" "dev_inv (g d)" if "d \<in> set (devices w)" for d
    using f [OF that] inv that by (auto simp: g_def world_inv_def)
  have k: "map d_ptr (map g (devices w)) = map d_ptr (devices w)"
    "map d_device_id (map g (devices w)) = map d_device_id (devices w)"
    "owned (map g (devices w)) = owned (devices w)"
    using g by (auto simp: owned_def image_iff intro!: map_key_same)
  have d: "devices (update_device p f w) = map g (devices w)"
    by (simp add: update_device_def g_def)
  show ?thesis
    using inv g(4) unfolding world_inv_def timers_inv_def source_inv_def d k by simp
qed

section \<open>Timers\<close>

lemma owned_cleared:
  assumes "\<And>d. d_ptr (f d) = d_ptr d" and "\<And>d. d_retry_timer_source (f d) = 0"
  shows "owned (map (\<lambda>d. if d_ptr d = p then f d else d) ds) = {t \<in> owned ds. snd t \<noteq> p}"
  using assms by (auto simp: owned_def image_iff split: if_splits)

lemma owned_filter: "owned (filter (\<lambda>d. d_ptr d \<noteq> p) ds) = {t \<in> owned ds. snd t \<noteq> p}"
  by (auto simp: owned_def)

lemma owned_append [simp]:
  "owned [] = {}" "owned (xs @ ys) = owned xs \<union> owned ys"
  "owned (d # ys) = (if d_retry_timer_source d = 0 then {} else {(d_retry_timer_source d, d_ptr d)}) \<union> owned ys"
  by (auto simp: owned_def)

lemma owned_set:
  assumes ds: "distinct (map d_ptr ds)" and d: "d \<in> set ds" "d_ptr d = p" "d_retry_timer_source d = 0" and s: "s \<noteq> 0"
  shows "owned (map (\<lambda>d. if d_ptr d = p then d\<lparr>d_retry_timer_source := s\<rparr> else d) ds) = insert (s, p) (owned ds)"
proof -
  obtain xs ys where l: "ds = xs @ d # ys"
    using split_list [OF d(1)] by blast
  with ds d(2) have n: "\<forall>c\<in>set xs. d_ptr c \<noteq> p" "\<forall>c\<in>set ys. d_ptr c \<noteq> p"
    by (force simp: image_iff)+
  have m: "map (\<lambda>d. if d_ptr d = p then d\<lparr>d_retry_timer_source := s\<rparr> else d) zs = zs" if "\<forall>c\<in>set zs. d_ptr c \<noteq> p" for zs
    using that by (intro map_idI) auto
  show ?thesis using d s by (simp add: l m [OF n(1)] m [OF n(2)])
qed

lemma owned_not: "(\<And>d. d \<in> set ds \<Longrightarrow> d_ptr d = p \<Longrightarrow> d_retry_timer_source d = 0) \<Longrightarrow> t \<in> owned ds \<Longrightarrow> snd t \<noteq> p"
  by (auto simp: owned_def)

lemma same_device: "distinct (map d_ptr ds) \<Longrightarrow> c \<in> set ds \<Longrightarrow> d \<in> set ds \<Longrightarrow> d_ptr c = d_ptr d \<Longrightarrow> c = d"
  by (simp add: distinct_map inj_on_def)

lemma timer_of_device:
  assumes ts: "timers_inv E es ts ds" and ds: "distinct (map d_ptr ds)"
    and d: "d \<in> set ds" "d_retry_timer_source d \<noteq> 0" and t: "t \<in> set ts"
  shows "fst t = d_retry_timer_source d \<longleftrightarrow> snd t = d_ptr d"
proof -
  have m: "(d_retry_timer_source d, d_ptr d) \<in> set ts"
    using ts d by (auto simp: timers_inv_def owned_def)
  obtain c where c: "c \<in> set ds" "t = (d_retry_timer_source c, d_ptr c)"
    using ts t by (auto simp: timers_inv_def owned_def)
  have "snd t = d_ptr d" if "fst t = d_retry_timer_source d"
  proof (rule eq_key_imp_eq_value)
    show "distinct (map fst ts)" using ts by (simp add: timers_inv_def)
    show "(fst t, snd t) \<in> set ts" using t by simp
    show "(fst t, d_ptr d) \<in> set ts" using m that by simp
  qed
  moreover have "snd t = d_ptr d \<Longrightarrow> c = d"
    using same_device [OF ds c(1) d(1)] c(2) by simp
  ultimately show ?thesis using c(2) by (metis fst_conv)
qed

lemma timers_inv_remove:
  assumes ts: "timers_inv E es ts ds" and ds: "distinct (map d_ptr ds)"
    and d: "d \<in> set ds" "d_ptr d = p" "d_retry_timer_source d = s" "s \<noteq> 0"
    and o: "owned ds' = {t \<in> owned ds. snd t \<noteq> p}"
  shows "timers_inv E es (filter (\<lambda>t. fst t \<noteq> s) ts) ds'"
proof -
  have "set (filter (\<lambda>t. fst t \<noteq> s) ts) = {t \<in> set ts. snd t \<noteq> p}"
    using timer_of_device [OF ts ds d(1)] d by auto
  then show ?thesis
    using ts o by (auto simp: timers_inv_def distinct_map_filter)
qed

lemma timers_inv_keep:
  assumes ts: "timers_inv E es ts ds"
    and s: "\<And>d. d \<in> set ds \<Longrightarrow> d_ptr d = p \<Longrightarrow> d_retry_timer_source d = 0"
    and o: "owned ds' = {t \<in> owned ds. snd t \<noteq> p}"
  shows "timers_inv E es ts ds'"
proof -
  have "snd t \<noteq> p" if "t \<in> owned ds" for t
    using owned_not [of ds p t] s that by blast
  then have "owned ds' = owned ds" using o by blast
  with ts show ?thesis by (simp add: timers_inv_def)
qed

lemma device_at_Some: "device_at p ds = Some d \<Longrightarrow> d \<in> set ds \<and> d_ptr d = p"
  using by_ptr.lookup_SomeD by blast

text \<open>A device of the list is found by its address.\<close>

lemma device_at_known: "world_inv E w \<Longrightarrow> d \<in> set (devices w) \<Longrightarrow> device_at (d_ptr d) (devices w) = Some d"
  by (simp add: world_inv_def by_ptr.lookup_unique)

lemma known_source:
  assumes "world_inv E w" and "device_at p (devices w) = Some d" and "c \<in> set (devices w)" and "d_ptr c = p"
  shows "c = d"
  using assms device_at_Some [OF assms(2)] same_device [of "devices w" c d] by (simp add: world_inv_def)

lemma g_source_remove_simps [simp]:
  "g_source_id_1 (g_source_remove s w) = g_source_id_1 w"
  "devices (g_source_remove s w) = devices w" "next_ptr (g_source_remove s w) = next_ptr w"
  "timers (g_source_remove s w) = filter (\<lambda>t. fst t \<noteq> s) (timers w)"
  "trace (g_source_remove s w) = Sys (GSourceRemove s) # trace w"
  by (simp_all add: g_source_remove_def call_def)

lemma del_device_inv [inv_intro]:
  assumes inv: "world_inv E w"
  shows "world_inv E (devices_del_device p w)"
proof (cases "device_at p (devices w)")
  case None
  with inv show ?thesis by (simp add: devices_del_device_def)
next
  case (Some d)
  note d = device_at_Some [OF Some]
  let ?w = "w\<lparr>devices := filter (\<lambda>d. d_ptr d \<noteq> p) (devices w)\<rparr>"
  have ts: "timers_inv E (trace w) (timers w) (devices w)" and ds: "distinct (map d_ptr (devices w))"
    using inv by (simp_all add: world_inv_def)
  have src: "source_inv E w" using inv by (simp add: world_inv_def)
  have rest: "distinct (map d_ptr (devices ?w))" "distinct (map d_device_id (devices ?w))"
    "\<forall>p\<in>set (map d_ptr (devices ?w)). p < next_ptr w" "\<forall>d\<in>set (devices ?w). dev_inv d"
    using inv by (auto simp: world_inv_def distinct_map_filter)
  show ?thesis
  proof (cases "d_retry_timer_source d = 0")
    case True
    have "timers_inv E (trace w) (timers w) (filter (\<lambda>d. d_ptr d \<noteq> p) (devices w))"
      by (rule timers_inv_keep [OF ts _ owned_filter]) (use known_source [OF inv Some] True in auto)
    with rest src True Some show ?thesis
      by (simp add: devices_del_device_def device_free_def world_inv_def source_inv_def)
  next
    case False
    have "timers_inv E (trace w) (filter (\<lambda>t. fst t \<noteq> d_retry_timer_source d) (timers w))
      (filter (\<lambda>d. d_ptr d \<noteq> p) (devices w))"
      by (rule timers_inv_remove [OF ts ds _ _ _ False]) (use d in \<open>auto simp: owned_filter\<close>)
    with rest src False Some show ?thesis
      by (auto simp: devices_del_device_def device_free_def world_inv_def source_inv_def suffix_def
            intro: timers_inv_mono issued_mono)
  qed
qed

lemma dev_inv_source [simp]: "dev_inv (d\<lparr>d_retry_timer_source := s\<rparr>) = dev_inv d"
  by (simp add: dev_inv_def device_ok_def context_ok_def gatt_char_def)

lemma clear_timer_inv:
  assumes inv: "world_inv E w"
    and d: "d \<in> set (devices w)" "d_ptr d = p" "d_retry_timer_source d = s" "s \<noteq> 0"
    and w': "devices w' = map (\<lambda>d. if d_ptr d = p then d\<lparr>d_retry_timer_source := 0\<rparr> else d) (devices w)"
      "next_ptr w' = next_ptr w" "g_source_id_1 w' = g_source_id_1 w" "timers w' = filter (\<lambda>t. fst t \<noteq> s) (timers w)"
      "suffix (trace w) (trace w')"
  shows "world_inv E w'"
proof -
  define g :: "ble_device \<Rightarrow> ble_device" where "g = (\<lambda>d. if d_ptr d = p then d\<lparr>d_retry_timer_source := 0\<rparr> else d)"
  have g: "d_ptr (g d) = d_ptr d" "d_device_id (g d) = d_device_id d" "dev_inv (g d) = dev_inv d" for d
    by (simp_all add: g_def)
  have k: "map d_ptr (map g (devices w)) = map d_ptr (devices w)"
    "map d_device_id (map g (devices w)) = map d_device_id (devices w)"
    by (simp_all add: g)
  have "timers_inv E (trace w) (filter (\<lambda>t. fst t \<noteq> s) (timers w)) (map g (devices w))"
    by (rule timers_inv_remove [OF _ _ d]) (use inv in \<open>auto simp: world_inv_def owned_cleared g_def\<close>)
  from timers_inv_mono [OF this w'(5)] show ?thesis
    using inv issued_mono [OF _ w'(5)] unfolding world_inv_def source_inv_def w' g_def [symmetric] k by (simp add: g)
qed

lemma stop_retry_timer_inv [inv_intro]:
  assumes inv: "world_inv E w"
  shows "world_inv E (device_stop_retry_timer p w)"
proof (cases "device_at p (devices w)")
  case None
  with inv show ?thesis by (simp add: device_stop_retry_timer_def)
next
  case (Some d)
  show ?thesis
  proof (cases "d_retry_timer_source d = 0")
    case True
    with inv Some show ?thesis by (simp add: device_stop_retry_timer_def)
  next
    case False
    with device_at_Some [OF Some] Some show ?thesis
      by (intro clear_timer_inv [OF inv, of d p "d_retry_timer_source d"])
        (auto simp: device_stop_retry_timer_def suffix_def)
  qed
qed

lemma timer_owner:
  assumes inv: "world_inv E w" and t: "(s, p) \<in> set (timers w)"
  obtains d where "device_at p (devices w) = Some d" "d_retry_timer_source d = s" "s \<noteq> 0"
    "d \<in> set (devices w)" "d_ptr d = p"
proof -
  from inv t have "(s, p) \<in> owned (devices w)"
    by (simp add: world_inv_def timers_inv_def)
  then obtain d where d: "d \<in> set (devices w)" "d_retry_timer_source d = s" "d_ptr d = p" "s \<noteq> 0"
    by (auto simp: owned_def)
  with device_at_known [OF inv d(1)] that show thesis by simp
qed

lemma ble_proxy_connect_calls_only [frame]: "calls_only w (ble_proxy_connect px w)"
  by (simp add: ble_proxy_connect_def split: option.split)

lemma calls_only_fields:
  "calls_only w w' \<Longrightarrow> devices w' = devices w \<and> next_ptr w' = next_ptr w \<and> timers w' = timers w \<and>
    g_source_id_1 w' = g_source_id_1 w \<and> idle_queue w' = idle_queue w \<and> global_keep_running w' = global_keep_running w \<and>
    unregistering_devices w' = unregistering_devices w \<and> loop_quit w' = loop_quit w \<and>
    g_connection_id w' = g_connection_id w \<and> cfg_bluez_hci_path w' = cfg_bluez_hci_path w \<and>
    cfg_postfix w' = cfg_postfix w \<and> suffix (trace w) (trace w')"
  by (cases w; cases w') (auto simp: calls_only_def suffix_def)

lemma retry_connect_inv:
  assumes inv: "world_inv E w" and t: "(s, p) \<in> set (timers w)"
  obtains w' where "ble_retry_connect s p w = Some w'" "world_inv E w'"
proof -
  obtain d where d: "device_at p (devices w) = Some d" "d_retry_timer_source d = s" "s \<noteq> 0"
    "d \<in> set (devices w)" "d_ptr d = p"
    using timer_owner [OF inv t] .
  let ?w1 = "ble_proxy_connect (d_proxy d) w"
  let ?w2 = "update_device p (\<lambda>d. d\<lparr>d_retry_timer_source := 0\<rparr>) ?w1"
  let ?w' = "?w2\<lparr>timers := filter (\<lambda>t. fst t \<noteq> s) (timers ?w2)\<rparr>"
  have "world_inv E ?w'"
    by (rule clear_timer_inv [OF inv d(4,5,2,3)])
      (use calls_only_fields [OF ble_proxy_connect_calls_only [of w "d_proxy d"]] in simp_all)
  with d(1) show thesis
    by (intro that [of ?w']) (simp_all add: ble_retry_connect_def Let_def)
qed

lemma g_timeout_add_inv:
  assumes inv: "world_inv E w" and E: "source_ids E"
    and d: "device_at p (devices w) = Some d" "d_retry_timer_source d = 0"
    and w': "g_timeout_add E ms p w = (s, w')"
  shows "world_inv E (update_device p (\<lambda>d. d\<lparr>d_retry_timer_source := s\<rparr>) w')"
proof -
  define g :: "ble_device \<Rightarrow> ble_device" where "g = (\<lambda>d. if d_ptr d = p then d\<lparr>d_retry_timer_source := s\<rparr> else d)"
  let ?e = "Sys (GTimeoutAdd ms)"
  have w'': "s = env_int E (trace w) ?e" "w' = call ?e w\<lparr>timers := timers w @ [(s, p)]\<rparr>"
    using w' by (auto simp: g_timeout_add_def ask_defs call_def Let_def)
  have pos: "0 < s" using E by (simp add: w''(1) source_ids_def)
  have new: "s \<noteq> fst t" if "t \<in> set (timers w)" for t
  proof -
    from inv that have "issued E (trace w) (fst t)" by (simp add: world_inv_def timers_inv_def)
    then obtain h n where "fst t = env_int E h (Sys (GTimeoutAdd n))" "suffix (Sys (GTimeoutAdd n) # h) (trace w)"
      by (auto simp: issued_def)
    with E w''(1) show ?thesis unfolding source_ids_def by metis
  qed
  have "s \<noteq> g_source_id_1 w"
  proof (cases "g_source_id_1 w = 0")
    case False
    with inv have "issued E (trace w) (g_source_id_1 w)" by (simp add: world_inv_def source_inv_def)
    then obtain h n where "g_source_id_1 w = env_int E h (Sys (GTimeoutAdd n))" "suffix (Sys (GTimeoutAdd n) # h) (trace w)"
      by (auto simp: issued_def)
    with E w''(1) show ?thesis unfolding source_ids_def by metis
  qed (use pos in simp)
  then have "source_inv E w'"
    using inv issued_mono [of E "trace w" _ "?e # trace w"]
    by (auto simp: world_inv_def source_inv_def w''(2) call_def suffix_def)
  then have src: "source_inv E (update_device p (\<lambda>d. d\<lparr>d_retry_timer_source := s\<rparr>) w')"
    by (simp add: source_inv_def)
  have iss: "issued E (?e # trace w) s" unfolding issued_def w''(1) by blast
  have g: "d_ptr (g d) = d_ptr d" "d_device_id (g d) = d_device_id d" "dev_inv (g d) = dev_inv d" for d
    by (simp_all add: g_def)
  have k: "map d_ptr (map g (devices w)) = map d_ptr (devices w)"
    "map d_device_id (map g (devices w)) = map d_device_id (devices w)"
    by (simp_all add: g)
  have o: "owned (map g (devices w)) = insert (s, p) (owned (devices w))"
    unfolding g_def
    by (rule owned_set [of _ d]) (use inv device_at_Some [OF d(1)] d(2) pos in \<open>auto simp: world_inv_def\<close>)
  have "timers_inv E (?e # trace w) (timers w @ [(s, p)]) (map g (devices w))"
    using inv new iss issued_mono [of E "trace w" _ "?e # trace w"]
    by (auto simp: world_inv_def timers_inv_def o suffix_def)
  moreover have "devices (update_device p (\<lambda>d. d\<lparr>d_retry_timer_source := s\<rparr>) w') = map g (devices w)"
    "trace w' = ?e # trace w" "timers w' = timers w @ [(s, p)]" "next_ptr w' = next_ptr w"
    by (simp_all add: w''(2) call_def g_def)
  ultimately show ?thesis
    using inv src unfolding world_inv_def devices_update(2-5) by (simp only: k) (simp add: g)
qed

section \<open>New devices\<close>

lemma dev_inv_new:
  assumes "d_services d = []" and "d_translations d = []" and "d_json_list d = None" and "\<not> d_services_resolved d"
    and "d_connection_retries d = 0" and "d_proxy d = Some px" and "px_iface px = DEVICE_IFACE"
  shows "dev_inv d"
  using assms by (simp add: dev_inv_def device_ok_def services_ok_def)

lemma link_new_device_inv:
  assumes inv: "world_inv E w" and d: "dev_inv (d\<lparr>d_device_id := i\<rparr>)" "d_ptr d = next_ptr w" "d_retry_timer_source d = 0"
    and i: "devices_find_device_by_device_id i (devices w) = None"
  shows "world_inv E (devices_link_device d i (w\<lparr>next_ptr := Suc (next_ptr w)\<rparr>))"
proof -
  let ?d = "d\<lparr>d_device_id := i\<rparr>"
  have "d_ptr ?d \<notin> set (map d_ptr (devices w))"
    using inv d(2) by (fastforce simp: world_inv_def)
  moreover have "d_device_id ?d \<notin> set (map d_device_id (devices w))"
    using i by (auto simp: by_id.lookup_None_key)
  moreover have "owned (devices w @ [?d]) = owned (devices w)"
    using d(3) by simp
  ultimately show ?thesis
    using inv d by (auto simp: world_inv_def devices_link_device_def timers_inv_def source_inv_def less_Suc_eq)
qed

lemma create_context_inv [inv_intro]:
  assumes inv: "world_inv E w" and r: "ble_create_device_context E proxy ty w = Some w'"
    and px: "\<And>px. proxy = Some px \<Longrightarrow> px_iface px = DEVICE_IFACE"
  shows "world_inv E w'"
proof (cases proxy)
  case None
  with inv r show ?thesis by (simp add: ble_create_device_context_def)
next
  case (Some px)
  with r obtain a w1 where a: "ble_device_proxy_get_address E BLE_DEVICE_ADDRESS_SIZE px w = Some (a, w1)"
    by (auto simp: ble_create_device_context_def split: option.splits)
  have inv1: "world_inv E w1"
    using inv proxy_get_address_calls_only [OF a] by (rule calls_only_inv [rotated])
  show ?thesis
  proof (cases "a = None \<or> devices_find_device_by_device_id
      (devices_make_device_id BLE_DEVICE_NAME_MAX_LENGTH ''BLE'' (the a) (cfg_postfix w1)) (devices w1) \<noteq> None")
    case True
    then have "w' = w1"
      using r Some a by (auto simp: ble_create_device_context_def Let_def split: option.splits)
    with inv1 show ?thesis by simp
  next
    case False
    then obtain addr where addr: "a = Some addr" by (cases a) auto
    define i where "i = devices_make_device_id BLE_DEVICE_NAME_MAX_LENGTH ''BLE'' addr (cfg_postfix w1)"
    define w2 where "w2 = call (Sys Gettimeofday) w1"
    have inv2: "world_inv E w2" unfolding w2_def by (rule call_inv [OF inv1])
    have new: "devices_find_device_by_device_id i (devices w2) = None"
      using False by (simp add: addr i_def w2_def call_def)
    define d where "d = \<lparr>d_ptr = next_ptr w2,
      d_last_connected_timestamp_secs = word_of_int (env_int E (trace w1) (Sys Gettimeofday)),
      d_flags = 0, d_device_id = [], d_proxy = Some px, d_services = [], d_bt_addr = take 21 addr,
      d_dbus_path = px_path px, d_json_list = None, d_device_type = ty, d_translations = [],
      d_retry_timer_source = 0, d_connection_retries = 0, d_services_resolved = False\<rparr>"
    have w': "w' = devices_link_device d i (w2\<lparr>next_ptr := Suc (next_ptr w2)\<rparr>)"
      using r Some a addr False
      by (cases w1) (auto simp: ble_create_device_context_def device_create_def seconds_since_epoch_def
            ask_defs Let_def i_def w2_def d_def call_def)
    have "dev_inv (d\<lparr>d_device_id := i\<rparr>)"
      by (rule dev_inv_new [of _ px]) (use px [OF Some] in \<open>simp_all add: d_def\<close>)
    from link_new_device_inv [OF inv2 this _ _ new] show ?thesis by (simp add: w' d_def)
  qed
qed

lemma create_proxy_iface:
  "ble_create_device_proxy E addr w = (px, w') \<Longrightarrow>
   calls_only w w' \<and> (\<forall>x. px = Some x \<longrightarrow> px_iface x = DEVICE_IFACE)"
  by (auto simp: ble_create_device_proxy_def g_dbus_proxy_new_def ask_defs Let_def split: if_splits)

lemma identify_calls_only [frame]:
  "calls_only w (snd (ble_identify_device_services E px w))"
  "calls_only w (snd (ble_identify_device_using_whitelist E px w))"
  by (auto simp: ble_identify_device_services_def ble_identify_device_using_whitelist_def ask_defs
        split: option.splits gvariant.splits prod.splits)

lemma identify_type_calls_only [frame]: "calls_only w (snd (ble_identify_device_type E path w))"
proof -
  obtain r w1 where 1: "g_dbus_proxy_new E path DEVICE_IFACE w = (r, w1)" by fastforce
  have c1: "calls_only w w1" using g_dbus_proxy_new_calls_only [of w E path DEVICE_IFACE] by (simp add: 1)
  have c: "calls_only w (snd (ble_identify_device_using_whitelist E px u))" if "calls_only w u" for px u
    using that identify_calls_only(2) by (rule calls_only_trans)
  have "calls_only w (snd (ble_identify_device_services E px w1))" for px
    using c1 identify_calls_only(1) by (rule calls_only_trans)
  with c c1 show ?thesis
    by (auto simp: ble_identify_device_type_def 1 split: sum.split prod.split if_splits) (metis c c1 snd_conv)+
qed

lemma new_device_inv [inv_intro]:
  assumes inv: "world_inv E w" and r: "ble_new_device E path w = Some w'"
  shows "world_inv E w'"
proof (cases "global_keep_running w")
  case False
  with assms show ?thesis by (simp add: ble_new_device_def)
next
  case True
  obtain ty w1 where 1: "ble_identify_device_type E path w = (ty, w1)" by fastforce
  have inv1: "world_inv E w1"
    using calls_only_inv [OF identify_type_calls_only inv, of E path] by (simp add: 1)
  obtain px w2 where 2: "ble_create_device_proxy E path w1 = (px, w2)" by fastforce
  note p = create_proxy_iface [OF 2]
  have inv2: "world_inv E w2" using p inv1 by (blast intro: calls_only_inv)
  show ?thesis
  proof (cases "ty = BLE_DEVICE_UNKNOWN")
    case True
    with r \<open>global_keep_running w\<close> inv1 show ?thesis by (simp add: ble_new_device_def 1)
  next
    case False
    then obtain w3 where 3: "ble_create_device_context E px ty w2 = Some w3"
      "w' = (if ty = BLE_DEVICE_PERSISTENT_GATT_SERVER then ble_proxy_connect px w3 else w3)"
      using r True by (auto simp: ble_new_device_def 1 2 split: option.splits)
    have "world_inv E w3" by (rule create_context_inv [OF inv2 3(1)]) (use p in blast)
    then show ?thesis by (auto simp: 3(2) intro: calls_only_inv [OF ble_proxy_connect_calls_only])
  qed
qed

lemma known_devices_inv [inv_intro]:
  "world_inv E w \<Longrightarrow> ble_handle_known_devices E obs w = Some w' \<Longrightarrow> world_inv E w'"
  by (induction E obs w rule: ble_handle_known_devices.induct) (auto split: if_splits option.splits dest: new_device_inv)

end
