(* ===== verification/Handler_Invariants.thy ===== *)
theory Handler_Invariants
  imports Event_Invariants
begin

text \<open>
  Every event handler keeps the invariant, one lemma for each, and those that can only go
  wrong by a violated invariant return.
\<close>

section \<open>Removing and unregistering\<close>

lemma unregister_calls_only: "edge_unregister_device E i b w = (ok, w') \<Longrightarrow> calls_only w w'"
  using edge_calls_only(6) [of w E i b] by simp

lemma pt_edge_del_device_inv [inv_intro]: "world_inv E w \<Longrightarrow> world_inv E (pt_edge_del_device p w)"
  by (simp add: pt_edge_del_device_def Let_def del_device_inv g_idle_add_inv)

lemma unregister_or_delete_inv [inv_intro]: "world_inv E w \<Longrightarrow> world_inv E (unregister_or_delete E d w)"
  by (auto simp: unregister_or_delete_def split: prod.split
        intro: pt_edge_del_device_inv calls_only_inv [OF unregister_calls_only])

lemma remove_device_done_inv [inv_intro]: "world_inv E w \<Longrightarrow> world_inv E (ble_remove_device_done E i w)"
  by (simp add: ble_remove_device_done_def unregister_or_delete_inv split: option.split)

lemma object_removed_inv [inv_intro]: "world_inv E w \<Longrightarrow> world_inv E (ble_on_object_removed E path w)"
  by (simp add: ble_on_object_removed_def unregister_or_delete_inv g_main_loop_quit_inv split: option.split)

lemma stop_retry_timer_ptrs [simp]:
  "map d_ptr (devices (device_stop_retry_timer p w)) = map d_ptr (devices w)"
  by (simp add: device_stop_retry_timer_def comp_def split: option.split)

lemma remove_device_inv:
  assumes inv: "world_inv E w" and p: "p \<in> d_ptr ` set (devices w)"
  obtains w' where "ble_remove_device E p w = Some w'" "world_inv E w'"
    "map d_ptr (devices w') = map d_ptr (devices w)"
proof -
  obtain d where d: "device_at p (devices w) = Some d"
    using p by (cases "device_at p (devices w)") (auto simp: by_ptr.lookup_None_key)
  let ?w1 = "device_stop_retry_timer p w"
  obtain r w2 where 2: "g_dbus_proxy_new E (cfg_bluez_hci_path ?w1) ADAPTER_IFACE ?w1 = (r, w2)" by fastforce
  have c: "calls_only ?w1 w2"
    using g_dbus_proxy_new_calls_only [of ?w1 E "cfg_bluez_hci_path ?w1" ADAPTER_IFACE] by (simp add: 2)
  have inv2: "world_inv E w2" and ptrs: "map d_ptr (devices w2) = map d_ptr (devices w)"
    using calls_only_inv [OF c stop_retry_timer_inv [OF inv]] calls_only_fields [OF c] by simp_all
  show thesis
    using that inv2 ptrs call_inv [OF inv2] unfolding ble_remove_device_def d option.case Let_def 2 prod.case
    by (cases r) (auto simp: call_def)
qed

lemma remove_all_inv:
  "world_inv E w \<Longrightarrow> set ps \<subseteq> d_ptr ` set (devices w) \<Longrightarrow>
   \<exists>w'. remove_all E ps w = Some w' \<and> world_inv E w' \<and> map d_ptr (devices w') = map d_ptr (devices w)"
proof (induction ps arbitrary: w)
  case Nil
  then show ?case by simp
next
  case (Cons p ps)
  then obtain w1 where w1: "ble_remove_device E p w = Some w1" "world_inv E w1"
    "map d_ptr (devices w1) = map d_ptr (devices w)"
    using remove_device_inv [of E w p] by auto
  then have "d_ptr ` set (devices w1) = d_ptr ` set (devices w)"
    by (metis list.set_map)
  with Cons.IH [OF w1(2)] Cons.prems(2) w1 show ?case by auto
qed

lemma remove_device_idle:
  "ble_remove_device E p w = Some w' \<Longrightarrow> idle_queue w' = idle_queue w \<and>
    unregistering_devices w' = unregistering_devices w \<and> global_keep_running w' = global_keep_running w \<and>
    loop_quit w' = loop_quit w"
  by (auto simp: ble_remove_device_def device_stop_retry_timer_def g_source_remove_def
        g_dbus_proxy_new_def call_def Let_def split: option.splits sum.splits if_splits)

lemma remove_all_idle:
  "remove_all E ps w = Some w' \<Longrightarrow> idle_queue w' = idle_queue w \<and>
    unregistering_devices w' = unregistering_devices w \<and> global_keep_running w' = global_keep_running w \<and>
    loop_quit w' = loop_quit w"
  by (induction E ps w rule: remove_all.induct) (auto split: option.splits dest: remove_device_idle)

lemma g_idle_add_simps [simp]:
  "devices (g_idle_add t w) = devices w" "idle_queue (g_idle_add t w) = idle_queue w @ [t]"
  "unregistering_devices (g_idle_add t w) = unregistering_devices w"
  "global_keep_running (g_idle_add t w) = global_keep_running w" "loop_quit (g_idle_add t w) = loop_quit w"
  by (simp_all add: g_idle_add_def call_def)

lemma unregister_devices_inv:
  assumes inv: "world_inv E w"
  obtains w' where "unregister_devices E w = Some w'" "world_inv E w'" "unregistering_devices w'"
    "map d_ptr (devices w') = map d_ptr (devices w)"
    "global_keep_running w' = global_keep_running w" "set (idle_queue w) \<subseteq> set (idle_queue w')"
    "loop_quit w' = loop_quit w"
    "\<not> unregistering_devices w \<and> devices w' = [] \<longrightarrow> Pt_ble_g_main_quit_loop \<in> set (idle_queue w')"
proof (cases "unregistering_devices w \<or> devices w = []")
  case True
  with inv show thesis
    by (cases "unregistering_devices w")
      (auto simp: unregister_devices_def Let_def g_idle_add_inv intro!: that)
next
  case False
  let ?w = "w\<lparr>unregistering_devices := True\<rparr>"
  obtain w1 where w1: "remove_all E (map d_ptr (devices w)) ?w = Some w1" "world_inv E w1"
    "map d_ptr (devices w1) = map d_ptr (devices w)"
    using remove_all_inv [of E ?w "map d_ptr (devices w)"] inv by auto
  note i = remove_all_idle [OF w1(1)]
  from w1(3) False have "devices w1 \<noteq> []" by auto
  with False w1 i show thesis
    by (intro that [of w1]) (simp_all add: unregister_devices_def Let_def)
qed

lemma graceful_shutdown_inv:
  assumes inv: "world_inv E w"
  obtains w' where "pt_ble_graceful_shutdown E w = Some w'" "world_inv E w'" "unregistering_devices w'"
    "\<not> global_keep_running w'" "map d_ptr (devices w') = map d_ptr (devices w)"
    "set (idle_queue w) \<subseteq> set (idle_queue w')" "loop_quit w' = loop_quit w"
    "\<not> unregistering_devices w \<and> devices w' = [] \<longrightarrow> Pt_ble_g_main_quit_loop \<in> set (idle_queue w')"
proof -
  let ?w = "if \<not> global_keep_running w then g_idle_add Pt_ble_g_main_quit_loop w
            else w\<lparr>global_keep_running := False\<rparr>"
  have "world_inv E ?w" using inv by (simp add: g_idle_add_inv)
  from unregister_devices_inv [OF this] obtain w' where w': "unregister_devices E ?w = Some w'"
    "world_inv E w'" "unregistering_devices w'" "map d_ptr (devices w') = map d_ptr (devices ?w)"
    "global_keep_running w' = global_keep_running ?w" "set (idle_queue ?w) \<subseteq> set (idle_queue w')"
    "loop_quit w' = loop_quit ?w"
    "\<not> unregistering_devices ?w \<and> devices w' = [] \<longrightarrow> Pt_ble_g_main_quit_loop \<in> set (idle_queue w')"
    by blast
  show thesis
    by (rule that [of w']) (use w' in \<open>auto simp: pt_ble_graceful_shutdown_def split: if_splits\<close>)
qed

section \<open>Reconnecting\<close>

lemma duration_calls_only [frame]: "calls_only w (snd (devices_duration_in_sec_since_last_connection E d w))"
  by (simp add: devices_duration_in_sec_since_last_connection_def seconds_since_epoch_def ask_defs Let_def)

lemma back_off_defined: "0 < r \<Longrightarrow> \<exists>t. ble_back_off_time_in_ms r = Some t"
  by (simp add: ble_back_off_time_in_ms_def)

lemma give_up_inv: "world_inv E w \<Longrightarrow> world_inv E (snd (give_up_unreachable E p d t n w))"
  by (auto simp: give_up_unreachable_def Let_def split: prod.split
        intro: pt_edge_del_device_inv calls_only_inv [OF unregister_calls_only])

text \<open>When the context stays, nothing but calls have been made.\<close>

lemma give_up_stays: "give_up_unreachable E p d t n w = (False, w') \<Longrightarrow> calls_only w w'"
  by (auto simp: give_up_unreachable_def Let_def split: if_splits prod.splits dest: unregister_calls_only)

lemma device_ok_cong:
  "d_services d' = d_services d \<Longrightarrow> d_translations d' = d_translations d \<Longrightarrow> device_ok d' = device_ok d"
  using context_ok_services [of d' d] by (simp add: device_ok_def)

lemma dev_inv_retries:
  "dev_inv d \<Longrightarrow> 0 \<le> r \<Longrightarrow> r \<le> BLE_MAX_CONNECTION_RETRIES \<Longrightarrow> dev_inv (d\<lparr>d_connection_retries := r\<rparr>)"
  using device_ok_cong [of "d\<lparr>d_connection_retries := r\<rparr>" d] by (simp add: dev_inv_def)

lemma inv_devices: "world_inv E w \<Longrightarrow> d \<in> set (devices w) \<Longrightarrow> dev_inv d"
  by (simp add: world_inv_def)

lemma back_off_over_limit: "ble_back_off_time_in_ms r = Some t \<Longrightarrow> 300000 < t \<Longrightarrow> 5 \<le> r"
  by (auto simp: ble_back_off_time_in_ms_def back_off_values split: if_splits)

text \<open>When the context goes: the time that has passed, and what becomes of the device.\<close>

lemma give_up_gone:
  assumes r: "give_up_unreachable E p d t n w = (True, w')"
  shows "300000 < t \<and> 86400 \<le> n \<and>
    (p \<notin> d_ptr ` set (devices w') \<or>
     Pt (PtDeviceUnregister (g_connection_id w) (d_device_id d) True) \<in> set (trace w'))"
proof -
  have c: "300000 < t" "86400 \<le> n" using r by (auto simp: give_up_unreachable_def Let_def split: if_splits prod.splits)
  have "(300 :: u64) \<le> 86400" by simp
  with c(2) have n: "300 \<le> n" using order_trans by blast
  obtain ok w1 where 1: "edge_unregister_device E (d_device_id d) True w = (ok, w1)" by fastforce
  have w': "w' = (if ok then w1 else pt_edge_del_device p w1)"
    using r c n 1 by (auto simp: give_up_unreachable_def)
  show ?thesis
  proof (cases ok)
    case True
    then have "Pt (PtDeviceUnregister (g_connection_id w) (d_device_id d) True) \<in> set (trace w1)"
      using 1 by (auto simp: edge_unregister_device_def ask_defs call_def Let_def split: if_splits)
    with c w' True show ?thesis by simp
  next
    case False
    have "p \<notin> d_ptr ` set (devices (pt_edge_del_device p w1))"
      by (auto simp: pt_edge_del_device_def devices_del_device_def device_free_def g_idle_add_def Let_def
            by_ptr.lookup_None_key g_source_remove_def call_def split: option.splits if_splits)
    with c w' False show ?thesis by simp
  qed
qed

lemma g_timeout_add_timer: "g_timeout_add E t p w = (s, w') \<Longrightarrow> (s, p) \<in> set (timers w')"
  by (auto simp: g_timeout_add_def ask_defs Let_def)

lemma reconnection_outcome:
  assumes inv: "world_inv E w" and E: "source_ids E" and d: "device_at p (devices w) = Some d"
    and src: "d_retry_timer_source d = 0"
  obtains (armed) w' s where "ble_start_reconnection_timer_or_unregister_device E p w = Some w'" "world_inv E w'"
      "(s, p) \<in> set (timers w')"
    | (given_up) w' where "ble_start_reconnection_timer_or_unregister_device E p w = Some w'" "world_inv E w'"
      "4 \<le> d_connection_retries d" "86400 \<le> fst (devices_duration_in_sec_since_last_connection E d w)"
      "p \<notin> d_ptr ` set (devices w') \<or>
       Pt (PtDeviceUnregister (g_connection_id w) (d_device_id d) True) \<in> set (trace w')"
proof -
  note dm = device_at_Some [OF d]
  define r where "r = (if d_connection_retries d < BLE_MAX_CONNECTION_RETRIES then d_connection_retries d + 1
    else d_connection_retries d)"
  have r: "0 < r" "r \<le> BLE_MAX_CONNECTION_RETRIES"
    using inv_devices [OF inv] dm by (auto simp: r_def dev_inv_def)
  define w1 where "w1 = update_device p (\<lambda>d. d\<lparr>d_connection_retries := r\<rparr>) w"
  have inv1: "world_inv E w1" unfolding w1_def
    by (rule update_device_inv [OF inv]) (use r inv_devices [OF inv] in \<open>auto intro: dev_inv_retries\<close>)
  have d1: "device_at p (devices w1) = Some (d\<lparr>d_connection_retries := r\<rparr>)"
    using d dm by (simp add: w1_def by_ptr.lookup_map_same_key)
  obtain t where t: "ble_back_off_time_in_ms r = Some t" using back_off_defined [OF r(1)] by blast
  obtain n w2 where 2: "devices_duration_in_sec_since_last_connection E d w1 = (n, w2)" by fastforce
  have c2: "calls_only w1 w2" using duration_calls_only [of w1 E d] by (simp add: 2)
  have n: "n = fst (devices_duration_in_sec_since_last_connection E d w)"
    using 2 by (auto simp: devices_duration_in_sec_since_last_connection_def seconds_since_epoch_def ask_defs w1_def
        Let_def)
  note inv2 = calls_only_inv [OF c2 inv1]
  obtain b w3 where 3: "give_up_unreachable E p d t n w2 = (b, w3)" by fastforce
  have inv3: "world_inv E w3" using give_up_inv [OF inv2, of p d t n] by (simp add: 3)
  show thesis
  proof (cases b)
    case b: True
    have "ble_start_reconnection_timer_or_unregister_device E p w = Some w3"
      using d src t 2 3 b
      by (simp add: ble_start_reconnection_timer_or_unregister_device_def r_def [symmetric] w1_def [symmetric])
    moreover have "g_connection_id w2 = g_connection_id w" using calls_only_fields [OF c2] by (simp add: w1_def)
    moreover have "300000 < t" using give_up_gone [of E p d t n w2 w3] 3 b by simp
    then have "4 \<le> d_connection_retries d"
      using back_off_over_limit [OF t] by (auto simp: r_def split: if_splits)
    ultimately show thesis using give_up_gone [of E p d t n w2 w3] 3 b inv3 n by (intro given_up [of w3]) simp_all
  next
    case b: False
    have c3: "calls_only w2 w3" using give_up_stays [of E p d t n w2 w3] 3 b by simp
    have d3: "device_at p (devices w3) = Some (d\<lparr>d_connection_retries := r\<rparr>)"
      using d1 calls_only_fields [OF c2] calls_only_fields [OF c3] by simp
    obtain s w4 where 4: "g_timeout_add E t p w3 = (s, w4)" by fastforce
    from g_timeout_add_inv [OF inv3 E d3 _ 4] g_timeout_add_timer [OF 4] src b d t 2 3 show thesis
      by (intro armed [of "update_device p (\<lambda>d. d\<lparr>d_retry_timer_source := s\<rparr>) w4" s])
        (simp_all add: ble_start_reconnection_timer_or_unregister_device_def 4
          r_def [symmetric] w1_def [symmetric])
  qed
qed

lemma reconnection_inv:
  assumes inv: "world_inv E w" and E: "source_ids E" and d: "device_at p (devices w) = Some d"
  obtains w' where "ble_start_reconnection_timer_or_unregister_device E p w = Some w'" "world_inv E w'"
proof (cases "d_retry_timer_source d = 0")
  case False
  with d inv that show thesis by (simp add: ble_start_reconnection_timer_or_unregister_device_def)
next
  case True
  from reconnection_outcome [OF inv E d True] that show thesis by metis
qed

section \<open>Discovering characteristics\<close>

definition gatt_ok :: "ble_gatt_service list \<Rightarrow> bool" where
  "gatt_ok ss \<longleftrightarrow> services_ok ss \<and> (\<forall>s\<in>set ss. \<forall>c\<in>set (sv_chars s). ch_dbus_path c \<noteq> None)"

lemma gatt_ok_Nil [simp]: "gatt_ok []"
  by (simp add: gatt_ok_def services_ok_def)

lemma device_ok_gatt: "device_ok d \<longleftrightarrow> gatt_ok (d_services d) \<and> (\<forall>ctx\<in>set (d_translations d). context_ok d ctx)"
  by (auto simp: device_ok_def gatt_ok_def)

lemma add_gatt_characteristic_fields:
  "\<exists>ss. device_add_gatt_characteristic d su sp cu cp props px = d\<lparr>d_services := ss\<rparr>"
  by (auto simp: device_add_gatt_characteristic_def Let_def split: prod.split)

lemma add_gatt_characteristic_gatt_ok:
  assumes "gatt_ok (d_services d)" and "length su \<le> FORMATTED_UUID_LEN"
  shows "gatt_ok (d_services (device_add_gatt_characteristic d su sp cu (Some cp) props px))"
proof -
  obtain i ss where g: "get_service su (d_services d) = (i, ss)" by fastforce
  obtain t n where t: "map_uuid_to_datatype cu = (t, n)" by fastforce
  have "services_ok (d_services d)" using assms(1) by (simp add: gatt_ok_def)
  note ok = get_service_ok [OF this assms(2) g] and ok' = add_gatt_characteristic_ok [OF this assms(2)]
  have old: "\<forall>s\<in>set ss. \<forall>c\<in>set (sv_chars s). ch_dbus_path c \<noteq> None"
    using g assms(1) by (auto simp: get_service_def gatt_ok_def split: option.splits)
  then have "\<forall>c\<in>set (sv_chars (ss ! i)). ch_dbus_path c \<noteq> None" using ok by auto
  then have new: "\<forall>c\<in>set (sv_chars (add_char_to_service (set_service_path (ss ! i) sp) cu (Some cp) props t n 0 px)).
      ch_dbus_path c \<noteq> None"
    by (simp add: add_char_to_service_def Let_def)
  show ?thesis
    using ok' [of sp cu "Some cp" props px] new old
    by (auto simp: gatt_ok_def add_gatt_characteristic_services [OF g t] dest!: set_update_subset_insert [THEN subsetD])
qed

lemma services_update_refl [simp]: "\<exists>ss. d = d\<lparr>d_services := ss\<rparr>"
  by (rule exI [of _ "d_services d"]) simp

lemma calls_only_after: "calls_only (call e w) w' \<Longrightarrow> calls_only w w'"
  by (rule calls_only_trans [OF calls_only_call])

lemma char_properties_calls_only:
  "char_properties E px keys ci w = Some (ci', w') \<Longrightarrow> calls_only w w'"
proof (induction keys arbitrary: ci w)
  case (Cons key keys)
  then show ?case
    by (auto simp: ask_defs split: option.splits intro: calls_only_after)
qed simp

lemma service_uuid_property_ok:
  "service_uuid_property E px keys u w = Some (u', w') \<Longrightarrow> length u \<le> FORMATTED_UUID_LEN \<Longrightarrow>
   calls_only w w' \<and> length u' \<le> FORMATTED_UUID_LEN"
proof (induction keys arbitrary: u w)
  case (Cons key keys)
  obtain u1 where u1: "length u1 \<le> FORMATTED_UUID_LEN"
    "service_uuid_property E px keys u1 (call (Bus (PrintProperty px key)) w) = Some (u', w')"
  proof (cases "key = ''UUID''")
    case True
    with Cons.prems obtain q where
      "service_uuid_property E px keys (take FORMATTED_UUID_LEN q) (call (Bus (PrintProperty px key)) w) = Some (u', w')"
      by (auto simp: ask_defs split: option.splits list.splits)
    with that [of "take FORMATTED_UUID_LEN q"] show thesis by simp
  next
    case False
    with Cons.prems that show thesis by (auto simp: ask_defs split: option.splits)
  qed
  from Cons.IH [OF u1(2,1)] show ?case by (blast intro: calls_only_after)
qed simp

lemma read_service_uuid_ok:
  assumes "read_service_uuid E path w = Some (u, w')"
  shows "calls_only w w' \<and> length u \<le> FORMATTED_UUID_LEN"
proof -
  obtain r w1 where 1: "g_dbus_proxy_new E path GATT_SERVICE_IFACE w = (r, w1)" by fastforce
  have c: "calls_only w w1" using g_dbus_proxy_new_calls_only [of w E path GATT_SERVICE_IFACE] by (simp add: 1)
  have u: "length DEFAULT_SERVICE_UUID \<le> FORMATTED_UUID_LEN" by (simp add: DEFAULT_SERVICE_UUID_def)
  show ?thesis
  proof (cases r)
    case (Inl x)
    with assms c u show ?thesis by (simp add: read_service_uuid_def 1)
  next
    case (Inr sp)
    with assms have "service_uuid_property E sp (env_strs E (trace w1) (Bus (CachedPropertyNames sp)))
        DEFAULT_SERVICE_UUID (call (Bus (CachedPropertyNames sp)) w1) = Some (u, w')"
      by (simp add: read_service_uuid_def 1 ask_defs)
    from service_uuid_property_ok [OF this u] c show ?thesis
      by (blast intro: calls_only_trans calls_only_call)
  qed
qed

lemma process_characteristic_ok:
  assumes ok: "gatt_ok (d_services d)" and r: "process_characteristic_object E path d w = Some (d', w')"
  shows "calls_only w w' \<and> gatt_ok (d_services d') \<and> (\<exists>ss. d' = d\<lparr>d_services := ss\<rparr>)"
proof (cases "object_on_adapter path (cfg_adapter w)")
  case False
  with False assms show ?thesis by (auto simp: process_characteristic_object_def)
next
  case True
  obtain q w1 where 1: "g_dbus_proxy_new E path GATT_CHARACTERISTIC_IFACE w = (q, w1)" by fastforce
  have c1: "calls_only w w1"
    using g_dbus_proxy_new_calls_only [of w E path GATT_CHARACTERISTIC_IFACE] by (simp add: 1)
  show ?thesis
  proof (cases q)
    case (Inl x)
    with r True 1 c1 ok show ?thesis by (auto simp: process_characteristic_object_def)
  next
    case (Inr px)
    with r True 1 obtain addr where a: "get_device_address_from_characteristic_path path = Some addr"
      by (auto simp: process_characteristic_object_def split: Option.bind_splits)
    show ?thesis
    proof (cases "addr = d_bt_addr d")
      case False
      with r True 1 Inr a c1 ok show ?thesis by (auto simp: process_characteristic_object_def)
    next
      case addr: True
      define w2 where "w2 = call (Bus (CachedPropertyNames px)) w1"
      from r True 1 Inr a addr obtain ci w3 sp u w4 where
        3: "char_properties E px (env_strs E (trace w1) (Bus (CachedPropertyNames px)))
              \<lparr>ci_flags = 0, ci_uuid = None, ci_service_path = None\<rparr> w2 = Some (ci, w3)"
        and 4: "read_service_uuid E sp w3 = Some (u, w4)"
        and 5: "(d', w') = (case ci_uuid ci of None \<Rightarrow> (d, w4) | Some cu \<Rightarrow>
            (device_add_gatt_characteristic d u sp cu (Some path) (ci_flags ci) (Some px), w4))"
        by (auto simp: process_characteristic_object_def ask_defs w2_def split: Option.bind_splits option.splits)
      have c: "calls_only w w4"
        using c1 char_properties_calls_only [OF 3] read_service_uuid_ok [OF 4] unfolding w2_def
        by (meson calls_only_trans calls_only_call)
      show ?thesis
        using 5 c ok add_gatt_characteristic_gatt_ok [OF ok] read_service_uuid_ok [OF 4]
          add_gatt_characteristic_fields [of d u sp _ "Some path" "ci_flags ci" "Some px"]
        by (cases "ci_uuid ci") auto
    qed
  qed
qed

lemma handle_characteristics_ok:
  "gatt_ok (d_services d) \<Longrightarrow> handle_characteristics E obs d w = Some (d', w') \<Longrightarrow>
   calls_only w w' \<and> gatt_ok (d_services d') \<and> (\<exists>ss. d' = d\<lparr>d_services := ss\<rparr>)"
proof (induction obs arbitrary: d w)
  case Nil
  then show ?case by auto
next
  case (Cons ob obs)
  obtain path ifs where ob: "ob = (path, ifs)" by fastforce
  show ?case
  proof (cases "GATT_CHARACTERISTIC_IFACE \<in> set ifs")
    case False
    with Cons ob show ?thesis by auto
  next
    case True
    with Cons.prems ob obtain d1 w1 where 1: "process_characteristic_object E path d w = Some (d1, w1)"
      "handle_characteristics E obs d1 w1 = Some (d', w')"
      by (auto split: option.splits)
    note p = process_characteristic_ok [OF Cons.prems(1) 1(1)]
    from Cons.IH [OF _ 1(2)] p have "calls_only w1 w' \<and> gatt_ok (d_services d') \<and> (\<exists>ss. d' = d1\<lparr>d_services := ss\<rparr>)"
      by blast
    with p show ?thesis by (auto intro: calls_only_trans)
  qed
qed

lemma discover_characteristics_ok:
  assumes ok: "gatt_ok (d_services d)" and r: "ble_discover_characteristics E d w = Some (d', w')"
  shows "calls_only w w' \<and> gatt_ok (d_services d') \<and> (\<exists>ss. d' = d\<lparr>d_services := ss\<rparr>)"
proof (cases "env_ok E (trace w) (Bus ObjectManager)")
  case False
  with assms show ?thesis
    by (auto simp: ble_discover_characteristics_def ask_defs)
next
  case True
  define w2 where "w2 = call (Bus ManagedObjects) (call (Bus ObjectManager) w)"
  from r True obtain obs where "handle_characteristics E obs d w2 = Some (d', w')"
    by (auto simp: ble_discover_characteristics_def ask_defs w2_def Let_def split: option.splits)
  from handle_characteristics_ok [OF ok this] show ?thesis
    unfolding w2_def by (blast intro: calls_only_trans calls_only_call)
qed

section \<open>Signals of a device\<close>

lemma with_device_inv:
  assumes inv: "world_inv E w" and r: "with_device_of_proxy E px f w = Some w'"
    and f: "\<And>d w1. world_inv E w1 \<Longrightarrow> d \<in> set (devices w1) \<Longrightarrow> f d w1 = Some w' \<Longrightarrow> world_inv E w'"
  shows "world_inv E w'"
proof -
  from r obtain r1 w1 where 1: "ble_find_device_from_proxy E px w = Some (r1, w1)"
    by (auto simp: with_device_of_proxy_def split: option.splits)
  have inv1: "world_inv E w1" by (rule calls_only_inv [OF find_device_from_proxy_calls_only [OF 1] inv])
  show ?thesis
  proof (cases r1)
    case None
    with r 1 inv1 show ?thesis by (simp add: with_device_of_proxy_def)
  next
    case (Some d)
    with 1 have "d \<in> set (devices w1)"
      by (auto simp: ble_find_device_from_proxy_def ble_find_device_from_address_def
            split: if_splits option.splits dest: by_id.lookup_SomeD)
    with r 1 Some f inv1 show ?thesis by (simp add: with_device_of_proxy_def)
  qed
qed

lemma write_back_inv:
  assumes inv: "world_inv E w" and d: "d \<in> set (devices w)" and d': "dev_inv d'" "d_ptr d' = d_ptr d"
    "d_device_id d' = d_device_id d" "d_retry_timer_source d' = d_retry_timer_source d"
  shows "world_inv E (update_device (d_ptr d') (\<lambda>_. d') w)"
  by (rule update_device_inv [OF inv])
    (use same_device [of "devices w" _ d] inv d d' in \<open>auto simp: world_inv_def\<close>)

lemma dev_inv_flags [simp]: "dev_inv (d\<lparr>d_flags := x\<rparr>) = dev_inv d"
  "dev_inv (d\<lparr>d_last_connected_timestamp_secs := t\<rparr>) = dev_inv d"
  using device_ok_cong [of "d\<lparr>d_flags := x\<rparr>" d] device_ok_cong [of "d\<lparr>d_last_connected_timestamp_secs := t\<rparr>" d]
  by (simp_all add: dev_inv_def)

lemma set_flag_inv [inv_intro]:
  assumes "world_inv E w"
  shows "world_inv E (update_device p (\<lambda>d. device_set_connected d b) w)"
    and "world_inv E (update_device p (\<lambda>d. device_set_registered d b) w)"
  by (rule update_device_inv [OF assms]; simp add: flag_simps inv_devices [OF assms])+

lemma on_connect_inv:
  assumes "world_inv E w" and "ble_on_connect E px w = Some w'"
  shows "world_inv E w'"
  using assms by (auto simp: ble_on_connect_def split: if_splits intro: set_flag_inv
      elim!: with_device_inv [rotated])

lemma on_disconnect_inv:
  assumes inv: "world_inv E w" and E: "source_ids E" and r: "ble_on_disconnect E px w = Some w'"
  shows "world_inv E w'"
proof -
  from r have "with_device_of_proxy E px
        (\<lambda>ble_dev w. ble_start_reconnection_timer_or_unregister_device E (d_ptr ble_dev)
           (update_device (d_ptr ble_dev) (\<lambda>d. device_set_connected d False) w)) w = Some w'"
    by (simp add: ble_on_disconnect_def split: if_splits)
  then show ?thesis
  proof (rule with_device_inv [OF inv])
    fix d :: ble_device and w1 :: ble_world
    let ?w = "update_device (d_ptr d) (\<lambda>d. device_set_connected d False) w1"
    assume w1: "world_inv E w1" "d \<in> set (devices w1)"
      and r1: "ble_start_reconnection_timer_or_unregister_device E (d_ptr d) ?w = Some w'"
    have "device_at (d_ptr d) (devices ?w) = Some (device_set_connected d False)"
      using device_at_known [OF w1] by (simp add: by_ptr.lookup_map_same_key device_set_with_bit)
    from reconnection_inv [OF set_flag_inv(1) [OF w1(1)] E this] r1 show "world_inv E w'"
      by (metis option.inject)
  qed
qed

lemma resolve_services_inv:
  assumes d: "dev_inv d" "\<not> d_services_resolved d" and r: "resolve_services E d w = Some (d', w')"
  shows "calls_only w w' \<and> dev_inv d' \<and> d_ptr d' = d_ptr d \<and> d_device_id d' = d_device_id d \<and>
    d_retry_timer_source d' = d_retry_timer_source d \<and> d_services_resolved d'"
proof -
  from r obtain d1 w1 d2 w2 d3 where
    1: "ble_discover_characteristics E d w = Some (d1, w1)"
    and 2: "device_add_resources_from_gatt E d1 w1 = Some (d2, w2)"
    and 3: "device_add_known_translations_from_gatt E d2 w2 = Some (d3, w')"
    and 4: "d' = d3\<lparr>d_services_resolved := True\<rparr>"
    by (auto simp: resolve_services_def split: Option.bind_splits)
  have "gatt_ok (d_services d)" using d by (simp add: dev_inv_def device_ok_gatt)
  from discover_characteristics_ok [OF this 1] obtain ss where
    d1: "calls_only w w1" "gatt_ok ss" "d1 = d\<lparr>d_services := ss\<rparr>" by auto
  from add_resources_ok [OF 2] obtain j where
    d2: "calls_only w1 w2" "d2 = d1\<lparr>d_json_list := Some j\<rparr>" by auto
  have "device_ok d2"
    using d1 d2 d by (simp add: device_ok_gatt dev_inv_def)
  from add_translations_ok [OF this 3] obtain new where
    d3: "calls_only w2 w'" "device_ok d3" "d3 = d2\<lparr>d_translations := d_translations d2 @ new\<rparr>" by auto
  have "device_ok d'" using d3(2) device_ok_cong [of d' d3] by (simp add: 4)
  with d d1 d2 d3 4 show ?thesis
    by (auto simp: dev_inv_def intro: calls_only_trans)
qed

lemma services_resolved_inv:
  assumes inv: "world_inv E w" and d: "d \<in> set (devices w)" and r: "services_resolved_of E d w = Some w'"
  shows "world_inv E w'"
proof (cases "d_services_resolved d")
  case True
  with r inv show ?thesis
    by (auto simp: services_resolved_of_def intro: calls_only_inv [OF edge_calls_only(10)])
next
  case False
  with r obtain d' w1 where 1: "resolve_services E d w = Some (d', w1)"
    "w' = device_register_device d' (update_device (d_ptr d') (\<lambda>_. d') w1)"
    by (auto simp: services_resolved_of_def split: option.splits)
  note ok = resolve_services_inv [OF inv_devices [OF inv d] False 1(1)]
  have inv1: "world_inv E w1" and d1: "d \<in> set (devices w1)"
    using ok calls_only_inv [OF _ inv, of w1] calls_only_fields [of w w1] d by auto
  have "world_inv E (update_device (d_ptr d') (\<lambda>_. d') w1)"
    by (rule write_back_inv [OF inv1 d1]) (use ok in auto)
  then show ?thesis unfolding 1(2) by (rule calls_only_inv [OF edge_calls_only(10)])
qed

lemma on_services_resolved_inv:
  assumes "world_inv E w" and "ble_on_services_resolved E px w = Some w'"
  shows "world_inv E w'"
  using assms by (auto simp: ble_on_services_resolved_def split: if_splits
      intro: services_resolved_inv with_device_inv)

lemma properties_changed_inv:
  "world_inv E w \<Longrightarrow> source_ids E \<Longrightarrow> ble_properties_changed E px props w = Some w' \<Longrightarrow> world_inv E w'"
proof (induction props arbitrary: w)
  case Nil
  then show ?case by simp
next
  case (Cons pv props)
  obtain key v where p: "pv = (key, v)" by fastforce
  from Cons.prems(3) obtain w1 where w1: "ble_properties_changed E px props w1 = Some w'"
    "w1 = w \<or> ble_on_connect E px w = Some w1 \<or> ble_on_disconnect E px w = Some w1 \<or>
     ble_on_services_resolved E px w = Some w1"
    unfolding p by (auto split: option.splits if_splits gvariant.splits bool.splits)
  then have "world_inv E w1"
    using Cons.prems by (auto intro: on_connect_inv on_disconnect_inv on_services_resolved_inv)
  then show ?case using Cons.IH Cons.prems(2) w1(1) by blast
qed

lemma timestamp_inv [inv_intro]:
  assumes "world_inv E w"
  shows "world_inv E (device_update_last_connected_timestamp E p w)"
  unfolding device_update_last_connected_timestamp_def seconds_since_epoch_def ask_defs Let_def prod.case
  by (rule update_device_inv) (use call_inv [OF assms] inv_devices [OF call_inv [OF assms]] in auto)

lemma connect_succeeded_inv:
  assumes inv: "world_inv E w" and r: "connect_succeeded E px d w = Some w'"
  shows "world_inv E w'"
proof -
  define w1 where "w1 = update_device (d_ptr d) (\<lambda>d. d\<lparr>d_connection_retries := 0\<rparr>)
    (device_update_last_connected_timestamp E (d_ptr d) w)"
  have inv1: "world_inv E w1" unfolding w1_def
    by (rule update_device_inv [OF timestamp_inv [OF inv]])
      (use inv_devices [OF timestamp_inv [OF inv]] in \<open>auto intro: dev_inv_retries\<close>)
  obtain ok w2 where 2: "(if edge_is_connected E w1
      then devices_create_pt_device E (d_device_id d) ''ARM'' ''mept-ble'' (d_bt_addr d) ''mept-ble'' w1
      else (True, w1)) = (ok, w2)" by fastforce
  have "calls_only w1 w2"
    using 2 edge_calls_only(8) [of w1 E "d_device_id d" "''ARM''" "''mept-ble''" "d_bt_addr d" "''mept-ble''"]
    by (auto split: if_splits)
  then have inv2: "world_inv E w2" using inv1 by (rule calls_only_inv)
  have r': "(if \<not> ok then Some (devices_del_device (d_ptr d) w2)
      else if edge_is_connected E w2 then
        (case ble_services_are_resolved E px w2 of None \<Rightarrow> None
         | Some (b, w) \<Rightarrow> if b then ble_on_services_resolved E px w else Some w)
      else Some w2) = Some w'"
    using r 2 unfolding connect_succeeded_def Let_def w1_def [symmetric] by simp
  show ?thesis
  proof (cases "ok \<and> edge_is_connected E w2")
    case False
    with r' inv2 show ?thesis by (auto intro: del_device_inv split: if_splits)
  next
    case True
    with r' obtain b w3 where 3: "ble_services_are_resolved E px w2 = Some (b, w3)"
      "(if b then ble_on_services_resolved E px w3 else Some w3) = Some w'"
      by (auto split: option.splits)
    from calls_only_inv [OF ble_services_are_resolved_calls_only [OF 3(1)] inv2] 3(2) show ?thesis
      by (auto intro: on_services_resolved_inv split: if_splits)
  qed
qed

lemma connect_done_inv:
  assumes inv: "world_inv E w" and E: "source_ids E" and r: "ble_connect_done E px err w = Some w'"
  shows "world_inv E w'"
  using r unfolding ble_connect_done_def
proof (rule with_device_inv [OF inv])
  fix d :: ble_device and w1 :: ble_world
  assume w1: "world_inv E w1" "d \<in> set (devices w1)"
    and r1: "(if err then ble_start_reconnection_timer_or_unregister_device E (d_ptr d) w1
      else connect_succeeded E px d w1) = Some w'"
  show "world_inv E w'"
    using r1 connect_succeeded_inv [OF w1(1), of px d w'] reconnection_inv [OF w1(1) E device_at_known [OF w1]]
    by (cases err) (simp, metis option.inject, simp)
qed

section \<open>Reading values\<close>

lemma read_chars_calls_only: "calls_only w (read_chars E i s c cs w)"
proof (induction cs arbitrary: c w)
  case (Cons ch cs)
  have "calls_only w (if ch_properties ch AND BLE_GATT_PROP_PERM_READ = 0 then w
        else snd (ble_read_characteristic_async E (ch_dbus_path ch) i s c w))"
    by (simp add: ble_read_async_calls_only)
  with Cons show ?case by (auto intro: calls_only_trans)
qed simp

lemma read_services_calls_only: "calls_only w (read_services E i s ss w)"
proof (induction ss arbitrary: s w)
  case (Cons a ss)
  from calls_only_trans [OF read_chars_calls_only Cons] show ?case by simp
qed simp

lemma read_all_calls_only: "ble_read_all_characteristics_for_device E d w = Some w' \<Longrightarrow> calls_only w w'"
  by (auto simp: ble_read_all_characteristics_for_device_def split: option.splits if_splits
        dest!: ble_device_is_connected_calls_only intro: calls_only_trans [OF _ read_services_calls_only])

lemma read_devices_calls_only: "read_devices E ds w = Some w' \<Longrightarrow> calls_only w w'"
proof (induction ds arbitrary: w)
  case (Cons d ds)
  show ?case
  proof (cases "device_is_registered d \<and> device_is_connected d")
    case True
    with Cons.prems obtain w1 where 1: "ble_read_all_characteristics_for_device E d w = Some w1"
      "read_devices E ds (device_write_values_to_pt d w1) = Some w'"
      by (auto split: option.splits)
    show ?thesis
      using Cons.IH [OF 1(2)] read_all_calls_only [OF 1(1)] edge_calls_only(9) by (blast intro: calls_only_trans)
  next
    case False
    with Cons show ?thesis by auto
  qed
qed simp

lemma read_everything_inv: "world_inv E w \<Longrightarrow> ble_read_everything E w = Some w' \<Longrightarrow> world_inv E w'"
  by (auto simp: ble_read_everything_def split: if_splits intro: calls_only_inv [OF read_devices_calls_only])

lemma length_parse_result: "m \<le> length data \<Longrightarrow> length (fst (parse_result_variant vs data m)) = length data"
proof -
  have "length (fst (parse_result_loop vs data m n)) = length data" for n
    by (induction vs data m n rule: parse_result_loop.induct) auto
  then show ?thesis by (simp add: parse_result_variant_def)
qed

lemma length_host_to_network [simp]: "n \<le> length v \<Longrightarrow> length (host_to_network_in_place n v) = length v"
  by (simp add: host_to_network_in_place_def)

text \<open>A new value of the same size leaves the device well formed.\<close>

lemma update_char_inv:
  assumes d: "dev_inv d" "d_services_resolved d" and g: "gatt_char d i j = Some (s, c)"
    and f: "\<And>x. ch_resource_id (f x) = ch_resource_id x \<and> ch_value_size (f x) = ch_value_size x \<and>
      ch_dbus_path (f x) = ch_dbus_path x" "length (ch_value (f c)) = ch_value_size c"
  shows "dev_inv (update_char i j f d)"
proof -
  have ok: "device_ok d" using d(1) by (simp add: dev_inv_def)
  from device_ok_char [OF ok g] f have "char_ok j (f c)" by (simp add: char_ok_def)
  from device_ok_update_char [where f = f, OF ok g this] f(1) have "device_ok (update_char i j f d)" by blast
  moreover have "d_connection_retries (update_char i j f d) = d_connection_retries d"
    "d_proxy (update_char i j f d) = d_proxy d"
    by (simp_all add: update_char_def Let_def)
  ultimately show ?thesis using d by (simp add: dev_inv_def)
qed

lemma services_resolved_of_char: "dev_inv d \<Longrightarrow> gatt_char d i j = Some x \<Longrightarrow> d_services_resolved d"
  by (rule ccontr) (simp add: dev_inv_def gatt_char_def)

lemma update_char_source [simp]: "d_retry_timer_source (update_char i j f d) = d_retry_timer_source d"
  by (simp add: update_char_def Let_def)

lemma store_value_inv:
  assumes d: "dev_inv d" and r: "store_value_read E d i j vs w = Some (d', w')"
  shows "calls_only w w' \<and> dev_inv d' \<and> d_ptr d' = d_ptr d \<and> d_device_id d' = d_device_id d \<and>
    d_retry_timer_source d' = d_retry_timer_source d"
proof -
  from r obtain s c where g: "gatt_char d i j = Some (s, c)"
    by (auto simp: store_value_read_def split: Option.bind_splits)
  note res = services_resolved_of_char [OF d g]
  have ok: "device_ok d" using d by (simp add: dev_inv_def)
  note c = device_ok_char [OF ok g]
  obtain v n where v: "parse_result_variant vs (ch_value c) (ch_value_size c) = (v, n)" by fastforce
  have lv: "length v = ch_value_size c"
    using length_parse_result [of "ch_value_size c" "ch_value c" vs] c v by simp
  define d1 where "d1 = update_char i j (\<lambda>c. c\<lparr>ch_value := v, ch_value_length := n\<rparr>) d"
  define v2 where "v2 = (if ch_dtype c = BLE_INTEGER then host_to_network_in_place (ch_value_size c) v else v)"
  define d2 where "d2 = update_char i j (\<lambda>c. c\<lparr>ch_value := v2\<rparr>) d1"
  from r obtain w1 where w1: "(if ble_services_is_supported_characteristic (sv_uuid s) (ch_uuid c)
      then ble_services_decode_and_write_characteristic_translation E d1 i j (take n v) w else Some w) = Some w1"
    "d' = d2" "w' = device_update_characteristic_resource_value E d2 i j (take n v2) w1"
    by (auto simp: store_value_read_def g v d1_def [symmetric] v2_def [symmetric] d2_def [symmetric] Let_def
          split: Option.bind_splits cong: if_cong)
  have inv1: "dev_inv d1" unfolding d1_def
    by (rule update_char_inv [OF d res g]) (use lv in auto)
  have g1: "gatt_char d1 i j = Some (s\<lparr>sv_chars := (sv_chars s)[j := c\<lparr>ch_value := v, ch_value_length := n\<rparr>]\<rparr>,
      c\<lparr>ch_value := v, ch_value_length := n\<rparr>)"
    using gatt_char_update [OF g] by (simp add: d1_def)
  have lv2: "length v2 = ch_value_size c" using lv by (simp add: v2_def)
  have inv2: "dev_inv d2" unfolding d2_def
    by (rule update_char_inv [OF inv1 _ g1]) (use lv2 res in \<open>auto simp: d1_def\<close>)
  have "calls_only w w1" using w1(1) by (auto split: if_splits dest: decode_and_write_calls_only)
  moreover have "calls_only w1 w'"
    unfolding w1(3) by (auto simp: device_update_characteristic_resource_value_def edge_calls_only split: option.split)
  ultimately show ?thesis
    using inv2 by (auto simp: w1(2) d2_def d1_def intro: calls_only_trans)
qed

lemma read_callback_inv:
  assumes inv: "world_inv E w" and r: "ble_read_characteristic_callback E i srvc ch ret w = Some w'"
  shows "world_inv E w'"
proof (cases ret)
  case None
  with inv r show ?thesis by (simp add: ble_read_characteristic_callback_def)
next
  case (Some vs)
  with r obtain d d' w1 where d: "devices_find_device_by_device_id i (devices w) = Some d"
    "store_value_read E d srvc ch vs w = Some (d', w1)" "w' = update_device (d_ptr d') (\<lambda>_. d') w1"
    by (auto simp: ble_read_characteristic_callback_def split: option.splits)
  have m: "d \<in> set (devices w)" using d(1) by_id.lookup_SomeD by blast
  note s = store_value_inv [OF inv_devices [OF inv m] d(2)]
  from s have "world_inv E w1" "d \<in> set (devices w1)"
    using calls_only_inv [OF _ inv, of w1] calls_only_fields [of w w1] m by auto
  from write_back_inv [OF this] s show ?thesis by (simp add: d(3))
qed

end
