(* ===== verification/Transition_Systems.thy ===== *)
theory Transition_Systems
  imports Main
begin

text \<open>
  The interface between a program's transition system and its invariants: start states, a
  step relation and a property that holds at the start and is kept by every step. A theory
  with such a system interprets it on its own start states and steps.
\<close>

locale step_invariant =
  fixes start :: "'s \<Rightarrow> bool" and step :: "'s \<Rightarrow> 's \<Rightarrow> bool" and inv :: "'s \<Rightarrow> bool"
  assumes start_inv: "start s \<Longrightarrow> inv s"
    and step_inv: "inv s \<Longrightarrow> step s t \<Longrightarrow> inv t"
begin

lemma steps_inv: "step\<^sup>*\<^sup>* s t \<Longrightarrow> inv s \<Longrightarrow> inv t"
  by (induction rule: rtranclp.induct) (auto intro: step_inv)

lemma reached_inv: "start s \<Longrightarrow> step\<^sup>*\<^sup>* s t \<Longrightarrow> inv t"
  using start_inv steps_inv by blast

text \<open>What every step preserves once the invariant holds extends to runs.\<close>

lemma steps_keep:
  "step\<^sup>*\<^sup>* s t \<Longrightarrow> inv s \<Longrightarrow> P s \<Longrightarrow> (\<And>u v. inv u \<Longrightarrow> P u \<Longrightarrow> step u v \<Longrightarrow> P v) \<Longrightarrow> P t"
  by (induction rule: rtranclp.induct) (auto dest: steps_inv)

end

end
