(* ===== verification/Reachable_States.thy ===== *)
theory Reachable_States
  imports Handler_Invariants Transition_Systems
begin

text \<open>
  Every reachable state of the BLE translator satisfies the invariant; what follows for its
  handlers: timers, writes from Edge, reconnection and shutdown.
\<close>

section \<open>Writes from Edge\<close>

lemma set_local_fields:
  "set_local_characteristic_value E d i j v w = (d', w') \<Longrightarrow>
   calls_only w w' \<and> (\<exists>ss. d' = d\<lparr>d_services := ss\<rparr>)"
  by (auto simp: set_local_characteristic_value_def update_char_def Let_def edge_calls_only split: option.splits)

lemma write_translated_fields:
  assumes "write_translated E d ctx v w = Some (rc, d', w')"
  shows "calls_only w w' \<and> (\<exists>ss. d' = d\<lparr>d_services := ss\<rparr>)"
  using assms
  by (auto simp: write_translated_def split: Option.bind_splits option.splits if_splits prod.splits
        dest!: encode_characteristic_calls_only ble_write_characteristic_calls_only set_local_fields
        intro: calls_only_trans)

lemma write_service_fields:
  assumes "write_service_resource E d svc r v w = Some (rc, d', w')"
  shows "calls_only w w' \<and> (\<exists>ss. d' = d\<lparr>d_services := ss\<rparr>)"
  using assms
  by (auto simp: write_service_resource_def Let_def split: Option.bind_splits option.splits if_splits prod.splits
        dest!: decode_and_write_calls_only ble_write_characteristic_calls_only set_local_fields
        intro: calls_only_trans)

lemma device_write_fields:
  assumes "device_write_characteristic E d ob i r v w = Some (rc, d', w')"
  shows "calls_only w w' \<and> (\<exists>ss. d' = d\<lparr>d_services := ss\<rparr>)"
  using assms
  by (auto simp: device_write_characteristic_def split: option.splits if_splits
        dest: write_translated_fields write_service_fields)

lemma device_write_unresolved:
  "d_services d = [] \<Longrightarrow> d_translations d = [] \<Longrightarrow>
   device_write_characteristic E d ob i r v w = Some (-1, d, w)"
  by (simp add: device_write_characteristic_def ble_services_find_translation_context_def)

text \<open>A device is left alone, or one of its characteristics has got the value.\<close>

definition value_put :: "env \<Rightarrow> bytes \<Rightarrow> ble_device \<Rightarrow> ble_device \<Rightarrow> bool" where
  "value_put E v d d' = (d' = d \<or> (\<exists>i j (u :: ble_world). d' = fst (set_local_characteristic_value E d i j v u)))"

lemma value_put_same [intro!]: "value_put E v d d"
  by (simp add: value_put_def)

lemma value_put_local [intro!]:
  "set_local_characteristic_value E d i j v (w :: ble_world) = (d', w') \<Longrightarrow> value_put E v d d'"
  unfolding value_put_def by (metis fst_conv)

lemma value_put_set_local [intro!]: "value_put E v d (fst (set_local_characteristic_value E d i j v (w :: ble_world)))"
  unfolding value_put_def by blast

lemma write_translated_value:
  "write_translated E d ctx v (w :: ble_world) = Some (rc, d', w') \<Longrightarrow> value_put E v d d'"
  by (auto simp: write_translated_def split: Option.bind_splits option.splits if_splits prod.splits)

lemma write_service_value:
  "write_service_resource E d svc r v (w :: ble_world) = Some (rc, d', w') \<Longrightarrow> value_put E v d d'"
  by (auto simp: write_service_resource_def Let_def split: Option.bind_splits option.splits if_splits prod.splits)

lemma device_write_value:
  "device_write_characteristic E d ob i r v (w :: ble_world) = Some (rc, d', w') \<Longrightarrow> value_put E v d d'"
  by (auto simp: device_write_characteristic_def split: option.splits if_splits
        dest!: write_translated_value write_service_value)

lemma device_write_inv:
  assumes d: "dev_inv d" and r: "device_write_characteristic E d ob i re v (w :: ble_world) = Some (rc, d', w')"
  shows "dev_inv d'"
proof (cases "d_services_resolved d")
  case False
  with d r show ?thesis by (simp add: dev_inv_def device_write_unresolved)
next
  case True
  have "device_ok d" using d by (simp add: dev_inv_def)
  with device_write_value [OF r] have "device_ok d'" unfolding value_put_def using set_local_ok by blast
  with device_write_fields [OF r] d True show ?thesis by (auto simp: dev_inv_def)
qed

lemma resource_callback_inv:
  assumes inv: "world_inv E w" and r: "resource_callback_handler E i ob inst re ops v w = Some (s, w')"
  shows "world_inv E w'"
proof (cases "global_keep_running w \<and> devices_find_device_by_device_id i (devices w) \<noteq> None \<and> OPERATION_WRITE \<in> ops")
  case False
  with r inv show ?thesis by (auto simp: resource_callback_handler_def split: option.splits if_splits)
next
  case True
  then obtain d where d: "devices_find_device_by_device_id i (devices w) = Some d" by blast
  then have m: "d \<in> set (devices w)" using by_id.lookup_SomeD by blast
  from r True d obtain rc d' w1 where
    1: "device_write_characteristic E d ob inst re v w = Some (rc, d', w1)"
      "w' = update_device (d_ptr d') (\<lambda>_. d') w1"
    by (auto simp: resource_callback_handler_def split: option.splits)
  note f = device_write_fields [OF 1(1)]
  have "world_inv E w1" "d \<in> set (devices w1)"
    using f calls_only_inv [OF _ inv, of w1] calls_only_fields [of w w1] m by auto
  from write_back_inv [OF this device_write_inv [OF inv_devices [OF inv m] 1(1)]] f show ?thesis
    by (auto simp: 1(2))
qed

lemma resource_callback_defined:
  assumes inv: "world_inv E w" and v: "v \<noteq> []" and E: "stores_floats E"
  shows "resource_callback_handler E i ob inst re ops v w \<noteq> None"
proof (cases "devices_find_device_by_device_id i (devices w)")
  case None
  then show ?thesis by (simp add: resource_callback_handler_def)
next
  case (Some d)
  then have "d \<in> set (devices w)" using by_id.lookup_SomeD by blast
  from inv_devices [OF inv this] have "device_ok d" by (simp add: dev_inv_def)
  from device_write_ok [OF this v E, of ob inst re w] Some show ?thesis
    by (auto simp: resource_callback_handler_def)
qed

section \<open>The other callbacks of Edge\<close>

lemma device_unregistered_inv [inv_intro]: "world_inv E w \<Longrightarrow> world_inv E (device_unregistered i b w)"
  by (simp add: device_unregistered_def pt_edge_del_device_inv set_flag_inv split: option.split)

lemma device_registered_inv [inv_intro]: "world_inv E w \<Longrightarrow> world_inv E (device_registered i w)"
  by (simp add: device_registered_def set_flag_inv split: option.split)

lemma register_all_calls_only: "calls_only w (register_all ds w)"
proof (induction ds arbitrary: w)
  case (Cons d ds)
  from calls_only_trans [OF edge_calls_only(5) Cons] show ?case by simp
qed simp

lemma resolved_query_inv:
  "ble_services_are_resolved E px w = Some (b, w') \<Longrightarrow> world_inv E w \<Longrightarrow> world_inv E w'"
  by (rule calls_only_inv [OF ble_services_are_resolved_calls_only])

lemma ready_device_inv:
  assumes inv: "world_inv E w" and r: "ready_device E d w = Some w'"
  shows "world_inv E w'"
proof -
  obtain ex w1 where 1: "edge_device_exists E (d_device_id d) w = (ex, w1)" by fastforce
  have inv1: "world_inv E w1"
    using calls_only_inv [OF edge_calls_only(7) inv, of E "d_device_id d"] by (simp add: 1)
  obtain ok w2 where 2: "devices_create_pt_device E (d_device_id d) ''ARM'' ''mept-ble'' (d_bt_addr d) ''mept-ble'' w1
    = (ok, w2)" by fastforce
  have inv2: "world_inv E w2"
    using calls_only_inv [OF edge_calls_only(8) inv1, of E "d_device_id d" "''ARM''" "''mept-ble''" "d_bt_addr d" "''mept-ble''"]
    by (simp add: 2)
  show ?thesis
  proof (cases "ex \<or> \<not> ok \<or> \<not> edge_is_connected E w2 \<or> d_proxy d = None")
    case True
    with r inv1 inv2 show ?thesis by (auto simp: ready_device_def 1 2 split: if_splits)
  next
    case False
    with r obtain px b w3 where 3: "ble_services_are_resolved E px w2 = Some (b, w3)"
      "(if b then ble_on_services_resolved E px w3 else Some w3) = Some w'"
      by (auto simp: ready_device_def 1 2 split: option.splits)
    from resolved_query_inv [OF 3(1) inv2] 3(2) show ?thesis
      by (auto intro: on_services_resolved_inv split: if_splits)
  qed
qed

lemma ready_devices_inv: "world_inv E w \<Longrightarrow> ready_devices E ps w = Some w' \<Longrightarrow> world_inv E w'"
  by (induction ps arbitrary: w) (auto split: option.splits dest: ready_device_inv)

lemma run_idle_inv:
  assumes inv: "world_inv E w" and r: "run_idle E t w = Some w'"
  shows "world_inv E w'"
proof (cases t)
  case Pt_ble_graceful_shutdown
  with r show ?thesis using graceful_shutdown_inv [OF inv] by (metis option.inject run_idle.simps(2))
qed (use inv r in \<open>auto simp: pt_ble_g_main_quit_loop_def pt_ble_pt_ready_def
    intro: g_main_loop_quit_inv ready_devices_inv device_registered_inv device_unregistered_inv split: if_splits\<close>)

lemma handle_edge_inv:
  assumes inv: "world_inv E w" and r: "handle_edge E e w = Some w'"
  shows "world_inv E w'"
proof (cases e)
  case (Resource_written d ob i re ops v)
  with r show ?thesis by (auto intro: resource_callback_inv [OF inv])
qed (use inv r in \<open>auto simp: protocol_translator_registration_success_def protocol_translator_registration_failure_def
    device_registration_success_def device_registration_failure_def device_unregistration_success_def
    device_unregistration_failure_def connection_ready_handler_def disconnected_handler_def shutdown_cb_handler_def
    intro!: g_idle_add_inv call_inv calls_only_inv [OF register_all_calls_only] split: if_splits\<close>)

section \<open>One event\<close>

lemma client_thread_inv [inv_intro]: "world_inv E w \<Longrightarrow> world_inv E (protocol_translator_api_start_func E args w)"
  by (simp add: protocol_translator_api_start_func_def ask_defs call_inv Let_def)

lemma handle_inv:
  assumes inv: "world_inv E w" and E: "source_ids E"
    and en: "\<And>s p. e = Retry_timer s p \<Longrightarrow> (s, p) \<in> set (timers w)" and r: "handle E args e w = Some w'"
  shows "world_inv E w'"
proof (cases e)
  case Idle
  with inv r show ?thesis
    by (auto simp: handle_idle_def dest: run_idle_inv [rotated] split: list.splits)
next
  case (Retry_timer s p)
  from retry_connect_inv [OF inv en [OF this]] r Retry_timer show ?thesis
    by (metis handle.simps(2) option.inject)
next
  case Unix_signal
  with r show ?thesis using graceful_shutdown_inv [OF inv] by (metis handle.simps(4) option.inject)
next
  case (Edge ee)
  with r show ?thesis by (auto intro: handle_edge_inv [OF inv])
next
  case (Value_read i srvc ch ret)
  with r show ?thesis by (auto intro: read_callback_inv [OF inv])
next
  case (Connect_done px err)
  with r show ?thesis by (auto intro: connect_done_inv [OF inv E])
next
  case (Properties_changed px props)
  with r show ?thesis by (auto intro: properties_changed_inv [OF inv E])
qed (use inv r in \<open>auto simp: ble_on_object_added_def
    intro: read_everything_inv new_device_inv object_removed_inv remove_device_done_inv client_thread_inv
    split: if_splits\<close>)

section \<open>Rounds of \<open>ble_start\<close>\<close>

lemma clear_devices_calls_only: "calls_only w (clear_devices E obs w)"
proof (induction obs arbitrary: w)
  case (Cons ob obs)
  then show ?case by (cases ob) (auto intro: calls_only_after)
qed simp

lemma clear_cache_calls_only: "calls_only w (ble_clear_device_cache E w)"
  by (auto simp: ble_clear_device_cache_def g_dbus_proxy_new_def ask_defs Let_def
        split: option.split intro!: calls_only_trans [OF _ clear_devices_calls_only])

lemma power_on_calls_only: "calls_only w (snd (power_on_adapter E w))"
proof -
  obtain b w1 where 1: "ble_adapter_is_powered E w = (b, w1)" by fastforce
  have "calls_only w w1"
    using 1 ble_get_property_calls_only [of w E "cfg_bluez_hci_path w" ADAPTER_IFACE "''Powered''"]
    by (auto simp: ble_adapter_is_powered_def split: prod.splits option.splits gvariant.splits)
  then show ?thesis
    by (auto simp: power_on_adapter_def 1 ble_adapter_set_powered_def
          intro: calls_only_trans ble_set_property_calls_only)
qed

lemma discover_calls_only: "calls_only w (snd (ble_discover E w))"
  by (auto simp: ble_discover_def g_dbus_proxy_new_def ask_defs Let_def)

lemma world_inv_cong:
  "world_inv E w \<Longrightarrow> devices w' = devices w \<Longrightarrow> next_ptr w' = next_ptr w \<Longrightarrow> timers w' = timers w \<Longrightarrow>
   g_source_id_1 w' = g_source_id_1 w \<Longrightarrow> trace w' = trace w \<Longrightarrow> world_inv E w'"
  by (simp add: world_inv_def source_inv_def)

lemma periodic_source_inv:
  assumes inv: "world_inv E w" and E: "source_ids E" and s: "ask_int E (Sys (GTimeoutAdd n)) w = (s, w')"
  shows "world_inv E (w'\<lparr>g_source_id_1 := s\<rparr>)"
proof -
  let ?e = "Sys (GTimeoutAdd n)"
  have w': "s = env_int E (trace w) ?e" "w' = call ?e w" using s by (simp_all add: ask_defs)
  have "issued E (?e # trace w) s" unfolding issued_def w'(1) by blast
  moreover have "s \<noteq> fst t" if "t \<in> set (timers w)" for t
  proof -
    from inv that have "issued E (trace w) (fst t)" by (simp add: world_inv_def timers_inv_def)
    then obtain h n where "fst t = env_int E h (Sys (GTimeoutAdd n))" "suffix (Sys (GTimeoutAdd n) # h) (trace w)"
      by (auto simp: issued_def)
    with E w'(1) show ?thesis unfolding source_ids_def by metis
  qed
  moreover have "world_inv E w'" using inv by (simp add: w'(2) call_inv)
  ultimately show ?thesis
    by (auto simp: world_inv_def source_inv_def w'(2) call_def)
qed

lemma set_config_inv: "world_inv E w \<Longrightarrow> world_inv E (set_config args w)"
  by (erule world_inv_cong) (simp_all add: set_config_def)

lemma after_signals_inv:
  assumes r: "(case ble_discover E (call (Bus (SignalConnect ''object-removed''))
        (call (Bus (SignalConnect ''object-added'')) w)) of
      (rc, w) \<Rightarrow>
        if rc \<noteq> 0 then Some (Inl 0, w) else
        let (s, w) = ask_int E (Sys (GTimeoutAdd BLE_VALUE_READ_INTERVAL)) w
        in Some (Inr (), call (Sys GMainLoopRun) (w\<lparr>g_source_id_1 := s\<rparr>))) = Some (res :: int + unit, w')"
    and inv: "world_inv E w" and E: "source_ids E"
  shows "world_inv E w'"
proof -
  define w1 where "w1 = call (Bus (SignalConnect ''object-removed'')) (call (Bus (SignalConnect ''object-added'')) w)"
  obtain rc w2 where 2: "ble_discover E w1 = (rc, w2)" by fastforce
  have "world_inv E w1" unfolding w1_def by (intro call_inv inv)
  then have i2: "world_inv E w2" using discover_calls_only [of w1 E] by (auto simp: 2 intro: calls_only_inv)
  show ?thesis
  proof (cases "rc = 0")
    case False
    with r i2 show ?thesis by (simp add: w1_def [symmetric] 2)
  next
    case True
    obtain s w3 where 3: "ask_int E (Sys (GTimeoutAdd BLE_VALUE_READ_INTERVAL)) w2 = (s, w3)" by fastforce
    from call_inv [OF periodic_source_inv [OF i2 E 3], of "Sys GMainLoopRun"] r True show ?thesis
      by (auto simp: w1_def [symmetric] 2 3)
  qed
qed

lemma round_inv:
  assumes inv: "world_inv E w" and E: "source_ids E" and r: "ble_start_round E args w = Some (res, w')"
  shows "world_inv E w'"
proof -
  define w1 where "w1 = snd (ble_connect_to_dbus E (address args) (set_config args w))"
  define w2 where "w2 = call (Bus ObjectManager) ((call (Sys GMainLoopNew) w1)\<lparr>loop_quit := False\<rparr>)"
  define w3 where "w3 = snd (power_on_adapter E w2)"
  have i1: "world_inv E w1" using inv
    by (auto simp: w1_def ble_connect_to_dbus_def ask_defs intro: call_inv set_config_inv)
  then have i1': "world_inv E (call (Sys GMainLoopNew) w1)" by (rule call_inv)
  then have i2: "world_inv E w2" by (auto simp: w2_def intro: call_inv)
  have i3: "world_inv E w3" unfolding w3_def by (rule calls_only_inv [OF power_on_calls_only i2])
  have i4: "world_inv E (ble_clear_device_cache E w3)"
    by (rule calls_only_inv [OF clear_cache_calls_only i3])
  have i4': "world_inv E w4" if "ble_connect_to_known_devices E w3 = Some w4" for w4
    using that i3 by (auto simp: ble_connect_to_known_devices_def ask_defs split: if_splits option.splits
        intro: known_devices_inv call_inv)
  obtain rc where 1: "ble_connect_to_dbus E (address args) (set_config args w) = (rc, w1)"
    unfolding w1_def by (metis prod.collapse)
  obtain ok where 3: "power_on_adapter E w2 = (ok, w3)" unfolding w3_def by (metis prod.collapse)
  show ?thesis
    using r i1 i1' i2 i3
    by (auto simp: ble_start_round_def 1 3 ask_defs w2_def [symmetric] Let_def
          split: if_splits option.splits dest: i4' intro: after_signals_inv [OF _ _ E] i4)
qed

section \<open>Every reachable state\<close>

lemma out_inv: "world_inv E w \<Longrightarrow> world_inv E (snd (ble_start_out r w))"
  by (simp add: ble_start_out_def call_inv)

lemma filter_own_source: "source_inv E w \<Longrightarrow> filter (\<lambda>t. fst t \<noteq> g_source_id_1 w) (timers w) = timers w"
  by (auto simp: source_inv_def intro: filter_True)

lemma after_main_loop_inv: "world_inv E w \<Longrightarrow> world_inv E (after_main_loop w)"
  by (rule same_core_inv [rotated])
    (auto simp: after_main_loop_def same_core_def world_inv_def filter_own_source suffix_def)

definition started :: "env \<Rightarrow> (bytes \<Rightarrow> json option) \<Rightarrow> blept_args \<Rightarrow> phase \<times> ble_world \<Rightarrow> bool" where
  "started E parse args c \<longleftrightarrow>
     (\<exists>w w'. main_init E args (zero_world E) = (Inr (), w) \<and> read_whitelist E parse args w = Some w' \<and>
        c = (Starting, w'))"

lemma main_init_world:
  assumes "main_init E args (zero_world E) = (Inr (), w)"
  shows "\<exists>t. w = (zero_world E)\<lparr>global_keep_running := True, trace := t\<rparr>"
  using assms
  by (auto simp: main_init_def pt_ble_setup_signals_def devices_init_def start_protocol_translator_api_def
        zero_world_def call_def ask_defs Let_def split: if_splits)

lemma conf_list_read_world: "\<exists>t. snd (device_conf_list_read E parse fp w) = w\<lparr>trace := t\<rparr>"
proof (cases fp)
  case None
  have "w = w\<lparr>trace := trace w\<rparr>" by simp
  with None show ?thesis unfolding device_conf_list_read_def by (metis option.case(1) snd_conv)
next
  case (Some f)
  then have "snd (device_conf_list_read E parse fp w) = w\<lparr>trace := Sys (ReadFile f) # trace w\<rparr>"
    by (simp add: device_conf_list_read_def ask_defs call_def)
  then show ?thesis by blast
qed

lemma whitelist_world:
  assumes "read_whitelist E parse args w = Some w'"
  shows "\<exists>t l. w' = w\<lparr>trace := t, cfg_white_list := l\<rparr>"
proof (cases "extended_discovery_file args")
  case None
  with assms have "w' = w\<lparr>trace := trace w, cfg_white_list := cfg_white_list w\<rparr>" by (simp add: read_whitelist_def)
  then show ?thesis by blast
next
  case (Some path)
  obtain es w1 where 1: "device_conf_list_read E parse (Some path) w = (es, w1)" by fastforce
  with conf_list_read_world [of E parse "Some path" w] obtain t where "w1 = w\<lparr>trace := t\<rparr>" by auto
  with assms Some 1 have "w' = w\<lparr>trace := t, cfg_white_list := es\<rparr>"
    by (auto simp: read_whitelist_def split: option.splits)
  then show ?thesis by blast
qed

lemma started_world:
  assumes "started E parse args c"
  obtains t l where "c = (Starting, (zero_world E)\<lparr>global_keep_running := True, trace := t, cfg_white_list := l\<rparr>)"
proof -
  from assms obtain w w' where w: "main_init E args (zero_world E) = (Inr (), w)"
    "read_whitelist E parse args w = Some w'" "c = (Starting, w')"
    unfolding started_def by (elim exE conjE)
  from main_init_world [OF w(1)] obtain t where t: "w = (zero_world E)\<lparr>global_keep_running := True, trace := t\<rparr>" ..
  from whitelist_world [OF w(2)] obtain t' l where "w' = w\<lparr>trace := t', cfg_white_list := l\<rparr>" by (elim exE)
  with t w(3) show thesis using that [where t = t' and l = l] by simp
qed

lemma started_inv: "started E parse args c \<Longrightarrow> world_inv E (snd c)"
  by (erule started_world)
    (simp add: zero_world_def world_inv_def timers_inv_def source_inv_def)

lemma enabled_timer: "enabled w (Retry_timer s p) \<Longrightarrow> (s, p) \<in> set (timers w)"
  by (simp add: enabled_def)

lemma step_world_inv:
  assumes "step E args c c'" and inv: "world_inv E (snd c)" and E: "source_ids E"
  shows "world_inv E (snd c')"
  using assms(1)
proof cases
  case (round_fails w r w' w'')
  with out_inv [OF round_inv [OF _ E round_fails(3)], of r] inv show ?thesis by simp
next
  case (round_returns w r w' r' w'')
  with out_inv [OF round_inv [OF _ E round_returns(3)], of r] inv show ?thesis by simp
next
  case (round_runs w w')
  with round_inv [OF _ E round_runs(3)] inv show ?thesis by simp
next
  case (main_loop w e w')
  with handle_inv [OF _ E _ main_loop(4)] inv enabled_timer show ?thesis by (metis snd_conv)
next
  case (client_thread e w w' ph)
  then have "world_inv E w'"
    using handle_inv [OF _ E _ client_thread(4)] inv by (auto simp: main_thread_def split: event.splits)
  with client_thread show ?thesis by simp
next
  case (again w w')
  with out_inv [OF after_main_loop_inv, of E w 0] inv show ?thesis by simp
next
  case (returns w r w')
  with out_inv [OF after_main_loop_inv, of E w 0] inv show ?thesis by simp
qed

interpretation ble: step_invariant "started E parse args" "step E args"
    "\<lambda>c. source_ids E \<longrightarrow> world_inv E (snd c)" for E parse args
  by unfold_locales (auto intro: started_inv step_world_inv)

lemma reachable_steps:
  "reachable E parse args c \<Longrightarrow> \<exists>c0. started E parse args c0 \<and> (step E args)\<^sup>*\<^sup>* c0 c"
proof (induction rule: reachable.induct)
  case (start w w')
  then show ?case unfolding started_def by blast
next
  case (step c c')
  then show ?case by (blast intro: rtranclp.rtrancl_into_rtrancl)
qed

lemma reachable_inv: "reachable E parse args (ph, w) \<Longrightarrow> source_ids E \<Longrightarrow> world_inv E w"
  using reachable_steps [of E parse args "(ph, w)"] ble.reached_inv by fastforce

end
