(* ===== verification/Example_Runs.thy ===== *)
theory Example_Runs
  imports Reachable_States
begin

text \<open>
  Runs of the translator as a function of the events it handles, and a small environment in
  which everything succeeds: the concrete executions of the witnesses.
\<close>

section \<open>Running a list of events\<close>

fun run_events :: "env \<Rightarrow> blept_args \<Rightarrow> event list \<Rightarrow> ble_world \<Rightarrow> ble_world option" where
  "run_events E args [] w = Some w"
| "run_events E args (e # es) w =
     (if enabled w e then
        (case handle E args e w of None \<Rightarrow> None | Some w \<Rightarrow> run_events E args es w)
      else None)"

definition run_translator ::
  "env \<Rightarrow> (bytes \<Rightarrow> json option) \<Rightarrow> blept_args \<Rightarrow> event list \<Rightarrow> ble_world option" where
  "run_translator E parse args es =
     (case main_init E args (zero_world E) of
        (Inl _, _) \<Rightarrow> None
      | (Inr _, w) \<Rightarrow>
          (case read_whitelist E parse args w of
             None \<Rightarrow> None
           | Some w \<Rightarrow>
               (case ble_start_round E args w of
                  Some (Inr _, w) \<Rightarrow> run_events E args es w
                | _ \<Rightarrow> None)))"

lemma run_events_reachable:
  "reachable E parse args (Running, w) \<Longrightarrow> run_events E args es w = Some w' \<Longrightarrow>
   reachable E parse args (Running, w')"
proof (induction es arbitrary: w)
  case (Cons e es)
  then show ?case by (auto split: if_splits option.splits intro: reachable.step step.main_loop)
qed simp

lemma run_translator_reachable:
  assumes "run_translator E parse args es = Some w"
  shows "reachable E parse args (Running, w)"
proof -
  obtain r w1 where 1: "main_init E args (zero_world E) = (r, w1)" by fastforce
  with assms obtain w2 where 2: "r = Inr ()" "read_whitelist E parse args w1 = Some w2"
    by (auto simp: run_translator_def split: sum.splits option.splits)
  with assms 1 obtain w3 where 3: "ble_start_round E args w2 = Some (Inr (), w3)" "run_events E args es w3 = Some w"
    by (auto simp: run_translator_def split: sum.splits option.splits)
  have "reachable E parse args (Starting, w2)" using 1 2 by (intro reachable.start) simp_all
  from reachable.step [OF this step.round_runs [OF 3(1)]] 3(2) show ?thesis by (rule run_events_reachable)
qed

section \<open>An environment\<close>

text \<open>
  Sources are numbered by the calls made so far; one device, on the whitelist and without
  resolved services; \<open>creates\<close> is Edge's answer to \<open>pt_device_create\<close>.
\<close>

definition run_variant :: "ev \<Rightarrow> gvariant option" where
  "run_variant e =
     (case e of
        Bus (CachedProperty _ name) \<Rightarrow>
          (if name = ''Name'' then Some (GString ''x'')
           else if name = ''Address'' then Some (GString ''A'')
           else if name = ''ServicesResolved'' then Some (GBoolean False)
           else None)
      | Bus (GetProperty _ _ _) \<Rightarrow> Some (GBoolean True)
      | _ \<Rightarrow> None)"

definition run_env :: "pt_status \<Rightarrow> env" where
  "run_env creates =
     \<lparr>env_status = (\<lambda>h e. case e of Pt (PtDeviceCreate _ _ _ _) \<Rightarrow> creates | _ \<Rightarrow> PT_STATUS_SUCCESS),
      env_ok = (\<lambda>h e. case e of Pt (PtDeviceExists _ _) \<Rightarrow> False | _ \<Rightarrow> True),
      env_int = (\<lambda>h e. int (length h) + 1),
      env_data = (\<lambda>h e. Some [0, 0, 0, 0]), env_str = (\<lambda>h e. None), env_strs = (\<lambda>h e. []),
      env_variant = (\<lambda>h e. run_variant e), env_objects = (\<lambda>h e. Some []),
      env_junk = (\<lambda>h. []), PT_API_CONNECTION_ID_INVALID = -1\<rparr>"

lemma run_env_source_ids: "source_ids (run_env creates)"
  by (auto simp: source_ids_def run_env_def dest: suffix_length_le)

definition run_parse :: "bytes \<Rightarrow> json option" where
  "run_parse d = Some (JObject [(''whitelisted-devices'', JArray [JObject [(''name'', JString ''x'')]])])"

definition run_args :: blept_args where
  "run_args = \<lparr>protocol_translator_name = Some ''n'', endpoint_postfix = ''0'', edge_domain_socket = ''s'',
     bluetooth_interface = ''h'', address = Some ''b'', clear_cache = False, extended_discovery_file = Some ''f''\<rparr>"

definition first_events :: "event list" where
  "first_events = [Edge (Connection_ready 7), Object_added ''/d'' [DEVICE_IFACE]]"

lemma run_env_answers [simp]:
  "env_ok (run_env c) h e = (case e of Pt (PtDeviceExists _ _) \<Rightarrow> False | _ \<Rightarrow> True)"
  "env_int (run_env c) h e = int (length h) + 1"
  "env_status (run_env c) h e = (case e of Pt (PtDeviceCreate _ _ _ _) \<Rightarrow> c | _ \<Rightarrow> PT_STATUS_SUCCESS)"
  "env_data (run_env c) h e = Some [0, 0, 0, 0]" "env_str (run_env c) h e = None" "env_strs (run_env c) h e = []"
  "env_variant (run_env c) h e = run_variant e" "env_objects (run_env c) h e = Some []"
  "PT_API_CONNECTION_ID_INVALID (run_env c) = -1"
  by (simp_all add: run_env_def)

text \<open>What evaluates a run.\<close>

lemmas run_defs =
  run_translator_def run_variant_def run_parse_def run_args_def call_def ask_defs zero_world_def
  main_init_def pt_ble_setup_signals_def devices_init_def start_protocol_translator_api_def
  read_whitelist_def device_conf_list_read_def ble_start_round_def ble_connect_to_dbus_def set_config_def
  power_on_adapter_def ble_adapter_is_powered_def ble_connect_to_known_devices_def ble_discover_def
  g_dbus_proxy_new_def ble_get_property_def snprintf_buf_def
  enabled_def main_thread_def connection_ready_handler_def ble_on_object_added_def ble_new_device_def
  ble_identify_device_type_def ble_identify_device_using_whitelist_def ble_create_device_proxy_def
  ble_create_device_context_def ble_device_proxy_get_address_def devices_make_device_id_def device_create_def
  seconds_since_epoch_def devices_link_device_def ble_proxy_connect_def g_idle_add_def ble_find_device_from_address_def
  ble_connect_done_def with_device_of_proxy_def ble_find_device_from_proxy_def
  ble_start_reconnection_timer_or_unregister_device_def devices_duration_in_sec_since_last_connection_def
  give_up_unreachable_def update_device_def g_timeout_add_def ble_back_off_time_in_ms_def back_off_values

end
