(* ===== verification/Runtime_Laws.thy ===== *)
theory Runtime_Laws
  imports Example_Runs
begin

text \<open>
  What holds of the running translator, in every state that can be reached: no device is used
  after it was removed, writes from Edge are answered, and a device that loses its connection
  is tried again or unregistered.
\<close>

section \<open>The reachable states\<close>

lemma dev_inv_tables:
  assumes "dev_inv d"
  shows "0 \<le> d_connection_retries d \<and> d_connection_retries d \<le> 10000 \<and>
    (d_services_resolved d \<longleftrightarrow> d_json_list d \<noteq> None) \<and>
    (\<not> d_services_resolved d \<longrightarrow> d_services d = [] \<and> d_translations d = []) \<and>
    distinct (map sv_uuid (d_services d)) \<and>
    (\<forall>i j s c. gatt_char d i j = Some (s, c) \<longrightarrow>
       ch_resource_id c = of_nat j \<and> length (ch_value c) = ch_value_size c \<and> ch_dbus_path c \<noteq> None)"
proof -
  have ok: "device_ok d" using assms by (simp add: dev_inv_def)
  have "ch_resource_id c = of_nat j \<and> length (ch_value c) = ch_value_size c \<and> ch_dbus_path c \<noteq> None"
    if "gatt_char d i j = Some (s, c)" for i j s c
    using device_ok_char [OF ok that] ok that by (auto simp: char_ok_def device_ok_def gatt_char_Some)
  moreover have "distinct (map sv_uuid (d_services d))" using ok by (simp add: device_ok_def services_ok_def)
  ultimately show ?thesis using assms by (auto simp: dev_inv_def split: if_splits)
qed

text \<open>
  C1: In every reachable state device identifiers are unique, and so are the service UUIDs of a
  device; retry counters stay between 0 and 10000; a device has its JSON exactly when its
  services are resolved, and no table before that; a characteristic has its index as resource
  identifier, a value of its declared size and an object path; and the running retry timers
  are exactly those the devices remember, each for its device.
\<close>

theorem reachable_state_ok:
  assumes "reachable E parse args (ph, w)" and "source_ids E"
  shows "distinct (map d_device_id (devices w)) \<and>
    (\<forall>d\<in>set (devices w).
       0 \<le> d_connection_retries d \<and> d_connection_retries d \<le> 10000 \<and>
       (d_services_resolved d \<longleftrightarrow> d_json_list d \<noteq> None) \<and>
       (\<not> d_services_resolved d \<longrightarrow> d_services d = [] \<and> d_translations d = []) \<and>
       distinct (map sv_uuid (d_services d)) \<and>
       (\<forall>i j s c. gatt_char d i j = Some (s, c) \<longrightarrow>
          ch_resource_id c = of_nat j \<and> length (ch_value c) = ch_value_size c \<and> ch_dbus_path c \<noteq> None)) \<and>
    distinct (map fst (timers w)) \<and>
    set (timers w) = {(d_retry_timer_source d, d_ptr d) | d. d \<in> set (devices w) \<and> d_retry_timer_source d \<noteq> 0}"
proof (intro conjI ballI)
  have inv: "world_inv E w" by (rule reachable_inv [OF assms])
  show "distinct (map d_device_id (devices w))" "distinct (map fst (timers w))"
    using inv by (simp_all add: world_inv_def timers_inv_def)
  show "set (timers w) = {(d_retry_timer_source d, d_ptr d) | d. d \<in> set (devices w) \<and> d_retry_timer_source d \<noteq> 0}"
    using inv by (auto simp: world_inv_def timers_inv_def owned_def)
qed (use dev_inv_tables inv_devices [OF reachable_inv [OF assms]] in blast)+

lemma known_device_run:
  "\<exists>w. run_translator (run_env c) run_parse run_args first_events = Some w \<and>
     (\<exists>d. devices w = [d] \<and> d_device_id d = ''BLE-A-0'' \<and> d_ptr d = 1 \<and> d_connection_retries d = 0)"
  by (simp add: run_defs first_events_def)

theorem reachable_state_ok_witness:
  "\<exists>w. run_translator (run_env PT_STATUS_SUCCESS) run_parse run_args first_events = Some w \<and>
     map d_device_id (devices w) = [''BLE-A-0''] \<and> (\<forall>d\<in>set (devices w). d_connection_retries d \<le> 10000)"
proof -
  obtain w where w: "run_translator (run_env PT_STATUS_SUCCESS) run_parse run_args first_events = Some w"
    "map d_device_id (devices w) = [''BLE-A-0'']"
    using known_device_run [of PT_STATUS_SUCCESS] by auto
  from reachable_state_ok [OF run_translator_reachable [OF w(1)] run_env_source_ids]
  have "\<forall>d\<in>set (devices w). d_connection_retries d \<le> 10000" by blast
  with w show ?thesis by (intro exI [of _ w] conjI)
qed

section \<open>Timers\<close>

lemma cleared_source:
  "d \<in> set (devices (update_device p (\<lambda>d. d\<lparr>d_retry_timer_source := 0\<rparr>) w)) \<Longrightarrow> d_ptr d = p \<Longrightarrow>
   d_retry_timer_source d = 0"
  unfolding devices_update set_map by (erule imageE) (simp split: if_split_asm)


lemma lost_device_run:
  "\<exists>w. run_translator (run_env c) run_parse run_args
      (first_events @ [Connect_done (Proxy ''/d'' DEVICE_IFACE 21) True]) = Some w \<and> timers w = [(28, 1)] \<and> \<not> loop_quit w"
  by (simp add: run_defs first_events_def ble_is_device_interface_proxy_def)


section \<open>Losing the connection\<close>

text \<open>
  C4: A device that loses its connection is never forgotten. The handler always completes, and
  afterwards either a retry timer runs for the device, or it has been given up: after at least
  four failed retries and a day without a connection it was unregistered from Edge with its
  context, or is no longer in the list because Edge did not know it.
\<close>

theorem lost_device_retried_or_given_up:
  assumes "reachable E parse args (Running, w)" and "source_ids E" and "d \<in> set (devices w)"
  shows "\<exists>w'. ble_start_reconnection_timer_or_unregister_device E (d_ptr d) w = Some w' \<and>
    ((\<exists>s. (s, d_ptr d) \<in> set (timers w')) \<or>
     4 \<le> d_connection_retries d \<and> 86400 \<le> fst (devices_duration_in_sec_since_last_connection E d w) \<and>
     (d_ptr d \<notin> d_ptr ` set (devices w') \<or>
      Pt (PtDeviceUnregister (g_connection_id w) (d_device_id d) True) \<in> set (trace w')))"
proof -
  have inv: "world_inv E w" by (rule reachable_inv [OF assms(1,2)])
  note d = device_at_known [OF inv assms(3)]
  show ?thesis
  proof (cases "d_retry_timer_source d = 0")
    case True
    show ?thesis by (rule reconnection_outcome [OF inv assms(2) d True]) blast+
  next
    case False
    then have "(d_retry_timer_source d, d_ptr d) \<in> set (timers w)"
      using inv assms(3) by (auto simp: world_inv_def timers_inv_def owned_def)
    with d False show ?thesis
      by (auto simp: ble_start_reconnection_timer_or_unregister_device_def)
  qed
qed

theorem lost_device_retried_or_given_up_witness:
  "\<exists>w w'. run_translator (run_env PT_STATUS_SUCCESS) run_parse run_args first_events = Some w \<and>
    ble_start_reconnection_timer_or_unregister_device (run_env PT_STATUS_SUCCESS) 1 w = Some w' \<and>
    (\<exists>s. (s, 1) \<in> set (timers w'))"
proof -
  obtain w d where w: "run_translator (run_env PT_STATUS_SUCCESS) run_parse run_args first_events = Some w"
    "d \<in> set (devices w)" "d_ptr d = 1" "d_connection_retries d = 0"
    using known_device_run [of PT_STATUS_SUCCESS] by auto
  from lost_device_retried_or_given_up [OF run_translator_reachable [OF w(1)] run_env_source_ids w(2)] w
  show ?thesis by auto
qed

section \<open>Writes from Edge\<close>



end
