(* ===== verification/Shutdown.thy ===== *)
theory Shutdown
  imports Example_Runs
begin

text \<open>
  Shutting down: once the devices are being unregistered and the last one is gone, the main
  loop has been told to quit or will be by a task it has queued, and \<open>ble_start\<close> returns. The
  one exception, a device deleted because Edge refused it, is proved to hang.
\<close>

section \<open>Handlers that do not shut down\<close>

definition quiet :: "ble_world \<Rightarrow> ble_world \<Rightarrow> bool" where
  "quiet w w' \<longleftrightarrow>
     unregistering_devices w' = unregistering_devices w \<and> (global_keep_running w' \<longrightarrow> global_keep_running w) \<and>
     set (idle_queue w) \<subseteq> set (idle_queue w') \<and> (loop_quit w \<longrightarrow> loop_quit w') \<and>
     (unregistering_devices w \<and> devices w' = [] \<longrightarrow>
        devices w = [] \<or> Pt_ble_g_main_quit_loop \<in> set (idle_queue w'))"

lemma quiet_refl [simp, intro]: "quiet w w"
  by (simp add: quiet_def)

lemma quiet_trans: "quiet u v \<Longrightarrow> quiet v w \<Longrightarrow> quiet u w"
  unfolding quiet_def by blast

lemma quiet_calls [intro]: "calls_only w w' \<Longrightarrow> quiet w w'"
  by (auto simp: quiet_def dest: calls_only_fields)

lemma quiet_update [simp, intro]: "quiet w (update_device p f w)"
  by (simp add: quiet_def)

lemma quiet_call [simp, intro]: "quiet w (call e w)"
  by (rule quiet_calls) simp

lemma quiet_idle [simp, intro]: "quiet w (g_idle_add t w)"
  by (auto simp: quiet_def)

lemma quiet_quit [simp, intro]: "quiet w (g_main_loop_quit w)"
  by (simp add: quiet_def g_main_loop_quit_def call_def)

lemma quiet_flag [simp, intro]:
  "quiet w (w\<lparr>global_keep_running := False\<rparr>)" "quiet w (w\<lparr>g_connection_id := c\<rparr>)"
  "quiet w (w\<lparr>timers := ts\<rparr>)"
  by (simp_all add: quiet_def)

lemma quiet_del [simp, intro]: "quiet w (pt_edge_del_device p w)"
  by (auto simp: quiet_def pt_edge_del_device_def devices_del_device_def device_free_def g_source_remove_def
        call_def Let_def g_idle_add_def split: option.splits)

lemma quiet_unregister [simp, intro]: "quiet w (unregister_or_delete E d w)"
  by (auto simp: unregister_or_delete_def split: prod.split
        intro: quiet_trans [OF quiet_calls [OF unregister_calls_only]] quiet_calls [OF unregister_calls_only])

lemma quiet_link [simp, intro]: "quiet w (devices_link_device d i w)"
  by (simp add: quiet_def devices_link_device_def)

lemma quiet_update_after: "quiet w w' \<Longrightarrow> quiet w (update_device p f w')"
  by (erule quiet_trans) simp

lemma quiet_fields:
  "quiet u v \<Longrightarrow> unregistering_devices w' = unregistering_devices v \<Longrightarrow> global_keep_running w' = global_keep_running v \<Longrightarrow>
   idle_queue w' = idle_queue v \<Longrightarrow> loop_quit w' = loop_quit v \<Longrightarrow> devices w' = devices v \<Longrightarrow> quiet u w'"
  by (simp add: quiet_def)

section \<open>Reconnecting\<close>

lemma quiet_proxy_connect [simp, intro]: "quiet w (ble_proxy_connect px w)"
  by (rule quiet_calls) (rule ble_proxy_connect_calls_only)

lemma quiet_retry: "ble_retry_connect s p w = Some w' \<Longrightarrow> quiet w w'"
  by (auto simp: ble_retry_connect_def Let_def split: option.splits
        intro!: quiet_trans [OF quiet_update_after [OF quiet_proxy_connect] quiet_flag(3)])

lemma quiet_give_up: "quiet w (snd (give_up_unreachable E p d t n w))"
  by (auto simp: give_up_unreachable_def Let_def split: prod.split
        intro: quiet_trans [OF quiet_calls [OF unregister_calls_only] quiet_del] quiet_calls [OF unregister_calls_only])

lemma quiet_timeout: "g_timeout_add E t p w = (s, w') \<Longrightarrow> quiet w w'"
  by (auto simp: g_timeout_add_def ask_defs Let_def quiet_def call_def)

lemma quiet_reconnect:
  assumes "ble_start_reconnection_timer_or_unregister_device E p w = Some w'"
  shows "quiet w w'"
proof (cases "\<exists>d. device_at p (devices w) = Some d \<and> d_retry_timer_source d = 0")
  case False
  with assms show ?thesis
    by (auto simp: ble_start_reconnection_timer_or_unregister_device_def split: option.splits)
next
  case True
  then obtain d where d: "device_at p (devices w) = Some d" "d_retry_timer_source d = 0" by blast
  define r where "r = (if d_connection_retries d < BLE_MAX_CONNECTION_RETRIES then d_connection_retries d + 1
    else d_connection_retries d)"
  define w1 where "w1 = update_device p (\<lambda>d. d\<lparr>d_connection_retries := r\<rparr>) w"
  obtain n w2 where 2: "devices_duration_in_sec_since_last_connection E d w1 = (n, w2)" by fastforce
  from assms d 2 obtain t where t: "ble_back_off_time_in_ms r = Some t"
    by (auto simp: ble_start_reconnection_timer_or_unregister_device_def r_def [symmetric] split: option.splits)
  obtain b w3 where 3: "give_up_unreachable E p d t n w2 = (b, w3)" by fastforce
  obtain s w4 where 4: "g_timeout_add E t p w3 = (s, w4)" by fastforce
  have w': "w' = (if b then w3 else update_device p (\<lambda>d. d\<lparr>d_retry_timer_source := s\<rparr>) w4)"
    using assms d 2 t 3 4
    by (auto simp: ble_start_reconnection_timer_or_unregister_device_def r_def [symmetric] w1_def [symmetric])
  have "quiet w w1" by (simp add: w1_def)
  moreover have "quiet w1 w2" using duration_calls_only [of w1 E d] by (auto simp: 2)
  moreover have "quiet w2 w3" using quiet_give_up [of w2 E p d t n] by (simp add: 3)
  ultimately have "quiet w w3" by (blast intro: quiet_trans)
  moreover from this have "quiet w (update_device p (\<lambda>d. d\<lparr>d_retry_timer_source := s\<rparr>) w4)"
    using quiet_timeout [OF 4] by (blast intro: quiet_trans quiet_update_after)
  ultimately show ?thesis by (simp add: w')
qed

section \<open>Devices\<close>

lemma quiet_with_device:
  assumes inv: "world_inv E w" and r: "with_device_of_proxy E px f w = Some w'"
    and f: "\<And>d w1. world_inv E w1 \<Longrightarrow> d \<in> set (devices w1) \<Longrightarrow> f d w1 = Some w' \<Longrightarrow> quiet w1 w'"
  shows "quiet w w'"
proof -
  from r obtain r1 w1 where 1: "ble_find_device_from_proxy E px w = Some (r1, w1)"
    by (auto simp: with_device_of_proxy_def split: option.splits)
  note c = find_device_from_proxy_calls_only [OF 1]
  show ?thesis
  proof (cases r1)
    case None
    with r 1 c show ?thesis by (auto simp: with_device_of_proxy_def)
  next
    case (Some d)
    with 1 have "d \<in> set (devices w1)"
      by (auto simp: ble_find_device_from_proxy_def ble_find_device_from_address_def
            split: if_splits option.splits dest: by_id.lookup_SomeD)
    from f [OF calls_only_inv [OF c inv] this] r 1 Some have "quiet w1 w'" by (simp add: with_device_of_proxy_def)
    with c show ?thesis by (blast intro: quiet_trans)
  qed
qed

lemma quiet_register [simp, intro]: "quiet w (device_register_device d w)"
  by (rule quiet_calls) (rule edge_calls_only(10))

lemma quiet_services_resolved:
  assumes inv: "world_inv E w" and d: "d \<in> set (devices w)" and r: "services_resolved_of E d w = Some w'"
  shows "quiet w w'"
proof (cases "d_services_resolved d")
  case True
  with r show ?thesis by (auto simp: services_resolved_of_def)
next
  case False
  with r obtain d' w1 where 1: "resolve_services E d w = Some (d', w1)"
    "w' = device_register_device d' (update_device (d_ptr d') (\<lambda>_. d') w1)"
    by (auto simp: services_resolved_of_def split: option.splits)
  from resolve_services_inv [OF inv_devices [OF inv d] False 1(1)] have "quiet w w1" by blast
  then show ?thesis unfolding 1(2) by (rule quiet_trans [OF quiet_update_after quiet_register])
qed

lemma quiet_on_services_resolved:
  "world_inv E w \<Longrightarrow> ble_on_services_resolved E px w = Some w' \<Longrightarrow> quiet w w'"
  by (auto simp: ble_on_services_resolved_def split: if_splits intro: quiet_services_resolved quiet_with_device)

lemma quiet_properties:
  "world_inv E w \<Longrightarrow> source_ids E \<Longrightarrow> ble_properties_changed E px props w = Some w' \<Longrightarrow> quiet w w'"
proof (induction props arbitrary: w)
  case Nil
  then show ?case by simp
next
  case (Cons pv props)
  obtain key v where p: "pv = (key, v)" by fastforce
  from Cons.prems(3) obtain w1 where w1: "ble_properties_changed E px props w1 = Some w'"
    "w1 = w \<or> ble_on_connect E px w = Some w1 \<or> ble_on_disconnect E px w = Some w1 \<or>
     ble_on_services_resolved E px w = Some w1"
    unfolding p by (auto split: option.splits if_splits gvariant.splits bool.splits)
  then have "world_inv E w1"
    using Cons.prems by (auto intro: on_connect_inv on_disconnect_inv on_services_resolved_inv)
  moreover have "quiet w w1" if "ble_on_connect E px w = Some w1"
    using that by (auto simp: ble_on_connect_def split: if_splits intro!: quiet_with_device [OF Cons.prems(1)])
  moreover have "quiet w w1" if "ble_on_disconnect E px w = Some w1"
    using that by (auto simp: ble_on_disconnect_def split: if_splits
        intro!: quiet_with_device [OF Cons.prems(1)] intro: quiet_trans [OF quiet_update quiet_reconnect])
  ultimately show ?case
    using Cons.IH [OF _ Cons.prems(2) w1(1)] w1(2) Cons.prems(1)
    by (blast intro: quiet_trans quiet_on_services_resolved)
qed

lemma quiet_new_device:
  assumes "ble_new_device E path w = Some w'"
  shows "quiet w w'"
proof (cases "global_keep_running w")
  case False
  with assms show ?thesis by (simp add: ble_new_device_def)
next
  case True
  obtain ty w1 where 1: "ble_identify_device_type E path w = (ty, w1)" by fastforce
  have q1: "quiet w w1" using identify_type_calls_only [of w E path] by (auto simp: 1)
  obtain px w2 where 2: "ble_create_device_proxy E path w1 = (px, w2)" by fastforce
  have q2: "quiet w1 w2" using create_proxy_iface [OF 2] by blast
  show ?thesis
  proof (cases "ty = BLE_DEVICE_UNKNOWN")
    case unknown: True
    with assms True q1 show ?thesis by (simp add: ble_new_device_def 1)
  next
    case False
    then obtain w3 where 3: "ble_create_device_context E px ty w2 = Some w3"
      "w' = (if ty = BLE_DEVICE_PERSISTENT_GATT_SERVER then ble_proxy_connect px w3 else w3)"
      using assms True by (auto simp: ble_new_device_def 1 2 split: option.splits)
    have "quiet w2 w3"
      using 3(1) by (auto simp: ble_create_device_context_def device_create_def seconds_since_epoch_def ask_defs
          devices_link_device_def Let_def quiet_def call_def split: option.splits if_splits
          dest!: proxy_get_address_calls_only calls_only_fields)
    moreover have "quiet w3 w'" by (auto simp: 3(2))
    ultimately show ?thesis using q1 q2 by (blast intro: quiet_trans)
  qed
qed

lemma quiet_known: "ble_handle_known_devices E obs w = Some w' \<Longrightarrow> quiet w w'"
  by (induction E obs w rule: ble_handle_known_devices.induct)
    (auto split: if_splits option.splits dest: quiet_new_device intro: quiet_trans)

section \<open>The other events\<close>

text \<open>Edge never refuses a new device.\<close>

definition edge_creates :: "env \<Rightarrow> bool" where
  "edge_creates E \<longleftrightarrow>
     (\<forall>h c i l q. env_status E h (Pt (PtDeviceCreate c i l q)) \<in> {PT_STATUS_SUCCESS, PT_STATUS_ITEM_EXISTS})"

lemma create_succeeds: "edge_creates E \<Longrightarrow> fst (devices_create_pt_device E i m mn sn ty w)"
  unfolding edge_creates_def devices_create_pt_device_def edge_create_device_def ask_defs Let_def prod.case
  by (simp split: if_split) blast

lemma quiet_query: "ble_services_are_resolved E px w = Some (b, w') \<Longrightarrow> quiet w w'"
  by (rule quiet_calls) (rule ble_services_are_resolved_calls_only)

lemma quiet_connect_succeeded:
  assumes inv: "world_inv E w" and E: "edge_creates E" and r: "connect_succeeded E px d w = Some w'"
  shows "quiet w w'"
proof -
  define w0 where "w0 = device_update_last_connected_timestamp E (d_ptr d) w"
  define w1 where "w1 = update_device (d_ptr d) (\<lambda>d. d\<lparr>d_connection_retries := 0\<rparr>) w0"
  have "quiet w w0"
    by (simp add: w0_def device_update_last_connected_timestamp_def seconds_since_epoch_def ask_defs quiet_update_after)
  then have q1: "quiet w w1" by (simp add: w1_def quiet_update_after)
  have inv1: "world_inv E w1" unfolding w1_def w0_def
    by (rule update_device_inv [OF timestamp_inv [OF inv]])
      (use inv_devices [OF timestamp_inv [OF inv]] in \<open>auto intro: dev_inv_retries\<close>)
  obtain ok w2 where 2: "(if edge_is_connected E w1
      then devices_create_pt_device E (d_device_id d) ''ARM'' ''mept-ble'' (d_bt_addr d) ''mept-ble'' w1
      else (True, w1)) = (ok, w2)" by fastforce
  have c2: "calls_only w1 w2"
    using 2 edge_calls_only(8) [of w1 E "d_device_id d" "''ARM''" "''mept-ble''" "d_bt_addr d" "''mept-ble''"]
    by (auto split: if_splits)
  have ok: ok
    using 2 create_succeeds [OF E, of "d_device_id d" "''ARM''" "''mept-ble''" "d_bt_addr d" "''mept-ble''" w1]
    by (auto split: if_splits)
  have r': "(if edge_is_connected E w2 then
        (case ble_services_are_resolved E px w2 of None \<Rightarrow> None
         | Some (b, w) \<Rightarrow> if b then ble_on_services_resolved E px w else Some w)
      else Some w2) = Some w'"
    using r 2 ok unfolding connect_succeeded_def Let_def w0_def [symmetric] w1_def [symmetric] by simp
  have q2: "quiet w w2" using q1 c2 by (blast intro: quiet_trans)
  show ?thesis
  proof (cases "edge_is_connected E w2")
    case False
    with r' q2 show ?thesis by simp
  next
    case True
    with r' obtain b w3 where 3: "ble_services_are_resolved E px w2 = Some (b, w3)"
      "(if b then ble_on_services_resolved E px w3 else Some w3) = Some w'"
      by (auto split: option.splits)
    have "world_inv E w3"
      by (rule calls_only_inv [OF ble_services_are_resolved_calls_only [OF 3(1)] calls_only_inv [OF c2 inv1]])
    with 3(2) have "quiet w3 w'" by (auto intro: quiet_on_services_resolved split: if_splits)
    with q2 quiet_query [OF 3(1)] show ?thesis by (blast intro: quiet_trans)
  qed
qed

lemma quiet_connect_done:
  assumes inv: "world_inv E w" and E: "edge_creates E" and r: "ble_connect_done E px err w = Some w'"
  shows "quiet w w'"
  using r unfolding ble_connect_done_def
  by (rule quiet_with_device [OF inv]) (auto intro: quiet_reconnect quiet_connect_succeeded [OF _ E] split: if_splits)

lemma quiet_read_callback:
  assumes inv: "world_inv E w" and r: "ble_read_characteristic_callback E i srvc ch ret w = Some w'"
  shows "quiet w w'"
proof (cases ret)
  case None
  with r show ?thesis by (simp add: ble_read_characteristic_callback_def)
next
  case (Some vs)
  with r obtain d d' w1 where d: "devices_find_device_by_device_id i (devices w) = Some d"
    "store_value_read E d srvc ch vs w = Some (d', w1)" "w' = update_device (d_ptr d') (\<lambda>_. d') w1"
    by (auto simp: ble_read_characteristic_callback_def split: option.splits)
  have m: "d \<in> set (devices w)" using d(1) by_id.lookup_SomeD by blast
  show ?thesis
    using store_value_inv [OF inv_devices [OF inv m] d(2)] by (auto simp: d(3) intro: quiet_update_after)
qed

lemma quiet_resource_callback:
  assumes "resource_callback_handler E i ob inst re ops v w = Some (s, w')"
  shows "quiet w w'"
  using assms
  by (auto simp: resource_callback_handler_def split: option.splits if_splits
        dest!: device_write_fields intro!: quiet_update_after)

lemma quiet_ready_device:
  assumes inv: "world_inv E w" and r: "ready_device E d w = Some w'"
  shows "quiet w w'"
proof -
  obtain ex w1 where 1: "edge_device_exists E (d_device_id d) w = (ex, w1)" by fastforce
  have c1: "calls_only w w1" using edge_calls_only(7) [of w E "d_device_id d"] by (simp add: 1)
  obtain ok w2 where 2: "devices_create_pt_device E (d_device_id d) ''ARM'' ''mept-ble'' (d_bt_addr d) ''mept-ble'' w1
    = (ok, w2)" by fastforce
  have "calls_only w1 w2"
    using edge_calls_only(8) [of w1 E "d_device_id d" "''ARM''" "''mept-ble''" "d_bt_addr d" "''mept-ble''"]
    by (simp add: 2)
  with c1 have c2: "calls_only w w2" by (rule calls_only_trans)
  show ?thesis
  proof (cases "ex \<or> \<not> ok \<or> \<not> edge_is_connected E w2 \<or> d_proxy d = None")
    case True
    with r c1 c2 show ?thesis by (auto simp: ready_device_def 1 2 split: if_splits)
  next
    case False
    with r obtain px b w3 where 3: "ble_services_are_resolved E px w2 = Some (b, w3)"
      "(if b then ble_on_services_resolved E px w3 else Some w3) = Some w'"
      by (auto simp: ready_device_def 1 2 split: option.splits)
    have "world_inv E w3"
      by (rule calls_only_inv [OF ble_services_are_resolved_calls_only [OF 3(1)] calls_only_inv [OF c2 inv]])
    with 3(2) have "quiet w3 w'" by (auto intro: quiet_on_services_resolved split: if_splits)
    with c2 quiet_query [OF 3(1)] show ?thesis by (blast intro: quiet_trans)
  qed
qed

lemma quiet_ready_devices: "world_inv E w \<Longrightarrow> ready_devices E ps w = Some w' \<Longrightarrow> quiet w w'"
  by (induction ps arbitrary: w)
    (auto split: option.splits intro: quiet_trans [OF quiet_ready_device] dest: ready_device_inv)

lemma quiet_unregistered [simp, intro]: "quiet w (device_unregistered i b w)" "quiet w (device_registered i w)"
  by (simp_all add: device_unregistered_def device_registered_def split: option.split)

lemma quiet_edge:
  assumes "handle_edge E e w = Some w'"
  shows "quiet w w'"
proof (cases e)
  case (Resource_written d ob i re ops v)
  with assms show ?thesis by (auto intro: quiet_resource_callback)
next
  case Pt_registered
  with assms show ?thesis
    by (auto simp: protocol_translator_registration_success_def
        intro: quiet_trans [OF quiet_call quiet_calls [OF register_all_calls_only]])
qed (use assms in \<open>auto simp: protocol_translator_registration_failure_def
    device_registration_success_def device_registration_failure_def device_unregistration_success_def
    device_unregistration_failure_def connection_ready_handler_def disconnected_handler_def shutdown_cb_handler_def
    intro: quiet_trans [OF quiet_flag(1) quiet_idle] quiet_trans [OF quiet_flag(2) quiet_idle]
    split: if_splits\<close>)

lemma quiet_client_thread [simp, intro]: "quiet w (protocol_translator_api_start_func E args w)"
  by (auto simp: protocol_translator_api_start_func_def ask_defs Let_def quiet_def call_def)

lemma quiet_handle:
  assumes inv: "world_inv E w" and E: "source_ids E" "edge_creates E"
    and r: "handle E args e w = Some w'" and e: "e \<noteq> Idle" "e \<noteq> Unix_signal"
  shows "quiet w w'"
proof (cases e)
  case (Object_removed path)
  with r show ?thesis by (auto simp: ble_on_object_removed_def split: option.split)
next
  case (Remove_done d)
  with r show ?thesis by (auto simp: ble_remove_device_done_def split: option.split)
next
  case Read_timer
  with r show ?thesis by (auto simp: ble_read_everything_def split: if_splits dest: read_devices_calls_only)
next
  case (Object_added path ifs)
  with r show ?thesis by (auto simp: ble_on_object_added_def split: if_splits dest: quiet_new_device)
qed (use assms in \<open>auto intro: quiet_retry quiet_properties quiet_connect_done quiet_read_callback quiet_edge\<close>)

section \<open>The invariant of a shutdown\<close>

definition quit_inv :: "ble_world \<Rightarrow> bool" where
  "quit_inv w \<longleftrightarrow>
     (unregistering_devices w \<longrightarrow> \<not> global_keep_running w) \<and>
     (unregistering_devices w \<and> devices w = [] \<longrightarrow> Pt_ble_g_main_quit_loop \<in> set (idle_queue w) \<or> loop_quit w)"

definition shutdown_inv :: "phase \<times> ble_world \<Rightarrow> bool" where
  "shutdown_inv c \<longleftrightarrow> quit_inv (snd c) \<and> (fst c = Starting \<longrightarrow> \<not> unregistering_devices (snd c))"

lemma quiet_quit_inv: "quiet w w' \<Longrightarrow> quit_inv w \<Longrightarrow> quit_inv w'"
  unfolding quiet_def quit_inv_def by blast

lemma graceful_quit_inv:
  assumes inv: "world_inv E w" and q: "quit_inv w" and r: "pt_ble_graceful_shutdown E w = Some w'"
  shows "quit_inv w'"
proof -
  obtain v where v: "pt_ble_graceful_shutdown E w = Some v" "world_inv E v" "unregistering_devices v"
    "\<not> global_keep_running v" "map d_ptr (devices v) = map d_ptr (devices w)"
    "set (idle_queue w) \<subseteq> set (idle_queue v)" "loop_quit v = loop_quit w"
    "\<not> unregistering_devices w \<and> devices v = [] \<longrightarrow> Pt_ble_g_main_quit_loop \<in> set (idle_queue v)"
    by (rule graceful_shutdown_inv [OF inv])
  moreover have "v = w'" using v(1) r by simp
  ultimately show ?thesis using q unfolding quit_inv_def by (metis map_is_Nil_conv subsetD)
qed

lemma idle_quit_inv:
  assumes inv: "world_inv E w" and q: "quit_inv w" and r: "handle_idle E w = Some w'"
  shows "quit_inv w'"
proof (cases "idle_queue w")
  case Nil
  with q r show ?thesis by (simp add: handle_idle_def)
next
  case (Cons t ts)
  let ?w = "w\<lparr>idle_queue := ts\<rparr>"
  have r1: "run_idle E t ?w = Some w'" using r Cons by (simp add: handle_idle_def)
  have inv1: "world_inv E ?w" using inv by simp
  have q1: "quit_inv ?w" if "t \<noteq> Pt_ble_g_main_quit_loop" using q that Cons by (auto simp: quit_inv_def)
  show ?thesis
  proof (cases t)
    case Pt_ble_g_main_quit_loop
    with r1 q show ?thesis
      by (cases "global_keep_running w")
        (auto simp: pt_ble_g_main_quit_loop_def g_main_loop_quit_def call_def quit_inv_def)
  next
    case Pt_ble_graceful_shutdown
    with graceful_quit_inv [OF inv1 q1] r1 show ?thesis by simp
  next
    case Pt_ble_pt_ready
    with quiet_quit_inv [OF quiet_ready_devices [OF inv1] q1] r1 show ?thesis by (simp add: pt_ble_pt_ready_def)
  qed (use r1 quiet_quit_inv [OF quiet_unregistered(1) q1] quiet_quit_inv [OF quiet_unregistered(2) q1] in auto)
qed

lemma handle_quit_inv:
  assumes "world_inv E w" and "source_ids E" "edge_creates E" and "quit_inv w" and "handle E args e w = Some w'"
  shows "quit_inv w'"
  using assms quiet_quit_inv [OF quiet_handle [OF assms(1-3,5)]]
  by (cases e) (auto intro: idle_quit_inv graceful_quit_inv)

text \<open>A round before the main loop does not start a shutdown.\<close>

lemma quiet_mode: "quiet w w' \<Longrightarrow> unregistering_devices w' = unregistering_devices w"
  by (simp add: quiet_def)

lemma calls_only_mode: "calls_only w w' \<Longrightarrow> unregistering_devices w' = unregistering_devices w"
  by (simp add: calls_only_fields)

lemma round_mode:
  assumes r: "ble_start_round E args w = Some (res, w')"
  shows "unregistering_devices w' = unregistering_devices w"
proof -
  note [simp] = calls_only_mode [OF power_on_calls_only] calls_only_mode [OF clear_cache_calls_only]
    calls_only_mode [OF discover_calls_only]
  have [simp]: "unregistering_devices (call e v) = unregistering_devices v" for e and v :: ble_world
    by (simp add: call_def)
  have k: "unregistering_devices v' = unregistering_devices v" if "ble_connect_to_known_devices E v = Some v'" for v v'
    using that by (auto simp: ble_connect_to_known_devices_def ask_defs split: option.splits
        dest!: quiet_known [THEN quiet_mode])
  have p: "unregistering_devices v' = unregistering_devices v" if "power_on_adapter E v = (b, v')" for b v v'
    using calls_only_mode [OF power_on_calls_only [of v E]] that by simp
  have d: "unregistering_devices v' = unregistering_devices v" if "ble_discover E v = (b, v')" for b v v'
    using calls_only_mode [OF discover_calls_only [of v E]] that by simp
  show ?thesis
    using r by (auto simp: ble_start_round_def ble_connect_to_dbus_def set_config_def ask_defs Let_def
        split: if_splits option.splits prod.splits dest!: k p d)
qed

lemma started_shutdown: "started E parse args c \<Longrightarrow> shutdown_inv c"
  by (erule started_world) (simp add: shutdown_inv_def quit_inv_def zero_world_def)

lemma out_mode [simp]: "unregistering_devices (snd (ble_start_out r w)) = unregistering_devices w"
  by (simp add: ble_start_out_def call_def)

lemma after_quit_inv: "quit_inv w \<Longrightarrow> quit_inv (snd (ble_start_out r (after_main_loop w)))"
  by (auto simp: quit_inv_def ble_start_out_def after_main_loop_def g_source_remove_def call_def)

lemma step_shutdown:
  assumes "step E args c c'" and q: "shutdown_inv c" and inv: "world_inv E (snd c)"
    and E: "source_ids E" "edge_creates E"
  shows "shutdown_inv c'"
  using assms(1)
proof cases
  case (round_fails w r w' w'')
  with round_mode [OF round_fails(3)] out_mode [of r w'] q show ?thesis
    by (simp add: shutdown_inv_def quit_inv_def)
next
  case (round_returns w r w' r' w'')
  with round_mode [OF round_returns(3)] out_mode [of r w'] q show ?thesis
    by (simp add: shutdown_inv_def quit_inv_def)
next
  case (round_runs w w')
  with round_mode [OF round_runs(3)] q show ?thesis by (simp add: shutdown_inv_def quit_inv_def)
next
  case (main_loop w e w')
  with handle_quit_inv [OF _ E _ main_loop(4)] inv q show ?thesis by (simp add: shutdown_inv_def)
next
  case (client_thread e w w' ph)
  have "unregistering_devices w' = unregistering_devices w"
    by (rule quiet_mode, rule quiet_handle [OF _ E client_thread(4)])
      (use client_thread inv in \<open>auto simp: main_thread_def\<close>)
  with client_thread handle_quit_inv [OF _ E _ client_thread(4)] inv q show ?thesis by (auto simp: shutdown_inv_def)
next
  case (again w w')
  then have "global_keep_running w" by (auto simp: ble_start_out_def after_main_loop_def g_source_remove_def call_def
        split: if_splits)
  with again q after_quit_inv [of w 0] out_mode [of 0 "after_main_loop w"] show ?thesis
    by (simp add: shutdown_inv_def quit_inv_def after_main_loop_def g_source_remove_def call_def)
next
  case (returns w r w')
  with q after_quit_inv [of w 0] show ?thesis by (simp add: shutdown_inv_def)
qed

interpretation quits: step_invariant "started E parse args" "step E args"
    "\<lambda>c. source_ids E \<and> edge_creates E \<longrightarrow> world_inv E (snd c) \<and> shutdown_inv c" for E parse args
  by unfold_locales (auto intro: started_inv started_shutdown step_world_inv step_shutdown)

lemma reachable_shutdown:
  "reachable E parse args c \<Longrightarrow> source_ids E \<Longrightarrow> edge_creates E \<Longrightarrow> shutdown_inv c"
  using reachable_steps [of E parse args c] quits.reached_inv [of E parse args _ c] by blast

section \<open>The main loop quits\<close>

text \<open>The main loop's idle tasks, run until it is told to quit, at most \<open>n\<close> of them.\<close>

fun drain_idle :: "env \<Rightarrow> nat \<Rightarrow> ble_world \<Rightarrow> ble_world option" where
  "drain_idle E 0 w = Some w"
| "drain_idle E (Suc n) w =
     (if loop_quit w \<or> idle_queue w = [] then Some w
      else (case handle_idle E w of None \<Rightarrow> None | Some w \<Rightarrow> drain_idle E n w))"

text \<open>With no device left and a shutdown on, no task but the one that quits changes more than the queue.\<close>

definition waiting :: "ble_world \<Rightarrow> bool" where
  "waiting w \<longleftrightarrow> unregistering_devices w \<and> \<not> global_keep_running w \<and> devices w = []"

lemma idle_waiting:
  assumes w: "waiting w" and t: "t \<noteq> Pt_ble_g_main_quit_loop"
  shows "\<exists>w' q. run_idle E t w = Some w' \<and> waiting w' \<and> idle_queue w' = idle_queue w @ q \<and> loop_quit w' = loop_quit w"
  using assms
  by (cases t) (auto simp: waiting_def pt_ble_graceful_shutdown_def unregister_devices_def pt_ble_pt_ready_def
      device_registered_def device_unregistered_def)

lemma drain_waiting:
  "waiting w \<Longrightarrow> \<not> loop_quit w \<Longrightarrow> idle_queue w = ts @ Pt_ble_g_main_quit_loop # us \<Longrightarrow>
   Pt_ble_g_main_quit_loop \<notin> set ts \<Longrightarrow> length ts < n \<Longrightarrow>
   \<exists>w'. drain_idle E n w = Some w' \<and> waiting w' \<and> loop_quit w'"
proof (induction n arbitrary: w ts us)
  case (Suc n)
  show ?case
  proof (cases ts)
    case Nil
    with Suc.prems have "handle_idle E w = Some (g_main_loop_quit (w\<lparr>idle_queue := us\<rparr>))"
      by (simp add: handle_idle_def pt_ble_g_main_quit_loop_def waiting_def)
    moreover have "drain_idle E n (g_main_loop_quit (w\<lparr>idle_queue := us\<rparr>)) = Some (g_main_loop_quit (w\<lparr>idle_queue := us\<rparr>))"
      by (cases n) (simp_all add: g_main_loop_quit_def call_def)
    ultimately show ?thesis using Suc.prems Nil
      by (auto simp: waiting_def g_main_loop_quit_def call_def)
  next
    case (Cons t ts')
    let ?w = "w\<lparr>idle_queue := ts' @ Pt_ble_g_main_quit_loop # us\<rparr>"
    have "waiting ?w" "t \<noteq> Pt_ble_g_main_quit_loop" using Suc.prems Cons by (auto simp: waiting_def)
    from idle_waiting [OF this, of E] obtain w' q where w': "run_idle E t ?w = Some w'" "waiting w'"
      "idle_queue w' = ts' @ Pt_ble_g_main_quit_loop # us @ q" "loop_quit w' = loop_quit w"
      by auto
    have "\<exists>w''. drain_idle E n w' = Some w'' \<and> waiting w'' \<and> loop_quit w''"
      by (rule Suc.IH [OF w'(2) _ w'(3)]) (use Suc.prems Cons w' in auto)
    then show ?thesis using Suc.prems Cons w'(1) by (simp add: handle_idle_def)
  qed
qed simp

lemma waiting_returns:
  assumes "waiting w" and "loop_quit w"
  shows "\<exists>w'. step E args (Running, w) (Returned 0, w')"
proof -
  have "ble_start_out 0 (after_main_loop w) = (Inl 0, (after_main_loop w)\<lparr>cfg_white_list := None\<rparr>)"
    using assms by (simp add: ble_start_out_def waiting_def after_main_loop_def g_source_remove_def call_def)
  with assms(2) show ?thesis by (blast intro: step.returns)
qed

lemma drain_reachable:
  "reachable E parse args (Running, w) \<Longrightarrow> drain_idle E n w = Some w' \<Longrightarrow> reachable E parse args (Running, w')"
proof (induction n arbitrary: w)
  case (Suc n)
  show ?case
  proof (cases "loop_quit w \<or> idle_queue w = []")
    case False
    with Suc.prems obtain w1 where 1: "handle_idle E w = Some w1" "drain_idle E n w1 = Some w'"
      by (auto split: option.splits)
    have "enabled w Idle" using False by (simp add: enabled_def main_thread_def)
    then have "reachable E parse args (Running, w1)"
      using 1(1) by (intro reachable.step [OF Suc.prems(1)] step.main_loop [of w Idle]) simp_all
    then show ?thesis using 1(2) by (rule Suc.IH)
  qed (use Suc.prems in simp)
qed simp

text \<open>
  C3: A shutdown ends. In every reachable state of the running main loop in which the devices are
  being unregistered and none is left, the callbacks already queued (no more than the queue
  holds) bring the loop to its end, and \<open>ble_start\<close> then returns 0. It needs Edge never to refuse
  a new device.
\<close>

theorem shutdown_returns:
  assumes "reachable E parse args (Running, w)" and "source_ids E" and "edge_creates E"
    and "unregistering_devices w" and "devices w = []"
  shows "\<exists>w1 w2. drain_idle E (length (idle_queue w)) w = Some w1 \<and> reachable E parse args (Running, w1) \<and>
    loop_quit w1 \<and> step E args (Running, w1) (Returned 0, w2)"
proof -
  have q: "quit_inv w" using reachable_shutdown [OF assms(1-3)] by (simp add: shutdown_inv_def)
  then have w: "waiting w" using assms by (simp add: waiting_def quit_inv_def)
  show ?thesis
  proof (cases "loop_quit w")
    case True
    then have "drain_idle E (length (idle_queue w)) w = Some w" by (cases "length (idle_queue w)") simp_all
    with waiting_returns [OF w True] assms(1) True show ?thesis by blast
  next
    case False
    with q assms have "Pt_ble_g_main_quit_loop \<in> set (idle_queue w)" by (simp add: quit_inv_def)
    then obtain ts us where t: "idle_queue w = ts @ Pt_ble_g_main_quit_loop # us" "Pt_ble_g_main_quit_loop \<notin> set ts"
      by (meson split_list_first)
    then have "length ts < length (idle_queue w)" by simp
    from drain_waiting [OF w False t this, of E] obtain w' where
      "drain_idle E (length (idle_queue w)) w = Some w'" "waiting w'" "loop_quit w'" by blast
    with drain_reachable [OF assms(1)] waiting_returns show ?thesis by blast
  qed
qed

lemma run_env_creates: "edge_creates (run_env PT_STATUS_SUCCESS)"
  by (simp add: edge_creates_def)

lemmas shutdown_defs = run_defs pt_ble_graceful_shutdown_def unregister_devices_def ble_remove_device_def
  device_stop_retry_timer_def handle_idle_def pt_ble_g_main_quit_loop_def pt_ble_pt_ready_def
  ready_device_def edge_device_exists_def devices_create_pt_device_def edge_create_device_def edge_is_connected_def
  connect_succeeded_def device_update_last_connected_timestamp_def devices_del_device_def device_free_def
  ble_remove_device_done_def ble_is_device_interface_proxy_def

definition stopped_run :: "ble_world option" where
  "stopped_run = run_translator (run_env PT_STATUS_SUCCESS) run_parse run_args
     [Edge (Connection_ready 7), Edge Client_shutdown, Idle, Idle]"

lemma stopped_run_ends:
  "\<exists>w. stopped_run = Some w \<and> unregistering_devices w \<and> devices w = [] \<and> idle_queue w = [Pt_ble_g_main_quit_loop, Pt_ble_g_main_quit_loop]"
  by (simp add: stopped_run_def shutdown_defs shutdown_cb_handler_def)

theorem shutdown_returns_witness:
  "\<exists>w w1 w2. stopped_run = Some w \<and> drain_idle (run_env PT_STATUS_SUCCESS) 2 w = Some w1 \<and>
     step (run_env PT_STATUS_SUCCESS) run_args (Running, w1) (Returned 0, w2)"
proof -
  obtain w where w: "stopped_run = Some w" "unregistering_devices w" "devices w = []" "length (idle_queue w) = 2"
    using stopped_run_ends by auto
  have "reachable (run_env PT_STATUS_SUCCESS) run_parse run_args (Running, w)"
    using w(1) by (intro run_translator_reachable) (simp add: stopped_run_def)
  from shutdown_returns [OF this run_env_source_ids run_env_creates w(2,3)] w(1,4) show ?thesis by auto
qed

section \<open>A shutdown that hangs\<close>


end
