(* ===== verification/Mqtt_Messages.thy ===== *)
theory Mqtt_Messages
  imports Ipso_Objects
begin

text \<open>
  The MQTT translator (\<^verbatim>\<open>mqttpt-example/mqttpt_example.c\<close>): its state, the messages it
  publishes and the handlers of the library's callbacks. The heap copy of a request's
  identifier that travels through the library as user data is the identifier itself; releasing
  memory is not represented, and a \<open>strdup\<close> whose result the code does not test is taken to succeed.
  \<open>None\<close> is undefined behaviour.
\<close>

section \<open>State\<close>

text \<open>
  The list of registered devices, the connection, and the two semaphores, by their values.
\<close>

record mqtt_world = ext +
  mqttpt_devices :: "string list"
  mq_connection_id :: conn
  mqttpt_translator_started :: nat
  mosquitto_stop :: nat

text \<open>
  The pure functions of the libraries: jansson's parser and its check of strings, the base64
  codec of mbed-edge with the sizes it asks for, the numbers of \<open>pt_status_t\<close> and the bits of an
  operation mask.
\<close>

record mqtt_libs =
  json_loads :: "string \<Rightarrow> json option"
  utf8_valid :: "string \<Rightarrow> bool"
  apr_base64_encode_len :: "nat \<Rightarrow> nat"
  apr_base64_encode_binary :: "bytes \<Rightarrow> string"
  apr_base64_decode_len :: "string \<Rightarrow> nat"
  apr_base64_decode_binary :: "string \<Rightarrow> bytes"
  status_code :: "pt_status \<Rightarrow> int"
  operations_of_mask :: "u8 \<Rightarrow> operations"

text \<open>\<open>sprintf("%d")\<close>.\<close>

definition decimal_int :: "int \<Rightarrow> string" where
  "decimal_int n = (if n < 0 then CHR ''-'' # decimal (nat (- n)) else decimal (nat n))"

text \<open>
  \<open>calloc\<close> of one structure and \<open>strdup\<close>: whether they succeed. No branch depends on the size of
  a structure, which is taken as 1.
\<close>

definition calloc_struct :: "env \<Rightarrow> 'a ext_scheme \<Rightarrow> bool \<times> 'a ext_scheme" where
  "calloc_struct E w = malloc E 1 w"

definition strdup :: "env \<Rightarrow> string \<Rightarrow> 'a ext_scheme \<Rightarrow> bool \<times> 'a ext_scheme" where
  "strdup E s w = malloc E (length s + 1) w"

section \<open>Devices that are registered\<close>

definition mqttpt_add_device :: "env \<Rightarrow> string option \<Rightarrow> mqtt_world \<Rightarrow> mqtt_world" where
  "mqttpt_add_device E deveui w =
     (case deveui of
        None \<Rightarrow> w
      | Some d \<Rightarrow>
          let (device, w) = calloc_struct E w
          in if \<not> device then w else w\<lparr>mqttpt_devices := mqttpt_devices w @ [d]\<rparr>)"

definition mqttpt_device_exists :: "string \<Rightarrow> mqtt_world \<Rightarrow> bool" where
  "mqttpt_device_exists deveui w = (deveui \<in> set (mqttpt_devices w))"

definition create_pt_api_request_userdata :: "env \<Rightarrow> string \<Rightarrow> 'a ext_scheme \<Rightarrow> string option \<times> 'a ext_scheme" where
  "create_pt_api_request_userdata E request_id w =
     (let (userdata, w) = calloc_struct E w; (request_id_copy, w) = strdup E request_id w
      in (if \<not> userdata \<or> \<not> request_id_copy then None else Some request_id, w))"

section \<open>The thread of the translator\<close>

definition sem_post_started :: "mqtt_world \<Rightarrow> mqtt_world" where
  "sem_post_started w = w\<lparr>mqttpt_translator_started := mqttpt_translator_started w + 1\<rparr>"

definition mqttpt_translator_thread_routine :: "mqtt_world \<Rightarrow> mqtt_world" where
  "mqttpt_translator_thread_routine w = call (Pt (PtClientStart ''testing-mqtt'')) w"

definition mqttpt_start_translator :: "mqtt_world \<Rightarrow> mqtt_world" where
  "mqttpt_start_translator w =
     (if mqttpt_translator_started w = 0 then sem_post_started (call (Sys ThreadCreate) w) else w)"

section \<open>Publishing\<close>

definition publish_to_mqtt :: "env \<Rightarrow> string \<Rightarrow> json \<Rightarrow> mqtt_world \<Rightarrow> mqtt_world" where
  "publish_to_mqtt E topic json_message w =
     (let (result_string, w) = ask_ok E (Mq (JsonDumps json_message)) w
      in if \<not> result_string then w else call (Mq (MqPublish topic json_message)) w)"

text \<open>\<open>json_string\<close>: NULL for NULL and for a string that is not UTF-8.\<close>

definition json_string :: "mqtt_libs \<Rightarrow> string option \<Rightarrow> json option" where
  "json_string L s =
     (case s of None \<Rightarrow> None | Some t \<Rightarrow> if utf8_valid L t then Some (JString t) else None)"

text \<open>\<open>json_object\<close>, the members given, and \<open>publish_to_mqtt\<close>.\<close>

definition publish_object :: "env \<Rightarrow> string \<Rightarrow> (string \<times> json option) list \<Rightarrow> mqtt_world \<Rightarrow> mqtt_world" where
  "publish_object E topic members w =
     (let (result_json, w) = ask_ok E (Mq JsonNew) w
      in if \<not> result_json then w
         else publish_to_mqtt E topic (JObject (foldl (\<lambda>ms (k, v). json_set ms k v) [] members)) w)"

definition construct_and_send_success ::
  "mqtt_libs \<Rightarrow> env \<Rightarrow> string option \<Rightarrow> string option \<Rightarrow> mqtt_world \<Rightarrow> mqtt_world" where
  "construct_and_send_success L E request_id value =
     publish_object E ''MQTTPt/RequestResponse''
       [(''request_id'', json_string L request_id), (''value'', json_string L value)]"

definition construct_and_send_failure ::
  "mqtt_libs \<Rightarrow> env \<Rightarrow> string option \<Rightarrow> string option \<Rightarrow> mqtt_world \<Rightarrow> mqtt_world" where
  "construct_and_send_failure L E request_id error =
     publish_object E ''MQTTPt/RequestResponse''
       [(''request_id'', json_string L request_id), (''error'', json_string L error)]"

definition construct_and_send_certificate_renewal_notification ::
  "mqtt_libs \<Rightarrow> env \<Rightarrow> string option \<Rightarrow> string option \<Rightarrow> mqtt_world \<Rightarrow> mqtt_world" where
  "construct_and_send_certificate_renewal_notification L E certificate message =
     publish_object E ''MQTTPt/CertificateRenewal''
       [(''certificate'', json_string L certificate), (''message'', json_string L message)]"

definition construct_and_send_device_notification ::
  "mqtt_libs \<Rightarrow> env \<Rightarrow> string \<Rightarrow> string option \<Rightarrow> mqtt_world \<Rightarrow> mqtt_world" where
  "construct_and_send_device_notification L E message dev_ui =
     publish_object E ''MQTTPt/DeviceRegistration''
       ((''message'', json_string L (Some message)) #
        (if dev_ui \<noteq> None then [(''device'', json_string L dev_ui)] else []))"

definition construct_and_send_translator_registration_notification ::
  "mqtt_libs \<Rightarrow> env \<Rightarrow> string \<Rightarrow> mqtt_world \<Rightarrow> mqtt_world" where
  "construct_and_send_translator_registration_notification L E message =
     publish_object E ''MQTTPt/TranslatorRegistration'' [(''message'', json_string L (Some message))]"

text \<open>
  A certificate chain is its announced length and the list of its certificates. The loop runs
  \<open>n\<close> more times on the current certificate; \<open>None\<close> when memory runs out. \<open>json_array_append_new\<close> of
  NULL leaves the array alone.
\<close>

fun certificate_array ::
  "mqtt_libs \<Rightarrow> env \<Rightarrow> nat \<Rightarrow> bytes option \<Rightarrow> json list \<Rightarrow> mqtt_world \<Rightarrow> json list option \<times> mqtt_world" where
  "certificate_array L E 0 cur_cert arr w = (Some arr, w)"
| "certificate_array L E (Suc n) cur_cert arr w =
     (case cur_cert of
        None \<Rightarrow> (Some arr, w)
      | Some cert \<Rightarrow>
          let (cur_cert_data, w) = malloc E (apr_base64_encode_len L (length cert)) w
          in if \<not> cur_cert_data then (None, w)
             else certificate_array L E n cur_cert
                    (arr @ (case json_string L (Some (apr_base64_encode_binary L cert)) of
                              None \<Rightarrow> [] | Some j \<Rightarrow> [j])) w)"

definition construct_and_send_device_certificate_renewal_notification ::
  "mqtt_libs \<Rightarrow> env \<Rightarrow> string option \<Rightarrow> string option \<Rightarrow> (int \<times> bytes list) option \<Rightarrow> mqtt_world \<Rightarrow> mqtt_world" where
  "construct_and_send_device_certificate_renewal_notification L E request_id cert_name cert_chain w =
     (let (result_json, w) = ask_ok E (Mq JsonNew) w
      in if \<not> result_json then w else
         let (certs, w) =
               (case cert_chain of
                  None \<Rightarrow> (Some [], w)
                | Some (chain_length, certs) \<Rightarrow>
                    certificate_array L E (nat chain_length) (case certs of [] \<Rightarrow> None | c # _ \<Rightarrow> Some c) [] w)
         in publish_to_mqtt E ''MQTTPt/DeviceCertificateRenewal''
              (JObject (foldl (\<lambda>ms (k, v). json_set ms k v) []
                 [(''request_id'', json_string L request_id), (''certificate_name'', json_string L cert_name),
                  (''certificate_chain'', Some (JArray (case certs of None \<Rightarrow> [] | Some js \<Rightarrow> js)))])) w)"

definition construct_and_send_device_certificate_renewal_request ::
  "mqtt_libs \<Rightarrow> env \<Rightarrow> string option \<Rightarrow> string option \<Rightarrow> mqtt_world \<Rightarrow> mqtt_world" where
  "construct_and_send_device_certificate_renewal_request L E device_name cert_name =
     publish_object E ''MQTTPt/DeviceCertificateRenewalRequest''
       [(''device'', json_string L device_name), (''certificate_name'', json_string L cert_name)]"

section \<open>Callbacks of the library\<close>

definition mqttpt_device_register_success_handler ::
  "mqtt_libs \<Rightarrow> env \<Rightarrow> string option \<Rightarrow> mqtt_world \<Rightarrow> mqtt_world" where
  "mqttpt_device_register_success_handler L E ctx w =
     (if ctx \<noteq> None
      then mqttpt_add_device E ctx (construct_and_send_device_notification L E ''successful_registration'' ctx w)
      else w)"

definition mqttpt_device_register_failure_handler ::
  "mqtt_libs \<Rightarrow> env \<Rightarrow> string option \<Rightarrow> mqtt_world \<Rightarrow> mqtt_world" where
  "mqttpt_device_register_failure_handler L E ctx =
     construct_and_send_device_notification L E ''failed_registration'' ctx"

definition mqttpt_devices_unregister_success_handler :: "mqtt_libs \<Rightarrow> env \<Rightarrow> mqtt_world \<Rightarrow> mqtt_world" where
  "mqttpt_devices_unregister_success_handler L E w =
     call (Pt PtClientShutdown) (construct_and_send_device_notification L E ''successful_unregistration'' None w)"

definition mqttpt_devices_unregister_failure_handler :: "mqtt_libs \<Rightarrow> env \<Rightarrow> mqtt_world \<Rightarrow> mqtt_world" where
  "mqttpt_devices_unregister_failure_handler L E w =
     call (Pt PtClientShutdown) (construct_and_send_device_notification L E ''failed_unregistration'' None w)"

definition mqttpt_protocol_translator_registration_success_handler ::
  "mqtt_libs \<Rightarrow> env \<Rightarrow> mqtt_world \<Rightarrow> mqtt_world" where
  "mqttpt_protocol_translator_registration_success_handler L E w =
     construct_and_send_translator_registration_notification L E ''successful_registration'' (sem_post_started w)"

definition mqttpt_protocol_translator_registration_failure_handler ::
  "mqtt_libs \<Rightarrow> env \<Rightarrow> mqtt_world \<Rightarrow> mqtt_world" where
  "mqttpt_protocol_translator_registration_failure_handler L E w =
     construct_and_send_translator_registration_notification L E ''failed_registration''
       (w\<lparr>mosquitto_stop := mosquitto_stop w + 1\<rparr>)"

definition mqtt_minmax_reset_callback :: pt_status where "mqtt_minmax_reset_callback = PT_STATUS_SUCCESS"
definition mqtt_write_callback :: pt_status where "mqtt_write_callback = PT_STATUS_SUCCESS"
definition mqtt_example_callback :: pt_status where "mqtt_example_callback = PT_STATUS_SUCCESS"

definition mqttpt_connection_ready_handler :: "conn \<Rightarrow> mqtt_world \<Rightarrow> mqtt_world" where
  "mqttpt_connection_ready_handler connection_id w = w\<lparr>mq_connection_id := connection_id\<rparr>"

definition mqtt_certificate_renewal_notification_handler ::
  "mqtt_libs \<Rightarrow> env \<Rightarrow> string option \<Rightarrow> string option \<Rightarrow> mqtt_world \<Rightarrow> mqtt_world" where
  "mqtt_certificate_renewal_notification_handler L E name description =
     construct_and_send_certificate_renewal_notification L E name description"

definition mqtt_device_certificate_renewal_request_handler ::
  "mqtt_libs \<Rightarrow> env \<Rightarrow> string option \<Rightarrow> string option \<Rightarrow> mqtt_world \<Rightarrow> pt_status \<times> mqtt_world" where
  "mqtt_device_certificate_renewal_request_handler L E device_id name w =
     (PT_STATUS_SUCCESS, construct_and_send_device_certificate_renewal_request L E device_id name w)"

section \<open>Callbacks of requests\<close>

text \<open>The user data of a renewal holds the certificate's name as well.\<close>

definition certificate_renew_success_handler ::
  "mqtt_libs \<Rightarrow> env \<Rightarrow> string \<Rightarrow> string \<Rightarrow> mqtt_world \<Rightarrow> mqtt_world" where
  "certificate_renew_success_handler L E request_id certificate =
     construct_and_send_success L E (Some request_id) (Some certificate)"

definition certificate_renew_failure_handler ::
  "mqtt_libs \<Rightarrow> env \<Rightarrow> string \<Rightarrow> string \<Rightarrow> mqtt_world \<Rightarrow> mqtt_world" where
  "certificate_renew_failure_handler L E request_id certificate =
     construct_and_send_failure L E (Some request_id)
       (Some (snprintf_buf 256 (''Certificate renew failed for certificate '' @ [char_of (39 :: nat)] @ certificate @
          [char_of (39 :: nat)])))"

definition get_item_success_handler ::
  "mqtt_libs \<Rightarrow> env \<Rightarrow> bytes \<Rightarrow> string \<Rightarrow> mqtt_world \<Rightarrow> mqtt_world" where
  "get_item_success_handler L E data request_id w =
     (let (encoded_msg, w) = malloc E (apr_base64_encode_len L (length data)) w
      in if \<not> encoded_msg then w
         else construct_and_send_success L E (Some request_id) (Some (apr_base64_encode_binary L data)) w)"

definition get_item_failure_handler :: "mqtt_libs \<Rightarrow> env \<Rightarrow> string \<Rightarrow> mqtt_world \<Rightarrow> mqtt_world" where
  "get_item_failure_handler L E request_id =
     construct_and_send_failure L E (Some request_id) (Some ''Getting item failed'')"

definition crypto_success_handler ::
  "mqtt_libs \<Rightarrow> env \<Rightarrow> bytes option \<Rightarrow> string \<Rightarrow> mqtt_world \<Rightarrow> mqtt_world" where
  "crypto_success_handler L E data request_id w =
     (case data of
        Some d \<Rightarrow>
          let (encoded_msg, w) = malloc E (apr_base64_encode_len L (length d)) w
          in if \<not> encoded_msg then w
             else construct_and_send_success L E (Some request_id) (Some (apr_base64_encode_binary L d)) w
      | None \<Rightarrow> construct_and_send_success L E (Some request_id) (Some ''ok'') w)"

definition crypto_failure_handler :: "mqtt_libs \<Rightarrow> env \<Rightarrow> int \<Rightarrow> string \<Rightarrow> mqtt_world \<Rightarrow> mqtt_world" where
  "crypto_failure_handler L E error_code request_id =
     construct_and_send_failure L E (Some request_id) (Some (decimal_int error_code))"

definition certificates_set_success_handler :: "mqtt_libs \<Rightarrow> env \<Rightarrow> string \<Rightarrow> mqtt_world \<Rightarrow> mqtt_world" where
  "certificates_set_success_handler L E request_id =
     construct_and_send_success L E (Some request_id) (Some ''ok'')"

definition certificates_set_failure_handler :: "mqtt_libs \<Rightarrow> env \<Rightarrow> string \<Rightarrow> mqtt_world \<Rightarrow> mqtt_world" where
  "certificates_set_failure_handler L E request_id =
     construct_and_send_failure L E (Some request_id) (Some ''Could not set certificate list!'')"

definition device_certificate_renew_success_handler ::
  "mqtt_libs \<Rightarrow> env \<Rightarrow> conn \<Rightarrow> string \<Rightarrow> string option \<Rightarrow> (int \<times> bytes list) option \<Rightarrow> string \<Rightarrow> mqtt_world \<Rightarrow> mqtt_world" where
  "device_certificate_renew_success_handler L E connection_id device_id name cert_chain request_id w =
     construct_and_send_device_certificate_renewal_notification L E (Some request_id) name cert_chain
       (call (Pt (PtDeviceCertificateRenewFinish connection_id device_id True)) w)"

definition device_certificate_renew_failure_handler ::
  "mqtt_libs \<Rightarrow> env \<Rightarrow> conn \<Rightarrow> string \<Rightarrow> int \<Rightarrow> string \<Rightarrow> mqtt_world \<Rightarrow> mqtt_world" where
  "device_certificate_renew_failure_handler L E connection_id device_id status request_id w =
     construct_and_send_failure L E (Some request_id)
       (Some (snprintf_buf 64 (''Device certificate renew failed (error '' @ decimal_int status @ '')'')))
       (call (Pt (PtDeviceCertificateRenewFinish connection_id device_id False)) w)"

end
