(* ===== verification/Mqtt_Requests.thy ===== *)
theory Mqtt_Requests
  imports Mqtt_Messages
begin

text \<open>
  The gateway requests of the MQTT translator: certificates, keys, random numbers, signatures and
  starting the translator (\<^verbatim>\<open>mqttpt-example/mqttpt_example.c\<close>). \<open>None\<close> is undefined behaviour:
  NULL given to a string function, or an uninitialised pointer released.
\<close>

section \<open>Certificates\<close>

text \<open>The loop over the array: entries that are not strings are skipped.\<close>

fun certificate_list :: "json list \<Rightarrow> string list" where
  "certificate_list [] = []"
| "certificate_list (json_certificate # js) =
     (case json_string_value (Some json_certificate) of
        Some certificate \<Rightarrow> certificate # certificate_list js
      | None \<Rightarrow> certificate_list js)"

definition set_certificates_list :: "env \<Rightarrow> string \<Rightarrow> json \<Rightarrow> mqtt_world \<Rightarrow> pt_status \<times> mqtt_world" where
  "set_certificates_list E request_id params w =
     (let list = certificate_list (json_elements (json_object_get params ''certificates''));
          (userdata, w) = calloc_struct E w in
      if \<not> userdata then (PT_STATUS_ALLOCATION_FAIL, w) else
      let (request_id_copy, w) = strdup E request_id w in
      if \<not> request_id_copy then (PT_STATUS_ALLOCATION_FAIL, w) else
      ask_status E (Pt (PtCertificateRenewalListSet (mq_connection_id w) list request_id)) w)"

definition renew_certificate :: "env \<Rightarrow> string \<Rightarrow> json \<Rightarrow> mqtt_world \<Rightarrow> (pt_status \<times> mqtt_world) option" where
  "renew_certificate E request_id params w =
     (let (userdata, w) = calloc_struct E w in
      if \<not> userdata then Some (PT_STATUS_ALLOCATION_FAIL, w) else
      case json_string_value (json_object_get params ''certificate'') of
        None \<Rightarrow> None
      | Some certificate \<Rightarrow>
          let (certificate_copy, w) = strdup E certificate w; (request_id_copy, w) = strdup E request_id w
          in Some (if \<not> request_id_copy \<or> \<not> certificate_copy then (PT_STATUS_ALLOCATION_FAIL, w)
                   else ask_status E (Pt (PtCertificateRenew (mq_connection_id w) certificate request_id)) w))"

section \<open>Requests to the crypto API\<close>

text \<open>The user data is created and the library asked.\<close>

definition crypto_call :: "env \<Rightarrow> string \<Rightarrow> crypto_request \<Rightarrow> mqtt_world \<Rightarrow> pt_status \<times> mqtt_world" where
  "crypto_call E request_id request w =
     (let (userdata, w) = create_pt_api_request_userdata E request_id w
      in case userdata of
           None \<Rightarrow> (PT_STATUS_ALLOCATION_FAIL, w)
         | Some rid \<Rightarrow> ask_status E (Pt (PtCrypto (mq_connection_id w) request rid)) w)"

definition get_certificate :: "env \<Rightarrow> string \<Rightarrow> json \<Rightarrow> mqtt_world \<Rightarrow> pt_status \<times> mqtt_world" where
  "get_certificate E request_id params w =
     (case json_string_value (json_object_get params ''certificate'') of
        Some certificate \<Rightarrow> crypto_call E request_id (GetCertificate certificate) w
      | None \<Rightarrow> (PT_STATUS_INVALID_PARAMETERS, w))"

definition get_public_key :: "env \<Rightarrow> string \<Rightarrow> json \<Rightarrow> mqtt_world \<Rightarrow> pt_status \<times> mqtt_world" where
  "get_public_key E request_id params w =
     (case json_string_value (json_object_get params ''key'') of
        Some public_key \<Rightarrow> crypto_call E request_id (GetPublicKey public_key) w
      | None \<Rightarrow> (PT_STATUS_INVALID_PARAMETERS, w))"

text \<open>\<open>size_t size\<close>: the JSON integer modulo the word size.\<close>

definition generate_random :: "env \<Rightarrow> string \<Rightarrow> json \<Rightarrow> mqtt_world \<Rightarrow> pt_status \<times> mqtt_world" where
  "generate_random E request_id params w =
     (let size = (word_of_int (json_integer_value (json_object_get params ''size'')) :: u64)
      in if size \<noteq> 0 then crypto_call E request_id (GenerateRandom (unat size)) w
         else (PT_STATUS_INVALID_PARAMETERS, w))"

text \<open>
  \<open>json_string_value\<close> of a parameter, room for what it decodes to, and the decoded bytes; \<open>None\<close>
  when it is NULL, \<open>Some (None, _)\<close> when there is no room.
\<close>

definition decode_parameter ::
  "mqtt_libs \<Rightarrow> env \<Rightarrow> json \<Rightarrow> string \<Rightarrow> mqtt_world \<Rightarrow> (bytes option \<times> mqtt_world) option" where
  "decode_parameter L E params key w =
     (case json_string_value (json_object_get params key) of
        None \<Rightarrow> None
      | Some encoded \<Rightarrow>
          let (decoded, w) = malloc E (apr_base64_decode_len L encoded) w
          in Some (if decoded then Some (apr_base64_decode_binary L encoded) else None, w))"

definition asymmetric_sign ::
  "mqtt_libs \<Rightarrow> env \<Rightarrow> string \<Rightarrow> json \<Rightarrow> mqtt_world \<Rightarrow> (pt_status \<times> mqtt_world) option" where
  "asymmetric_sign L E request_id params w =
     (case decode_parameter L E params ''hash_digest'' w of
        None \<Rightarrow> None
      | Some (None, w) \<Rightarrow> Some (PT_STATUS_ALLOCATION_FAIL, w)
      | Some (Some decoded_hash_digest, w) \<Rightarrow>
          Some (case json_string_value (json_object_get params ''private_key_name'') of
                  Some private_key_name \<Rightarrow>
                    crypto_call E request_id (AsymmetricSign private_key_name decoded_hash_digest) w
                | None \<Rightarrow> (PT_STATUS_INVALID_PARAMETERS, w)))"

text \<open>
  The room for the signature is not tested (the test names \<open>decoded_hash_digest\<close> again), so without
  it the signature is decoded through NULL.
\<close>

definition asymmetric_verify ::
  "mqtt_libs \<Rightarrow> env \<Rightarrow> string \<Rightarrow> json \<Rightarrow> mqtt_world \<Rightarrow> (pt_status \<times> mqtt_world) option" where
  "asymmetric_verify L E request_id params w =
     (case decode_parameter L E params ''hash_digest'' w of
        None \<Rightarrow> None
      | Some (None, w) \<Rightarrow> Some (PT_STATUS_ALLOCATION_FAIL, w)
      | Some (Some decoded_hash_digest, w) \<Rightarrow>
          (case decode_parameter L E params ''signature'' w of
             Some (Some decoded_signature, w) \<Rightarrow>
               Some (case json_string_value (json_object_get params ''public_key_name'') of
                       Some public_key_name \<Rightarrow>
                         crypto_call E request_id
                           (AsymmetricVerify public_key_name decoded_hash_digest decoded_signature) w
                     | None \<Rightarrow> (PT_STATUS_INVALID_PARAMETERS, w))
           | _ \<Rightarrow> None))"

definition ecdh_key_agreement ::
  "mqtt_libs \<Rightarrow> env \<Rightarrow> string \<Rightarrow> json \<Rightarrow> mqtt_world \<Rightarrow> (pt_status \<times> mqtt_world) option" where
  "ecdh_key_agreement L E request_id json_params w =
     (case decode_parameter L E json_params ''peer_public_key'' w of
        None \<Rightarrow> None
      | Some (None, w) \<Rightarrow> Some (PT_STATUS_ALLOCATION_FAIL, w)
      | Some (Some decoded_peer_public_key, w) \<Rightarrow>
          Some (case json_string_value (json_object_get json_params ''private_key_name'') of
                  Some private_key_name \<Rightarrow>
                    crypto_call E request_id (EcdhKeyAgreement private_key_name decoded_peer_public_key) w
                | None \<Rightarrow> (PT_STATUS_INVALID_PARAMETERS, w)))"

section \<open>Certificates of devices\<close>

text \<open>
  Without one of the parameters the jump to the exit passes the initialisation of \<open>req_id\<close>, which
  is then released: undefined.
\<close>

definition device_renew_certificate ::
  "mqtt_libs \<Rightarrow> env \<Rightarrow> string \<Rightarrow> json \<Rightarrow> mqtt_world \<Rightarrow> (pt_status \<times> mqtt_world) option" where
  "device_renew_certificate L E request_id json_params w =
     (case (json_string_value (json_object_get json_params ''device_name''),
            json_string_value (json_object_get json_params ''certificate_name''),
            json_string_value (json_object_get json_params ''csr'')) of
        (Some device_name, Some cert_name, Some csr) \<Rightarrow>
          let (decoded_csr, w) = malloc E (apr_base64_decode_len L csr) w; (req_id, w) = strdup E request_id w
          in Some (if \<not> decoded_csr \<or> \<not> req_id then (PT_STATUS_ALLOCATION_FAIL, w)
                   else ask_status E (Pt (PtDeviceCertificateRenew (mq_connection_id w) device_name cert_name
                          (apr_base64_decode_binary L csr) request_id)) w)
      | _ \<Rightarrow> None)"

section \<open>The dispatcher\<close>

definition request_with_params ::
  "mqtt_libs \<Rightarrow> env \<Rightarrow> string \<Rightarrow> string \<Rightarrow> json \<Rightarrow> mqtt_world \<Rightarrow> (pt_status \<times> mqtt_world) option" where
  "request_with_params L E method request_id params w =
     (if method = ''renew_certificate'' then renew_certificate E request_id params w
      else if method = ''set_certificates_list'' then Some (set_certificates_list E request_id params w)
      else if method = ''get_certificate'' then Some (get_certificate E request_id params w)
      else if method = ''get_public_key'' then Some (get_public_key E request_id params w)
      else if method = ''generate_random'' then Some (generate_random E request_id params w)
      else if method = ''asymmetric_sign'' then asymmetric_sign L E request_id params w
      else if method = ''asymmetric_verify'' then asymmetric_verify L E request_id params w
      else if method = ''ecdh_key_agreement'' then ecdh_key_agreement L E request_id params w
      else if method = ''device_renew_certificate'' then device_renew_certificate L E request_id params w
      else Some (PT_STATUS_ERROR, w))"

definition request_without_params :: "string \<Rightarrow> mqtt_world \<Rightarrow> pt_status \<times> mqtt_world" where
  "request_without_params method w =
     (if method = ''start_pt'' \<and> mqttpt_translator_started w = 0
      then (PT_STATUS_SUCCESS, mqttpt_start_translator w) else (PT_STATUS_ERROR, w))"

text \<open>A method that is not a string is compared as NULL: undefined.\<close>

definition mqttpt_translate_gw_status_message ::
  "mqtt_libs \<Rightarrow> env \<Rightarrow> string \<Rightarrow> mqtt_world \<Rightarrow> mqtt_world option" where
  "mqttpt_translate_gw_status_message L E payload w =
     (case json_loads L payload of
        None \<Rightarrow> Some w
      | Some json \<Rightarrow>
          let method = json_object_get json ''method''; params = json_object_get json ''params'';
              request_id = json_string_value (json_object_get json ''request_id'')
          in (case (case (method, request_id) of
                      (Some m, Some rid) \<Rightarrow>
                        (case json_string_value (Some m) of
                           None \<Rightarrow> None
                         | Some name \<Rightarrow>
                             if json_is_object params then request_with_params L E name rid (the params) w
                             else Some (request_without_params name w))
                    | _ \<Rightarrow> Some (PT_STATUS_INVALID_PARAMETERS, w)) of
                None \<Rightarrow> None
              | Some (status, w) \<Rightarrow>
                  Some (if status = PT_STATUS_SUCCESS
                        then construct_and_send_success L E request_id (Some ''handled'') w
                        else construct_and_send_failure L E request_id
                               (Some (decimal_int (status_code L status))) w)))"

end
