(* ===== verification/C_Double.thy ===== *)
theory C_Double
  imports C_Float
begin

text \<open>
  What the code uses of \<open>double\<close> and of \<^verbatim>\<open>stdlib.h\<close> besides \<open>C_Float\<close>: reading numbers from text
  (\<open>atoi\<close>, \<open>atof\<close>), and sums, quotients and signs of the pairs of a significand and an exponent.
\<close>

section \<open>Numbers in text\<close>

definition is_space :: "char \<Rightarrow> bool" where
  "is_space c = (let n = (of_char c :: nat) in n = 32 \<or> (9 \<le> n \<and> n \<le> 13))"

definition is_digit :: "char \<Rightarrow> bool" where
  "is_digit c = (let n = (of_char c :: nat) in 48 \<le> n \<and> n \<le> 57)"

definition digits_value :: "string \<Rightarrow> int" where
  "digits_value s = foldl (\<lambda>n c. 10 * n + (of_char c - 48)) 0 (takeWhile is_digit s)"

definition atoi :: "string \<Rightarrow> int option" where
  "atoi s =
     (let s = dropWhile is_space s;
          n = (case s of
                 c # t \<Rightarrow> if c = CHR ''-'' then - digits_value t
                          else if c = CHR ''+'' then digits_value t else digits_value s
               | [] \<Rightarrow> 0)
      in if - (2 ^ 31) \<le> n \<and> n < 2 ^ 31 then Some n else None)"

text \<open>A sign that may be missing, and what follows it.\<close>

fun sign_of :: "string \<Rightarrow> bool \<times> string" where
  "sign_of [] = (False, [])"
| "sign_of (c # s) =
     (if c = CHR ''-'' then (True, s) else if c = CHR ''+'' then (False, s) else (False, c # s))"

text \<open>The exponent after the digits of a number: without a digit there is none.\<close>

definition exponent_of :: "string \<Rightarrow> int" where
  "exponent_of s =
     (case s of
        c # t \<Rightarrow>
          if c = CHR ''e'' \<or> c = CHR ''E''
          then (let (neg, u) = sign_of t in if neg then - digits_value u else digits_value u) else 0
      | [] \<Rightarrow> 0)"

text \<open>
  A decimal number as its sign, an integer and a power of ten; without any digit it is zero.
  \<open>None\<close>: the other forms \<open>strtod\<close> reads (hexadecimal, infinity, NaN), which are not modelled.
\<close>

definition decimal_number :: "string \<Rightarrow> (bool \<times> int \<times> int) option" where
  "decimal_number s =
     (let (neg, s) = sign_of (dropWhile is_space s);
          whole = takeWhile is_digit s; rest = dropWhile is_digit s;
          (fraction, rest) =
            (case rest of
               c # t \<Rightarrow> if c = CHR ''.'' then (takeWhile is_digit t, dropWhile is_digit t) else ([], rest)
             | [] \<Rightarrow> ([], []))
      in if (case s of c # t \<Rightarrow> c \<in> {CHR ''i'', CHR ''I'', CHR ''n'', CHR ''N''} | [] \<Rightarrow> False) \<or>
            (case s of a # b # t \<Rightarrow> a = CHR ''0'' \<and> b \<in> {CHR ''x'', CHR ''X''} | _ \<Rightarrow> False)
         then None
         else if whole @ fraction = [] then Some (False, 0, 0)
         else Some (neg, digits_value (whole @ fraction), exponent_of rest - int (length fraction)))"

section \<open>Arithmetic\<close>

text \<open>A number with a sign: whether it is negative, and its size.\<close>

type_synonym signed = "bool \<times> int \<times> int"

definition atof :: "string \<Rightarrow> signed option" where
  "atof s =
     map_option
       (\<lambda>(neg, n, k). (neg, if 0 \<le> k then round_to 53 (-1074) (n * 10 ^ nat k) 1
                            else round_to 53 (-1074) n (10 ^ nat (- k))))
       (decimal_number s)"

definition double_add :: "int \<times> int \<Rightarrow> int \<times> int \<Rightarrow> int \<times> int" where
  "double_add x y =
     (let (n, d) = dyadic x; (n', d') = dyadic y in round_to 53 (-1074) (n * d' + n' * d) (d * d'))"

definition double_div_int :: "int \<times> int \<Rightarrow> int \<Rightarrow> int \<times> int" where
  "double_div_int x k = (let (n, d) = dyadic x in round_to 53 (-1074) n (d * k))"

text \<open>\<open>(float) n\<close> and the quotient of two floats, for numbers that are not negative.\<close>

definition float_of_nat :: "int \<Rightarrow> int \<times> int" where
  "float_of_nat n = round_to 24 (-149) n 1"

definition float_div :: "int \<times> int \<Rightarrow> int \<times> int \<Rightarrow> int \<times> int" where
  "float_div x y =
     (let (n, d) = dyadic x; (n', d') = dyadic y in round_to 24 (-149) (n * d') (d * n'))"

definition f32_of_signed :: "signed \<Rightarrow> f32" where
  "f32_of_signed x =
     (case x of (neg, m, e) \<Rightarrow>
        (if neg then 0x80000000 else 0) OR (if m = 0 then 0 else f32_of_pair (m, e)))"

end
