(* ===== verification/Mqtt_Values.thy ===== *)
theory Mqtt_Values
  imports Mqtt_Messages C_Double
begin

text \<open>
  The values of nodes: the messages \<open>Val\<close> and \<open>EdgeVal\<close>, the objects they create and the values they
  set (\<^verbatim>\<open>mqttpt-example/mqttpt_example.c\<close>). \<open>None\<close> is undefined behaviour: NULL given to
  \<open>atoi\<close>, \<open>strdup\<close> or \<open>strlen\<close>, or a number \<open>atoi\<close> cannot represent.
\<close>

section \<open>Numbers\<close>

text \<open>\<open>atoi(json_string_value(j))\<close>.\<close>

definition json_atoi :: "json option \<Rightarrow> int option" where
  "json_atoi j = Option.bind (json_string_value j) atoi"

section \<open>Objects\<close>

definition mqttpt_create_sensor_object ::
  "env \<Rightarrow> conn \<Rightarrow> string \<Rightarrow> int \<Rightarrow> int \<Rightarrow> string option \<Rightarrow> mqtt_world \<Rightarrow> bool \<times> mqtt_world" where
  "mqttpt_create_sensor_object E connection_id deveui object_id object_instance value w =
     (case value of
        None \<Rightarrow> (False, w)
      | Some v \<Rightarrow>
          let (value_buf, w) = strdup E v w in
          if \<not> value_buf then (False, w) else
          let (status, w) = ask_status E (Pt (PtAddResource connection_id deveui (word_of_int object_id)
                              (word_of_int object_instance) 5700 LWM2M_OPAQUE (string_bytes v))) w;
              (status, w) = ask_status E (Pt (PtAddResourceCb connection_id deveui (word_of_int object_id)
                              (word_of_int object_instance) 5605 LWM2M_OPAQUE {OPERATION_EXECUTE} []
                              cb_mqtt_minmax_reset_callback)) w
          in (status = PT_STATUS_SUCCESS, w))"

definition mqttpt_create_object ::
  "mqtt_libs \<Rightarrow> env \<Rightarrow> conn \<Rightarrow> string \<Rightarrow> int \<Rightarrow> int \<Rightarrow> int \<Rightarrow> string option \<Rightarrow> int \<Rightarrow> mqtt_world \<Rightarrow> bool \<times> mqtt_world" where
  "mqttpt_create_object L E connection_id deveui object_id object_instance resource_id value operations w =
     (case value of
        None \<Rightarrow> (False, w)
      | Some v \<Rightarrow>
          let (value_buf, w) = strdup E v w in
          if \<not> value_buf then (False, w) else
          let ob = word_of_int object_id; inst = word_of_int object_instance; res = word_of_int resource_id;
              (status, w) =
                (if operations = 1 then
                   ask_status E (Pt (PtAddResource connection_id deveui ob inst res LWM2M_OPAQUE (string_bytes v))) w
                 else if operations = 3 then
                   ask_status E (Pt (PtAddResourceCb connection_id deveui ob inst res LWM2M_OPAQUE
                     {OPERATION_READ, OPERATION_WRITE} (string_bytes v) cb_mqtt_write_callback)) w
                 else
                   ask_status E (Pt (PtAddResourceCb connection_id deveui ob inst res LWM2M_OPAQUE
                     (operations_of_mask L (word_of_int operations)) (string_bytes v) cb_mqtt_example_callback)) w)
          in (status = PT_STATUS_SUCCESS, w))"

text \<open>What both loops do with one resource: create it unless it exists, then set its value.\<close>

definition set_node_value ::
  "mqtt_libs \<Rightarrow> env \<Rightarrow> string \<Rightarrow> int \<Rightarrow> int \<Rightarrow> int \<Rightarrow> int \<Rightarrow> string option \<Rightarrow> mqtt_world \<Rightarrow> mqtt_world option" where
  "set_node_value L E deveui object_id object_instance resource_id resource_operations value w =
     (let ob = word_of_int object_id; inst = word_of_int object_instance; res = word_of_int resource_id;
          (exists, w) = ask_ok E (Pt (PtDeviceResourceExists (mq_connection_id w) deveui ob inst res)) w;
          w = (if exists then w
               else if object_id = 3304 \<or> object_id = 3303
               then snd (mqttpt_create_sensor_object E (mq_connection_id w) deveui object_id object_instance value w)
               else snd (mqttpt_create_object L E (mq_connection_id w) deveui object_id object_instance resource_id
                           value resource_operations w))
      in map_option
           (\<lambda>v. call (Pt (PtSetResourceValue (mq_connection_id w) deveui ob inst res (string_bytes v))) w) value)"

section \<open>\<open>Val\<close>: an array for each resource\<close>

definition node_value ::
  "mqtt_libs \<Rightarrow> env \<Rightarrow> string \<Rightarrow> json list \<Rightarrow> mqtt_world \<Rightarrow> mqtt_world option" where
  "node_value L E deveui value_array w = do {
     object_id \<leftarrow> json_atoi (Some (value_array ! 6));
     object_instance \<leftarrow> json_atoi (Some (value_array ! 7));
     resource_id \<leftarrow> json_atoi (Some (value_array ! 8));
     resource_operations \<leftarrow> json_atoi (Some (value_array ! 9));
     set_node_value L E deveui object_id object_instance resource_id resource_operations
       (json_string_value (Some (value_array ! 2))) w
   }"

fun node_values :: "mqtt_libs \<Rightarrow> env \<Rightarrow> string \<Rightarrow> json list \<Rightarrow> mqtt_world \<Rightarrow> mqtt_world option" where
  "node_values L E deveui [] w = Some w"
| "node_values L E deveui (value_array # js) w =
     (if length (json_elements (Some value_array)) \<noteq> 10 then Some w
      else (case node_value L E deveui (json_elements (Some value_array)) w of
              None \<Rightarrow> None | Some w \<Rightarrow> node_values L E deveui js w))"

text \<open>After the loop: the values of a registered device are written, any other is registered.\<close>

definition write_or_register :: "string \<Rightarrow> nat \<Rightarrow> mqtt_world \<Rightarrow> mqtt_world" where
  "write_or_register deveui payload_field_size w =
     (if 0 < payload_field_size then
        (if mqttpt_device_exists deveui w then call (Pt (PtWriteValues (mq_connection_id w) deveui)) w
         else call (Pt (PtDeviceRegister (mq_connection_id w) deveui)) w)
      else w)"

text \<open>
  What both messages do first: the translator is started when it is not running, and then the
  message is dropped; \<open>payload_field\<close> is NULL or the field of the parsed payload.
\<close>

definition with_payload_field ::
  "mqtt_libs \<Rightarrow> string option \<Rightarrow> string option \<Rightarrow> string option \<Rightarrow>
   (string \<Rightarrow> json \<Rightarrow> json \<Rightarrow> mqtt_world \<Rightarrow> mqtt_world option) \<Rightarrow> mqtt_world \<Rightarrow> mqtt_world option" where
  "with_payload_field L gweui deveui payload f w =
     (if mqttpt_translator_started w = 0 then Some (mqttpt_start_translator w) else
      case (gweui, deveui, payload) of
        (Some _, Some d, Some p) \<Rightarrow>
          (case json_loads L p of
             None \<Rightarrow> Some w
           | Some json \<Rightarrow>
               (case json_object_get json ''payload_field'' of
                  None \<Rightarrow> Some w
                | Some payload_field \<Rightarrow> f d json payload_field w))
      | _ \<Rightarrow> Some w)"

text \<open>The device is created unless Edge knows it; the message is dropped when that fails.\<close>

definition ensure_device :: "env \<Rightarrow> string \<Rightarrow> pt_call \<Rightarrow> mqtt_world \<Rightarrow> bool \<times> mqtt_world" where
  "ensure_device E deveui create w =
     (let (exists, w) = ask_ok E (Pt (PtDeviceExists (mq_connection_id w) deveui)) w in
      if exists then (True, w) else
      let (status, w) = ask_status E (Pt create) w in (status = PT_STATUS_SUCCESS, w))"

abbreviation (input) MQTTPT_DEFAULT_LIFETIME :: nat where "MQTTPT_DEFAULT_LIFETIME \<equiv> 10000"

definition mqttpt_translate_node_value_message ::
  "mqtt_libs \<Rightarrow> env \<Rightarrow> string option \<Rightarrow> string option \<Rightarrow> string option \<Rightarrow> mqtt_world \<Rightarrow> mqtt_world option" where
  "mqttpt_translate_node_value_message L E gweui deveui payload =
     with_payload_field L gweui deveui payload
       (\<lambda>d json payload_field w.
          let (created, w) = ensure_device E d (PtDeviceCreate (mq_connection_id w) d MQTTPT_DEFAULT_LIFETIME NONE) w
          in if \<not> created then Some w else
             map_option (write_or_register d (length (json_elements (Some payload_field))))
               (node_values L E d (json_elements (Some payload_field)) w))"

section \<open>\<open>EdgeVal\<close>: objects, instances and resources\<close>

definition edge_resource ::
  "mqtt_libs \<Rightarrow> env \<Rightarrow> string \<Rightarrow> json \<Rightarrow> json \<Rightarrow> json \<Rightarrow> mqtt_world \<Rightarrow> mqtt_world option" where
  "edge_resource L E deveui cur_object cur_object_instance cur_resource w = do {
     object_id \<leftarrow> json_atoi (json_object_get cur_object ''objectid'');
     object_instance \<leftarrow> json_atoi (json_object_get cur_object_instance ''objectinstance'');
     resource_id \<leftarrow> json_atoi (json_object_get cur_resource ''resourceid'');
     resource_operations \<leftarrow> json_atoi (json_object_get cur_resource ''operations'');
     set_node_value L E deveui object_id object_instance resource_id resource_operations
       (json_string_value (json_object_get cur_resource ''value'')) w
   }"

fun edge_resources ::
  "mqtt_libs \<Rightarrow> env \<Rightarrow> string \<Rightarrow> json \<Rightarrow> json \<Rightarrow> json list \<Rightarrow> mqtt_world \<Rightarrow> mqtt_world option" where
  "edge_resources L E deveui cur_object cur_object_instance [] w = Some w"
| "edge_resources L E deveui cur_object cur_object_instance (cur_resource # js) w =
     (case edge_resource L E deveui cur_object cur_object_instance cur_resource w of
        None \<Rightarrow> None | Some w \<Rightarrow> edge_resources L E deveui cur_object cur_object_instance js w)"

fun edge_instances ::
  "mqtt_libs \<Rightarrow> env \<Rightarrow> string \<Rightarrow> json \<Rightarrow> json list \<Rightarrow> mqtt_world \<Rightarrow> mqtt_world option" where
  "edge_instances L E deveui cur_object [] w = Some w"
| "edge_instances L E deveui cur_object (cur_object_instance # js) w =
     (case edge_resources L E deveui cur_object cur_object_instance
             (json_elements (json_object_get cur_object_instance ''resources'')) w of
        None \<Rightarrow> None | Some w \<Rightarrow> edge_instances L E deveui cur_object js w)"

fun edge_objects :: "mqtt_libs \<Rightarrow> env \<Rightarrow> string \<Rightarrow> json list \<Rightarrow> mqtt_world \<Rightarrow> mqtt_world option" where
  "edge_objects L E deveui [] w = Some w"
| "edge_objects L E deveui (cur_object # js) w =
     (case edge_instances L E deveui cur_object (json_elements (json_object_get cur_object ''objectinstances'')) w of
        None \<Rightarrow> None | Some w \<Rightarrow> edge_objects L E deveui js w)"

definition mqttpt_translate_node_edge_value_message ::
  "mqtt_libs \<Rightarrow> env \<Rightarrow> string option \<Rightarrow> string option \<Rightarrow> string option \<Rightarrow> mqtt_world \<Rightarrow> mqtt_world option" where
  "mqttpt_translate_node_edge_value_message L E gweui deveui payload =
     with_payload_field L gweui deveui payload
       (\<lambda>d json payload_field w.
          let cert_renewal_support = json_boolean_value (json_object_get json ''cert_renewal'');
              (created, w) = ensure_device E d (PtDeviceCreateFeatures (mq_connection_id w) d
                MQTTPT_DEFAULT_LIFETIME NONE cert_renewal_support) w
          in if \<not> created then Some w else
             map_option (write_or_register d (length (json_elements (Some payload_field))))
               (edge_objects L E d (json_elements (Some payload_field)) w))"

end
