(* ===== verification/Mqtt_Main.thy ===== *)
theory Mqtt_Main
  imports Mqtt_Requests Mqtt_Values
begin

text \<open>
  The MQTT translator as a whole (\<^verbatim>\<open>mqttpt-example/mqttpt_example.c\<close>): topics and their handlers,
  mosquitto's callbacks, \<open>main\<close>, and the events of mosquitto's loop and of the library's thread.
\<close>

section \<open>Topics\<close>

text \<open>\<open>strtok_r\<close> with one delimiter: the next token and what is left, or NULL.\<close>

definition strtok_r :: "char \<Rightarrow> string \<Rightarrow> (string \<times> string) option" where
  "strtok_r d s =
     (case dropWhile (\<lambda>c. c = d) s of
        [] \<Rightarrow> None
      | c # t \<Rightarrow> Some (takeWhile (\<lambda>c. c \<noteq> d) (c # t), drop 1 (dropWhile (\<lambda>c. c \<noteq> d) (c # t))))"

text \<open>\<open>n\<close> calls, NULL once the string is used up.\<close>

fun topic_offsets :: "nat \<Rightarrow> string \<Rightarrow> string option list" where
  "topic_offsets 0 s = []"
| "topic_offsets (Suc n) s =
     (case strtok_r (CHR ''/'') s of
        None \<Rightarrow> None # topic_offsets n []
      | Some (t, rest) \<Rightarrow> Some t # topic_offsets n rest)"

abbreviation (input) MQTT_TOPIC_OFFSET_COUNT :: nat where "MQTT_TOPIC_OFFSET_COUNT \<equiv> 5"

text \<open>Joined and capability messages are only parsed.\<close>

definition mqttpt_translate_node_joined_message :: "mqtt_libs \<Rightarrow> string option \<Rightarrow> mqtt_world \<Rightarrow> mqtt_world" where
  "mqttpt_translate_node_joined_message L payload w = w"

text \<open>A topic without any token is compared as NULL: undefined.\<close>

definition mqttpt_handle_message ::
  "mqtt_libs \<Rightarrow> env \<Rightarrow> string option \<Rightarrow> string \<Rightarrow> mqtt_world \<Rightarrow> mqtt_world option" where
  "mqttpt_handle_message L E topic payload w =
     (case topic of
        None \<Rightarrow> Some w
      | Some t \<Rightarrow>
          let topic_offset = topic_offsets MQTT_TOPIC_OFFSET_COUNT t
          in case topic_offset ! 0 of
               None \<Rightarrow> None
             | Some t0 \<Rightarrow>
                 if t0 = ''MQTT'' then mqttpt_translate_gw_status_message L E payload w
                 else if t0 = ''MQTTGw'' then
                   (case topic_offset ! 2 of
                      None \<Rightarrow> Some w
                    | Some t2 \<Rightarrow>
                        if t2 = ''Evt'' then Some (mqttpt_translate_node_joined_message L (Some payload) w)
                        else if t2 = ''Node'' then
                          (case (topic_offset ! 3, topic_offset ! 4) of
                             (Some t3, Some t4) \<Rightarrow>
                               if t4 = ''Val'' then
                                 mqttpt_translate_node_value_message L E (topic_offset ! 1) (Some t3) (Some payload) w
                               else if t4 = ''EdgeVal'' then
                                 mqttpt_translate_node_edge_value_message L E (topic_offset ! 1) (Some t3) (Some payload) w
                               else Some w
                           | _ \<Rightarrow> Some w)
                        else Some w)
                 else Some w)"

section \<open>Callbacks of mosquitto\<close>

definition mqtt_message_callback ::
  "mqtt_libs \<Rightarrow> env \<Rightarrow> string option \<Rightarrow> string \<Rightarrow> mqtt_world \<Rightarrow> mqtt_world option" where
  "mqtt_message_callback L E topic payload w =
     (if payload \<noteq> [] then mqttpt_handle_message L E topic payload w else Some w)"

definition mqtt_connect_callback :: "int \<Rightarrow> mqtt_world \<Rightarrow> mqtt_world" where
  "mqtt_connect_callback result w =
     (if result = 0 then call (Mq (MqSubscribe ''MQTTGw/#'' 2)) (call (Mq (MqSubscribe ''MQTT/#'' 2)) w) else w)"

section \<open>\<open>main\<close>\<close>

record mqtt_args =
  mosquitto_host :: string
  mosquitto_port :: string
  keep_alive :: string
  mq_edge_domain_socket :: string

text \<open>Signals: the handler is only installed for a signal when the one before it was.\<close>

definition setup_signals :: "env \<Rightarrow> mqtt_world \<Rightarrow> bool \<times> mqtt_world" where
  "setup_signals E w =
     (let (ok, w) = ask_ok E (Sys (Sigaction 15)) w in
      if \<not> ok then (False, w) else
      let (ok, w) = ask_ok E (Sys (Sigaction 2)) w in
      if \<not> ok then (False, w) else
      let (ok, w) = ask_ok E (Sys (Sigaction 13)) w in (True, w))"

definition shutdown_handler :: "mqtt_world \<Rightarrow> mqtt_world" where
  "shutdown_handler w = w\<lparr>mosquitto_stop := mosquitto_stop w + 1\<rparr>"

text \<open>
  Up to mosquitto's loop, or the exit code; \<open>sem_init\<close> sets the semaphore to 0 whatever was posted
  before. The answer of \<open>setup_signals\<close> is not used. \<open>None\<close>: a port \<open>atoi\<close> cannot represent.
\<close>

definition mqtt_main_init :: "env \<Rightarrow> mqtt_args \<Rightarrow> mqtt_world \<Rightarrow> ((int + unit) \<times> mqtt_world) option" where
  "mqtt_main_init E args w =
     (let (_, w) = setup_signals E w;
          w = w\<lparr>mqttpt_devices := []\<rparr>;
          w = call (Mq MqLibInit) (call (Pt (PtClientCreate (mq_edge_domain_socket args))) w);
          (mosq, w) = ask_ok E (Mq MqNew) w in
      if \<not> mosq then Some (Inl 1, w) else do {
      port \<leftarrow> atoi (mosquitto_port args);
      keep \<leftarrow> atoi (keep_alive args);
      let (connected, w) = ask_ok E (Mq (MqConnect (mosquitto_host args) port keep)) w in
      Some (if \<not> connected then (Inl 1, w) else (Inr (), w\<lparr>mosquitto_stop := 0\<rparr>)) })"

definition shutdown_and_cleanup :: "env \<Rightarrow> mqtt_world \<Rightarrow> mqtt_world" where
  "shutdown_and_cleanup E w =
     (if mqttpt_translator_started w \<noteq> 0 then
        let (status, w) = ask_status E (Pt (PtDevicesUnregister (mq_connection_id w))) w
        in if status \<noteq> PT_STATUS_SUCCESS then call (Pt PtClientShutdown) w else w
      else w)"

definition mqtt_main_finish :: "env \<Rightarrow> mqtt_world \<Rightarrow> int \<times> mqtt_world" where
  "mqtt_main_finish E w =
     (let w = shutdown_and_cleanup E w;
          w = (if mqttpt_translator_started w \<noteq> 0 then call (Sys ThreadJoin) w else w)
      in (0, call (Mq MqDestroy) w))"

section \<open>Events\<close>

datatype mqtt_event =
    Message "string option" string
  | Connected int
  | Translator_thread
  | Translator_registered
  | Translator_registration_failed
  | Translator_connection_ready conn
  | Device_registered_mq "string option"
  | Device_registration_failed_mq "string option"
  | Devices_unregistered
  | Devices_unregistration_failed
  | Certificate_renewed string string
  | Certificate_renewal_failed string string
  | Item_received bytes string
  | Item_failed string
  | Crypto_done "bytes option" string
  | Crypto_failed int string
  | Certificates_set string
  | Certificates_set_failed string
  | Device_certificate_renewed conn string "string option" "(int \<times> bytes list) option" string
  | Device_certificate_renewal_failed conn string int string
  | Certificate_renewal_notification "string option" "string option"
  | Device_certificate_renewal_requested "string option" "string option"
  | Signal_received

fun mqtt_handle :: "mqtt_libs \<Rightarrow> env \<Rightarrow> mqtt_event \<Rightarrow> mqtt_world \<Rightarrow> mqtt_world option" where
  "mqtt_handle L E (Message topic payload) w = mqtt_message_callback L E topic payload w"
| "mqtt_handle L E (Connected result) w = Some (mqtt_connect_callback result w)"
| "mqtt_handle L E Translator_thread w = Some (mqttpt_translator_thread_routine w)"
| "mqtt_handle L E Translator_registered w = Some (mqttpt_protocol_translator_registration_success_handler L E w)"
| "mqtt_handle L E Translator_registration_failed w =
     Some (mqttpt_protocol_translator_registration_failure_handler L E w)"
| "mqtt_handle L E (Translator_connection_ready c) w = Some (mqttpt_connection_ready_handler c w)"
| "mqtt_handle L E (Device_registered_mq ctx) w = Some (mqttpt_device_register_success_handler L E ctx w)"
| "mqtt_handle L E (Device_registration_failed_mq ctx) w = Some (mqttpt_device_register_failure_handler L E ctx w)"
| "mqtt_handle L E Devices_unregistered w = Some (mqttpt_devices_unregister_success_handler L E w)"
| "mqtt_handle L E Devices_unregistration_failed w = Some (mqttpt_devices_unregister_failure_handler L E w)"
| "mqtt_handle L E (Certificate_renewed rid c) w = Some (certificate_renew_success_handler L E rid c w)"
| "mqtt_handle L E (Certificate_renewal_failed rid c) w = Some (certificate_renew_failure_handler L E rid c w)"
| "mqtt_handle L E (Item_received d rid) w = Some (get_item_success_handler L E d rid w)"
| "mqtt_handle L E (Item_failed rid) w = Some (get_item_failure_handler L E rid w)"
| "mqtt_handle L E (Crypto_done d rid) w = Some (crypto_success_handler L E d rid w)"
| "mqtt_handle L E (Crypto_failed n rid) w = Some (crypto_failure_handler L E n rid w)"
| "mqtt_handle L E (Certificates_set rid) w = Some (certificates_set_success_handler L E rid w)"
| "mqtt_handle L E (Certificates_set_failed rid) w = Some (certificates_set_failure_handler L E rid w)"
| "mqtt_handle L E (Device_certificate_renewed c d n chain rid) w =
     Some (device_certificate_renew_success_handler L E c d n chain rid w)"
| "mqtt_handle L E (Device_certificate_renewal_failed c d n rid) w =
     Some (device_certificate_renew_failure_handler L E c d n rid w)"
| "mqtt_handle L E (Certificate_renewal_notification n d) w =
     Some (mqtt_certificate_renewal_notification_handler L E n d w)"
| "mqtt_handle L E (Device_certificate_renewal_requested d n) w =
     Some (snd (mqtt_device_certificate_renewal_request_handler L E d n w))"
| "mqtt_handle L E Signal_received w = Some (shutdown_handler w)"

text \<open>The run of a list of events.\<close>

fun mqtt_run :: "mqtt_libs \<Rightarrow> env \<Rightarrow> mqtt_event list \<Rightarrow> mqtt_world \<Rightarrow> mqtt_world option" where
  "mqtt_run L E [] w = Some w"
| "mqtt_run L E (e # es) w = (case mqtt_handle L E e w of None \<Rightarrow> None | Some w \<Rightarrow> mqtt_run L E es w)"

end
