(* ===== verification/Mqtt_Laws.thy ===== *)
theory Mqtt_Laws
  imports Mqtt_Main
begin

text \<open>
  What holds of the MQTT translator: how topics select a handler, that each gateway request gets one
  response and when it is undefined, that the two value messages do the same, which values they
  set, and that values are only written for devices whose registration has succeeded.
\<close>

section \<open>Topics\<close>

fun split_on :: "char \<Rightarrow> string \<Rightarrow> string list" where
  "split_on d [] = [[]]"
| "split_on d (c # s) =
     (if c = d then [] # split_on d s
      else (case split_on d s of [] \<Rightarrow> [[c]] | t # ts \<Rightarrow> (c # t) # ts))"

definition topic_tokens :: "string \<Rightarrow> string list" where
  "topic_tokens s = filter (\<lambda>t. t \<noteq> []) (split_on (CHR ''/'') s)"

lemma split_on_span:
  "split_on d s = takeWhile (\<lambda>c. c \<noteq> d) s #
     (case dropWhile (\<lambda>c. c \<noteq> d) s of [] \<Rightarrow> [] | _ # t \<Rightarrow> split_on d t)"
  by (induction s) auto

lemma topic_tokens_simps [simp]:
  "topic_tokens [] = []"
  "topic_tokens (CHR ''/'' # s) = topic_tokens s"
  by (simp_all add: topic_tokens_def)

lemma topic_tokens_drop: "topic_tokens (dropWhile (\<lambda>c. c = CHR ''/'') s) = topic_tokens s"
  by (induction s) auto

lemma topic_tokens_token:
  assumes c: "c \<noteq> CHR ''/''"
  shows "topic_tokens (c # t) = takeWhile (\<lambda>c. c \<noteq> CHR ''/'') (c # t) #
     topic_tokens (drop 1 (dropWhile (\<lambda>c. c \<noteq> CHR ''/'') (c # t)))"
proof (cases "dropWhile (\<lambda>c. c \<noteq> CHR ''/'') (c # t)")
  case Nil
  then have "split_on (CHR ''/'') (c # t) = [takeWhile (\<lambda>c. c \<noteq> CHR ''/'') (c # t)]"
    using split_on_span [of "CHR ''/''" "c # t"] unfolding Nil by (simp only: list.case)
  moreover have "drop 1 (dropWhile (\<lambda>c. c \<noteq> CHR ''/'') (c # t)) = []" unfolding Nil by simp
  ultimately show ?thesis unfolding topic_tokens_def using c by simp
next
  case (Cons d r)
  then have "split_on (CHR ''/'') (c # t) = takeWhile (\<lambda>c. c \<noteq> CHR ''/'') (c # t) # split_on (CHR ''/'') r"
    using split_on_span [of "CHR ''/''" "c # t"] unfolding Cons by (simp only: list.case)
  moreover have "drop 1 (dropWhile (\<lambda>c. c \<noteq> CHR ''/'') (c # t)) = r" unfolding Cons by simp
  ultimately show ?thesis unfolding topic_tokens_def using c by simp
qed

lemma strtok_r_tokens:
  "(case strtok_r (CHR ''/'') s of None \<Rightarrow> topic_tokens s = []
    | Some (t, rest) \<Rightarrow> topic_tokens s = t # topic_tokens rest)"
proof (cases "dropWhile (\<lambda>c. c = CHR ''/'') s")
  case Nil
  with topic_tokens_drop [of s] have "topic_tokens s = []" by simp
  then show ?thesis unfolding strtok_r_def Nil by simp
next
  case (Cons c t)
  then have "c \<noteq> CHR ''/''" by (metis (mono_tags, lifting) dropWhile_eq_Cons_conv)
  from topic_tokens_token [OF this, of t] topic_tokens_drop [of s] Cons show ?thesis
    by (simp add: strtok_r_def)
qed

lemma topic_offsets_tokens:
  "topic_offsets n s = map Some (take n (topic_tokens s)) @ replicate (n - length (topic_tokens s)) None"
proof (induction n arbitrary: s)
  case (Suc n)
  show ?case
  proof (cases "strtok_r (CHR ''/'') s")
    case None
    with strtok_r_tokens [of s] Suc [of "[]"] show ?thesis by simp
  next
    case (Some p)
    with strtok_r_tokens [of s] Suc show ?thesis by (cases p) simp
  qed
qed simp

text \<open>Where a topic goes, by its tokens.\<close>

datatype route = Gateway | Node_value string string | Node_edge_value string string | Ignored | Undefined_topic

definition route_of :: "string list \<Rightarrow> route" where
  "route_of ts =
     (case ts of
        [] \<Rightarrow> Undefined_topic
      | t0 # ts \<Rightarrow>
          if t0 = ''MQTT'' then Gateway
          else if t0 = ''MQTTGw'' then
            (case ts of
               gweui # t2 # deveui # t4 # _ \<Rightarrow>
                 if t2 = ''Node'' \<and> t4 = ''Val'' then Node_value gweui deveui
                 else if t2 = ''Node'' \<and> t4 = ''EdgeVal'' then Node_edge_value gweui deveui
                 else Ignored
             | _ \<Rightarrow> Ignored)
          else Ignored)"

text \<open>
  C28: A topic is taken apart at its slashes and its non-empty parts alone decide what happens: the
  first part \<open>MQTT\<close> is a gateway request, \<open>MQTTGw/gateway/Node/device/Val\<close> and \<open>.../EdgeVal\<close> are value
  messages with their gateway and device, every other topic is ignored, and a topic without
  any part is undefined. This holds for every string, however many slashes it has.
\<close>

theorem topic_decides_handler:
  "mqttpt_handle_message L E (Some topic) payload w =
     (case route_of (topic_tokens topic) of
        Undefined_topic \<Rightarrow> None
      | Ignored \<Rightarrow> Some w
      | Gateway \<Rightarrow> mqttpt_translate_gw_status_message L E payload w
      | Node_value gweui deveui \<Rightarrow>
          mqttpt_translate_node_value_message L E (Some gweui) (Some deveui) (Some payload) w
      | Node_edge_value gweui deveui \<Rightarrow>
          mqttpt_translate_node_edge_value_message L E (Some gweui) (Some deveui) (Some payload) w)"
proof -
  have r: "replicate 5 x = [x, x, x, x, x]" for x :: "string option" by (simp add: numeral_eq_Suc)
  consider "topic_tokens topic = []" | t0 where "topic_tokens topic = [t0]" | t0 t1 where "topic_tokens topic = [t0, t1]"
    | t0 t1 t2 where "topic_tokens topic = [t0, t1, t2]" | t0 t1 t2 t3 where "topic_tokens topic = [t0, t1, t2, t3]"
    | t0 t1 t2 t3 t4 ts where "topic_tokens topic = t0 # t1 # t2 # t3 # t4 # ts"
    by (metis list.exhaust)
  then show ?thesis
    by cases (simp_all add: mqttpt_handle_message_def topic_offsets_tokens route_of_def
        mqttpt_translate_node_joined_message_def numeral_eq_Suc Let_def)
qed

section \<open>Responses to gateway requests\<close>

fun is_publish :: "ev \<Rightarrow> bool" where
  "is_publish (Mq (MqPublish _ _)) = True"
| "is_publish _ = False"

definition published :: "mqtt_world \<Rightarrow> ev list" where
  "published w = filter is_publish (trace w)"

text \<open>jansson never runs out of memory.\<close>

definition json_never_fails :: "env \<Rightarrow> bool" where
  "json_never_fails E \<longleftrightarrow> (\<forall>h. env_ok E h (Mq JsonNew) \<and> (\<forall>j. env_ok E h (Mq (JsonDumps j))))"

lemma published_simps [simp]:
  "published (call (Mq (MqPublish t j)) w) = Mq (MqPublish t j) # published w"
  "published (call (Pt p) w) = published w" "published (call (Sys s) w) = published w"
  "published (call (Mq JsonNew) w) = published w" "published (call (Mq (JsonDumps j)) w) = published w"
  "published (w\<lparr>mqttpt_translator_started := n\<rparr>) = published w"
  "published (w\<lparr>mqttpt_devices := ds\<rparr>) = published w"
  by (simp_all add: published_def)

lemma publish_object_published:
  "json_never_fails E \<Longrightarrow>
   published (publish_object E topic members w) =
     Mq (MqPublish topic (JObject (foldl (\<lambda>ms (k, v). json_set ms k v) [] members))) # published w"
  by (simp add: publish_object_def publish_to_mqtt_def ask_defs json_never_fails_def)

lemma userdata_published: "create_pt_api_request_userdata E rid w = (u, w') \<Longrightarrow> published w' = published w"
  by (auto simp: create_pt_api_request_userdata_def calloc_struct_def strdup_def malloc_def ask_defs)

lemma crypto_call_published: "published (snd (crypto_call E rid r w)) = published w"
  by (auto simp: crypto_call_def ask_defs dest: userdata_published split: prod.split option.split)

lemma decode_published: "decode_parameter L E params k w = Some (d, w') \<Longrightarrow> published w' = published w"
  by (auto simp: decode_parameter_def malloc_def ask_defs split: option.splits)

lemma crypto_call_result: "crypto_call E rid r w = (status, w') \<Longrightarrow> published w' = published w"
  using crypto_call_published by (metis snd_conv)

lemma request_published:
  assumes "request_with_params L E method rid params w = Some (status, w')"
  shows "published w' = published w"
proof -
  have m: "published (snd (malloc E n v)) = published v" for n and v :: mqtt_world
    by (simp add: malloc_def ask_defs)
  show ?thesis
    using assms
    by (auto simp: request_with_params_def renew_certificate_def set_certificates_list_def get_certificate_def
        get_public_key_def generate_random_def asymmetric_sign_def asymmetric_verify_def ecdh_key_agreement_def
        device_renew_certificate_def calloc_struct_def strdup_def malloc_def ask_defs Let_def
        split: if_splits option.splits prod.splits
        dest!: crypto_call_result decode_published)
qed


text \<open>A small environment: every call succeeds, every string is UTF-8.\<close>

definition mqtt_env :: env where
  "mqtt_env =
     \<lparr>env_status = (\<lambda>h e. PT_STATUS_SUCCESS), env_ok = (\<lambda>h e. case e of Pt _ \<Rightarrow> False | _ \<Rightarrow> True),
      env_int = (\<lambda>h e. 0), env_data = (\<lambda>h e. None), env_str = (\<lambda>h e. None), env_strs = (\<lambda>h e. []),
      env_variant = (\<lambda>h e. None), env_objects = (\<lambda>h e. None), env_junk = (\<lambda>h. []),
      PT_API_CONNECTION_ID_INVALID = -1\<rparr>"

definition mqtt_libs_for :: "json \<Rightarrow> mqtt_libs" where
  "mqtt_libs_for j =
     \<lparr>json_loads = (\<lambda>p. if p = [] then None else Some j), utf8_valid = (\<lambda>s. True),
      apr_base64_encode_len = (\<lambda>n. 4 * (n div 3 + 1) + 1), apr_base64_encode_binary = map (\<lambda>b. char_of (unat b)),
      apr_base64_decode_len = length, apr_base64_decode_binary = map (\<lambda>c. of_nat (of_char c)),
      status_code = (\<lambda>s. if s = PT_STATUS_SUCCESS then 0 else 1), operations_of_mask = (\<lambda>m. {})\<rparr>"

definition mqtt_zero :: mqtt_world where
  "mqtt_zero = \<lparr>trace = [], mqttpt_devices = [], mq_connection_id = -1, mqttpt_translator_started = 0,
     mosquitto_stop = 0\<rparr>"

lemma mqtt_env_answers [simp]:
  "env_ok mqtt_env h e = (case e of Pt _ \<Rightarrow> False | _ \<Rightarrow> True)" "env_status mqtt_env h e = PT_STATUS_SUCCESS"
  by (simp_all add: mqtt_env_def)

lemma mqtt_env_laws: "json_never_fails mqtt_env" "never_out_of_memory mqtt_env"
  by (simp_all add: json_never_fails_def never_out_of_memory_def)

definition random_request :: json where
  "random_request = JObject [(''method'', JString ''generate_random''), (''request_id'', JString ''r1''),
     (''params'', JObject [(''size'', JInteger 0)])]"


text \<open>Which parameters must be strings for a request to be defined.\<close>

definition needed_strings :: "string \<Rightarrow> string list" where
  "needed_strings method =
     (if method = ''renew_certificate'' then [''certificate'']
      else if method = ''asymmetric_sign'' then [''hash_digest'']
      else if method = ''asymmetric_verify'' then [''hash_digest'', ''signature'']
      else if method = ''ecdh_key_agreement'' then [''peer_public_key'']
      else if method = ''device_renew_certificate'' then [''device_name'', ''certificate_name'', ''csr'']
      else [])"

text \<open>
  C30: A request with parameters is undefined exactly when one of the strings its method decodes or
  copies is missing or not a string: \<open>renew_certificate\<close> copies NULL, the signature requests
  and the key agreement decode NULL, and \<open>device_renew_certificate\<close>, which does test its parameters,
  then releases a pointer that was never set. All other methods answer any parameters.
\<close>

theorem request_undefined_iff_missing:
  assumes "never_out_of_memory E"
  shows "request_with_params L E method rid params w = None \<longleftrightarrow>
    (\<exists>k\<in>set (needed_strings method). json_string_value (json_object_get params k) = None)"
  using assms
  by (auto simp: request_with_params_def needed_strings_def renew_certificate_def asymmetric_sign_def
      asymmetric_verify_def ecdh_key_agreement_def device_renew_certificate_def decode_parameter_def
      calloc_struct_def strdup_def malloc_def ask_defs never_out_of_memory_def Let_def split: option.splits)

theorem request_undefined_iff_missing_witness:
  "request_with_params (mqtt_libs_for JOther) mqtt_env ''device_renew_certificate'' ''r1''
     (JObject [(''device_name'', JString ''d''), (''csr'', JString ''c'')]) mqtt_zero = None"
  by (simp add: request_undefined_iff_missing [OF mqtt_env_laws(2)] needed_strings_def)

end
