(* ===== verification/Mqtt_Frames.thy ===== *)
theory Mqtt_Frames
  imports Mqtt_Laws
begin

text \<open>
  What an event of the MQTT translator can do to a class of calls (writing values, the translator's
  thread): the locale \<open>call_class\<close> follows one class through every operation, and \<open>handled_effect\<close>
  says of each event what it does beyond calls outside the class. The invariants of whole runs rest
  on it.
\<close>

section \<open>Operations that make no call of a class\<close>

text \<open>The calls a class may have: writing values, and the life of the translator's thread.\<close>

fun special_call :: "ev \<Rightarrow> bool" where
  "special_call (Pt (PtWriteValues c d)) = True"
| "special_call (Pt (PtClientStart n)) = True"
| "special_call (Sys ThreadCreate) = True"
| "special_call (Sys ThreadJoin) = True"
| "special_call _ = False"

text \<open>The devices and the translator's semaphore stay, and a posted stop is not taken back.\<close>

definition unmoved :: "(ev \<Rightarrow> bool) \<Rightarrow> mqtt_world \<Rightarrow> mqtt_world \<Rightarrow> bool" where
  "unmoved counted w w' \<longleftrightarrow>
     mqttpt_devices w' = mqttpt_devices w \<and> mqttpt_translator_started w' = mqttpt_translator_started w \<and>
     filter counted (trace w') = filter counted (trace w) \<and> mosquitto_stop w \<le> mosquitto_stop w'"

lemma unmoved_refl [simp]: "unmoved counted w w"
  by (simp add: unmoved_def)

lemma unmoved_trans: "unmoved counted u v \<Longrightarrow> unmoved counted v w \<Longrightarrow> unmoved counted u w"
  by (simp add: unmoved_def)

text \<open>What an event does beyond that.\<close>

inductive effect :: "(ev \<Rightarrow> bool) \<Rightarrow> mqtt_event \<Rightarrow> mqtt_world \<Rightarrow> mqtt_world \<Rightarrow> bool" for counted e w where
  nothing: "unmoved counted w w' \<Longrightarrow> effect counted e w w'"
| starts: "mqttpt_translator_started w = 0 \<Longrightarrow> unmoved counted (mqttpt_start_translator w) w' \<Longrightarrow> effect counted e w w'"
| writes_values: "unmoved counted w v \<Longrightarrow> effect counted e w (write_or_register d n v)"
| registers: "e = Device_registered_mq (Some d) \<Longrightarrow> unmoved counted w v \<Longrightarrow>
    effect counted e w (v\<lparr>mqttpt_devices := mqttpt_devices v @ [d]\<rparr>)"
| registered: "e = Translator_registered \<Longrightarrow> unmoved counted (sem_post_started w) w' \<Longrightarrow> effect counted e w w'"
| runs_client: "e = Translator_thread \<Longrightarrow> effect counted e w (mqttpt_translator_thread_routine w)"

locale call_class =
  fixes counted :: "ev \<Rightarrow> bool"
  assumes counted_special: "counted e \<Longrightarrow> special_call e"
begin

lemma uncounted [simp]: "\<not> special_call e \<Longrightarrow> \<not> counted e"
  using counted_special by blast

lemma unmoved_simps [simp]:
  "\<not> counted e \<Longrightarrow> unmoved counted u (call e w) = unmoved counted u w"
  "unmoved counted u (w\<lparr>mq_connection_id := c\<rparr>) = unmoved counted u w"
  by (simp_all add: unmoved_def call_def)

lemma unmoved_stop [simp]: "unmoved counted u w \<Longrightarrow> unmoved counted u (w\<lparr>mosquitto_stop := Suc (mosquitto_stop w)\<rparr>)"
  by (simp add: unmoved_def)

lemma unmoved_publish [simp]: "unmoved counted u (publish_object E topic ms w) = unmoved counted u w"
  by (simp add: publish_object_def publish_to_mqtt_def ask_defs)

lemma unmoved_send [simp]:
  "unmoved counted u (construct_and_send_success L E r v w) = unmoved counted u w"
  "unmoved counted u (construct_and_send_failure L E r v w) = unmoved counted u w"
  "unmoved counted u (construct_and_send_certificate_renewal_notification L E r v w) = unmoved counted u w"
  "unmoved counted u (construct_and_send_device_notification L E m d w) = unmoved counted u w"
  "unmoved counted u (construct_and_send_translator_registration_notification L E m w) = unmoved counted u w"
  "unmoved counted u (construct_and_send_device_certificate_renewal_request L E r v w) = unmoved counted u w"
  by (simp_all add: construct_and_send_success_def construct_and_send_failure_def
      construct_and_send_certificate_renewal_notification_def construct_and_send_device_notification_def
      construct_and_send_translator_registration_notification_def
      construct_and_send_device_certificate_renewal_request_def)

lemma unmoved_chain: "unmoved counted w (snd (certificate_array L E n c arr w))"
proof (induction n arbitrary: arr w)
  case (Suc n)
  have "unmoved counted w (snd (certificate_array L E n c arr' (call (Sys (Malloc k)) w)))" for arr' k
    by (rule unmoved_trans [OF _ Suc]) simp
  then show ?case by (auto simp: malloc_def ask_defs split: option.split)
qed simp

lemma unmoved_chain_notification [simp]:
  "unmoved counted w (construct_and_send_device_certificate_renewal_notification L E r n ch w)"
proof -
  have "unmoved counted w v'" if "certificate_array L E k c [] (call (Mq JsonNew) w) = (r', v')" for k c r' v'
    using unmoved_chain [of "call (Mq JsonNew) w" L E k c "[]"] that
    by (auto intro: unmoved_trans [of counted w "call (Mq JsonNew) w"])
  then show ?thesis
    by (auto simp: construct_and_send_device_certificate_renewal_notification_def ask_defs publish_to_mqtt_def
        Let_def split: option.split prod.split)
qed

lemma unmoved_crypto: "crypto_call E rid r w = (status, w') \<Longrightarrow> unmoved counted w w'"
  by (auto simp: crypto_call_def create_pt_api_request_userdata_def calloc_struct_def strdup_def malloc_def ask_defs
      Let_def split: if_splits)

lemma unmoved_decode: "decode_parameter L E params k w = Some (d, w') \<Longrightarrow> unmoved counted w w'"
  by (auto simp: decode_parameter_def malloc_def ask_defs split: option.splits)

lemma unmoved_request:
  assumes "request_with_params L E method rid params w = Some (status, w')"
  shows "unmoved counted w w'"
  using assms
  by (auto simp: request_with_params_def renew_certificate_def set_certificates_list_def get_certificate_def
      get_public_key_def generate_random_def asymmetric_sign_def asymmetric_verify_def ecdh_key_agreement_def
      device_renew_certificate_def calloc_struct_def strdup_def malloc_def ask_defs Let_def
      split: if_splits option.splits prod.splits
      dest!: unmoved_crypto unmoved_decode intro: unmoved_trans)

lemma gateway_effect:
  "mqttpt_translate_gw_status_message L E payload w = Some w' \<Longrightarrow> effect counted e w w'"
  by (auto simp: mqttpt_translate_gw_status_message_def request_without_params_def Let_def
      split: option.splits if_splits prod.splits intro: effect.nothing effect.starts dest!: unmoved_request)

lemma unmoved_set: "set_node_value L E d ob i r ops v w = Some w' \<Longrightarrow> unmoved counted w w'"
  by (auto simp: set_node_value_def mqttpt_create_sensor_object_def mqttpt_create_object_def strdup_def malloc_def
      ask_defs Let_def split: option.splits if_splits)

lemma unmoved_values: "node_values L E d js w = Some w' \<Longrightarrow> unmoved counted w w'"
proof (induction js arbitrary: w)
  case (Cons j js)
  then show ?case
    by (auto simp: node_value_def split: if_splits option.splits Option.bind_splits
        dest!: unmoved_set intro: unmoved_trans)
qed simp

lemma unmoved_resources: "edge_resources L E d ob inst js w = Some w' \<Longrightarrow> unmoved counted w w'"
proof (induction js arbitrary: w)
  case (Cons j js)
  then show ?case
    by (auto simp: edge_resource_def split: option.splits Option.bind_splits dest!: unmoved_set intro: unmoved_trans)
qed simp

lemma unmoved_instances: "edge_instances L E d ob js w = Some w' \<Longrightarrow> unmoved counted w w'"
  by (induction js arbitrary: w) (auto split: option.splits dest!: unmoved_resources intro: unmoved_trans)

lemma unmoved_objects: "edge_objects L E d js w = Some w' \<Longrightarrow> unmoved counted w w'"
  by (induction js arbitrary: w) (auto split: option.splits dest!: unmoved_instances intro: unmoved_trans)

lemma unmoved_ensure: "\<not> special_call (Pt c) \<Longrightarrow> ensure_device E d c w = (ok, w') \<Longrightarrow> unmoved counted w w'"
  by (auto simp: ensure_device_def ask_defs Let_def split: if_splits)

subsection \<open>Messages\<close>

lemma with_payload_effect:
  assumes "with_payload_field L g d p f w = Some w'"
    and "\<And>d j pf. f d j pf w = Some w' \<Longrightarrow> effect counted e w w'"
  shows "effect counted e w w'"
  using assms
  by (auto simp: with_payload_field_def split: if_splits option.splits intro: effect.nothing effect.starts)

lemma device_values_effect:
  assumes "(let (created, w) = ensure_device E d c w
            in if \<not> created then Some w else map_option (write_or_register d n) (values w)) = Some w'"
    and "\<not> special_call (Pt c)" and "\<And>v v'. values v = Some v' \<Longrightarrow> unmoved counted v v'"
  shows "effect counted e w w'"
proof -
  obtain ok v where v: "ensure_device E d c w = (ok, v)" by fastforce
  have u: "unmoved counted w v" by (rule unmoved_ensure [OF assms(2) v])
  with assms(1) v show ?thesis
    by (auto split: if_splits intro: effect.nothing effect.writes_values unmoved_trans dest!: assms(3))
qed

lemma value_message_effect:
  assumes "mqttpt_translate_node_value_message L E g d p w = Some w'"
  shows "effect counted e w w'"
  using assms unfolding mqttpt_translate_node_value_message_def
  by (rule with_payload_effect) (erule device_values_effect; simp add: unmoved_values)

lemma edge_value_message_effect:
  assumes "mqttpt_translate_node_edge_value_message L E g d p w = Some w'"
  shows "effect counted e w w'"
  using assms unfolding mqttpt_translate_node_edge_value_message_def Let_def [of "json_boolean_value _"]
  by (rule with_payload_effect) (erule device_values_effect; simp add: unmoved_objects)

lemma message_effect:
  "mqttpt_handle_message L E topic payload w = Some w' \<Longrightarrow> effect counted e w w'"
  by (auto simp: mqttpt_handle_message_def mqttpt_translate_node_joined_message_def Let_def
      split: option.splits if_splits
      intro: value_message_effect edge_value_message_effect effect.nothing dest: gateway_effect)

lemma registration_effect:
  assumes "e = Device_registered_mq ctx"
  shows "effect counted e w (mqttpt_device_register_success_handler L E ctx w)"
proof (cases ctx)
  case (Some d)
  let ?w = "construct_and_send_device_notification L E ''successful_registration'' ctx w"
  obtain ok v where v: "calloc_struct E ?w = (ok, v)" by fastforce
  then have "unmoved counted w v" by (auto simp: calloc_struct_def malloc_def ask_defs)
  then show ?thesis using v assms Some
    by (auto simp: mqttpt_device_register_success_handler_def mqttpt_add_device_def
        intro: effect.nothing effect.registers)
qed (simp add: mqttpt_device_register_success_handler_def effect.nothing)

lemma handled_effect:
  assumes "mqtt_handle L E e w = Some w'"
  shows "effect counted e w w'"
proof (cases e)
  case (Message topic payload)
  with assms show ?thesis
    by (auto simp: mqtt_message_callback_def split: if_splits intro: message_effect effect.nothing)
next
  case (Device_registered_mq ctx)
  then show ?thesis using assms by (auto intro: registration_effect)
next
  case Translator_registered
  then show ?thesis using assms
    by (intro effect.registered) (auto simp: mqttpt_protocol_translator_registration_success_handler_def)
next
  case Translator_thread
  then show ?thesis using assms by (auto intro: effect.runs_client)
qed (use assms in \<open>auto intro!: effect.nothing
    simp: mqtt_connect_callback_def mqttpt_protocol_translator_registration_failure_handler_def
    mqttpt_connection_ready_handler_def mqttpt_device_register_failure_handler_def
    mqttpt_devices_unregister_success_handler_def mqttpt_devices_unregister_failure_handler_def
    certificate_renew_success_handler_def certificate_renew_failure_handler_def get_item_success_handler_def
    get_item_failure_handler_def crypto_success_handler_def crypto_failure_handler_def
    certificates_set_success_handler_def certificates_set_failure_handler_def
    device_certificate_renew_failure_handler_def mqtt_certificate_renewal_notification_handler_def
    mqtt_device_certificate_renewal_request_handler_def shutdown_handler_def malloc_def ask_defs Let_def
    device_certificate_renew_success_handler_def unmoved_trans [OF _ unmoved_chain_notification]
    split: option.split\<close>)

end

end
