(* ===== verification/Mqtt_Value_Laws.thy ===== *)
theory Mqtt_Value_Laws
  imports Mqtt_Frames
begin

text \<open>
  The value messages of the MQTT translator: the two formats agree, which values are set, the
  sensors that are created without the resource that is set, the certificate chains, and the
  order of registration and writing over whole runs.
\<close>

section \<open>The two formats agree\<close>

text \<open>One entry of \<open>Val\<close> in the format of \<open>EdgeVal\<close>.\<close>

definition edge_of_val :: "json \<Rightarrow> json" where
  "edge_of_val value_array =
     (let a = json_elements (Some value_array)
      in JObject [(''objectid'', a ! 6), (''objectinstances'', JArray [JObject [(''objectinstance'', a ! 7),
           (''resources'', JArray [JObject [(''resourceid'', a ! 8), (''value'', a ! 2), (''operations'', a ! 9)]])]])])"

lemma edge_of_val_instances:
  "edge_instances L E d (edge_of_val j)
     (json_elements (json_object_get (edge_of_val j) ''objectinstances'')) w =
   node_value L E d (json_elements (Some j)) w"
  by (simp add: edge_of_val_def Let_def edge_resource_def node_value_def split: option.split)


section \<open>Which values are set\<close>

fun is_set_resource :: "ev \<Rightarrow> bool" where
  "is_set_resource (Pt (PtSetResourceValue _ _ _ _ _ _)) = True"
| "is_set_resource _ = False"

definition values_set :: "mqtt_world \<Rightarrow> ev list" where
  "values_set w = filter is_set_resource (trace w)"

text \<open>An entry with its four numbers and its value.\<close>

definition node_entry :: "json \<Rightarrow> (int \<times> int \<times> int \<times> string) option" where
  "node_entry j =
     (let a = json_elements (Some j)
      in if length a \<noteq> 10 then None else do {
           ob \<leftarrow> json_atoi (Some (a ! 6)); inst \<leftarrow> json_atoi (Some (a ! 7)); res \<leftarrow> json_atoi (Some (a ! 8));
           ops \<leftarrow> json_atoi (Some (a ! 9)); v \<leftarrow> json_string_value (Some (a ! 2));
           Some (ob, inst, res, v)
         })"

definition set_event :: "conn \<Rightarrow> string \<Rightarrow> int \<times> int \<times> int \<times> string \<Rightarrow> ev" where
  "set_event c d e = (case e of (ob, inst, res, v) \<Rightarrow>
     Pt (PtSetResourceValue c d (word_of_int ob) (word_of_int inst) (word_of_int res) (string_bytes v)))"

lemma create_unset:
  "values_set (snd (mqttpt_create_sensor_object E c d ob i v w)) = values_set w \<and>
   mq_connection_id (snd (mqttpt_create_sensor_object E c d ob i v w)) = mq_connection_id w"
  "values_set (snd (mqttpt_create_object L E c d ob i r v ops w)) = values_set w \<and>
   mq_connection_id (snd (mqttpt_create_object L E c d ob i r v ops w)) = mq_connection_id w"
  by (auto simp: mqttpt_create_sensor_object_def mqttpt_create_object_def strdup_def malloc_def ask_defs
      values_set_def call_def Let_def split: option.splits prod.splits)

lemma set_node_value_sets:
  "\<exists>w'. set_node_value L E d ob i r ops (Some v) w = Some w' \<and>
     values_set w' = set_event (mq_connection_id w) d (ob, i, r, v) # values_set w \<and>
     mq_connection_id w' = mq_connection_id w"
  using create_unset
  by (auto simp: set_node_value_def ask_defs values_set_def set_event_def Let_def call_def)

lemma node_value_sets:
  assumes "node_entry j = Some e"
  shows "\<exists>w'. node_value L E d (json_elements (Some j)) w = Some w' \<and>
    values_set w' = set_event (mq_connection_id w) d e # values_set w \<and> mq_connection_id w' = mq_connection_id w"
proof -
  from assms obtain ob i r ops v where
    "json_atoi (Some (json_elements (Some j) ! 6)) = Some ob" "json_atoi (Some (json_elements (Some j) ! 7)) = Some i"
    "json_atoi (Some (json_elements (Some j) ! 8)) = Some r" "json_atoi (Some (json_elements (Some j) ! 9)) = Some ops"
    "json_string_value (Some (json_elements (Some j) ! 2)) = Some v" "e = (ob, i, r, v)"
    by (auto simp: node_entry_def Let_def split: if_splits Option.bind_splits)
  with set_node_value_sets [of L E d ob i r ops v w] show ?thesis by (simp add: node_value_def)
qed

text \<open>
  A \<open>Val\<close> message whose entries are complete sets each of its values, once and in the order of
  the message, at the resource the entry names, and no other value. The numbers are those
  \<open>atoi\<close> reads, taken modulo 2^16.
\<close>

theorem node_values_set_each_entry:
  "map node_entry js = map Some es \<Longrightarrow>
   \<exists>w'. node_values L E d js w = Some w' \<and>
     values_set w' = rev (map (set_event (mq_connection_id w) d) es) @ values_set w"
proof (induction js arbitrary: es w)
  case (Cons j js)
  then obtain e es' where es: "es = e # es'" "node_entry j = Some e" "map node_entry js = map Some es'"
    by (auto simp: Cons_eq_map_conv)
  from node_value_sets [OF es(2), of L E d w] obtain w1 where w1:
    "node_value L E d (json_elements (Some j)) w = Some w1"
    "values_set w1 = set_event (mq_connection_id w) d e # values_set w" "mq_connection_id w1 = mq_connection_id w"
    by blast
  have "length (json_elements (Some j)) = 10" using es(2) by (auto simp: node_entry_def Let_def split: if_splits)
  with Cons.IH [OF es(3), of w1] w1 es(1) show ?case by auto
qed simp

definition humidity_entry :: json where
  "humidity_entry = JArray [JString ''VALUE'', JString ''Humidity'', JString ''64.52'', JString ''%'', JString ''0'',
     JString ''100'', JString ''3304'', JString ''0'', JString ''5700'', JString ''5'']"

lemma humidity_entry_ok: "node_entry humidity_entry = Some (3304, 0, 5700, ''64.52'')"
  by code_simp

theorem node_values_set_each_entry_witness:
  "\<exists>w'. node_values (mqtt_libs_for JOther) mqtt_env ''d'' [humidity_entry] mqtt_zero = Some w' \<and>
     values_set w' = [Pt (PtSetResourceValue (-1) ''d'' 3304 0 5700 (string_bytes ''64.52''))]"
  using node_values_set_each_entry [of "[humidity_entry]" "[(3304, 0, 5700, ''64.52'')]" "mqtt_libs_for JOther" mqtt_env
      "''d''" mqtt_zero]
  by (simp add: humidity_entry_ok set_event_def mqtt_zero_def values_set_def)

section \<open>Sensors\<close>

text \<open>
  A value for a temperature or humidity sensor whose resource does not exist yet creates the
  sensor's value (5700) and its reset (5605) whatever resource is named: a minimum
  (5601), say, is set without having been created.
\<close>

theorem sensor_creation_ignores_resource:
  assumes "ob = 3303 \<or> ob = 3304" and "never_out_of_memory E"
    and "\<not> env_ok E (trace w) (Pt (PtDeviceResourceExists (mq_connection_id w) d (word_of_int ob) (word_of_int i) (word_of_int r)))"
  shows "\<exists>w'. set_node_value L E d ob i r ops (Some v) w = Some w' \<and>
    trace w' =
      [Pt (PtSetResourceValue (mq_connection_id w) d (word_of_int ob) (word_of_int i) (word_of_int r) (string_bytes v)),
       Pt (PtAddResourceCb (mq_connection_id w) d (word_of_int ob) (word_of_int i) 5605 LWM2M_OPAQUE {OPERATION_EXECUTE} []
         cb_mqtt_minmax_reset_callback),
       Pt (PtAddResource (mq_connection_id w) d (word_of_int ob) (word_of_int i) 5700 LWM2M_OPAQUE (string_bytes v)),
       Sys (Malloc (length v + 1)),
       Pt (PtDeviceResourceExists (mq_connection_id w) d (word_of_int ob) (word_of_int i) (word_of_int r))] @ trace w"
  using assms
  by (auto simp: set_node_value_def mqttpt_create_sensor_object_def strdup_def malloc_def ask_defs
      never_out_of_memory_def call_def Let_def)

theorem sensor_creation_ignores_resource_witness:
  "\<exists>w'. set_node_value (mqtt_libs_for JOther) mqtt_env ''d'' 3303 0 5601 1 (Some ''20'') mqtt_zero = Some w' \<and>
     Pt (PtAddResource (-1) ''d'' 3303 0 5601 LWM2M_OPAQUE (string_bytes ''20'')) \<notin> set (trace w') \<and>
     Pt (PtAddResource (-1) ''d'' 3303 0 5700 LWM2M_OPAQUE (string_bytes ''20'')) \<in> set (trace w')"
  using sensor_creation_ignores_resource [of 3303 mqtt_env mqtt_zero "''d''" 0 5601 "mqtt_libs_for JOther" 1 "''20''"]
  by (auto simp: mqtt_env_laws mqtt_zero_def)

section \<open>Certificate chains\<close>

lemma certificate_array_repeats:
  assumes "never_out_of_memory E" and "\<And>s. utf8_valid L s"
  shows "\<exists>w'. certificate_array L E n (Some cert) arr w =
    (Some (arr @ replicate n (JString (apr_base64_encode_binary L cert))), w') \<and> published w' = published w"
proof (induction n arbitrary: arr w)
  case (Suc n)
  let ?w = "call (Sys (Malloc (apr_base64_encode_len L (length cert)))) w"
  from Suc [of "arr @ [JString (apr_base64_encode_binary L cert)]" ?w] assms show ?case
    by (auto simp: malloc_def ask_defs never_out_of_memory_def json_string_def)
qed simp

text \<open>
  The notification of a renewed device certificate holds the first certificate of the chain as
  many times as the chain is long: the loop does not move on, and the other certificates are
  never sent.
\<close>

theorem certificate_chain_repeats_first:
  assumes "never_out_of_memory E" and "json_never_fails E" and "\<And>s. utf8_valid L s"
  shows "published (construct_and_send_device_certificate_renewal_notification L E (Some rid) (Some name)
      (Some (int n, cert # certs)) w) =
    Mq (MqPublish ''MQTTPt/DeviceCertificateRenewal''
      (JObject [(''request_id'', JString rid), (''certificate_name'', JString name),
         (''certificate_chain'', JArray (replicate n (JString (apr_base64_encode_binary L cert))))])) # published w"
proof -
  obtain w' where w': "certificate_array L E n (Some cert) [] (call (Mq JsonNew) w) =
    (Some (replicate n (JString (apr_base64_encode_binary L cert))), w')" "published w' = published w"
    using certificate_array_repeats [OF assms(1,3), of n cert "[]" "call (Mq JsonNew) w"] by auto
  show ?thesis
    using assms(2,3) w'
    by (simp add: construct_and_send_device_certificate_renewal_notification_def ask_defs json_never_fails_def
        publish_to_mqtt_def json_string_def)
qed

theorem certificate_chain_repeats_first_witness:
  "published (construct_and_send_device_certificate_renewal_notification (mqtt_libs_for JOther) mqtt_env (Some ''r'')
      (Some ''c'') (Some (int 2, [[65], [66]])) mqtt_zero) =
    [Mq (MqPublish ''MQTTPt/DeviceCertificateRenewal''
      (JObject [(''request_id'', JString ''r''), (''certificate_name'', JString ''c''),
         (''certificate_chain'', JArray [JString ''A'', JString ''A''])]))]"
proof -
  have L: "utf8_valid (mqtt_libs_for JOther) s" "apr_base64_encode_binary (mqtt_libs_for JOther) [65] = ''A''" for s
    by (simp_all add: mqtt_libs_for_def char_of_def bit_0)
  show ?thesis
    using certificate_chain_repeats_first [OF mqtt_env_laws(2,1) L(1), of "''r''" "''c''" 2 "[65]" "[[66]]" mqtt_zero]
    by (simp add: L(2) published_def mqtt_zero_def numeral_eq_Suc)
qed

section \<open>Registration before writing\<close>

fun is_write_values :: "ev \<Rightarrow> bool" where
  "is_write_values (Pt (PtWriteValues _ _)) = True"
| "is_write_values _ = False"

interpretation value_writes: call_class is_write_values
  by unfold_locales (auto elim!: is_write_values.elims)

text \<open>What a set of devices \<open>R\<close> allows: to be in the list, and to be written.\<close>

definition writes_only :: "string set \<Rightarrow> mqtt_world \<Rightarrow> bool" where
  "writes_only R w \<longleftrightarrow> set (mqttpt_devices w) \<subseteq> R \<and> (\<forall>c d. Pt (PtWriteValues c d) \<in> set (trace w) \<longrightarrow> d \<in> R)"

lemma writes_only_unmoved:
  assumes "unmoved is_write_values w w'" and "writes_only R w"
  shows "writes_only R w'"
proof -
  have "Pt (PtWriteValues c d) \<in> set (trace w') \<longleftrightarrow> Pt (PtWriteValues c d) \<in> set (trace w)" for c d
  proof -
    have "Pt (PtWriteValues c d) \<in> set (filter is_write_values (trace w')) \<longleftrightarrow>
          Pt (PtWriteValues c d) \<in> set (filter is_write_values (trace w))"
      using assms(1) by (simp add: unmoved_def)
    then show ?thesis by simp
  qed
  with assms show ?thesis by (simp add: writes_only_def unmoved_def)
qed

lemma effect_only:
  assumes "effect is_write_values e w w'" and w: "writes_only R w"
    and "\<And>d. e = Device_registered_mq (Some d) \<Longrightarrow> d \<in> R"
  shows "writes_only R w'"
  using assms(1)
proof cases
  case starts
  have "writes_only R (mqttpt_start_translator w)"
    using w by (simp add: writes_only_def mqttpt_start_translator_def sem_post_started_def call_def)
  with starts(2) show ?thesis by (rule writes_only_unmoved)
next
  case (writes_values v d n)
  have "writes_only R v" using writes_values(2) w by (rule writes_only_unmoved)
  then show ?thesis
    unfolding writes_values(1) by (auto simp: writes_only_def write_or_register_def mqttpt_device_exists_def call_def)
next
  case (registers d v)
  have "writes_only R v" using registers(3) w by (rule writes_only_unmoved)
  with registers assms(3) show ?thesis by (simp add: writes_only_def)
next
  case registered
  have "writes_only R (sem_post_started w)" using w by (simp add: writes_only_def sem_post_started_def)
  with registered(2) show ?thesis by (rule writes_only_unmoved)
next
  case runs_client
  then show ?thesis using w by (simp add: writes_only_def mqttpt_translator_thread_routine_def call_def)
qed (rule writes_only_unmoved [OF _ w])

lemma run_only:
  "writes_only R w \<Longrightarrow> (\<And>d. Device_registered_mq (Some d) \<in> set es \<Longrightarrow> d \<in> R) \<Longrightarrow> mqtt_run L E es w = Some w' \<Longrightarrow>
   writes_only R w'"
proof (induction es arbitrary: w)
  case (Cons e es)
  from Cons.prems(3) obtain w1 where 1: "mqtt_handle L E e w = Some w1" "mqtt_run L E es w1 = Some w'"
    by (auto split: option.splits)
  have "writes_only R w1"
    by (rule effect_only [OF value_writes.handled_effect [OF 1(1)] Cons.prems(1)]) (use Cons.prems(2) in auto)
  with Cons.IH [OF this _ 1(2)] Cons.prems(2) show ?case by simp
qed simp

text \<open>
  C36: Values are only written for registered devices. In every run, whatever messages and callbacks
  arrive in whatever order, Edge is asked to write the values of a device only when the
  success of that device's registration has been reported earlier in the run.
\<close>

theorem written_devices_are_registered:
  assumes "mqtt_run L E es mqtt_zero = Some w" and "Pt (PtWriteValues c d) \<in> set (trace w)"
  shows "Device_registered_mq (Some d) \<in> set es"
proof -
  have "writes_only {d. Device_registered_mq (Some d) \<in> set es} mqtt_zero"
    by (simp add: writes_only_def mqtt_zero_def)
  from run_only [OF this _ assms(1)] assms(2) show ?thesis by (auto simp: writes_only_def)
qed

definition humidity_message :: json where
  "humidity_message = JObject [(''payload_field'', JArray [humidity_entry])]"

definition humidity_events :: "mqtt_event list" where
  "humidity_events = [Message (Some ''MQTTGw/g/Node/d/Val'') ''p'', Translator_registered,
     Device_registered_mq (Some ''d''), Message (Some ''MQTTGw/g/Node/d/Val'') ''p'']"

lemma humidity_run:
  "case mqtt_run (mqtt_libs_for humidity_message) mqtt_env humidity_events mqtt_zero of
     None \<Rightarrow> False | Some w \<Rightarrow> Pt (PtWriteValues (-1) ''d'') \<in> set (trace w)"
  by code_simp

theorem written_devices_are_registered_witness:
  "\<exists>w. mqtt_run (mqtt_libs_for humidity_message) mqtt_env humidity_events mqtt_zero = Some w \<and>
     Device_registered_mq (Some ''d'') \<in> set humidity_events"
proof -
  obtain w where w: "mqtt_run (mqtt_libs_for humidity_message) mqtt_env humidity_events mqtt_zero = Some w"
    "Pt (PtWriteValues (-1) ''d'') \<in> set (trace w)"
    using humidity_run by (auto split: option.splits)
  from written_devices_are_registered [OF w] w(1) show ?thesis by blast
qed

end
