(* ===== verification/Thermal_Zone.thy ===== *)
theory Thermal_Zone
  imports C_Double Ipso_Objects
begin

text \<open>
  The temperature of the CPU (\<^verbatim>\<open>device-interface/thermal_zone.c\<close>). \<open>edge_read_file\<close> is the
  library's: it answers an error or the contents, in a buffer that ends with a NUL; given NULL it is
  the call \<open>ReadNoFile\<close>. Closing a directory that could not be opened has no effect (as in glibc).
  \<open>None\<close> is undefined behaviour, or text \<open>atof\<close> is not modelled on.
\<close>

record tzone_world = ext +
  cpu_thermal_zone_temp_file :: "string option"

abbreviation (input) THERMAL_ZONE_CPU_TYPE :: string where "THERMAL_ZONE_CPU_TYPE \<equiv> ''x86_pkg_temp''"
abbreviation (input) THERMAL_ZONE_CLASS_DIR :: string where "THERMAL_ZONE_CLASS_DIR \<equiv> ''/sys/class/thermal''"
abbreviation (input) THERMAL_ZONE_PREFIX :: string where "THERMAL_ZONE_PREFIX \<equiv> ''thermal_zone''"

text \<open>The contents of a file as a C string.\<close>

definition text_of :: "bytes \<Rightarrow> string" where
  "text_of b = map (\<lambda>x. char_of (unat x)) (takeWhile (\<lambda>x. x \<noteq> 0) b)"

section \<open>Finding the zone\<close>

text \<open>One directory entry. The type of a zone that cannot be read is compared as NULL: undefined.\<close>

definition tzone_entry ::
  "env \<Rightarrow> string \<Rightarrow> 'a tzone_world_scheme \<Rightarrow> 'a tzone_world_scheme option" where
  "tzone_entry E d_name w =
     (if strncmp_eq (length THERMAL_ZONE_PREFIX) THERMAL_ZONE_PREFIX d_name then
        let (type_file, w) =
              malloc E (length THERMAL_ZONE_CLASS_DIR + length d_name + 3 + length ''type'') w in
        if \<not> type_file then Some w else
        let (type, w) = ask_data E (Sys (ReadFile (THERMAL_ZONE_CLASS_DIR @ ''/'' @ d_name @ ''/type''))) w
        in map_option
             (\<lambda>b. if strncmp_eq (length THERMAL_ZONE_CPU_TYPE) THERMAL_ZONE_CPU_TYPE (text_of b)
                  then w\<lparr>cpu_thermal_zone_temp_file :=
                         Some (THERMAL_ZONE_CLASS_DIR @ ''/'' @ d_name @ ''/temp'')\<rparr>
                  else w) type
      else Some w)"

fun tzone_entries ::
  "env \<Rightarrow> string list \<Rightarrow> 'a tzone_world_scheme \<Rightarrow> 'a tzone_world_scheme option" where
  "tzone_entries E [] w = Some w"
| "tzone_entries E (d_name # ds) w =
     (case tzone_entry E d_name w of None \<Rightarrow> None | Some w \<Rightarrow> tzone_entries E ds w)"

definition tzone_get_cpu_thermal_zone_file_path ::
  "env \<Rightarrow> 'a tzone_world_scheme \<Rightarrow> (string option \<times> 'a tzone_world_scheme) option" where
  "tzone_get_cpu_thermal_zone_file_path E w =
     map_option (\<lambda>w. (cpu_thermal_zone_temp_file w, w))
       (if cpu_thermal_zone_temp_file w = None
        then (let (entries, w) = ask_strs E (Sys (ReadDir THERMAL_ZONE_CLASS_DIR)) w in tzone_entries E entries w)
        else Some w)"

text \<open>Without a path the zone counts as there.\<close>

definition tzone_has_cpu_thermal_zone ::
  "env \<Rightarrow> 'a tzone_world_scheme \<Rightarrow> (bool \<times> 'a tzone_world_scheme) option" where
  "tzone_has_cpu_thermal_zone E w =
     (case tzone_get_cpu_thermal_zone_file_path E w of
        None \<Rightarrow> None
      | Some (None, w) \<Rightarrow> Some (True, w)
      | Some (Some path, w) \<Rightarrow>
          map_option
            (\<lambda>(path, w). ask_ok E (Sys (AccessFile (the path))) w)
            (tzone_get_cpu_thermal_zone_file_path E w))"

section \<open>Reading the temperature\<close>

definition RAND_MAX :: int where "RAND_MAX = 2147483647"

text \<open>\<open>20.0 + (r * 80.0)\<close> for \<open>r = (float) rand() / (float) RAND_MAX\<close>.\<close>

definition random_temperature :: "int \<Rightarrow> f32" where
  "random_temperature n =
     f32_of_pair (narrow (double_add (20, 0)
       (double_mult (float_div (float_of_nat n) (float_of_nat RAND_MAX)) (80, 0))))"

text \<open>\<open>atof(buffer) / 1000\<close>.\<close>

definition millidegrees :: "string \<Rightarrow> f32 option" where
  "millidegrees s = map_option (\<lambda>(neg, x). f32_of_signed (neg, narrow (double_div_int x 1000))) (atof s)"

definition tzone_read_cpu_temperature ::
  "env \<Rightarrow> 'a tzone_world_scheme \<Rightarrow> (f32 \<times> 'a tzone_world_scheme) option" where
  "tzone_read_cpu_temperature E w = do {
     (has, w) \<leftarrow> tzone_has_cpu_thermal_zone E w;
     if \<not> has then Some (0, w) else do {
       (path, w) \<leftarrow> tzone_get_cpu_thermal_zone_file_path E w;
       let (buffer, w) =
             ask_data E (Sys (case path of None \<Rightarrow> ReadNoFile | Some p \<Rightarrow> ReadFile p)) w;
       (case buffer of
          Some (b # bs) \<Rightarrow> map_option (\<lambda>t. (t, w)) (millidegrees (text_of (b # bs)))
        | _ \<Rightarrow> let (n, w) = ask_int E (Sys Rand) w in Some (random_temperature n, w))
     }
   }"

definition tzone_free :: "'a tzone_world_scheme \<Rightarrow> 'a tzone_world_scheme" where
  "tzone_free w = w\<lparr>cpu_thermal_zone_temp_file := None\<rparr>"

end
