(* ===== verification/Thermal_Laws.thy ===== *)
theory Thermal_Laws
  imports Thermal_Zone Float_Accuracy
begin

text \<open>
  The temperature read of a zone file, as a real number, and the random one that stands in for it.
\<close>

section \<open>The number in the file\<close>

lemma of_char_digit: "n < 10 \<Longrightarrow> of_char (digit n) = 48 + (n :: nat)"
  by (simp add: digit_def)

lemma is_digit_digit: "n < 10 \<Longrightarrow> is_digit (digit n)"
  by (simp add: is_digit_def of_char_digit Let_def)

lemma decimal_digits: "\<forall>c\<in>set (decimal n). is_digit c"
proof (induction n rule: decimal.induct)
  case (1 n)
  show ?case
  proof (cases "n < 10")
    case True
    then show ?thesis by (subst decimal.simps) (simp add: is_digit_digit)
  next
    case False
    with 1 show ?thesis by (subst decimal.simps) (auto simp: is_digit_digit)
  qed
qed

lemma decimal_foldl: "foldl (\<lambda>n c. 10 * n + (of_char c - 48)) 0 (decimal n) = int n"
proof (induction n rule: decimal.induct)
  case (1 n)
  have d: "of_char (digit k) = (48 + int k)" if "k < 10" for k
    using of_char_digit [OF that] by (metis of_nat_add of_nat_numeral of_nat_of_char)
  show ?case
  proof (cases "n < 10")
    case True
    then show ?thesis by (subst decimal.simps) (simp add: d)
  next
    case False
    with 1 have "foldl (\<lambda>n c. 10 * n + (of_char c - 48)) 0 (decimal n) = 10 * int (n div 10) + int (n mod 10)"
      by (subst decimal.simps) (simp add: d)
    also have "10 * int (n div 10) + int (n mod 10) = int n"
      by (metis mult_div_mod_eq of_nat_add of_nat_mult of_nat_numeral)
    finally show ?thesis .
  qed
qed

lemma decimal_number_decimal: "decimal_number (decimal n @ [CHR 0x0A]) = Some (False, int n, 0)"
proof -
  have digit: "is_digit c \<Longrightarrow> c \<notin> {CHR ''-'', CHR ''+'', CHR ''.'', CHR ''i'', CHR ''I'', CHR ''n'', CHR ''N'',
      CHR ''x'', CHR ''X'', CHR 0x0A} \<and> \<not> is_space c" for c
    by (auto simp: is_digit_def is_space_def Let_def)
  obtain c t where c: "decimal n = c # t" by (cases "decimal n") auto
  with decimal_digits [of n] have d: "is_digit c" "\<forall>x\<in>set t. is_digit x" by auto
  have nl: "\<not> is_digit (CHR 0x0A)" by (simp add: is_digit_def)
  have b: "(case t @ [CHR 0x0A] of b # u \<Rightarrow> c = CHR ''0'' \<and> b \<in> {CHR ''x'', CHR ''X''} | _ \<Rightarrow> False) = False"
    using d(2) digit by (cases t) auto
  have "takeWhile is_digit (t @ [CHR 0x0A]) = t" "dropWhile is_digit (t @ [CHR 0x0A]) = [CHR 0x0A]"
    using d(2) nl by (simp_all add: takeWhile_append2 dropWhile_append2)
  moreover have "digits_value (c # t) = int n"
    using decimal_foldl [of n] d by (simp add: digits_value_def c takeWhile_eq_all_conv [THEN iffD2])
  moreover have "(case c # t @ [CHR 0x0A] of a # b # u \<Rightarrow> a = CHR ''0'' \<and> b \<in> {CHR ''x'', CHR ''X''} | _ \<Rightarrow> False)
      = False"
    using b by (cases t) auto
  ultimately show ?thesis
    using digit [OF d(1)] d
    by (simp add: decimal_number_def c Let_def del: list.case) (simp add: exponent_of_def)
qed


section \<open>Its thousandth\<close>

text \<open>A float with a sign bit that is clear and a significand that is not zero.\<close>

lemma f32_of_signed_pos: "m \<noteq> 0 \<Longrightarrow> f32_of_signed (False, m, e) = f32_of_pair (m, e)"
  by (simp add: f32_of_signed_def)

lemma f32_value_zero: "f32_value 0 = 0"
  by (simp add: f32_value_def)

lemma near_low:
  assumes "near x y \<delta>" "1 / 1000 \<le> y" "\<delta> \<le> 1 / 2"
  shows "2 powi (-40) \<le> x"
proof -
  have "1 / 1000 * (1 / 2) \<le> y * (1 - \<delta>)" using assms(2,3) by (intro mult_mono) auto
  also have "\<dots> \<le> x" using near_bounds [OF assms(1)] by simp
  finally have "1 / 2000 \<le> x" by simp
  moreover have "(2 :: real) powi (-40) \<le> 1 / 2000" by (simp add: power_int_def power_divide)
  ultimately show ?thesis by linarith
qed

lemma narrow_value:
  assumes x: "near (pair_val x) y \<epsilon>" and y: "1 / 1000 \<le> y" "y < 2 ^ 32" and \<epsilon>: "\<epsilon> \<le> 1 / 2 ^ 40"
  shows "\<bar>f32_value (f32_of_signed (False, narrow x)) - y\<bar> \<le> y / 2 ^ 22"
proof -
  obtain m e where me: "narrow x = (m, e)" by fastforce
  have low: "2 powi (-40) \<le> pair_val x"
    by (rule near_low [OF x y(1)]) (use \<epsilon> in simp)
  then have pos: "0 < pair_val x" by (rule less_le_trans [rotated]) simp
  have n: "near (pair_val (m, e)) y (2 powi (-22))"
    using near_trans [OF narrow_near [OF low] x] unfolding me
    by (rule near_mono) (use \<epsilon> in \<open>simp add: power_int_def power_divide\<close>)
  have "pair_val (m, e) \<le> y * (1 + 2 powi (-22))" using near_bounds [OF n] by simp
  also have "\<dots> \<le> 2 ^ 32 * 2" using y by (intro mult_mono) (simp_all add: power_int_def power_divide)
  finally have up: "pair_val (m, e) < 2 ^ 40" by simp
  note R = narrow_range [OF pos me up]
  have "0 < pair_val (m, e)"
    using near_low [OF n y(1)] by (rule less_le_trans [rotated]) (simp add: power_int_def power_divide)+
  then have "m \<noteq> 0" by (auto simp: pair_val_def)
  with R have "f32_value (f32_of_signed (False, narrow x)) = pair_val (m, e)"
    by (simp add: me f32_of_signed_pos f32_of_pair_value)
  with n show ?thesis by (simp add: near_def power_int_def power_divide)
qed

lemma div_1000_near:
  assumes "0 < n"
  shows "near (pair_val (double_div_int (round_to 53 (-1074) n 1) 1000)) (of_int n / 1000) (1 / 2 ^ 40)"
proof -
  let ?x = "round_to 53 (-1074) n 1"
  have "1 \<le> n" using assms by simp
  then have n: "1 \<le> (of_int n :: real)" by linarith
  then have "2 powi (-40) \<le> (of_int n / of_int 1 :: real)"
    by (simp add: power_int_def power_divide)
  from round_to_near [OF assms _ _ _ this, of 53 "-1074"]
  have x: "near (pair_val ?x) (of_int n) (2 powi (-52))" by simp
  obtain a b where ab: "dyadic ?x = (a, b)" by fastforce
  note v = dyadic_val [OF ab]
  have x': "near (pair_val ?x / 1000) (of_int n / 1000) (2 powi (-52))"
    using x by (auto simp: near_def abs_le_iff field_simps)
  have low: "2 powi (-40) \<le> pair_val ?x / 1000"
  proof -
    have "1 / 2 \<le> (of_int n :: real) * (1 - 2 powi (-52))"
      using mult_mono [of 1 "of_int n :: real" "1 / 2" "1 - 2 powi (-52)"] n
      by (simp add: power_int_def power_divide)
    also have "\<dots> \<le> pair_val ?x" using near_bounds [OF x] by simp
    finally show ?thesis by (simp add: power_int_def power_divide)
  qed
  have q: "of_int a / of_int (b * 1000) = pair_val ?x / 1000" using v by simp
  have "0 < pair_val ?x" using low less_le_trans [of 0 "2 powi (-40)" "pair_val ?x / 1000"] by simp
  with v have "0 < a" by (metis divide_pos_pos of_int_0_less_iff zero_less_divide_iff less_asym)
  moreover have "2 powi (-40) \<le> (of_int a / of_int (b * 1000) :: real)" unfolding q by (rule low)
  ultimately have "near (pair_val (round_to 53 (-1074) a (b * 1000))) (of_int a / of_int (b * 1000)) (2 powi (1 - int 53))"
    using v by (intro round_to_near) simp_all
  then have "near (pair_val (round_to 53 (-1074) a (b * 1000))) (pair_val ?x / 1000) (2 powi (-52))"
    unfolding q by simp
  from near_trans [OF this x'] show ?thesis
    unfolding double_div_int_def ab by simp (rule near_mono, assumption, simp add: power_int_def power_divide)
qed

lemma millidegrees_value:
  assumes "n < 2 ^ 32"
  shows "\<exists>t. millidegrees (decimal n @ [CHR 0x0A]) = Some t \<and> \<bar>f32_value t - real n / 1000\<bar> \<le> real n / 1000 / 2 ^ 22"
proof (cases "n = 0")
  case True
  have "atof (decimal 0 @ [CHR 0x0A]) = Some (False, round_to 53 (-1074) 0 1)"
    by (simp add: atof_def decimal_number_decimal)
  moreover have "f32_of_signed (False, narrow (double_div_int (round_to 53 (-1074) 0 1) 1000)) = 0"
    by code_simp
  ultimately show ?thesis using True by (simp add: millidegrees_def f32_value_zero)
next
  case False
  then have n: "1 \<le> real n" "real n / 1000 < 2 ^ 32" using assms by simp_all
  have m: "millidegrees (decimal n @ [CHR 0x0A]) =
      Some (f32_of_signed (False, narrow (double_div_int (round_to 53 (-1074) (int n) 1) 1000)))"
    by (simp add: millidegrees_def atof_def decimal_number_decimal)
  have "near (pair_val (double_div_int (round_to 53 (-1074) (int n) 1) 1000)) (real n / 1000) (1 / 2 ^ 40)"
    using div_1000_near [of "int n"] False by simp
  from narrow_value [OF this] n show ?thesis unfolding m by simp
qed

section \<open>Reading the zone\<close>

lemma temp_file_call [simp]: "cpu_thermal_zone_temp_file (call e w) = cpu_thermal_zone_temp_file w"
  by (simp add: call_def)

text \<open>
  C26: When the file of the CPU's zone holds a number of thousandths of a degree, as Linux writes it,
  the temperature read is that number of degrees to within a four-millionth of it.
\<close>

theorem cpu_temperature_accurate:
  assumes zone: "cpu_thermal_zone_temp_file w = Some path" "env_ok E (trace w) (Sys (AccessFile path))"
    and data: "env_data E (Sys (AccessFile path) # trace w) (Sys (ReadFile path)) = Some contents"
      "text_of contents = decimal n @ [CHR 0x0A]" "n < 2 ^ 32"
  shows "\<exists>t w'. tzone_read_cpu_temperature E w = Some (t, w') \<and>
    \<bar>f32_value t - real n / 1000\<bar> \<le> real n / 1000 / 2 ^ 22"
proof -
  obtain t where t: "millidegrees (text_of contents) = Some t" "\<bar>f32_value t - real n / 1000\<bar> \<le> real n / 1000 / 2 ^ 22"
    using millidegrees_value [OF data(3)] by (auto simp: data(2))
  obtain b bs where b: "contents = b # bs" using data(2) by (cases contents) (auto simp: text_of_def)
  show ?thesis
    using t zone data(1)
    by (simp add: tzone_read_cpu_temperature_def tzone_has_cpu_thermal_zone_def
          tzone_get_cpu_thermal_zone_file_path_def ask_defs b)
qed

text \<open>A zone at 45 degrees.\<close>

definition warm_env :: env where
  "warm_env = \<lparr>env_status = (\<lambda>es e. PT_STATUS_SUCCESS), env_ok = (\<lambda>es e. True), env_int = (\<lambda>es e. 0),
     env_data = (\<lambda>es e. Some (map of_char ''45000'' @ [10])),
     env_str = (\<lambda>es e. None), env_strs = (\<lambda>es e. []), env_variant = (\<lambda>es e. None),
     env_objects = (\<lambda>es e. None), env_junk = (\<lambda>es. []), PT_API_CONNECTION_ID_INVALID = -1\<rparr>"

definition warm_zone :: tzone_world where
  "warm_zone = \<lparr>trace = [], cpu_thermal_zone_temp_file = Some ''/sys/class/thermal/thermal_zone0/temp''\<rparr>"

theorem cpu_temperature_accurate_witness:
  "\<exists>t w'. tzone_read_cpu_temperature warm_env warm_zone = Some (t, w') \<and> \<bar>f32_value t - 45\<bar> \<le> 45 / 2 ^ 22"
proof -
  have d: "decimal 45000 = ''45000''" by (simp add: decimal.simps digit_def char_of_def bit_0)
  have t: "text_of (map of_char ''45000'' @ [10]) = decimal 45000 @ [CHR 0x0A]"
    unfolding d by code_simp
  show ?thesis
    using cpu_temperature_accurate [of warm_zone _ warm_env _ 45000, OF _ _ _ t]
    by (simp add: warm_zone_def warm_env_def)
qed

end
