(* ===== verification/Client_Config.thy ===== *)
theory Client_Config
  imports Thermal_Zone
begin

text \<open>
  The devices of the protocol translator example (\<^verbatim>\<open>examples-common-2/client_config.c\<close>). The two
  callbacks of the file that only trace have no effect.
\<close>

abbreviation (input) CLIENT_LIFETIME :: nat where "CLIENT_LIFETIME \<equiv> 86400"

text \<open>A user data of NULL is 0.\<close>

definition client_config_create_device_with_userdata ::
  "env \<Rightarrow> conn \<Rightarrow> string \<Rightarrow> int \<Rightarrow> 'a ext_scheme \<Rightarrow> 'a ext_scheme" where
  "client_config_create_device_with_userdata E connection_id device_id userdata w =
     snd (ask_status E (Pt (PtDeviceCreateUserdata connection_id device_id CLIENT_LIFETIME QUEUE userdata)) w)"

definition client_config_create_device :: "env \<Rightarrow> conn \<Rightarrow> string \<Rightarrow> 'a ext_scheme \<Rightarrow> 'a ext_scheme" where
  "client_config_create_device E connection_id device_id =
     client_config_create_device_with_userdata E connection_id device_id 0"

definition client_config_example_reboot_callback :: pt_status where
  "client_config_example_reboot_callback = PT_STATUS_SUCCESS"

definition client_config_create_device_with_parameters ::
  "env \<Rightarrow> conn \<Rightarrow> string \<Rightarrow> int \<Rightarrow> string \<Rightarrow> string \<Rightarrow> string \<Rightarrow> string \<Rightarrow> 'a ext_scheme \<Rightarrow> 'a ext_scheme" where
  "client_config_create_device_with_parameters E connection_id device_id userdata
       manufacturer model_number serial_number device_type w =
     call (Pt (PtInitializeDeviceObject connection_id device_id
       \<lparr>dod_manufacturer = Some manufacturer, dod_model_number = Some model_number,
        dod_serial_number = Some serial_number, dod_firmware_version = Some ''N/A'',
        dod_hardware_version = Some ''N/A'', dod_software_version = Some ''N/A'',
        dod_device_type = Some device_type,
        dod_reboot_callback = cb_client_config_example_reboot_callback\<rparr>))
       (client_config_create_device_with_userdata E connection_id device_id userdata w)"

text \<open>What both the CPU's device and a device that comes back after an update have.\<close>

definition create_temperature_sensor :: "env \<Rightarrow> conn \<Rightarrow> string \<Rightarrow> 'a ext_scheme \<Rightarrow> 'a ext_scheme" where
  "create_temperature_sensor E connection_id device_id w =
     ipso_add_min_max_fields E connection_id device_id TEMPERATURE_SENSOR 0 cb_ipso_reset_min_max_object
       (ipso_create_sensor_object E connection_id device_id TEMPERATURE_SENSOR 0 (Some ''CEL'') None w)"

definition client_config_create_cpu_temperature_device ::
  "env \<Rightarrow> conn \<Rightarrow> string \<Rightarrow> 'a tzone_world_scheme \<Rightarrow> 'a tzone_world_scheme option" where
  "client_config_create_cpu_temperature_device E connection_id device_id w =
     map_option
       (\<lambda>(has, w).
          if has
          then create_temperature_sensor E connection_id device_id
                 (client_config_create_device_with_parameters E connection_id device_id 0
                    ''ARM'' ''example'' ''001'' ''example'' w)
          else w)
       (tzone_has_cpu_thermal_zone E w)"

text \<open>The thermometer and, when it could be created, the thermostat, with its set point at 25.\<close>

definition client_config_create_devices :: "env \<Rightarrow> conn \<Rightarrow> string \<Rightarrow> 'a ext_scheme \<Rightarrow> bool \<times> 'a ext_scheme" where
  "client_config_create_devices E connection_id endpoint_postfix w =
     (let device_id = snprintf_buf 128 (''thermometer'' @ endpoint_postfix);
          (status, w) = ask_status E (Pt (PtDeviceCreate connection_id device_id CLIENT_LIFETIME NONE)) w in
      if status \<noteq> PT_STATUS_SUCCESS then (False, w) else
      let w = ipso_create_sensor_object E connection_id device_id TEMPERATURE_SENSOR 0 (Some ''CEL'') None w;
          device_id = snprintf_buf 128 (''thermostat'' @ endpoint_postfix);
          (status, w) = ask_status E (Pt (PtDeviceCreate connection_id device_id CLIENT_LIFETIME NONE)) w in
      if status \<noteq> PT_STATUS_SUCCESS then (False, w) else
      (True, ipso_create_set_point E connection_id device_id 0 0x41C80000 w))"

definition client_config_free :: "'a tzone_world_scheme \<Rightarrow> 'a tzone_world_scheme" where
  "client_config_free w = tzone_free w"

end
