(* ===== verification/Client_Example.thy ===== *)
theory Client_Example
  imports Client_Config
begin

text \<open>
  The protocol translator example (\<^verbatim>\<open>pt-example/client_example.c\<close>): its state, its two threads and
  their handlers. The state says where each thread stands; a condition variable wakes the thread
  that waits for it and is lost when none does. The locks only protect single accesses and are not
  represented, except that waiting for a condition is a place a thread stands at. The manifest
  context is a structure of the library: the sizes of its two arrays and the two identifiers it is
  compared with are parameters. \<open>None\<close> is undefined behaviour.
\<close>

section \<open>State\<close>

datatype main_pc =
    Main_started
  | Main_wait_connected
  | Main_prepare
  | Main_loop string
  | Main_shutdown
  | Main_unregistering
  | Main_wait_unregistered
  | Main_join
  | Main_returned int

datatype api_pc =
    Api_not_started
  | Api_started
  | Api_event_loop
  | Api_unregistering
  | Api_wait_unregistered
  | Api_returned

record client_world = tzone_world +
  client_connection_id :: conn
  g_shutdown_handler_called :: nat
  g_keep_running :: bool
  g_connected :: bool
  g_protocol_translator_api_running :: bool
  main_at :: main_pc
  api_at :: api_pc

record client_args =
  protocol_translator_name :: "string option"
  endpoint_postfix :: string
  edge_domain_socket :: string

record client_libs =
  manifest_device_id_size :: nat
  manifest_version_size :: nat
  MANIFEST_VENDOR_STR :: bytes
  MANIFEST_CLASS_STR :: bytes

abbreviation (input) MANIFEST_VENDOR_CLASS_SIZE :: nat where "MANIFEST_VENDOR_CLASS_SIZE \<equiv> 16"
abbreviation (input) CPU_TEMPERATURE_DEVICE :: string where "CPU_TEMPERATURE_DEVICE \<equiv> ''cpu-temperature''"

section \<open>Flags and conditions\<close>

definition set_connected :: "client_world \<Rightarrow> client_world" where
  "set_connected w =
     (let w = w\<lparr>g_connected := True\<rparr>
      in if main_at w = Main_wait_connected then w\<lparr>main_at := Main_prepare\<rparr> else w)"

definition set_disconnected :: "client_world \<Rightarrow> client_world" where
  "set_disconnected w = w\<lparr>g_connected := False\<rparr>"

definition set_keep_running :: "bool \<Rightarrow> client_world \<Rightarrow> client_world" where
  "set_keep_running b w = w\<lparr>g_keep_running := b\<rparr>"

definition set_protocol_translator_api_running :: "bool \<Rightarrow> client_world \<Rightarrow> client_world" where
  "set_protocol_translator_api_running b w = w\<lparr>g_protocol_translator_api_running := b\<rparr>"

text \<open>Only the library's thread signals \<open>shutdown_wait_cond\<close>, so only \<open>main\<close> can be waiting.\<close>

definition signal_shutdown :: "client_world \<Rightarrow> client_world" where
  "signal_shutdown w = (if main_at w = Main_wait_unregistered then w\<lparr>main_at := Main_join\<rparr> else w)"

definition client_shutdown_handler :: "client_world \<Rightarrow> client_world" where
  "client_shutdown_handler w = w\<lparr>g_shutdown_handler_called := g_shutdown_handler_called w + 1\<rparr>"

definition is_shutdown_handler_called :: "client_world \<Rightarrow> bool" where
  "is_shutdown_handler_called w \<longleftrightarrow> g_shutdown_handler_called w = 1"

definition client_setup_signals :: "env \<Rightarrow> 'a ext_scheme \<Rightarrow> bool \<times> 'a ext_scheme" where
  "client_setup_signals E w =
     (let (ok, w) = ask_ok E (Sys (Sigaction 15)) w in
      if \<not> ok then (False, w) else
      let (ok, w) = ask_ok E (Sys (Sigaction 2)) w in
      if \<not> ok then (False, w) else
      let (_, w) = ask_ok E (Sys (Sigaction 13)) w in ask_ok E (Sys (Sigaction 12)) w)"

section \<open>Unregistering\<close>

definition pt_devices_unregistration_common :: "client_world \<Rightarrow> client_world" where
  "pt_devices_unregistration_common w =
     set_keep_running False (client_config_free (call (Pt PtClientShutdown) (signal_shutdown w)))"

definition devices_unregistration_success :: "client_world \<Rightarrow> client_world" where
  "devices_unregistration_success w = pt_devices_unregistration_common w"

definition devices_unregistration_failure :: "client_world \<Rightarrow> client_world" where
  "devices_unregistration_failure w = pt_devices_unregistration_common w"

text \<open>
  Up to the wait: whether the caller has to wait for \<open>shutdown_wait_cond\<close>. Between the request and
  the wait the lock does not keep the answer away, since whoever signals does not take it.
\<close>

definition client_shutdown_and_cleanup :: "env \<Rightarrow> client_world \<Rightarrow> bool \<times> client_world" where
  "client_shutdown_and_cleanup E w =
     (let (status, w) = ask_status E (Pt (PtDevicesUnregister (client_connection_id w))) w
      in if status = PT_STATUS_SUCCESS then (True, w) else (False, call (Pt PtClientShutdown) w))"

section \<open>Callbacks of the library's thread\<close>

definition devices_registration_success_cb :: "client_world \<Rightarrow> client_world" where
  "devices_registration_success_cb w = set_connected w"

definition devices_registration_failure_cb :: "client_world \<Rightarrow> client_world" where
  "devices_registration_failure_cb w = set_connected w"

definition connection_ready_handler :: "env \<Rightarrow> client_args \<Rightarrow> conn \<Rightarrow> client_world \<Rightarrow> client_world" where
  "connection_ready_handler E args connection_id w =
     snd (client_config_create_devices E connection_id (endpoint_postfix args)
            (w\<lparr>client_connection_id := connection_id\<rparr>))"

definition protocol_translator_registration_success :: "client_world \<Rightarrow> client_world" where
  "protocol_translator_registration_success w =
     call (Pt (PtDevicesRegister (client_connection_id w))) (set_protocol_translator_api_running True w)"

definition protocol_translator_registration_failure :: "env \<Rightarrow> client_world \<Rightarrow> client_world" where
  "protocol_translator_registration_failure E w =
     (let (waits, w) = client_shutdown_and_cleanup E (set_keep_running False w)
      in if waits then w\<lparr>api_at := Api_unregistering\<rparr> else w)"

definition disconnected_handler :: "client_world \<Rightarrow> client_world" where
  "disconnected_handler w = set_disconnected w"

definition device_certificate_renew_request_handler :: pt_status where
  "device_certificate_renew_request_handler = PT_STATUS_ERROR"

definition shutdown_cb_handler :: "client_world \<Rightarrow> client_world" where
  "shutdown_cb_handler w = (if \<not> g_keep_running w then w else set_keep_running False w)"

text \<open>The thread: \<open>pt_client_start\<close> runs the callbacks and returns a code.\<close>

definition protocol_translator_api_start_func :: "client_args \<Rightarrow> client_world \<Rightarrow> client_world" where
  "protocol_translator_api_start_func args w =
     (call (Pt (PtClientStart (the (protocol_translator_name args)))) w)\<lparr>api_at := Api_event_loop\<rparr>"

definition api_start_func_returns :: "int \<Rightarrow> client_world \<Rightarrow> client_world" where
  "api_start_func_returns rc w =
     (if rc \<noteq> 0 then set_keep_running False w else w)\<lparr>api_at := Api_returned\<rparr>"

definition start_protocol_translator_api :: "client_world \<Rightarrow> client_world" where
  "start_protocol_translator_api w = (call (Sys ThreadCreate) w)\<lparr>api_at := Api_started\<rparr>"

section \<open>Temperature\<close>

text \<open>
  The minimum (or maximum), when the resource is there: its value is compared and replaced. The
  first component: the function goes on.
\<close>

definition update_extremum ::
  "env \<Rightarrow> conn \<Rightarrow> string \<Rightarrow> u16 \<Rightarrow> (f32 \<Rightarrow> bool) \<Rightarrow> f32 \<Rightarrow> 'a ext_scheme \<Rightarrow> (bool \<times> 'a ext_scheme) option" where
  "update_extremum E c device_id resource_id beyond temperature w =
     (let (exists, w) = ask_ok E (Pt (PtDeviceResourceExists c device_id TEMPERATURE_SENSOR 0 resource_id)) w in
      if \<not> exists then Some (True, w) else
      let ((status, value_buffer), w) =
            pt_device_get_resource_value E c device_id TEMPERATURE_SENSOR 0 resource_id w in
      if status \<noteq> PT_STATUS_SUCCESS then Some (False, w) else do {
        b \<leftarrow> value_buffer;
        value \<leftarrow> convert_value_to_host_order_float b;
        Some (if beyond value then
                let (new_value, w) = malloc E 4 w
                in (True, if new_value
                          then call (Pt (PtSetResourceValue c device_id TEMPERATURE_SENSOR 0 resource_id
                                 (convert_float_value_to_network_byte_order temperature))) w
                          else w)
              else (True, w))
      })"

text \<open>\<open>current != temperature\<close>: true when either is a NaN; the two zeros are equal.\<close>

definition f32_differs :: "f32 \<Rightarrow> f32 \<Rightarrow> bool" where
  "f32_differs x y \<longleftrightarrow> f32_nan x \<or> f32_nan y \<or> f32_key x \<noteq> f32_key y"

definition update_temperature_to_device ::
  "env \<Rightarrow> conn \<Rightarrow> string \<Rightarrow> f32 \<Rightarrow> 'a ext_scheme \<Rightarrow> 'a ext_scheme option" where
  "update_temperature_to_device E c device_id temperature w =
     (let ((status, value_buffer), w) =
            pt_device_get_resource_value E c device_id TEMPERATURE_SENSOR 0 SENSOR_VALUE w in
      if status \<noteq> PT_STATUS_SUCCESS then Some w else do {
        b \<leftarrow> value_buffer;
        current \<leftarrow> convert_value_to_host_order_float b;
        if f32_differs current temperature then do {
          let w = call (Pt (PtSetResourceValue c device_id TEMPERATURE_SENSOR 0 SENSOR_VALUE
                    (convert_float_value_to_network_byte_order temperature))) w;
          (go_on, w) \<leftarrow> update_extremum E c device_id MIN_MEASURED_VALUE (f32_less temperature) temperature w;
          if go_on then map_option snd
            (update_extremum E c device_id MAX_MEASURED_VALUE (\<lambda>v. f32_less v temperature) temperature w)
          else Some w
        } else Some w
      })"

section \<open>Firmware updates\<close>

text \<open>The manifest context is the device and the version; its size only travels to the library.\<close>

definition manifest_meta_data_handle ::
  "client_libs \<Rightarrow> env \<Rightarrow> conn \<Rightarrow> string \<Rightarrow> bytes \<Rightarrow> bytes \<Rightarrow> string \<Rightarrow> u64 \<Rightarrow> 'a ext_scheme \<Rightarrow>
   (pt_status \<times> 'a ext_scheme) option" where
  "manifest_meta_data_handle L E connection_id device_id class_id vendor_id version asset_size w =
     (if manifest_device_id_size L \<le> length device_id \<or> manifest_version_size L \<le> length version \<or>
         MANIFEST_VENDOR_CLASS_SIZE + 1 < length (MANIFEST_VENDOR_STR L) \<or>
         MANIFEST_VENDOR_CLASS_SIZE + 1 < length (MANIFEST_CLASS_STR L) \<or>
         length vendor_id < MANIFEST_VENDOR_CLASS_SIZE
      then None else
      let id = (\<lambda>s. take MANIFEST_VENDOR_CLASS_SIZE (s @ replicate MANIFEST_VENDOR_CLASS_SIZE 0)) in
      if take MANIFEST_VENDOR_CLASS_SIZE vendor_id \<noteq> id (MANIFEST_VENDOR_STR L) then Some (PT_STATUS_ERROR, w) else
      if length class_id < MANIFEST_VENDOR_CLASS_SIZE then None else
      if take MANIFEST_VENDOR_CLASS_SIZE class_id \<noteq> id (MANIFEST_CLASS_STR L) then Some (PT_STATUS_ERROR, w) else
      Some (ask_status E (Pt (PtDownloadAsset connection_id device_id asset_size device_id version)) w))"

text \<open>The file is only counted and closed again.\<close>

definition asset_download_success_handler ::
  "env \<Rightarrow> conn \<Rightarrow> string \<Rightarrow> string \<Rightarrow> 'a ext_scheme \<Rightarrow> 'a ext_scheme" where
  "asset_download_success_handler E connection_id filename asset_device_id w =
     (let (_, w) = ask_data E (Sys (ReadFile filename)) w
      in snd (ask_status E (Pt (PtDeviceUnregister connection_id asset_device_id True)) w))"

definition unregister_success_handler ::
  "env \<Rightarrow> conn \<Rightarrow> string \<Rightarrow> string \<Rightarrow> 'a ext_scheme \<Rightarrow> 'a ext_scheme" where
  "unregister_success_handler E connection_id device_id asset_version w =
     (let w = call (Sys (Sleep 5)) w;
          w = client_config_create_device_with_parameters E connection_id device_id 0
                ''Pelion'' ''example'' ''001'' ''example'' w;
          w = create_temperature_sensor E connection_id device_id w;
          w = call (Pt (PtUpdateFirmwareResources connection_id device_id asset_version)) w
      in call (Pt (PtDeviceRegister connection_id device_id)) w)"

section \<open>The main thread\<close>

text \<open>
  \<open>main\<close> up to the call of \<open>main_loop\<close>; the name of the translator is mandatory. The assertions on
  the locks hold.
\<close>

definition client_main :: "env \<Rightarrow> client_args \<Rightarrow> client_world \<Rightarrow> client_world" where
  "client_main E args w =
     (let w = w\<lparr>g_shutdown_handler_called := 0\<rparr> in
      if protocol_translator_name args = None then w\<lparr>main_at := Main_returned 1\<rparr> else
      let w = call (Pt (PtClientCreate (edge_domain_socket args))) w;
          (ok, w) = client_setup_signals E w in
      if \<not> ok then w\<lparr>main_at := Main_returned 1\<rparr> else
      let (ctx, w) = malloc E 24 w in
      if \<not> ctx then w\<lparr>main_at := Main_returned 1\<rparr>
      else (start_protocol_translator_api w)\<lparr>main_at := Main_started\<rparr>)"

text \<open>\<open>main_loop\<close> after the wait, up to the loop.\<close>

definition main_loop_prepare :: "env \<Rightarrow> client_args \<Rightarrow> client_world \<Rightarrow> client_world option" where
  "main_loop_prepare E args w =
     (let (ok, w) = malloc E (length CPU_TEMPERATURE_DEVICE + length (endpoint_postfix args) + 1) w in
      if \<not> ok then Some (w\<lparr>main_at := Main_shutdown\<rparr>) else
      let device_id = CPU_TEMPERATURE_DEVICE @ endpoint_postfix args;
          w = call (Pt (PtAddManifestCallback (client_connection_id w))) w
      in map_option
           (\<lambda>w. (call (Pt (PtDeviceRegister (client_connection_id w) device_id)) w)\<lparr>main_at := Main_loop device_id\<rparr>)
           (client_config_create_cpu_temperature_device E (client_connection_id w) device_id w))"

text \<open>One round of the loop, or its end.\<close>

definition main_loop_round :: "env \<Rightarrow> string \<Rightarrow> client_world \<Rightarrow> client_world option" where
  "main_loop_round E device_id w =
     (if \<not> g_keep_running w \<or> is_shutdown_handler_called w then Some (w\<lparr>main_at := Main_shutdown\<rparr>) else
      map_option (call (Sys (Sleep 5)))
        (if g_connected w then
           let (exists, w) = ask_ok E (Pt (PtDeviceExists (client_connection_id w) device_id)) w in
           if exists \<and> g_protocol_translator_api_running w then do {
             (temperature, w) \<leftarrow> tzone_read_cpu_temperature E w;
             w \<leftarrow> update_temperature_to_device E (client_connection_id w) device_id temperature w;
             Some (call (Pt (PtDevicesUpdate (client_connection_id w))) w)
           } else Some w
         else Some w))"

definition main_unregister :: "env \<Rightarrow> client_world \<Rightarrow> client_world" where
  "main_unregister E w =
     (let (waits, w) = client_shutdown_and_cleanup E w
      in w\<lparr>main_at := if waits then Main_unregistering else Main_join\<rparr>)"

definition wait_for_protocol_translator_api_thread :: "client_world \<Rightarrow> client_world" where
  "wait_for_protocol_translator_api_thread w =
     (set_protocol_translator_api_running False (call (Sys ThreadJoin) w))\<lparr>main_at := Main_returned 0\<rparr>"

text \<open>The next thing the main thread does; nothing while it waits.\<close>

definition main_step :: "env \<Rightarrow> client_args \<Rightarrow> client_world \<Rightarrow> client_world option" where
  "main_step E args w =
     (case main_at w of
        Main_started \<Rightarrow> Some (w\<lparr>main_at := Main_wait_connected\<rparr>)
      | Main_prepare \<Rightarrow> main_loop_prepare E args w
      | Main_loop device_id \<Rightarrow> main_loop_round E device_id w
      | Main_shutdown \<Rightarrow> Some (main_unregister E w)
      | Main_unregistering \<Rightarrow> Some (w\<lparr>main_at := Main_wait_unregistered\<rparr>)
      | Main_join \<Rightarrow> Some (wait_for_protocol_translator_api_thread w)
      | _ \<Rightarrow> Some w)"

definition main_can_run :: "client_world \<Rightarrow> bool" where
  "main_can_run w =
     (case main_at w of
        Main_wait_connected \<Rightarrow> False | Main_wait_unregistered \<Rightarrow> False | Main_returned rc \<Rightarrow> False
      | Main_join \<Rightarrow> api_at w = Api_returned
      | _ \<Rightarrow> True)"

section \<open>Events\<close>

text \<open>What the library's thread may run, and a signal. The calls that only trace are left out.\<close>

datatype client_event =
    Main_runs
  | Api_runs
  | Pt_ready conn
  | Pt_registered
  | Pt_registration_failed
  | Pt_devices_registered
  | Pt_devices_registration_failed
  | Pt_disconnected
  | Pt_shutting_down
  | Pt_devices_unregistered
  | Pt_devices_unregistration_failed
  | Pt_reset_min_max conn string u16 u16
  | Pt_manifest conn string bytes bytes string u64
  | Pt_asset_downloaded conn string string
  | Pt_device_unregistered conn string string
  | Pt_client_start_returned int
  | Client_signal

text \<open>Callbacks run while the library's thread is in its event loop.\<close>

fun client_enabled :: "client_event \<Rightarrow> client_world \<Rightarrow> bool" where
  "client_enabled Main_runs w = main_can_run w"
| "client_enabled Api_runs w = (api_at w \<in> {Api_started, Api_unregistering})"
| "client_enabled Client_signal w = True"
| "client_enabled _ w = (api_at w = Api_event_loop)"

definition api_step :: "client_args \<Rightarrow> client_world \<Rightarrow> client_world" where
  "api_step args w =
     (if api_at w = Api_started then protocol_translator_api_start_func args w
      else w\<lparr>api_at := Api_wait_unregistered\<rparr>)"

fun client_handle ::
  "client_libs \<Rightarrow> env \<Rightarrow> client_args \<Rightarrow> client_event \<Rightarrow> client_world \<Rightarrow> client_world option" where
  "client_handle L E args Main_runs w = main_step E args w"
| "client_handle L E args Api_runs w = Some (api_step args w)"
| "client_handle L E args (Pt_ready c) w = Some (connection_ready_handler E args c w)"
| "client_handle L E args Pt_registered w = Some (protocol_translator_registration_success w)"
| "client_handle L E args Pt_registration_failed w = Some (protocol_translator_registration_failure E w)"
| "client_handle L E args Pt_devices_registered w = Some (devices_registration_success_cb w)"
| "client_handle L E args Pt_devices_registration_failed w = Some (devices_registration_failure_cb w)"
| "client_handle L E args Pt_disconnected w = Some (disconnected_handler w)"
| "client_handle L E args Pt_shutting_down w = Some (shutdown_cb_handler w)"
| "client_handle L E args Pt_devices_unregistered w = Some (devices_unregistration_success w)"
| "client_handle L E args Pt_devices_unregistration_failed w = Some (devices_unregistration_failure w)"
| "client_handle L E args (Pt_reset_min_max c d obj i) w = Some (snd (ipso_reset_min_max_object E c d obj i w))"
| "client_handle L E args (Pt_manifest c d class_id vendor_id version asset_size) w =
     map_option snd (manifest_meta_data_handle L E c d class_id vendor_id version asset_size w)"
| "client_handle L E args (Pt_asset_downloaded c filename d) w =
     Some (asset_download_success_handler E c filename d w)"
| "client_handle L E args (Pt_device_unregistered c d version) w =
     Some (unregister_success_handler E c d version w)"
| "client_handle L E args (Pt_client_start_returned rc) w = Some (api_start_func_returns rc w)"
| "client_handle L E args Client_signal w = Some (client_shutdown_handler w)"

text \<open>The steps, and the runs of a list of events.\<close>

inductive client_step ::
  "client_libs \<Rightarrow> env \<Rightarrow> client_args \<Rightarrow> client_world \<Rightarrow> client_world \<Rightarrow> bool"
  for L E args where
  client_event: "client_enabled e w \<Longrightarrow> client_handle L E args e w = Some w' \<Longrightarrow> client_step L E args w w'"

fun client_run ::
  "client_libs \<Rightarrow> env \<Rightarrow> client_args \<Rightarrow> client_event list \<Rightarrow> client_world \<Rightarrow> client_world option" where
  "client_run L E args [] w = Some w"
| "client_run L E args (e # es) w =
     (if client_enabled e w
      then (case client_handle L E args e w of None \<Rightarrow> None | Some w \<Rightarrow> client_run L E args es w)
      else None)"

text \<open>The state before \<open>main\<close>.\<close>

definition client_start :: "env \<Rightarrow> client_world" where
  "client_start E = \<lparr>trace = [], cpu_thermal_zone_temp_file = None,
     client_connection_id = PT_API_CONNECTION_ID_INVALID E, g_shutdown_handler_called = 0,
     g_keep_running = True, g_connected = False, g_protocol_translator_api_running = False,
     main_at = Main_started, api_at = Api_not_started\<rparr>"

end
