(* ===== verification/Client_Laws.thy ===== *)
theory Client_Laws
  imports Client_Example Transition_Systems
begin

text \<open>
  What holds of every run of the protocol translator example: the calls it makes, the order of
  registration and updates, and where its two threads get to when it is told to stop.
\<close>

section \<open>Operations that make calls of a kind\<close>

definition emits :: "(ev \<Rightarrow> bool) \<Rightarrow> 'a ext_scheme \<Rightarrow> 'a ext_scheme \<Rightarrow> bool" where
  "emits P w w' \<longleftrightarrow> (\<exists>es. trace w' = es @ trace w \<and> (\<forall>e\<in>set es. P e))"

lemma emits_refl [simp]: "emits P w w"
  by (simp add: emits_def)

lemma emits_trans: "emits P u v \<Longrightarrow> emits P v w \<Longrightarrow> emits P u w"
  by (auto simp: emits_def)

lemma emits_call: "P e \<Longrightarrow> emits P w v \<Longrightarrow> emits P w (call e v)"
  by (auto simp: emits_def)

lemma emits_start: "P e \<Longrightarrow> emits P (call e w) v \<Longrightarrow> emits P w v"
  by (rule emits_trans [OF emits_call [OF _ emits_refl]])

lemma emits_fields [simp]:
  "emits P w (cpu_thermal_zone_temp_file_update f z) = emits P w z"
  by (simp add: emits_def)

lemma emits_client_fields [simp]:
  "emits P w (client_connection_id_update a c) = emits P w c"
  "emits P w (g_shutdown_handler_called_update n c) = emits P w c"
  "emits P w (g_keep_running_update k c) = emits P w c"
  "emits P w (g_connected_update k c) = emits P w c"
  "emits P w (g_protocol_translator_api_running_update k c) = emits P w c"
  "emits P w (main_at_update m c) = emits P w c"
  "emits P w (api_at_update q c) = emits P w c"
  "emits P (client_connection_id_update a v) c = emits P v c"
  "emits P (g_keep_running_update k v) c = emits P v c"
  by (simp_all add: emits_def)

text \<open>Every float handed to the library has the four bytes of one; no call updates the devices.\<close>

fun float_call :: "ev \<Rightarrow> bool" where
  "float_call (Pt (PtAddResource c d obj i r ty v)) = (ty = LWM2M_FLOAT \<longrightarrow> length v = 4)"
| "float_call (Pt (PtAddResourceCb c d obj i r ty ops v cb)) = (ty = LWM2M_FLOAT \<longrightarrow> length v = 4)"
| "float_call (Pt (PtSetResourceValue c d obj i r v)) = (length v = 4)"
| "float_call _ = True"

fun update_call :: "ev \<Rightarrow> bool" where
  "update_call (Pt (PtDevicesUpdate c)) = True"
| "update_call _ = False"

fun register_call :: "ev \<Rightarrow> bool" where
  "register_call (Pt (PtDevicesRegister c)) = True"
| "register_call _ = False"

abbreviation (input) plain_call :: "ev \<Rightarrow> bool" where
  "plain_call e \<equiv> float_call e \<and> \<not> update_call e"

lemma emits_ask:
  "plain_call e \<Longrightarrow> emits plain_call w (snd (ask_ok E e w))"
  "plain_call e \<Longrightarrow> emits plain_call w (snd (ask_status E e w))"
  "plain_call e \<Longrightarrow> emits plain_call w (snd (ask_data E e w))"
  "plain_call e \<Longrightarrow> emits plain_call w (snd (ask_int E e w))"
  "plain_call e \<Longrightarrow> emits plain_call w (snd (ask_strs E e w))"
  by (simp_all add: ask_defs emits_call)

lemma create_sensor_emits: "emits plain_call w (ipso_create_sensor_object E c d obj i u t w)"
  by (auto simp: ipso_create_sensor_object_def ipso_add_resource_def malloc_def ask_defs Let_def
        intro!: emits_call split: option.split)

lemma min_max_emits: "emits plain_call w (ipso_add_min_max_fields E c d obj i cb w)"
  by (auto simp: ipso_add_min_max_fields_def malloc_def ask_defs Let_def intro!: emits_call)

lemma reset_emits: "emits plain_call w (snd (ipso_reset_min_max_object E c d obj i w))"
  by (auto simp: ipso_reset_min_max_object_def malloc_def ask_defs Let_def intro!: emits_call)

lemma set_point_emits: "emits plain_call w (ipso_create_set_point E c d i t w)"
  by (auto simp: ipso_create_set_point_def malloc_def ask_defs Let_def intro!: emits_call)

lemma create_device_emits:
  "emits plain_call w (client_config_create_device_with_parameters E c d u a b s t w)"
  by (auto simp: client_config_create_device_with_parameters_def
        client_config_create_device_with_userdata_def ask_defs intro!: emits_call)

lemma temperature_sensor_emits: "emits plain_call w (create_temperature_sensor E c d w)"
  unfolding create_temperature_sensor_def
  by (rule emits_trans [OF create_sensor_emits min_max_emits])

lemma create_devices_emits: "emits plain_call w (snd (client_config_create_devices E c p w))"
  by (auto simp: client_config_create_devices_def ask_defs Let_def
        intro!: emits_call emits_trans [OF _ set_point_emits] emits_trans [OF _ create_sensor_emits])

section \<open>The thermal zone\<close>

lemma tzone_entry_emits:
  assumes "tzone_entry E d w = Some w'"
  shows "emits plain_call w w'"
  using assms
  by (auto simp: tzone_entry_def malloc_def ask_defs Let_def intro!: emits_call split: if_splits)

lemma tzone_entries_emits: "tzone_entries E ds w = Some w' \<Longrightarrow> emits plain_call w w'"
  by (induction ds arbitrary: w) (auto split: option.splits dest!: tzone_entry_emits intro: emits_trans)


lemma tzone_path_emits:
  "tzone_get_cpu_thermal_zone_file_path E w = Some (p, w') \<Longrightarrow> emits plain_call w w'"
  by (auto simp: tzone_get_cpu_thermal_zone_file_path_def ask_defs split: if_splits
        dest!: tzone_entries_emits elim!: emits_start [rotated])

lemma tzone_has_emits:
  assumes "tzone_has_cpu_thermal_zone E w = Some (b, w')"
  shows "emits plain_call w w'"
  using assms
  by (auto simp: tzone_has_cpu_thermal_zone_def ask_defs split: option.splits
        dest!: tzone_path_emits intro!: emits_call intro: emits_trans)

lemma tzone_read_emits:
  assumes "tzone_read_cpu_temperature E w = Some (t, w')"
  shows "emits plain_call w w'"
proof -
  from assms obtain b w1 where h: "tzone_has_cpu_thermal_zone E w = Some (b, w1)"
    by (auto simp: tzone_read_cpu_temperature_def split: Option.bind_splits)
  show ?thesis
  proof (cases b)
    case False
    with assms h show ?thesis by (simp add: tzone_read_cpu_temperature_def tzone_has_emits)
  next
    case True
    with assms h obtain p w2 where p: "tzone_get_cpu_thermal_zone_file_path E w1 = Some (p, w2)"
      by (auto simp: tzone_read_cpu_temperature_def split: Option.bind_splits)
    have "emits plain_call w2 w'"
      using assms h p True
      by (auto simp: tzone_read_cpu_temperature_def ask_defs split: option.splits list.splits
            intro!: emits_call)
    then show ?thesis using tzone_has_emits [OF h] tzone_path_emits [OF p] by (blast intro: emits_trans)
  qed
qed

section \<open>The temperature\<close>

lemma update_extremum_emits:
  assumes "update_extremum E c d r b t w = Some (g, w')"
  shows "emits plain_call w w'"
  using assms
  by (auto simp: update_extremum_def pt_device_get_resource_value_def malloc_def ask_defs Let_def
        split: if_splits Option.bind_splits intro!: emits_call)

lemma update_temperature_emits:
  assumes "update_temperature_to_device E c d t w = Some w'"
  shows "emits plain_call w w'"
proof -
  let ?w = "call (Pt (PtGetResourceValue c d TEMPERATURE_SENSOR 0 SENSOR_VALUE)) w"
  let ?v = "call (Pt (PtSetResourceValue c d TEMPERATURE_SENSOR 0 SENSOR_VALUE
          (convert_float_value_to_network_byte_order t))) ?w"
  have v: "emits plain_call w ?v" "emits plain_call w ?w" by (simp_all add: emits_call)
  from assms show ?thesis
    by (auto simp: update_temperature_to_device_def pt_device_get_resource_value_def Let_def v
          split: if_splits Option.bind_splits dest!: update_extremum_emits
          intro: emits_trans [OF v(1)] emits_trans)
qed

section \<open>Handlers\<close>

lemma handler_emits:
  "emits plain_call w (snd (client_shutdown_and_cleanup E w))"
  "emits plain_call w (connection_ready_handler E args c w)"
  "emits plain_call w (protocol_translator_registration_success w)"
  "emits plain_call w (protocol_translator_registration_failure E w)"
  "emits plain_call w (devices_registration_success_cb w)"
  "emits plain_call w (devices_registration_failure_cb w)"
  "emits plain_call w (disconnected_handler w)"
  "emits plain_call w (shutdown_cb_handler w)"
  "emits plain_call w (devices_unregistration_success w)"
  "emits plain_call w (devices_unregistration_failure w)"
  "emits plain_call w (asset_download_success_handler E c f d w)"
  "emits plain_call w (api_start_func_returns rc w)"
  "emits plain_call w (api_step args w)"
  "emits plain_call w (client_shutdown_handler w)"
  "emits plain_call w (main_unregister E w)"
  "emits plain_call w (wait_for_protocol_translator_api_thread w)"
  using create_devices_emits [of "w\<lparr>client_connection_id := c\<rparr>" E c "endpoint_postfix args"]
  by (auto simp: client_shutdown_and_cleanup_def connection_ready_handler_def
        protocol_translator_registration_success_def protocol_translator_registration_failure_def
        devices_registration_success_cb_def devices_registration_failure_cb_def set_connected_def
        disconnected_handler_def set_disconnected_def shutdown_cb_handler_def set_keep_running_def
        devices_unregistration_success_def devices_unregistration_failure_def
        pt_devices_unregistration_common_def signal_shutdown_def client_config_free_def tzone_free_def
        asset_download_success_handler_def api_start_func_returns_def api_step_def
        protocol_translator_api_start_func_def client_shutdown_handler_def main_unregister_def
        wait_for_protocol_translator_api_thread_def set_protocol_translator_api_running_def
        ask_defs Let_def intro!: emits_call)

lemma unregister_success_emits: "emits plain_call w (unregister_success_handler E c d v w)"
  unfolding unregister_success_handler_def Let_def
  by (intro emits_call emits_trans [OF _ temperature_sensor_emits] emits_trans [OF _ create_device_emits]) simp_all

lemma manifest_emits:
  "manifest_meta_data_handle L E c d cl v ver n w = Some (s, w') \<Longrightarrow> emits plain_call w w'"
  by (auto simp: manifest_meta_data_handle_def ask_defs Let_def split: if_splits intro!: emits_call)

lemma prepare_emits:
  assumes "main_loop_prepare E args w = Some w'"
  shows "emits plain_call w w'"
proof -
  have cpu: "emits plain_call u v"
    if "client_config_create_cpu_temperature_device E c d u = Some v" for u v :: client_world and c d
    using that
    by (auto simp: client_config_create_cpu_temperature_device_def split: if_splits
          dest!: tzone_has_emits intro: emits_trans emits_trans [OF _ temperature_sensor_emits]
            emits_trans [OF _ create_device_emits])
  have cpu': "emits plain_call w (v :: client_world)"
    if "client_config_create_cpu_temperature_device E c d
      (call (Pt (PtAddManifestCallback k)) (call (Sys (Malloc n)) w)) = Some v" for c d k n v
    by (rule emits_start [OF _ emits_start [OF _ cpu [OF that]]]) simp_all
  from assms show ?thesis
    by (auto simp: main_loop_prepare_def malloc_def ask_defs Let_def split: if_splits
          intro!: emits_call dest!: cpu')
qed

section \<open>The invariant of a run\<close>

text \<open>Newest first: an update comes after a registration.\<close>

fun updates_after_registration :: "ev list \<Rightarrow> bool" where
  "updates_after_registration [] \<longleftrightarrow> True"
| "updates_after_registration (e # es) \<longleftrightarrow>
     updates_after_registration es \<and> (update_call e \<longrightarrow> (\<exists>e'\<in>set es. register_call e'))"

definition client_inv :: "client_world \<Rightarrow> bool" where
  "client_inv w \<longleftrightarrow>
     (\<forall>e\<in>set (trace w). float_call e) \<and> updates_after_registration (trace w) \<and>
     (g_protocol_translator_api_running w \<longrightarrow> (\<exists>e\<in>set (trace w). register_call e))"

lemma no_update_after:
  "\<forall>e\<in>set es. \<not> update_call e \<Longrightarrow> updates_after_registration es' \<Longrightarrow> updates_after_registration (es @ es')"
  by (induction es) auto

lemma client_inv_emits:
  assumes "client_inv w" "emits plain_call w w'"
    and "g_protocol_translator_api_running w' \<longrightarrow> g_protocol_translator_api_running w"
  shows "client_inv w'"
  using assms by (auto simp: client_inv_def emits_def intro!: no_update_after)


section \<open>What leaves the threads and flags alone\<close>

definition same_client :: "'a tzone_world_scheme \<Rightarrow> 'a tzone_world_scheme \<Rightarrow> bool" where
  "same_client w w' \<longleftrightarrow> tzone_world.more w' = tzone_world.more w"

lemma same_client_refl [simp]: "same_client w w"
  by (simp add: same_client_def)

lemma same_client_trans: "same_client u v \<Longrightarrow> same_client v w \<Longrightarrow> same_client u w"
  by (simp add: same_client_def)

lemma same_client_call [simp]: "same_client w (call e v) = same_client w v" "same_client (call e w) v = same_client w v"
  by (simp_all add: same_client_def call_def)

lemma calls_only_same_client: "calls_only w w' \<Longrightarrow> same_client w (w' :: 'a tzone_world_scheme)"
  by (cases w; cases w') (simp add: calls_only_def same_client_def)

lemma same_client_fields:
  "same_client w w' \<Longrightarrow>
   client_connection_id w' = client_connection_id w \<and> g_shutdown_handler_called w' = g_shutdown_handler_called w \<and>
   g_keep_running w' = g_keep_running w \<and> g_connected w' = g_connected w \<and>
   g_protocol_translator_api_running w' = g_protocol_translator_api_running w \<and>
   main_at w' = main_at w \<and> api_at w' = api_at w"
  by (cases w; cases w') (simp add: same_client_def)

lemma tzone_entry_same: "tzone_entry E d w = Some w' \<Longrightarrow> same_client w w'"
  by (auto simp: tzone_entry_def malloc_def ask_defs Let_def same_client_def call_def split: if_splits)

lemma tzone_entries_same: "tzone_entries E ds w = Some w' \<Longrightarrow> same_client w w'"
  by (induction ds arbitrary: w) (auto split: option.splits dest!: tzone_entry_same intro: same_client_trans)

lemma tzone_path_same: "tzone_get_cpu_thermal_zone_file_path E w = Some (p, w') \<Longrightarrow> same_client w w'"
  by (auto simp: tzone_get_cpu_thermal_zone_file_path_def ask_defs split: if_splits dest!: tzone_entries_same)

lemma tzone_has_same: "tzone_has_cpu_thermal_zone E w = Some (b, w') \<Longrightarrow> same_client w w'"
  by (auto simp: tzone_has_cpu_thermal_zone_def ask_defs split: option.splits dest!: tzone_path_same)
    (blast intro: same_client_trans)+

lemma tzone_read_same: "tzone_read_cpu_temperature E w = Some (t, w') \<Longrightarrow> same_client w w'"
  by (auto simp: tzone_read_cpu_temperature_def ask_defs
        split: Option.bind_splits if_splits option.splits list.splits
        dest!: tzone_has_same tzone_path_same)
    (blast intro: same_client_trans)+

lemma update_extremum_same:
  "update_extremum E c d r b t w = Some (g, w') \<Longrightarrow> same_client w (w' :: 'a tzone_world_scheme)"
  by (auto simp: update_extremum_def pt_device_get_resource_value_def malloc_def ask_defs Let_def
        split: if_splits Option.bind_splits)

lemma update_temperature_same:
  "update_temperature_to_device E c d t w = Some w' \<Longrightarrow> same_client w (w' :: 'a tzone_world_scheme)"
  by (auto simp: update_temperature_to_device_def pt_device_get_resource_value_def Let_def
        split: if_splits Option.bind_splits dest!: update_extremum_same intro: same_client_trans)

lemma ipso_same:
  "same_client u (ipso_create_sensor_object E c d obj i un ty v) = same_client u v"
  "same_client u (ipso_create_set_point E c d i t v) = same_client u v"
  "same_client u (ipso_add_min_max_fields E c d obj i cb v) = same_client u v"
  "same_client u (snd (ipso_reset_min_max_object E c d obj i v)) = same_client u v"
  for u v :: "'a tzone_world_scheme"
  using ipso_create_calls_only(5) [THEN calls_only_same_client, of v E c d obj i un ty]
    ipso_create_calls_only(6) [THEN calls_only_same_client, of v E c d i t]
    ipso_create_calls_only(1) [THEN calls_only_same_client, of v E c d obj i cb]
    ipso_create_calls_only(7) [THEN calls_only_same_client, of v E c d obj i]
  by (simp_all add: same_client_def)

lemma client_config_same:
  "same_client u (snd (client_config_create_devices E c p v)) = same_client u v"
  "same_client u (create_temperature_sensor E c d v) = same_client u v"
  "same_client u (client_config_create_device_with_parameters E c d k a b s t v) = same_client u v"
  for u v :: "'a tzone_world_scheme"
  by (simp_all add: client_config_create_devices_def create_temperature_sensor_def
        client_config_create_device_with_parameters_def client_config_create_device_with_userdata_def
        ask_defs Let_def ipso_same)

lemma cpu_device_same:
  "client_config_create_cpu_temperature_device E c d w = Some w' \<Longrightarrow> same_client w w'"
  by (auto simp: client_config_create_cpu_temperature_device_def client_config_same split: if_splits
        dest!: tzone_has_same)

lemma api_calls_same:
  "same_client w (snd (ipso_reset_min_max_object E c d obj i w))"
  "same_client w (asset_download_success_handler E c f d w)"
  "same_client w (unregister_success_handler E c d v w)"
  for w :: "'a tzone_world_scheme"
  by (simp_all add: ipso_same asset_download_success_handler_def unregister_success_handler_def Let_def ask_defs
        client_config_same)

lemma manifest_same:
  "manifest_meta_data_handle L E c d cl v ver n w = Some (s, w') \<Longrightarrow> same_client w (w' :: 'a tzone_world_scheme)"
  by (auto simp: manifest_meta_data_handle_def ask_defs Let_def split: if_splits)

lemma round_same:
  assumes "main_loop_round E d w = Some w'"
  shows "same_client w w' \<or> w' = w\<lparr>main_at := Main_shutdown\<rparr>"
  using assms
  by (auto simp: main_loop_round_def ask_defs split: if_splits Option.bind_splits
        dest!: tzone_read_same update_temperature_same)
    (blast intro: same_client_trans)+

lemma client_call [simp]:
  "client_connection_id (call e w) = client_connection_id w"
  "g_shutdown_handler_called (call e w) = g_shutdown_handler_called w"
  "g_keep_running (call e w) = g_keep_running w" "g_connected (call e w) = g_connected w"
  "g_protocol_translator_api_running (call e w) = g_protocol_translator_api_running w"
  "main_at (call e w) = main_at w" "api_at (call e w) = api_at w"
  by (simp_all add: call_def)

lemma prepare_fields:
  assumes "main_loop_prepare E args w = Some w'"
  shows "(main_at w' = Main_shutdown \<or> main_at w' = Main_loop (CPU_TEMPERATURE_DEVICE @ endpoint_postfix args)) \<and>
    g_keep_running w' = g_keep_running w \<and> api_at w' = api_at w \<and>
    g_protocol_translator_api_running w' = g_protocol_translator_api_running w \<and>
    g_shutdown_handler_called w' = g_shutdown_handler_called w"
  using assms
  by (auto simp: main_loop_prepare_def malloc_def ask_defs Let_def split: if_splits
        dest!: cpu_device_same [THEN same_client_fields])

end
