(* ===== verification/Client_Runs.thy ===== *)
theory Client_Runs
  imports Client_Laws
begin

text \<open>
  The runs of the protocol translator example: the invariant of its calls, how the main thread
  ends, and the runs in which it does not.
\<close>

section \<open>Every step keeps the invariant\<close>

lemma round_update:
  assumes r: "tzone_read_cpu_temperature E (call e w) = Some (t, u)"
    and s: "update_temperature_to_device E c d t u = Some v" and e: "plain_call e"
  shows "emits plain_call w v \<and> same_client w v"
proof
  show "emits plain_call w v"
    by (rule emits_start [OF e emits_trans [OF tzone_read_emits [OF r] update_temperature_emits [OF s]]])
  have "same_client (call e w) v"
    by (rule same_client_trans [OF tzone_read_same [OF r] update_temperature_same [OF s]])
  then show "same_client w v" by simp
qed

lemma round_cases:
  assumes r: "main_loop_round E d w = Some w'"
  obtains (shut) "\<not> g_keep_running w \<or> is_shutdown_handler_called w" "w' = w\<lparr>main_at := Main_shutdown\<rparr>"
    | (idle) "g_keep_running w" "\<not> is_shutdown_handler_called w" "emits plain_call w w'" "same_client w w'"
    | (update) v where "g_keep_running w" "\<not> is_shutdown_handler_called w" "g_connected w"
        "emits plain_call w v" "same_client w v" "g_protocol_translator_api_running w"
        "w' = call (Sys (Sleep 5)) (call (Pt (PtDevicesUpdate (client_connection_id v))) v)"
proof (cases "\<not> g_keep_running w \<or> is_shutdown_handler_called w")
  case True
  with r that(1) show thesis by (simp add: main_loop_round_def)
next
  case run: False
  let ?e = "Pt (PtDeviceExists (client_connection_id w) d)"
  show thesis
  proof (cases "g_connected w \<and> env_ok E (trace w) ?e \<and> g_protocol_translator_api_running w")
    case True
    with run r obtain t u v where t: "tzone_read_cpu_temperature E (call ?e w) = Some (t, u)"
      "update_temperature_to_device E (client_connection_id u) d t u = Some v"
      and w': "w' = call (Sys (Sleep 5)) (call (Pt (PtDevicesUpdate (client_connection_id v))) v)"
      by (auto simp: main_loop_round_def ask_defs split: Option.bind_splits)
    from round_update [OF t] run True that(3) [OF _ _ _ _ _ _ w'] show thesis by simp
  next
    case False
    with run r have "w' = call (Sys (Sleep 5)) (if g_connected w then call ?e w else w)"
      by (auto simp: main_loop_round_def ask_defs)
    with run that(2) show thesis by (simp add: emits_call)
  qed
qed

lemma client_round_inv:
  assumes inv: "client_inv w" and r: "main_loop_round E d w = Some w'"
  shows "client_inv w'"
  using r
proof (cases rule: round_cases)
  case shut
  with inv show ?thesis by (simp add: client_inv_def)
next
  case idle
  with client_inv_emits [OF inv] same_client_fields [OF idle(4)] show ?thesis by simp
next
  case (update v)
  have "client_inv v" using client_inv_emits [OF inv update(4)] same_client_fields [OF update(5)] by simp
  then show ?thesis using update same_client_fields [OF update(5)] by (simp add: client_inv_def)
qed

lemma main_step_inv:
  assumes inv: "client_inv w" and s: "main_step E args w = Some w'"
  shows "client_inv w'"
proof -
  have p: "client_inv v" if "main_loop_prepare E args w = Some v" for v
    using client_inv_emits [OF inv prepare_emits [OF that]] prepare_fields [OF that] by simp
  have m: "client_inv (main_unregister E w)" "client_inv (wait_for_protocol_translator_api_thread w)"
    using client_inv_emits [OF inv handler_emits(15)] client_inv_emits [OF inv handler_emits(16)]
    by (simp_all add: main_unregister_def client_shutdown_and_cleanup_def ask_defs Let_def
          wait_for_protocol_translator_api_thread_def set_protocol_translator_api_running_def split: if_splits)
  have f: "client_inv (w\<lparr>main_at := a\<rparr>)" for a using inv by (simp add: client_inv_def)
  show ?thesis
    using s p m f inv by (auto simp: main_step_def client_round_inv split: main_pc.splits)
qed

lemma handle_client_inv:
  assumes inv: "client_inv w" and h: "client_handle L E args e w = Some w'"
  shows "client_inv w'"
proof -
  note k = client_inv_emits [OF inv]
  have same: "client_inv v" if "emits plain_call w v" "same_client w v" for v
    using k [OF that(1)] same_client_fields [OF that(2)] by simp
  show ?thesis
  proof (cases e)
    case Pt_registered
    with inv h show ?thesis
      by (auto simp: client_inv_def protocol_translator_registration_success_def
            set_protocol_translator_api_running_def)
  next
    case (Pt_ready c)
    have "same_client (w\<lparr>client_connection_id := c\<rparr>) w'"
      using h Pt_ready by (auto simp: connection_ready_handler_def client_config_same)
    from same_client_fields [OF this] show ?thesis
      using h Pt_ready k [OF handler_emits(2) [of w E args c]] by simp
  next
    case Main_runs
    with h main_step_inv [OF inv] show ?thesis by simp
  next
    case (Pt_manifest c d cl v ver n)
    with h same manifest_emits manifest_same show ?thesis by fastforce
  next
    case (Pt_reset_min_max c d obj i)
    with h same reset_emits api_calls_same(1) show ?thesis by (metis client_handle.simps(12) option.inject)
  next
    case (Pt_asset_downloaded c f d)
    with h same handler_emits(11) api_calls_same(2) show ?thesis by (metis client_handle.simps(14) option.inject)
  next
    case (Pt_device_unregistered c d v)
    with h same unregister_success_emits api_calls_same(3) show ?thesis
      by (metis client_handle.simps(15) option.inject)
  qed (use h k [OF handler_emits(4)] k [OF handler_emits(5)] k [OF handler_emits(6)] k [OF handler_emits(7)]
        k [OF handler_emits(8)] k [OF handler_emits(9)] k [OF handler_emits(10)] k [OF handler_emits(12)]
        k [OF handler_emits(13)] k [OF handler_emits(14)] in
      \<open>auto simp: protocol_translator_registration_failure_def client_shutdown_and_cleanup_def ask_defs Let_def
        set_keep_running_def devices_registration_success_cb_def devices_registration_failure_cb_def
        set_connected_def disconnected_handler_def set_disconnected_def shutdown_cb_handler_def
        devices_unregistration_success_def devices_unregistration_failure_def pt_devices_unregistration_common_def
        client_config_free_def tzone_free_def signal_shutdown_def api_start_func_returns_def api_step_def
        protocol_translator_api_start_func_def client_shutdown_handler_def\<close>)
qed


lemma client_main_inv: "client_inv (client_main E args (client_start E))"
  by (simp add: client_inv_def client_main_def client_start_def client_setup_signals_def malloc_def ask_defs Let_def
        start_protocol_translator_api_def)

interpretation client: step_invariant
  "\<lambda>w. w = client_main E args (client_start E)" "client_step L E args" client_inv
  for L E args
  by unfold_locales (auto simp: client_main_inv elim!: client_step.cases intro: handle_client_inv)

lemma run_steps: "client_run L E args es w = Some w' \<Longrightarrow> (client_step L E args)\<^sup>*\<^sup>* w w'"
proof (induction es arbitrary: w)
  case Nil
  then show ?case by simp
next
  case (Cons e es)
  then obtain v where v: "client_enabled e w" "client_handle L E args e w = Some v" "client_run L E args es v = Some w'"
    by (auto split: if_splits option.splits)
  with Cons.IH show ?case by (blast intro: converse_rtranclp_into_rtranclp client_step.intros)
qed

lemma run_inv: "client_run L E args es (client_main E args (client_start E)) = Some w \<Longrightarrow> client_inv w"
  using client.reached_inv run_steps by blast

text \<open>What every event of a run keeps holds at its end.\<close>

lemma run_keeps:
  "client_run L E args es w = Some w' \<Longrightarrow> P w \<Longrightarrow>
   (\<And>e v v'. e \<in> set es \<Longrightarrow> P v \<Longrightarrow> client_enabled e v \<Longrightarrow> client_handle L E args e v = Some v' \<Longrightarrow> P v') \<Longrightarrow> P w'"
proof (induction es arbitrary: w)
  case Nil
  then show ?case by simp
next
  case (Cons e es)
  then obtain v where "client_enabled e w" "client_handle L E args e w = Some v" "client_run L E args es v = Some w'"
    by (auto split: if_splits option.splits)
  with Cons.IH [of v] Cons.prems(2,3) show ?case by (metis list.set_intros)
qed

section \<open>What the library's thread and signals change\<close>

definition quit_events :: "client_event set" where
  "quit_events = {Pt_registration_failed, Pt_shutting_down, Pt_devices_unregistered,
     Pt_devices_unregistration_failed} \<union> range Pt_client_start_returned"

definition only_wakes :: "client_world \<Rightarrow> client_world \<Rightarrow> bool" where
  "only_wakes w w' \<longleftrightarrow>
     (main_at w' = main_at w \<or> main_at w = Main_wait_connected \<and> main_at w' = Main_prepare \<or>
      main_at w = Main_wait_unregistered \<and> main_at w' = Main_join) \<and>
     (g_keep_running w' \<longrightarrow> g_keep_running w) \<and>
     g_shutdown_handler_called w \<le> g_shutdown_handler_called w'"

lemma same_only_wakes: "same_client w w' \<Longrightarrow> only_wakes w w' \<and> g_keep_running w' = g_keep_running w"
  using same_client_fields by (auto simp: only_wakes_def)

lemmas client_handler_defs =
  protocol_translator_registration_success_def protocol_translator_registration_failure_def
  client_shutdown_and_cleanup_def set_protocol_translator_api_running_def
  set_keep_running_def devices_registration_success_cb_def devices_registration_failure_cb_def
  set_connected_def disconnected_handler_def set_disconnected_def shutdown_cb_handler_def
  devices_unregistration_success_def devices_unregistration_failure_def pt_devices_unregistration_common_def
  client_config_free_def tzone_free_def signal_shutdown_def api_start_func_returns_def api_step_def
  protocol_translator_api_start_func_def client_shutdown_handler_def

lemma other_fields:
  assumes h: "client_handle L E args e w = Some w'" and e: "e \<noteq> Main_runs"
  shows "only_wakes w w' \<and> (e \<notin> quit_events \<longrightarrow> g_keep_running w' = g_keep_running w)"
proof (cases e)
  case (Pt_ready c)
  have "same_client (w\<lparr>client_connection_id := c\<rparr>) w'"
    using h Pt_ready by (auto simp: connection_ready_handler_def client_config_same)
  from same_only_wakes [OF this] show ?thesis by (simp add: only_wakes_def)
next
  case (Pt_manifest c d cl v ver n)
  with h manifest_same same_only_wakes show ?thesis by fastforce
next
  case (Pt_reset_min_max c d obj i)
  with h api_calls_same(1) same_only_wakes show ?thesis by (metis client_handle.simps(12) option.inject)
next
  case (Pt_asset_downloaded c f d)
  with h api_calls_same(2) same_only_wakes show ?thesis by (metis client_handle.simps(14) option.inject)
next
  case (Pt_device_unregistered c d v)
  with h api_calls_same(3) same_only_wakes show ?thesis by (metis client_handle.simps(15) option.inject)
qed (use h e in \<open>auto simp: only_wakes_def client_handler_defs quit_events_def ask_defs Let_def split: if_splits prod.splits\<close>)

text \<open>What the main thread's own steps change.\<close>

lemma main_step_fields:
  assumes "main_step E args w = Some w'" "main_can_run w"
  shows "api_at w' = api_at w \<and> g_keep_running w' = g_keep_running w \<and>
    g_shutdown_handler_called w' = g_shutdown_handler_called w"
proof -
  have r: "api_at v = api_at w \<and> g_keep_running v = g_keep_running w \<and>
      g_shutdown_handler_called v = g_shutdown_handler_called w"
    if "main_loop_round E d w = Some v" for d v
    using that
    by (cases rule: round_cases) (auto dest!: same_client_fields)
  from assms r show ?thesis
    by (auto simp: main_step_def main_unregister_def client_shutdown_and_cleanup_def ask_defs Let_def
          wait_for_protocol_translator_api_thread_def set_protocol_translator_api_running_def
          dest!: prepare_fields split: main_pc.splits prod.splits if_splits)
qed

end
