(* ===== verification/Client_Theorems.thy ===== *)
theory Client_Theorems
  imports Client_Runs Float_Accuracy
begin

text \<open>
  The properties of the protocol translator example, with runs that show their hypotheses can hold.
\<close>

section \<open>A run\<close>

text \<open>
  A library that accepts every request, knows every device and resource, and answers values from
  the history of calls; no thermal zone is found and the file cannot be read.
\<close>

definition client_env :: env where
  "client_env = \<lparr>env_status = (\<lambda>es e. case e of
        Pt (PtGetResourceValue c d obj i r) \<Rightarrow>
          (if resource_value es c d obj i r = None then PT_STATUS_ERROR else PT_STATUS_SUCCESS)
      | _ \<Rightarrow> PT_STATUS_SUCCESS), 
     env_ok = (\<lambda>es e. case e of
        Pt (PtDeviceResourceExists c d obj i r) \<Rightarrow> resource_value es c d obj i r \<noteq> None | _ \<Rightarrow> True), 
     env_int = (\<lambda>es e. 0), env_data = (\<lambda>es e. case e of
        Pt (PtGetResourceValue c d obj i r) \<Rightarrow> resource_value es c d obj i r | _ \<Rightarrow> None),
     env_str = (\<lambda>es e. None), env_strs = (\<lambda>es e. []), env_variant = (\<lambda>es e. None),
     env_objects = (\<lambda>es e. None), env_junk = (\<lambda>es. []), PT_API_CONNECTION_ID_INVALID = -1\<rparr>"

definition client_example_args :: client_args where
  "client_example_args =
     \<lparr>protocol_translator_name = Some ''pt'', endpoint_postfix = ''-0'', edge_domain_socket = ''/tmp/edge.sock''\<rparr>"

definition client_example_libs :: client_libs where
  "client_example_libs =
     \<lparr>manifest_device_id_size = 64, manifest_version_size = 64, MANIFEST_VENDOR_STR = [], MANIFEST_CLASS_STR = []\<rparr>"

definition client_example_run :: "client_event list \<Rightarrow> client_world option" where
  "client_example_run es =
     client_run client_example_libs client_env client_example_args es
       (client_main client_env client_example_args (client_start client_env))"

text \<open>Up to the main loop.\<close>

definition client_first_events :: "client_event list" where
  "client_first_events = [Main_runs, Api_runs, Pt_ready 1, Pt_registered, Pt_devices_registered, Main_runs]"

lemma random_temperature_0: "random_temperature 0 = 0x41A00000"
  by code_simp

lemma client_env_answers [simp]:
  "env_status client_env es (Pt (PtDeviceCreate c d n q)) = PT_STATUS_SUCCESS"
  "env_status client_env es (Pt (PtAddResourceCb c d obj i r ty ops v cb)) = PT_STATUS_SUCCESS"
  "env_status client_env es (Pt (PtDevicesUnregister c)) = PT_STATUS_SUCCESS"
  "env_status client_env es (Pt (PtGetResourceValue c d obj i r)) =
     (if resource_value es c d obj i r = None then PT_STATUS_ERROR else PT_STATUS_SUCCESS)"
  "env_int client_env es e = 0" "env_strs client_env es e = []"
  "env_data client_env es (Pt (PtGetResourceValue c d obj i r)) = resource_value es c d obj i r"
  "env_ok client_env es (Pt (PtDeviceResourceExists c d obj i r)) \<longleftrightarrow> resource_value es c d obj i r \<noteq> None"
  "env_ok client_env es (Pt (PtDeviceExists c d))" "env_ok client_env es (Sys s)"
  "env_data client_env es (Sys s) = None" "PT_API_CONNECTION_ID_INVALID client_env = -1"
  by (simp_all add: client_env_def)

lemmas client_run_defs =
  client_example_run_def client_first_events_def client_main_def client_start_def client_setup_signals_def
  client_example_args_def client_example_libs_def start_protocol_translator_api_def
  main_step_def main_can_run_def
  connection_ready_handler_def client_config_create_devices_def client_handler_defs main_loop_prepare_def
  client_config_create_cpu_temperature_device_def client_config_create_device_with_parameters_def
  client_config_create_device_with_userdata_def create_temperature_sensor_def ipso_create_defs malloc_def
  tzone_has_cpu_thermal_zone_def tzone_get_cpu_thermal_zone_file_path_def main_loop_round_def
  is_shutdown_handler_called_def ask_defs call_def snprintf_buf_def Let_def
  tzone_read_cpu_temperature_def random_temperature_0 update_temperature_to_device_def
  pt_device_get_resource_value_def update_extremum_def

text \<open>One round of the loop sends the temperature, here the random one.\<close>

lemma one_round:
  "\<exists>w. client_example_run (client_first_events @ [Main_runs]) = Some w \<and>
    (\<exists>older. trace w = [Sys (Sleep 5)] @ Pt (PtDevicesUpdate 1) # older)"
  by (simp add: client_run_defs)

section \<open>Calls\<close>

text \<open>
  C25: Every value the protocol translator example hands to the library for a resource of type float,
  when the resource is created and when it is set, is four bytes long, in every run of its threads.
\<close>

theorem client_floats_have_four_bytes:
  assumes "client_run L E args es (client_main E args (client_start E)) = Some w"
  shows "(\<forall>c d obj i r v. Pt (PtSetResourceValue c d obj i r v) \<in> set (trace w) \<longrightarrow> length v = 4) \<and>
    (\<forall>c d obj i r v. Pt (PtAddResource c d obj i r LWM2M_FLOAT v) \<in> set (trace w) \<longrightarrow> length v = 4) \<and>
    (\<forall>c d obj i r ops v cb. Pt (PtAddResourceCb c d obj i r LWM2M_FLOAT ops v cb) \<in> set (trace w) \<longrightarrow>
       length v = 4)"
  using run_inv [OF assms] unfolding client_inv_def by fastforce

theorem client_floats_have_four_bytes_witness:
  "\<exists>w. client_example_run (client_first_events @ [Main_runs]) = Some w \<and>
    (\<forall>c d obj i r v. Pt (PtSetResourceValue c d obj i r v) \<in> set (trace w) \<longrightarrow> length v = 4)"
proof -
  obtain w where w: "client_example_run (client_first_events @ [Main_runs]) = Some w"
    using one_round by blast
  from w client_floats_have_four_bytes [OF this [unfolded client_example_run_def], THEN conjunct1]
  show ?thesis by (intro exI conjI)
qed

text \<open>
  C21: The values of the devices are only sent to Edge after the devices have been registered with it:
  in every run, before each update there was a request to register.
\<close>

theorem updates_follow_registration:
  assumes "client_run L E args es (client_main E args (client_start E)) = Some w"
    and "trace w = newer @ Pt (PtDevicesUpdate c) # older"
  shows "\<exists>c'. Pt (PtDevicesRegister c') \<in> set older"
proof -
  have "updates_after_registration (newer @ Pt (PtDevicesUpdate c) # older)"
    using run_inv [OF assms(1)] by (simp add: client_inv_def assms(2))
  then have "updates_after_registration (Pt (PtDevicesUpdate c) # older)"
    by (induction newer) auto
  then obtain e where "e \<in> set older" "register_call e" by auto
  then show ?thesis by (cases e rule: register_call.cases) auto
qed

theorem updates_follow_registration_witness:
  "\<exists>w older c'. client_example_run (client_first_events @ [Main_runs]) = Some w \<and>
    trace w = [Sys (Sleep 5)] @ Pt (PtDevicesUpdate 1) # older \<and> Pt (PtDevicesRegister c') \<in> set older"
  using one_round updates_follow_registration unfolding client_example_run_def by blast

section \<open>The end of the program\<close>

definition main_steps_left :: "main_pc \<Rightarrow> nat" where
  "main_steps_left m =
     (case m of
        Main_started \<Rightarrow> 6 | Main_wait_connected \<Rightarrow> 5 | Main_prepare \<Rightarrow> 5 | Main_loop d \<Rightarrow> 4
      | Main_shutdown \<Rightarrow> 3 | Main_unregistering \<Rightarrow> 2 | Main_wait_unregistered \<Rightarrow> 1 | Main_join \<Rightarrow> 1
      | Main_returned rc \<Rightarrow> 0)"

lemma main_step_left:
  assumes "main_step E args w = Some w'" "main_can_run w" "\<not> g_keep_running w"
  shows "Suc (main_steps_left (main_at w')) \<le> main_steps_left (main_at w)"
  using assms
  by (auto simp: main_step_def main_can_run_def main_steps_left_def main_loop_round_def main_unregister_def
        wait_for_protocol_translator_api_thread_def set_protocol_translator_api_running_def Let_def
        dest!: prepare_fields split: main_pc.splits prod.splits if_splits)


text \<open>The connection is lost, the devices are unregistered and the library's thread returns.\<close>

definition client_last_events :: "client_event list" where
  "client_last_events = [Main_runs, Main_runs, Main_runs, Pt_devices_unregistered, Pt_client_start_returned 0, Main_runs]"

lemma client_ends:
  "\<exists>w w'. client_example_run (client_first_events @ [Pt_shutting_down]) = Some w \<and> \<not> g_keep_running w \<and>
    client_run client_example_libs client_env client_example_args client_last_events w = Some w' \<and>
    main_at w' = Main_returned 0"
  by (simp add: client_run_defs client_last_events_def wait_for_protocol_translator_api_thread_def
        main_unregister_def)


text \<open>
  C22: When registering the translator fails and the library accepts the request to unregister its
  devices, the callback waits for an answer that only its own thread could deliver: whatever follows,
  the library's thread stays blocked and the program never returns.
\<close>

theorem registration_failure_never_returns:
  assumes "client_enabled Pt_registration_failed w" and "\<forall>rc. main_at w \<noteq> Main_returned rc"
    and "env_status E (trace w) (Pt (PtDevicesUnregister (client_connection_id w))) = PT_STATUS_SUCCESS"
    and "client_run L E args (Pt_registration_failed # es) w = Some w'"
  shows "api_at w' \<in> {Api_unregistering, Api_wait_unregistered} \<and> (\<forall>rc. main_at w' \<noteq> Main_returned rc)"
proof -
  let ?P = "\<lambda>v. api_at v \<in> {Api_unregistering, Api_wait_unregistered} \<and> (\<forall>rc. main_at v \<noteq> Main_returned rc)"
  obtain v where v: "client_handle L E args Pt_registration_failed w = Some v" "client_run L E args es v = Some w'"
    using assms(4) by (auto split: if_splits option.splits)
  have "?P v" using v(1) assms(2,3) by (auto simp: client_handler_defs ask_defs)
  with v(2) show ?thesis
  proof (rule run_keeps [where P = ?P])
    fix e u u' assume u: "?P u" "client_enabled e u" "client_handle L E args e u = Some u'"
    show "?P u'"
    proof (cases "e = Main_runs")
      case True
      with u have m: "main_step E args u = Some u'" "main_can_run u" by auto
      have "main_at u \<noteq> Main_join" using m(2) u(1) by (auto simp: main_can_run_def)
      then have "\<forall>rc. main_at u' \<noteq> Main_returned rc"
        using m u(1)
        by (auto simp: main_step_def main_can_run_def main_unregister_def Let_def
              dest!: prepare_fields elim!: round_cases dest: same_client_fields split: main_pc.splits prod.splits if_splits)
      with main_step_fields [OF m] u(1) show ?thesis by simp
    next
      case False
      with u show ?thesis
        by (cases e) (auto simp: api_step_def client_shutdown_handler_def)
    qed
  qed
qed

lemma client_registration_fails:
  "\<exists>w w'. client_example_run [Main_runs, Api_runs] = Some w \<and>
    client_enabled Pt_registration_failed w \<and> main_at w = Main_wait_connected \<and>
    client_run client_example_libs client_env client_example_args
      [Pt_registration_failed, Api_runs, Client_signal] w = Some w'"
  by (simp add: client_run_defs)

theorem registration_failure_never_returns_witness:
  "\<exists>w w'. client_example_run [Main_runs, Api_runs] = Some w \<and>
    client_run client_example_libs client_env client_example_args
      [Pt_registration_failed, Api_runs, Client_signal] w = Some w' \<and>
    api_at w' \<in> {Api_unregistering, Api_wait_unregistered} \<and> (\<forall>rc. main_at w' \<noteq> Main_returned rc)"
proof -
  obtain w w' where w: "client_example_run [Main_runs, Api_runs] = Some w"
    "client_enabled Pt_registration_failed w" "main_at w = Main_wait_connected"
    "client_run client_example_libs client_env client_example_args
      [Pt_registration_failed, Api_runs, Client_signal] w = Some w'"
    using client_registration_fails by blast
  from registration_failure_never_returns [OF w(2) _ _ w(4)] w show ?thesis by auto
qed

text \<open>
  C23: The test for a shutdown asks whether exactly one signal was received: with a second signal
  before the main loop has looked, the loop goes on as long as nothing else clears the flag that
  keeps it running.
\<close>

theorem second_signal_cancels_shutdown:
  assumes "main_at w = Main_loop d" "2 \<le> g_shutdown_handler_called w" "g_keep_running w"
    and "set es \<inter> quit_events = {}" and "client_run L E args es w = Some w'"
  shows "main_at w' = Main_loop d"
proof -
  let ?P = "\<lambda>v. main_at v = Main_loop d \<and> 2 \<le> g_shutdown_handler_called v \<and> g_keep_running v"
  have "?P w'"
    using assms(5)
  proof (rule run_keeps [where P = ?P])
    fix e u u' assume u: "e \<in> set es" "?P u" "client_enabled e u" "client_handle L E args e u = Some u'"
    show "?P u'"
    proof (cases "e = Main_runs")
      case True
      with u have r: "main_loop_round E d u = Some u'" by (simp add: main_step_def)
      then show ?thesis
        using u(2) by (cases rule: round_cases) (auto simp: is_shutdown_handler_called_def dest!: same_client_fields)
    next
      case False
      with other_fields [OF u(4) False] u(1,2) assms(4) show ?thesis
        by (auto simp: only_wakes_def)
    qed
  qed (use assms in simp)
  then show ?thesis by simp
qed


lemma client_two_signals:
  "\<exists>w w'. client_example_run (client_first_events @ [Client_signal, Client_signal]) = Some w \<and>
    main_at w = Main_loop ''cpu-temperature-0'' \<and> 2 \<le> g_shutdown_handler_called w \<and> g_keep_running w \<and>
    client_run client_example_libs client_env client_example_args [Main_runs] w = Some w'"
  by (simp add: client_run_defs)

theorem second_signal_cancels_shutdown_witness:
  "\<exists>w w'. client_example_run (client_first_events @ [Client_signal, Client_signal]) = Some w \<and>
    client_run client_example_libs client_env client_example_args [Main_runs] w = Some w' \<and>
    main_at w' = Main_loop ''cpu-temperature-0''"
proof -
  have "set [Main_runs] \<inter> quit_events = {}" by (auto simp: quit_events_def)
  then show ?thesis using client_two_signals second_signal_cancels_shutdown by blast
qed

section \<open>The temperature\<close>

text \<open>
  C24: A changed temperature is stored, and the minimum and maximum of the sensor become what the
  shared routine \<open>ipso_update_min_max_fields\<close> makes of them: both programs' ways of keeping them
  agree. The library answers values from the calls made, and memory does not run out.
\<close>

theorem temperature_update_agrees:
  assumes E: "keeps_values E c d TEMPERATURE_SENSOR 0" "never_out_of_memory E"
    and known: "\<forall>es r. env_ok E es (Pt (PtDeviceResourceExists c d TEMPERATURE_SENSOR 0 r)) \<longleftrightarrow>
      resource_value es c d TEMPERATURE_SENSOR 0 r \<noteq> None"
    and range: "sensor_range w c d TEMPERATURE_SENSOR 0 = Some (l, h)"
    and val: "resource_value (trace w) c d TEMPERATURE_SENSOR 0 SENSOR_VALUE = Some b"
      "convert_value_to_host_order_float b = Some cur" "f32_differs cur t"
  shows "\<exists>u v. update_temperature_to_device E c d t w = Some u \<and>
    ipso_update_min_max_fields E c d TEMPERATURE_SENSOR 0 t w = Some (PT_STATUS_SUCCESS, v) \<and>
    sensor_range u c d TEMPERATURE_SENSOR 0 = sensor_range v c d TEMPERATURE_SENSOR 0 \<and>
    resource_value (trace u) c d TEMPERATURE_SENSOR 0 SENSOR_VALUE =
      Some (convert_float_value_to_network_byte_order t)"
proof -
  obtain lo hi where v: "resource_value (trace w) c d TEMPERATURE_SENSOR 0 MIN_MEASURED_VALUE = Some lo"
    "resource_value (trace w) c d TEMPERATURE_SENSOR 0 MAX_MEASURED_VALUE = Some hi"
    "convert_value_to_host_order_float lo = Some l" "convert_value_to_host_order_float hi = Some h"
    using range by (auto simp: sensor_range_Some)
  have q: "env_data E es (Pt (PtGetResourceValue c d TEMPERATURE_SENSOR 0 r)) =
        resource_value es c d TEMPERATURE_SENSOR 0 r"
    "env_status E es (Pt (PtGetResourceValue c d TEMPERATURE_SENSOR 0 r)) = PT_STATUS_SUCCESS
        \<longleftrightarrow> resource_value es c d TEMPERATURE_SENSOR 0 r \<noteq> None" "env_ok E es (Sys (Malloc 4))" for es r
    using E by (auto simp: keeps_values_def never_out_of_memory_def)
  obtain y where y: "ipso_update_min_max_fields E c d TEMPERATURE_SENSOR 0 t w = Some (PT_STATUS_SUCCESS, y)"
    "sensor_range y c d TEMPERATURE_SENSOR 0 = Some (if f32_less t l then t else l, if f32_less h t then t else h)"
    using update_min_max_step [OF E range] by blast
  have "\<exists>u. update_temperature_to_device E c d t w = Some u \<and>
    sensor_range u c d TEMPERATURE_SENSOR 0 = Some (if f32_less t l then t else l, if f32_less h t then t else h) \<and>
    resource_value (trace u) c d TEMPERATURE_SENSOR 0 SENSOR_VALUE =
      Some (convert_float_value_to_network_byte_order t)"
    by (simp add: update_temperature_to_device_def update_extremum_def pt_device_get_resource_value_def Let_def
          malloc_def ask_defs q v val known sensor_range_Some)
  with y show ?thesis by auto
qed

text \<open>A sensor with its first values.\<close>

definition sensor_state :: "unit ext_scheme" where
  "sensor_state = create_temperature_sensor client_env 1 ''cpu'' \<lparr>trace = []\<rparr>"


theorem temperature_update_agrees_witness:
  "\<exists>u v. update_temperature_to_device client_env 1 ''cpu'' 0x41A00000 sensor_state = Some u \<and>
    ipso_update_min_max_fields client_env 1 ''cpu'' TEMPERATURE_SENSOR 0 0x41A00000 sensor_state =
      Some (PT_STATUS_SUCCESS, v) \<and>
    sensor_range u 1 ''cpu'' TEMPERATURE_SENSOR 0 = sensor_range v 1 ''cpu'' TEMPERATURE_SENSOR 0"
proof -
  let ?f = convert_float_value_to_network_byte_order
  have r: "resource_value (trace sensor_state) 1 ''cpu'' TEMPERATURE_SENSOR 0 SENSOR_VALUE = Some (?f 0)"
    "resource_value (trace sensor_state) 1 ''cpu'' TEMPERATURE_SENSOR 0 MIN_MEASURED_VALUE = Some (?f FLT_MAX)"
    "resource_value (trace sensor_state) 1 ''cpu'' TEMPERATURE_SENSOR 0 MAX_MEASURED_VALUE = Some (?f NEG_FLT_MAX)"
    by (simp_all add: sensor_state_def client_run_defs)
  have s: "sensor_range sensor_state 1 ''cpu'' TEMPERATURE_SENSOR 0 = Some (FLT_MAX, NEG_FLT_MAX)"
    using r by (simp add: sensor_range_Some)
  have e: "keeps_values client_env 1 ''cpu'' TEMPERATURE_SENSOR 0" "never_out_of_memory client_env"
    by (auto simp: keeps_values_def never_out_of_memory_def)
  have d: "f32_differs 0 0x41A00000" by (simp add: f32_differs_def f32_key_def)
  show ?thesis
    using temperature_update_agrees [OF e _ s r(1) _ d] by auto
qed

end
