(* ===== verification/Pt_Client.thy ===== *)
theory Pt_Client
  imports Ipso_Objects
begin

text \<open>
  The interface of the older library \<open>pt-client\<close> as the stress tester uses it: a device is a structure
  of the library that holds objects, their instances and their resources. The structure is a type
  parameter; what the library does with it is a record of functions, a parameter of every definition
  that uses them. Given NULL for an object or an instance, a search answers NULL.
\<close>

record pt_resource =
  resource_bytes :: bytes
  resource_operations :: operations
  resource_callback :: callback

text \<open>
  Objects and instances are there or not; a resource can be found, added, and its buffer filled. The
  functions that add answer a status and the device as it is afterwards.
\<close>

record 'd pt_client_lib =
  pt_new_device :: "string \<Rightarrow> 'd"
  pt_has_object :: "'d \<Rightarrow> u16 \<Rightarrow> bool"
  pt_has_instance :: "'d \<Rightarrow> u16 \<Rightarrow> u16 \<Rightarrow> bool"
  pt_find_resource :: "'d \<Rightarrow> u16 \<Rightarrow> u16 \<Rightarrow> u16 \<Rightarrow> pt_resource option"
  pt_add_object :: "'d \<Rightarrow> u16 \<Rightarrow> pt_status \<times> 'd"
  pt_add_instance :: "'d \<Rightarrow> u16 \<Rightarrow> u16 \<Rightarrow> pt_status \<times> 'd"
  pt_add_resource :: "'d \<Rightarrow> u16 \<Rightarrow> u16 \<Rightarrow> u16 \<Rightarrow> lwm2m_type \<Rightarrow> operations \<Rightarrow> bytes \<Rightarrow> callback \<Rightarrow> pt_status \<times> 'd"
  pt_fill_resource :: "'d \<Rightarrow> u16 \<Rightarrow> u16 \<Rightarrow> u16 \<Rightarrow> bytes \<Rightarrow> 'd"
  pt_init_device_object :: "'d \<Rightarrow> device_object_data \<Rightarrow> 'd"

text \<open>What the library documents of resources: one that was filled or added is found with its value.\<close>

definition resource_laws :: "'d pt_client_lib \<Rightarrow> bool" where
  "resource_laws P \<longleftrightarrow>
     (\<forall>d obj i r x v. pt_find_resource P d obj i r = Some x \<longrightarrow> length v = length (resource_bytes x) \<longrightarrow>
        pt_find_resource P (pt_fill_resource P d obj i r v) obj i r = Some (x\<lparr>resource_bytes := v\<rparr>)) \<and>
     (\<forall>d obj i r obj' i' r' v. (obj', i', r') \<noteq> (obj, i, r) \<longrightarrow>
        pt_find_resource P (pt_fill_resource P d obj i r v) obj' i' r' = pt_find_resource P d obj' i' r')"

end
