(* ===== verification/Ipso_Devices.thy ===== *)
theory Ipso_Devices
  imports Pt_Client Thermal_Zone
begin

text \<open>
  IPSO objects and devices for the older library (\<^verbatim>\<open>examples-common/ipso_objects.c\<close> and
  \<^verbatim>\<open>examples-common/client_config.c\<close>). A function that changes a device through its pointer answers
  the device as it is afterwards; \<open>malloc\<close> and \<open>strdup\<close> whose result is not tested succeed.
  \<open>None\<close> is undefined behaviour: the library is given NULL for an instance or a device.
\<close>

section \<open>Instances\<close>

text \<open>The first identifier from \<open>i\<close> on that is not taken, of \<open>n\<close> that are tried.\<close>

fun free_instance :: "'d pt_client_lib \<Rightarrow> 'd \<Rightarrow> u16 \<Rightarrow> nat \<Rightarrow> nat \<Rightarrow> u16 option" where
  "free_instance P d obj i 0 = None"
| "free_instance P d obj i (Suc n) =
     (if \<not> pt_has_instance P d obj (of_nat i) then Some (of_nat i) else free_instance P d obj (i + 1) n)"

definition ipso_get_next_free_object_instance_id :: "'d pt_client_lib \<Rightarrow> 'd \<Rightarrow> u16 \<Rightarrow> u16 option" where
  "ipso_get_next_free_object_instance_id P d obj = free_instance P d obj 0 65535"

text \<open>NULL, or the instance; adding it may fail and then NULL comes from the library.\<close>

definition ipso_create_next_free_object_instance ::
  "'d pt_client_lib \<Rightarrow> 'd \<Rightarrow> u16 \<Rightarrow> u16 option \<times> 'd" where
  "ipso_create_next_free_object_instance P d obj =
     (let (status, d) = (if pt_has_object P d obj then (PT_STATUS_SUCCESS, d) else pt_add_object P d obj) in
      if status \<noteq> PT_STATUS_SUCCESS then (None, d) else
      (case ipso_get_next_free_object_instance_id P d obj of
         None \<Rightarrow> (None, d)
       | Some i \<Rightarrow>
           let (status, d) = pt_add_instance P d obj i
           in (if status = PT_STATUS_SUCCESS then Some i else None, d)))"

definition ipso_add_resource_to ::
  "'d pt_client_lib \<Rightarrow> 'd \<Rightarrow> u16 \<Rightarrow> u16 \<Rightarrow> u16 \<Rightarrow> lwm2m_type \<Rightarrow> operations \<Rightarrow> bytes \<Rightarrow> callback \<Rightarrow> pt_status \<times> 'd" where
  "ipso_add_resource_to P d obj i r ty ops value cb = pt_add_resource P d obj i r ty ops value cb"

text \<open>\<open>pt_object_instance_add_resource\<close>: a resource that can be read and has no callback.\<close>

definition add_readable :: "'d pt_client_lib \<Rightarrow> u16 \<Rightarrow> u16 \<Rightarrow> u16 \<Rightarrow> lwm2m_type \<Rightarrow> bytes \<Rightarrow> 'd \<Rightarrow> 'd" where
  "add_readable P obj i r ty value d = snd (pt_add_resource P d obj i r ty {OPERATION_READ} value no_callback)"

definition ipso_add_min_max_fields_to ::
  "'d pt_client_lib \<Rightarrow> env \<Rightarrow> u16 \<Rightarrow> u16 \<Rightarrow> callback \<Rightarrow> 'd \<Rightarrow> 'a ext_scheme \<Rightarrow> 'd \<times> 'a ext_scheme" where
  "ipso_add_min_max_fields_to P E obj i reset_callback d w =
     (let (min_ok, w) = malloc E 4 w in
      if \<not> min_ok then (d, w) else
      let (max_ok, w) = malloc E 4 w in
      if \<not> max_ok then (d, w) else
      let d = add_readable P obj i MIN_MEASURED_VALUE LWM2M_FLOAT (convert_float_value_to_network_byte_order FLT_MAX) d;
          d = add_readable P obj i MAX_MEASURED_VALUE LWM2M_FLOAT (convert_float_value_to_network_byte_order NEG_FLT_MAX) d
      in (snd (pt_add_resource P d obj i RESET_MIN_MAX_MEASURED_VALUES LWM2M_OPAQUE {OPERATION_EXECUTE} [] reset_callback), w))"

section \<open>Objects\<close>

definition ipso_create_custom_object_in ::
  "'d pt_client_lib \<Rightarrow> env \<Rightarrow> u16 \<Rightarrow> u16 \<Rightarrow> lwm2m_type \<Rightarrow> operations \<Rightarrow> bytes \<Rightarrow> callback \<Rightarrow> 'd \<Rightarrow> 'a ext_scheme \<Rightarrow>
   (u16 option \<times> 'd) \<times> 'a ext_scheme" where
  "ipso_create_custom_object_in P E obj r ty ops value cb d w =
     (case ipso_create_next_free_object_instance P d obj of
        (None, d) \<Rightarrow> ((None, d), w)
      | (Some i, d) \<Rightarrow>
          let (sensor_data, w) = malloc E (length value) w
          in if \<not> sensor_data then ((None, d), w)
             else ((Some i, snd (ipso_add_resource_to P d obj i r ty ops value cb)), w))"

text \<open>The identifier of the instance is not used, and NULL for the instance is not tested.\<close>

definition ipso_create_thermometer_in ::
  "'d pt_client_lib \<Rightarrow> env \<Rightarrow> f32 \<Rightarrow> bool \<Rightarrow> callback \<Rightarrow> 'd \<Rightarrow> 'a ext_scheme \<Rightarrow> ('d \<times> 'a ext_scheme) option" where
  "ipso_create_thermometer_in P E temperature optional_fields reset_callback d w =
     (case ipso_create_next_free_object_instance P d TEMPERATURE_SENSOR of
        (None, d) \<Rightarrow> None
      | (Some i, d) \<Rightarrow>
          let d = add_readable P TEMPERATURE_SENSOR i SENSOR_VALUE LWM2M_FLOAT
                    (convert_float_value_to_network_byte_order temperature) d;
              d = add_readable P TEMPERATURE_SENSOR i SENSOR_UNITS LWM2M_STRING (string_bytes ''Cel'') d
          in Some (if optional_fields
                   then ipso_add_min_max_fields_to P E TEMPERATURE_SENSOR i
                          (if reset_callback \<noteq> no_callback then reset_callback else cb_ipso_reset_min_max_object) d w
                   else (d, w)))"

definition ipso_create_sensor_object_in ::
  "'d pt_client_lib \<Rightarrow> env \<Rightarrow> u16 \<Rightarrow> string option \<Rightarrow> string option \<Rightarrow> 'd \<Rightarrow> 'a ext_scheme \<Rightarrow>
   (u16 option \<times> 'd) \<times> 'a ext_scheme" where
  "ipso_create_sensor_object_in P E obj sensor_units sensor_type d w =
     (case ipso_create_next_free_object_instance P d obj of
        (None, d) \<Rightarrow> ((None, d), w)
      | (Some i, d) \<Rightarrow>
          let (sensor_data, w) = malloc E 4 w in
          if \<not> sensor_data then ((None, d), w) else
          let add = (\<lambda>r ty value d. snd (ipso_add_resource_to P d obj i r ty {OPERATION_READ} value no_callback));
              d = add SENSOR_VALUE LWM2M_FLOAT (convert_float_value_to_network_byte_order 0) d;
              d = (case sensor_units of None \<Rightarrow> d | Some u \<Rightarrow> add SENSOR_UNITS LWM2M_STRING (string_bytes u) d);
              d = (case sensor_type of None \<Rightarrow> d | Some t \<Rightarrow> add SENSOR_TYPE LWM2M_STRING (string_bytes t) d)
          in ((Some i, d), w))"

definition ipso_create_set_point_in ::
  "'d pt_client_lib \<Rightarrow> env \<Rightarrow> f32 \<Rightarrow> 'd \<Rightarrow> 'a ext_scheme \<Rightarrow> ('d \<times> 'a ext_scheme) option" where
  "ipso_create_set_point_in P E target_temperature d w =
     (let (instance_id, d) = ipso_create_next_free_object_instance P d SET_POINT;
          (temperature_data, w) = malloc E 4 w in
      if \<not> temperature_data then Some (d, w) else
      map_option
        (\<lambda>i. (add_readable P SET_POINT i SENSOR_UNITS LWM2M_STRING (string_bytes ''Cel'')
                (snd (pt_add_resource P d SET_POINT i 5900 LWM2M_FLOAT {OPERATION_READ, OPERATION_WRITE}
                   (mem_of_u32 target_temperature) cb_ipso_write_set_point_value)), w)) instance_id)"

section \<open>Callbacks\<close>

text \<open>\<open>memcpy\<close> of a float into the value of a resource, when the resource is there.\<close>

definition reset_extremum ::
  "'d pt_client_lib \<Rightarrow> env \<Rightarrow> u16 \<Rightarrow> u16 \<Rightarrow> u16 \<Rightarrow> f32 \<Rightarrow> 'd \<Rightarrow> 'a ext_scheme \<Rightarrow> ((bool \<times> 'd) \<times> 'a ext_scheme) option" where
  "reset_extremum P E obj i r x d w =
     (case pt_find_resource P d obj i r of
        None \<Rightarrow> Some ((True, d), w)
      | Some resource \<Rightarrow>
          let (ok, w) = malloc E 4 w in
          if \<not> ok then Some ((False, d), w)
          else if length (resource_bytes resource) < 4 then None
          else Some ((True, pt_fill_resource P d obj i r
                 (convert_float_value_to_network_byte_order x @ drop 4 (resource_bytes resource))), w))"

definition ipso_reset_min_max_object_in ::
  "'d pt_client_lib \<Rightarrow> env \<Rightarrow> u16 \<Rightarrow> u16 \<Rightarrow> 'd \<Rightarrow> 'a ext_scheme \<Rightarrow> ('d \<times> 'a ext_scheme) option" where
  "ipso_reset_min_max_object_in P E obj i d w = do {
     ((go_on, d), w) \<leftarrow> reset_extremum P E obj i MIN_MEASURED_VALUE FLT_MAX d w;
     if go_on then map_option (\<lambda>((_, d), w). (d, w)) (reset_extremum P E obj i MAX_MEASURED_VALUE NEG_FLT_MAX d w)
     else Some (d, w)
   }"

section \<open>Devices\<close>

abbreviation (input) DEVICE_LIFETIME :: nat where "DEVICE_LIFETIME \<equiv> 86400"

text \<open>The device, or NULL when the library cannot create it.\<close>

definition client_config_new_device ::
  "'d pt_client_lib \<Rightarrow> env \<Rightarrow> string \<Rightarrow> string \<Rightarrow> int \<Rightarrow> 'a ext_scheme \<Rightarrow> 'd option \<times> 'a ext_scheme" where
  "client_config_new_device P E device_id endpoint_postfix userdata w =
     (let endpoint_id = device_id @ endpoint_postfix;
          (status, w) = ask_status E (Pt (PtDeviceCreateUserdata 0 endpoint_id DEVICE_LIFETIME QUEUE userdata)) w
      in (if status = PT_STATUS_SUCCESS then Some (pt_new_device P endpoint_id) else None, w))"

definition client_config_new_plain_device ::
  "'d pt_client_lib \<Rightarrow> env \<Rightarrow> string \<Rightarrow> string \<Rightarrow> 'a ext_scheme \<Rightarrow> 'd option \<times> 'a ext_scheme" where
  "client_config_new_plain_device P E device_id endpoint_postfix =
     client_config_new_device P E device_id endpoint_postfix 0"

definition client_config_new_device_with_parameters ::
  "'d pt_client_lib \<Rightarrow> env \<Rightarrow> string \<Rightarrow> string \<Rightarrow> int \<Rightarrow> string \<Rightarrow> string \<Rightarrow> string \<Rightarrow> string \<Rightarrow> 'a ext_scheme \<Rightarrow>
   ('d \<times> 'a ext_scheme) option" where
  "client_config_new_device_with_parameters P E device_id endpoint_postfix userdata
       manufacturer model_number serial_number device_type w =
     (let (device, w) = client_config_new_device P E device_id endpoint_postfix userdata w
      in map_option
           (\<lambda>d. (pt_init_device_object P d
              \<lparr>dod_manufacturer = Some manufacturer, dod_model_number = Some model_number,
               dod_serial_number = Some serial_number, dod_firmware_version = Some ''N/A'',
               dod_hardware_version = Some ''N/A'', dod_software_version = Some ''N/A'',
               dod_device_type = Some device_type,
               dod_reboot_callback = cb_client_config_example_reboot_callback\<rparr>, w)) device)"

definition client_config_new_cpu_temperature_device ::
  "'d pt_client_lib \<Rightarrow> env \<Rightarrow> string \<Rightarrow> string \<Rightarrow> 'a tzone_world_scheme \<Rightarrow> ('d option \<times> 'a tzone_world_scheme) option" where
  "client_config_new_cpu_temperature_device P E device_id endpoint_postfix w = do {
     (has, w) \<leftarrow> tzone_has_cpu_thermal_zone E w;
     if \<not> has then Some (None, w) else do {
       (d, w) \<leftarrow> client_config_new_device_with_parameters P E device_id endpoint_postfix 0
                 ''ARM'' ''example'' ''001'' ''example'' w;
       let ((i, d), w) = ipso_create_sensor_object_in P E TEMPERATURE_SENSOR (Some ''CEL'') None d w;
       map_option
         (\<lambda>i. let (d, w) = ipso_add_min_max_fields_to P E TEMPERATURE_SENSOR i cb_ipso_reset_min_max_object d w
              in (Some d, w)) i
     }
   }"

text \<open>The list of the thermometer and the thermostat, or NULL.\<close>

definition client_config_create_device_list ::
  "'d pt_client_lib \<Rightarrow> env \<Rightarrow> string \<Rightarrow> 'a ext_scheme \<Rightarrow> ('d list option \<times> 'a ext_scheme) option" where
  "client_config_create_device_list P E endpoint_postfix w =
     (let thermometer_id = ''thermometer'' @ endpoint_postfix;
          (status, w) = ask_status E (Pt (PtDeviceCreate 0 thermometer_id DEVICE_LIFETIME QUEUE)) w in
      if status \<noteq> PT_STATUS_SUCCESS then Some (None, w) else
      let ((_, d), w) = ipso_create_sensor_object_in P E TEMPERATURE_SENSOR (Some ''CEL'') None
                          (pt_new_device P thermometer_id) w;
          thermostat_id = ''thermostat'' @ endpoint_postfix;
          (status, w) = ask_status E (Pt (PtDeviceCreate 0 thermostat_id DEVICE_LIFETIME QUEUE)) w in
      if status \<noteq> PT_STATUS_SUCCESS then Some (None, w) else
      map_option (\<lambda>(d', w). (Some [d, d'], w))
        (ipso_create_set_point_in P E 0x41C80000 (pt_new_device P thermostat_id) w))"

definition client_config_add_device_to_config :: "'d list \<Rightarrow> 'd \<Rightarrow> 'd list" where
  "client_config_add_device_to_config device_list device = device_list @ [device]"

end
