(* ===== verification/Stress_Tester.thy ===== *)
theory Stress_Tester
  imports Ipso_Devices
begin

text \<open>
  The stress tester (\<^verbatim>\<open>c-api-stress-tester/stress_tester.c\<close>): test threads that register, change and
  unregister random devices, threads of the library that run its callbacks, and the threads that shut
  them down. The state says where each thread stands. A test thread's work is done under the lock of
  its device list in one step; the lock is part of the state because one handler returns without
  releasing it. The lock of a connection is only held inside a step. \<open>None\<close> is undefined behaviour.
\<close>

section \<open>State\<close>

record 'd tester_device =
  td_id :: string
  td_registered :: bool
  td_device :: 'd

datatype test_pc = Test_running | Test_unregistering | Test_waiting | Test_exited

record 'd test_thread =
  tt_devices :: "'d tester_device list"
  tt_api :: nat
  tt_locked :: bool
  tt_at :: test_pc

text \<open>
  A thread of the library that waits in \<open>shutdown_and_cleanup\<close> may mark itself connected afterwards;
  it is blocked when it asks for a lock that is never released.
\<close>

datatype conn_pc = Conn_starting | Conn_loop | Conn_cleanup bool | Conn_blocked | Conn_ended

record api_thread =
  at_connection :: bool
  at_running :: bool
  at_connected :: bool
  at_keep_running :: bool
  at_pc :: conn_pc

datatype helper_pc = Helper_none | Helper_running | Helper_waiting | Helper_done

datatype tester_pc = Tester_join_tests | Tester_join_apis | Tester_join_helpers | Tester_returned int

record 'd tester_world = ext +
  test_threads :: "'d test_thread list"
  api_threads :: "api_thread list"
  shutdown_initiated :: bool
  test_threads_exited :: bool
  shutdown_thread :: helper_pc
  timer_thread :: helper_pc
  tester_at :: tester_pc

text \<open>The numbers \<open>create_tester\<close> reads from the command line, and the time of the start.\<close>

record tester_config =
  min_number_of_devices :: int
  max_number_of_devices :: int
  test_duration_seconds :: int
  start_time :: int
  translator_name :: string

definition change_test :: "nat \<Rightarrow> ('d test_thread \<Rightarrow> 'd test_thread) \<Rightarrow> 'd tester_world \<Rightarrow> 'd tester_world" where
  "change_test t f w = w\<lparr>test_threads := (test_threads w)[t := f (test_threads w ! t)]\<rparr>"

definition change_api :: "nat \<Rightarrow> (api_thread \<Rightarrow> api_thread) \<Rightarrow> 'd tester_world \<Rightarrow> 'd tester_world" where
  "change_api i f w = w\<lparr>api_threads := (api_threads w)[i := f (api_threads w ! i)]\<rparr>"

abbreviation (input) devices_of :: "nat \<Rightarrow> 'd tester_world \<Rightarrow> 'd tester_device list" where
  "devices_of t w \<equiv> tt_devices (test_threads w ! t)"

abbreviation (input) api_of :: "nat \<Rightarrow> 'd tester_world \<Rightarrow> nat" where
  "api_of t w \<equiv> tt_api (test_threads w ! t)"

definition set_devices :: "nat \<Rightarrow> 'd tester_device list \<Rightarrow> 'd tester_world \<Rightarrow> 'd tester_world" where
  "set_devices t ds = change_test t (\<lambda>th. th\<lparr>tt_devices := ds\<rparr>)"

section \<open>The device list\<close>

fun find_device :: "string \<Rightarrow> 'd tester_device list \<Rightarrow> 'd tester_device option" where
  "find_device device_id [] = None"
| "find_device device_id (cur # ds) = (if td_id cur = device_id then Some cur else find_device device_id ds)"

text \<open>
  The first entry of an identifier replaced, and removed. The code removes an entry through its pointer
  in \<open>unregister_device_entry_common\<close>; identifiers of a list are different
  (a theorem of \<open>Stress_Theorems\<close>), so that is the first entry of its identifier.
\<close>

fun change_device :: "string \<Rightarrow> ('d tester_device \<Rightarrow> 'd tester_device) \<Rightarrow> 'd tester_device list \<Rightarrow> 'd tester_device list" where
  "change_device device_id f [] = []"
| "change_device device_id f (cur # ds) =
     (if td_id cur = device_id then f cur # ds else cur # change_device device_id f ds)"

fun remove_device :: "string \<Rightarrow> 'd tester_device list \<Rightarrow> 'd tester_device list" where
  "remove_device device_id [] = []"
| "remove_device device_id (cur # ds) = (if td_id cur = device_id then ds else cur # remove_device device_id ds)"

text \<open>A device that is not in the list is dereferenced as NULL.\<close>

definition test_data_set_device_registered :: "nat \<Rightarrow> string \<Rightarrow> bool \<Rightarrow> 'd tester_world \<Rightarrow> 'd tester_world option" where
  "test_data_set_device_registered t device_id value w =
     map_option
       (\<lambda>_. set_devices t (change_device device_id (\<lambda>d. d\<lparr>td_registered := value\<rparr>) (devices_of t w)) w)
       (find_device device_id (devices_of t w))"

definition test_data_is_device_registered :: "nat \<Rightarrow> string \<Rightarrow> 'd tester_world \<Rightarrow> bool option" where
  "test_data_is_device_registered t device_id w = map_option td_registered (find_device device_id (devices_of t w))"

definition test_data_count_registered_devices :: "nat \<Rightarrow> 'd tester_world \<Rightarrow> nat" where
  "test_data_count_registered_devices t w = length (filter td_registered (devices_of t w))"

text \<open>Without a connection nothing is asked and the status is success.\<close>

definition unregister_device_entry_common :: "env \<Rightarrow> nat \<Rightarrow> string \<Rightarrow> 'd tester_world \<Rightarrow> 'd tester_world" where
  "unregister_device_entry_common E t device_id w =
     (let i = api_of t w;
          (status, w) =
            (if at_connection (api_threads w ! i)
             then ask_status E (Pt (PtDeviceUnregister (int i) device_id True)) w else (PT_STATUS_SUCCESS, w))
      in if status \<noteq> PT_STATUS_SUCCESS then set_devices t (remove_device device_id (devices_of t w)) w else w)"

definition unregister_test_devices :: "env \<Rightarrow> nat \<Rightarrow> 'd tester_world \<Rightarrow> 'd tester_world" where
  "unregister_test_devices E t w =
     fold (\<lambda>d. unregister_device_entry_common E t (td_id d)) (devices_of t w) w"

section \<open>Temperatures\<close>

text \<open>The value copied over the one of a minimum or maximum that is there.\<close>

definition copy_extremum ::
  "'d pt_client_lib \<Rightarrow> u16 \<Rightarrow> (f32 \<Rightarrow> bool) \<Rightarrow> bytes \<Rightarrow> 'd \<Rightarrow> 'd option" where
  "copy_extremum P r beyond value d =
     (case pt_find_resource P d TEMPERATURE_SENSOR 0 r of
        None \<Rightarrow> Some d
      | Some x \<Rightarrow> do {
          v \<leftarrow> convert_value_to_host_order_float (resource_bytes x);
          if \<not> beyond v then Some d
          else if length (resource_bytes x) < length value then None
          else Some (pt_fill_resource P d TEMPERATURE_SENSOR 0 r (value @ drop (length value) (resource_bytes x)))
        })"

text \<open>The float is copied in the length of the resource's value, which has to be four.\<close>

definition update_temperature_of_device :: "'d pt_client_lib \<Rightarrow> f32 \<Rightarrow> 'd \<Rightarrow> 'd option" where
  "update_temperature_of_device P temperature d =
     (case pt_find_resource P d TEMPERATURE_SENSOR 0 SENSOR_VALUE of
        None \<Rightarrow> Some d
      | Some resource \<Rightarrow> do {
          current \<leftarrow> convert_value_to_host_order_float (resource_bytes resource);
          let differs = f32_nan current \<or> f32_nan temperature \<or> f32_key current \<noteq> f32_key temperature;
          if differs \<and> length (resource_bytes resource) \<noteq> 4 then None else do {
            let value = (if differs then convert_float_value_to_network_byte_order temperature else resource_bytes resource);
            let d = (if differs then pt_fill_resource P d TEMPERATURE_SENSOR 0 SENSOR_VALUE value else d);
            let current = (if differs then temperature else current);
            d \<leftarrow> copy_extremum P MIN_MEASURED_VALUE (f32_less current) value d;
            copy_extremum P MAX_MEASURED_VALUE (\<lambda>v. f32_less v current) value d
          }
        })"

section \<open>Random actions\<close>

text \<open>\<open>rand() / (RAND_MAX / n + 1)\<close>.\<close>

definition random_index :: "int \<Rightarrow> int \<Rightarrow> int" where
  "random_index r n = r div (RAND_MAX div n + 1)"

text \<open>\<open>rand() / (1.0 * RAND_MAX) * 135 - 35\<close>, assigned to a float.\<close>

definition random_value :: "int \<Rightarrow> f32" where
  "random_value r =
     (let (n, d) = dyadic (double_mult (round_to 53 (-1074) r RAND_MAX) (135, 0));
          s = n - 35 * d
      in f32_of_signed (s < 0, narrow (round_to 53 (-1074) \<bar>s\<bar> d)))"

definition get_random_device_id :: "env \<Rightarrow> nat \<Rightarrow> 'd tester_world \<Rightarrow> string \<times> 'd tester_world" where
  "get_random_device_id E t w =
     (let (num, w) = ask_int E (Sys Rand) w
      in (''rand-'' @ decimal t @ ''-'' @ decimal (nat num), w))"

text \<open>Identifiers are drawn until one is new; the loop need not end.\<close>

partial_function (option) new_device_id ::
  "env \<Rightarrow> nat \<Rightarrow> 'd tester_world \<Rightarrow> (string \<times> 'd tester_world) option" where
  "new_device_id E t w =
     (let (device_id, w) = get_random_device_id E t w
      in if find_device device_id (devices_of t w) = None then Some (device_id, w) else new_device_id E t w)"

text \<open>When the device cannot be created the library is given NULL.\<close>

definition register_random_device ::
  "'d pt_client_lib \<Rightarrow> env \<Rightarrow> tester_config \<Rightarrow> nat \<Rightarrow> 'd tester_world \<Rightarrow> 'd tester_world option" where
  "register_random_device P E C t w =
     (if max_number_of_devices C \<le> int (length (devices_of t w)) then Some w else do {
        (device_id, w) \<leftarrow> new_device_id E t w;
        let (device, w) = client_config_new_device P E device_id [] 1 w;
        d \<leftarrow> device;
        (d, w) \<leftarrow> ipso_create_thermometer_in P E 0x41C00000 False no_callback d w;
        let w = set_devices t (devices_of t w @ [\<lparr>td_id = device_id, td_registered = False, td_device = d\<rparr>]) w;
        let i = api_of t w;
        Some (if at_connection (api_threads w ! i)
              then call (Pt (PtDeviceRegister (int i) device_id)) w else w)
      })"

definition unregister_random_device :: "env \<Rightarrow> tester_config \<Rightarrow> nat \<Rightarrow> 'd tester_world \<Rightarrow> 'd tester_world" where
  "unregister_random_device E C t w =
     (let device_count = int (length (devices_of t w)) in
      if device_count \<le> min_number_of_devices C then w
      else if 0 < device_count then
        let (r, w) = ask_int E (Sys Rand) w; chosen_index = nat (random_index r device_count)
        in if chosen_index < length (devices_of t w)
           then unregister_device_entry_common E t (td_id (devices_of t w ! chosen_index)) w else w
      else w)"

definition set_random_value_for_device ::
  "'d pt_client_lib \<Rightarrow> env \<Rightarrow> nat \<Rightarrow> string \<Rightarrow> 'd tester_world \<Rightarrow> 'd tester_world option" where
  "set_random_value_for_device P E t device_id w = do {
     registered \<leftarrow> test_data_is_device_registered t device_id w;
     if \<not> registered then Some w else do {
       let (r, w) = ask_int E (Sys Rand) w;
       device \<leftarrow> find_device device_id (devices_of t w);
       d \<leftarrow> update_temperature_of_device P (random_value r) (td_device device);
       let w = set_devices t (change_device device_id (\<lambda>x. x\<lparr>td_device := d\<rparr>) (devices_of t w)) w;
       let i = api_of t w;
       Some (if at_connection (api_threads w ! i) then call (Pt (PtWriteValues (int i) device_id)) w else w)
     }
   }"

definition set_random_value ::
  "'d pt_client_lib \<Rightarrow> env \<Rightarrow> nat \<Rightarrow> 'd tester_world \<Rightarrow> 'd tester_world option" where
  "set_random_value P E t w =
     (let device_count = int (length (devices_of t w)) in
      if 0 < device_count then
        let (r, w) = ask_int E (Sys Rand) w; chosen_index = nat (random_index r device_count)
        in if chosen_index < length (devices_of t w)
           then set_random_value_for_device P E t (td_id (devices_of t w ! chosen_index)) w else Some w
      else Some w)"

definition run_test_action ::
  "'d pt_client_lib \<Rightarrow> env \<Rightarrow> tester_config \<Rightarrow> nat \<Rightarrow> 'd tester_world \<Rightarrow> 'd tester_world option" where
  "run_test_action P E C t w =
     (let (r, w) = ask_int E (Sys Rand) w; action = random_index r 3; api = api_threads w ! api_of t w
      in if at_connected api \<and> at_running api then
           (if action = 0 then register_random_device P E C t w
            else if action = 1 then Some (unregister_random_device E C t w)
            else if action = 2 then set_random_value P E t w
            else Some w)
         else Some w)"

section \<open>Test threads\<close>

text \<open>
  One round of the loop, the unregistering of the devices, one look at the list that is waited for to
  become empty. The list is gone once the thread has exited.
\<close>

definition test_thread_step ::
  "'d pt_client_lib \<Rightarrow> env \<Rightarrow> tester_config \<Rightarrow> nat \<Rightarrow> 'd tester_world \<Rightarrow> 'd tester_world option" where
  "test_thread_step P E C t w =
     (let api = api_threads w ! api_of t w in
      case tt_at (test_threads w ! t) of
        Test_running \<Rightarrow>
          (if at_keep_running api \<and> \<not> shutdown_initiated w
           then (if at_connected api then run_test_action P E C t w else Some w)
           else Some (change_test t (\<lambda>th. th\<lparr>tt_at := Test_unregistering\<rparr>) w))
      | Test_unregistering \<Rightarrow>
          Some (change_test t (\<lambda>th. th\<lparr>tt_at := Test_waiting\<rparr>) (unregister_test_devices E t w))
      | Test_waiting \<Rightarrow>
          Some (if length (devices_of t w) = 0 \<and> test_data_count_registered_devices t w = 0
                then change_test t (\<lambda>th. th\<lparr>tt_at := Test_exited\<rparr>) w else w)
      | Test_exited \<Rightarrow> Some w)"

text \<open>A thread takes the lock of its list except when it only looks at the flags.\<close>

definition test_thread_can_run :: "nat \<Rightarrow> 'd tester_world \<Rightarrow> bool" where
  "test_thread_can_run t w =
     (t < length (test_threads w) \<and>
      (case tt_at (test_threads w ! t) of
         Test_running \<Rightarrow>
           \<not> tt_locked (test_threads w ! t) \<or> \<not> at_keep_running (api_threads w ! api_of t w) \<or>
           shutdown_initiated w \<or> \<not> at_connected (api_threads w ! api_of t w)
       | Test_exited \<Rightarrow> False
       | _ \<Rightarrow> \<not> tt_locked (test_threads w ! t)))"

section \<open>Callbacks\<close>

text \<open>
  A callback of a device takes the lock of its thread's list: it blocks the library's thread when the
  lock is not released, and the list is NULL once the thread has exited.
\<close>

definition with_device_list ::
  "nat \<Rightarrow> nat \<Rightarrow> ('d tester_world \<Rightarrow> 'd tester_world option) \<Rightarrow> 'd tester_world \<Rightarrow> 'd tester_world option" where
  "with_device_list i t f w =
     (if tt_at (test_threads w ! t) = Test_exited then None
      else if tt_locked (test_threads w ! t) then Some (change_api i (\<lambda>a. a\<lparr>at_pc := Conn_blocked\<rparr>) w)
      else f w)"

definition device_registration_success :: "nat \<Rightarrow> nat \<Rightarrow> string \<Rightarrow> 'd tester_world \<Rightarrow> 'd tester_world option" where
  "device_registration_success i t device_id =
     with_device_list i t (test_data_set_device_registered t device_id True)"

definition device_registration_failure :: "nat \<Rightarrow> 'd tester_world \<Rightarrow> 'd tester_world" where
  "device_registration_failure t w = change_api (api_of t w) (\<lambda>a. a\<lparr>at_keep_running := False\<rparr>) w"

definition device_unregistration_success :: "nat \<Rightarrow> nat \<Rightarrow> string \<Rightarrow> 'd tester_world \<Rightarrow> 'd tester_world option" where
  "device_unregistration_success i t device_id =
     with_device_list i t
       (\<lambda>w. map_option (\<lambda>w. set_devices t (remove_device device_id (devices_of t w)) w)
              (test_data_set_device_registered t device_id False w))"

definition device_unregistration_failure :: "'d tester_world \<Rightarrow> 'd tester_world" where
  "device_unregistration_failure w = w"

definition tester_registration_success :: "nat \<Rightarrow> 'd tester_world \<Rightarrow> 'd tester_world" where
  "tester_registration_success i = change_api i (\<lambda>a. a\<lparr>at_running := True\<rparr>)"

definition tester_registration_failure :: "nat \<Rightarrow> 'd tester_world \<Rightarrow> 'd tester_world" where
  "tester_registration_failure i =
     change_api i (\<lambda>a. a\<lparr>at_keep_running := False, at_pc := Conn_cleanup (at_connected a)\<rparr>)"

definition tester_connection_ready :: "env \<Rightarrow> nat \<Rightarrow> 'd tester_world \<Rightarrow> 'd tester_world" where
  "tester_connection_ready E i w =
     (let (status, w) = ask_status E (Pt (PtRegisterTranslator (int i))) w
      in if status \<noteq> PT_STATUS_SUCCESS then change_api i (\<lambda>a. a\<lparr>at_pc := Conn_cleanup True\<rparr>) w
         else change_api i (\<lambda>a. a\<lparr>at_connected := True\<rparr>) w)"

definition tester_disconnected :: "nat \<Rightarrow> 'd tester_world \<Rightarrow> 'd tester_world" where
  "tester_disconnected i = change_api i (\<lambda>a. a\<lparr>at_connected := False\<rparr>)"

definition tester_shutdown_cb :: "nat \<Rightarrow> 'd tester_world \<Rightarrow> 'd tester_world" where
  "tester_shutdown_cb i = change_api i (\<lambda>a. a\<lparr>at_keep_running := False\<rparr>)"

text \<open>The callbacks resources have: only the one that resets a minimum and maximum does anything.\<close>

definition run_resource_callback ::
  "'d pt_client_lib \<Rightarrow> env \<Rightarrow> callback \<Rightarrow> u16 \<Rightarrow> u16 \<Rightarrow> 'd \<Rightarrow> 'a ext_scheme \<Rightarrow> ('d \<times> 'a ext_scheme) option" where
  "run_resource_callback P E cb obj inst d w =
     (if cb = cb_ipso_reset_min_max_object then ipso_reset_min_max_object_in P E obj inst d w else Some (d, w))"

text \<open>
  A write looked up in every test thread from \<open>t\<close> on, of \<open>n\<close>. Where the device has no such resource,
  or the resource does not have the operation, the handler returns with the list locked.
\<close>

fun received_write ::
  "'d pt_client_lib \<Rightarrow> env \<Rightarrow> nat \<Rightarrow> string \<Rightarrow> u16 \<Rightarrow> u16 \<Rightarrow> u16 \<Rightarrow> operations \<Rightarrow> nat \<Rightarrow> nat \<Rightarrow>
   'd tester_world \<Rightarrow> (int \<times> 'd tester_world) option" where
  "received_write P E i device_id obj inst res operation t 0 w = Some (0, w)"
| "received_write P E i device_id obj inst res operation t (Suc n) w =
     (if tt_at (test_threads w ! t) = Test_exited then None
      else if tt_locked (test_threads w ! t) then Some (0, change_api i (\<lambda>a. a\<lparr>at_pc := Conn_blocked\<rparr>) w)
      else case find_device device_id (devices_of t w) of
             None \<Rightarrow> received_write P E i device_id obj inst res operation (t + 1) n w
           | Some device \<Rightarrow>
               (case pt_find_resource P (td_device device) obj inst res of
                  None \<Rightarrow> Some (1, change_test t (\<lambda>th. th\<lparr>tt_locked := True\<rparr>) w)
                | Some resource \<Rightarrow>
                    if resource_operations resource \<inter> operation = {}
                    then Some (1, change_test t (\<lambda>th. th\<lparr>tt_locked := True\<rparr>) w)
                    else if resource_callback resource \<noteq> no_callback \<and>
                            (OPERATION_WRITE \<in> operation \<or> OPERATION_EXECUTE \<in> operation)
                    then do {
                      (d, w) \<leftarrow> run_resource_callback P E (resource_callback resource) obj inst (td_device device) w;
                      let w = set_devices t (change_device device_id (\<lambda>x. x\<lparr>td_device := d\<rparr>) (devices_of t w)) w;
                      let w = (if OPERATION_WRITE \<notin> operation \<and> at_connection (api_threads w ! i)
                               then call (Pt (PtWriteValues (int i) device_id)) w else w);
                      received_write P E i device_id obj inst res operation (t + 1) n w
                    }
                    else received_write P E i device_id obj inst res operation (t + 1) n w))"

definition received_write_handler ::
  "'d pt_client_lib \<Rightarrow> env \<Rightarrow> nat \<Rightarrow> string \<Rightarrow> u16 \<Rightarrow> u16 \<Rightarrow> u16 \<Rightarrow> operations \<Rightarrow>
   'd tester_world \<Rightarrow> (int \<times> 'd tester_world) option" where
  "received_write_handler P E i device_id obj inst res operation w =
     received_write P E i device_id obj inst res operation 0 (length (test_threads w)) w"

text \<open>The library's thread: the call that runs the callbacks, the connection it makes, its return.\<close>

definition tester_api_start_func :: "tester_config \<Rightarrow> nat \<Rightarrow> 'd tester_world \<Rightarrow> 'd tester_world" where
  "tester_api_start_func C i w =
     change_api i (\<lambda>a. a\<lparr>at_pc := Conn_loop\<rparr>)
       (call (Pt (PtClientStart (translator_name C @ ''-'' @ decimal i))) w)"

definition tester_api_returns :: "nat \<Rightarrow> int \<Rightarrow> 'd tester_world \<Rightarrow> 'd tester_world" where
  "tester_api_returns i rc =
     change_api i (\<lambda>a. a\<lparr>at_keep_running := (at_keep_running a \<and> rc = 0), at_connection := False, at_pc := Conn_ended\<rparr>)"

section \<open>Shutting down\<close>

text \<open>\<open>shutdown_and_cleanup\<close> once the test threads have exited: every connection is shut down.\<close>

definition cleanup_connection :: "nat \<Rightarrow> 'd tester_world \<Rightarrow> 'd tester_world" where
  "cleanup_connection i w =
     change_api i (\<lambda>a. a\<lparr>at_keep_running := False\<rparr>)
       (if at_connection (api_threads w ! i) then call (Pt (PtConnectionShutdown (int i))) w else w)"

definition tester_shutdown_and_cleanup :: "'d tester_world \<Rightarrow> 'd tester_world" where
  "tester_shutdown_and_cleanup w = fold cleanup_connection [0 ..< length (api_threads w)] w"

definition tester_shutdown_handler :: "'d tester_world \<Rightarrow> 'd tester_world" where
  "tester_shutdown_handler w =
     (if shutdown_initiated w then w else
      let w = w\<lparr>shutdown_initiated := True\<rparr>
      in if shutdown_thread w = Helper_none then (call (Sys ThreadCreate) w)\<lparr>shutdown_thread := Helper_waiting\<rparr> else w)"

definition timer_thread_step :: "env \<Rightarrow> tester_config \<Rightarrow> 'd tester_world \<Rightarrow> 'd tester_world" where
  "timer_thread_step E C w =
     (if \<not> at_keep_running (api_threads w ! 0) then w\<lparr>timer_thread := Helper_done\<rparr> else
      let (time_now, w) = ask_int E (Sys ClockGettime) w
      in if test_duration_seconds C < time_now - start_time C \<and> \<not> shutdown_initiated w
         then w\<lparr>shutdown_initiated := True, timer_thread := Helper_waiting\<rparr> else w)"

section \<open>\<open>main\<close>\<close>

definition tester_setup_signals :: "env \<Rightarrow> 'a ext_scheme \<Rightarrow> bool \<times> 'a ext_scheme" where
  "tester_setup_signals E w =
     (let (ok, w) = ask_ok E (Sys (Sigaction 15)) w in
      if \<not> ok then (False, w) else
      let (ok, w) = ask_ok E (Sys (Sigaction 2)) w in
      if \<not> ok then (False, w) else
      let (_, w) = ask_ok E (Sys (Sigaction 13)) w in ask_ok E (Sys (Sigaction 12)) w)"

record tester_args =
  arg_translator_name :: "string option"
  arg_threads :: string
  arg_min_devices :: string
  arg_max_devices :: string
  arg_translators :: string
  arg_duration :: string

text \<open>
  The numbers, the threads and the configuration. With more threads than none and no translator the
  remainder by zero is undefined.
\<close>

definition create_tester ::
  "tester_args \<Rightarrow> string \<Rightarrow> int \<Rightarrow> 'd tester_world \<Rightarrow> ((tester_config \<times> 'd tester_world) option) option" where
  "create_tester A name now w = do {
     threads \<leftarrow> atoi (arg_threads A);
     min \<leftarrow> atoi (arg_min_devices A);
     max \<leftarrow> atoi (arg_max_devices A);
     translators \<leftarrow> atoi (arg_translators A);
     if threads < translators then Some None else do {
       duration \<leftarrow> atoi (arg_duration A);
       if translators \<le> 0 \<and> (0 < threads \<or> 0 < duration) then None else
       Some (Some (\<lparr>min_number_of_devices = min, max_number_of_devices = max, test_duration_seconds = duration,
                   start_time = now, translator_name = name\<rparr>,
          w\<lparr>api_threads := replicate (nat translators)
               \<lparr>at_connection = False, at_running = False, at_connected = False, at_keep_running = True,
                at_pc = Conn_starting\<rparr>,
             test_threads := map (\<lambda>index. \<lparr>tt_devices = [], tt_api = index mod nat translators, tt_locked = False,
               tt_at = Test_running\<rparr>) [0 ..< nat threads]\<rparr>))
     }
   }"

definition tester_main :: "env \<Rightarrow> tester_args \<Rightarrow> 'd tester_world \<Rightarrow> (tester_config option \<times> 'd tester_world) option" where
  "tester_main E A w =
     (let (now, w) = ask_int E (Sys ClockGettime) w; (ok, w) = tester_setup_signals E w in
      if \<not> ok then Some (None, w\<lparr>tester_at := Tester_returned 1\<rparr>) else
      case arg_translator_name A of
        None \<Rightarrow> Some (None, w\<lparr>tester_at := Tester_returned 1\<rparr>)
      | Some name \<Rightarrow>
          (case create_tester A name now w of
             None \<Rightarrow> None
           | Some None \<Rightarrow> Some (None, w\<lparr>tester_at := Tester_returned 1\<rparr>)
           | Some (Some (C, w)) \<Rightarrow>
               Some (Some C, if 0 < test_duration_seconds C
                             then (call (Sys ThreadCreate) w)\<lparr>timer_thread := Helper_running\<rparr> else w)))"

definition tester_start :: "'d tester_world" where
  "tester_start = \<lparr>trace = [], test_threads = [], api_threads = [], shutdown_initiated = False,
     test_threads_exited = False, shutdown_thread = Helper_none, timer_thread = Helper_none,
     tester_at = Tester_join_tests\<rparr>"

text \<open>What \<open>main\<close> waits for, and what it does then.\<close>

fun tester_main_can_run :: "tester_pc \<Rightarrow> 'd tester_world \<Rightarrow> bool" where
  "tester_main_can_run Tester_join_tests w = (\<forall>th\<in>set (test_threads w). tt_at th = Test_exited)"
| "tester_main_can_run Tester_join_apis w = (\<forall>a\<in>set (api_threads w). at_pc a = Conn_ended)"
| "tester_main_can_run Tester_join_helpers w =
     (shutdown_thread w \<in> {Helper_none, Helper_done} \<and> timer_thread w \<in> {Helper_none, Helper_done})"
| "tester_main_can_run (Tester_returned rc) w = False"

definition tester_main_step :: "'d tester_world \<Rightarrow> 'd tester_world" where
  "tester_main_step w =
     (case tester_at w of
        Tester_join_tests \<Rightarrow> w\<lparr>test_threads_exited := True, tester_at := Tester_join_apis\<rparr>
      | Tester_join_apis \<Rightarrow>
          w\<lparr>api_threads := map (\<lambda>a. a\<lparr>at_running := False\<rparr>) (api_threads w), tester_at := Tester_join_helpers\<rparr>
      | Tester_join_helpers \<Rightarrow> w\<lparr>shutdown_thread := Helper_none, timer_thread := Helper_none, tester_at := Tester_returned 0\<rparr>
      | Tester_returned rc \<Rightarrow> w)"

section \<open>Events\<close>

datatype tester_event =
    Tester_main_runs
  | Test_thread_runs nat
  | Shutdown_thread_runs
  | Timer_thread_runs
  | Tester_signal
  | Api_thread_starts nat
  | Api_connected nat
  | Api_ready nat
  | Api_registered nat
  | Api_registration_failed nat
  | Api_disconnected nat
  | Api_shutting_down nat
  | Api_cleans_up nat
  | Api_returns nat int
  | Api_device_registered nat nat string
  | Api_device_registration_failed nat nat
  | Api_device_unregistered nat nat string
  | Api_device_unregistration_failed nat nat string
  | Api_write nat string u16 u16 u16 operations

text \<open>Callbacks run in the library's loop; device callbacks carry the test thread that asked.\<close>

definition in_loop :: "nat \<Rightarrow> 'd tester_world \<Rightarrow> bool" where
  "in_loop i w \<longleftrightarrow> i < length (api_threads w) \<and> at_pc (api_threads w ! i) = Conn_loop"

fun tester_enabled :: "tester_event \<Rightarrow> 'd tester_world \<Rightarrow> bool" where
  "tester_enabled Tester_main_runs w = tester_main_can_run (tester_at w) w"
| "tester_enabled (Test_thread_runs t) w = test_thread_can_run t w"
| "tester_enabled Shutdown_thread_runs w = (shutdown_thread w = Helper_waiting \<and> test_threads_exited w)"
| "tester_enabled Timer_thread_runs w =
     (timer_thread w = Helper_running \<or> timer_thread w = Helper_waiting \<and> test_threads_exited w)"
| "tester_enabled Tester_signal w = True"
| "tester_enabled (Api_thread_starts i) w =
     (i < length (api_threads w) \<and> at_pc (api_threads w ! i) = Conn_starting)"
| "tester_enabled (Api_cleans_up i) w =
     (i < length (api_threads w) \<and> test_threads_exited w \<and> (\<exists>b. at_pc (api_threads w ! i) = Conn_cleanup b))"
| "tester_enabled (Api_connected i) w = in_loop i w"
| "tester_enabled (Api_ready i) w = in_loop i w"
| "tester_enabled (Api_registered i) w = in_loop i w"
| "tester_enabled (Api_registration_failed i) w = in_loop i w"
| "tester_enabled (Api_disconnected i) w = in_loop i w"
| "tester_enabled (Api_shutting_down i) w = in_loop i w"
| "tester_enabled (Api_returns i rc) w = in_loop i w"
| "tester_enabled (Api_device_registered i t d) w = (in_loop i w \<and> t < length (test_threads w))"
| "tester_enabled (Api_device_registration_failed i t) w = (in_loop i w \<and> t < length (test_threads w))"
| "tester_enabled (Api_device_unregistered i t d) w = (in_loop i w \<and> t < length (test_threads w))"
| "tester_enabled (Api_device_unregistration_failed i t d) w = (in_loop i w \<and> t < length (test_threads w))"
| "tester_enabled (Api_write i d obj inst res operation) w = in_loop i w"

fun tester_handle ::
  "'d pt_client_lib \<Rightarrow> env \<Rightarrow> tester_config \<Rightarrow> tester_event \<Rightarrow> 'd tester_world \<Rightarrow> 'd tester_world option" where
  "tester_handle P E C Tester_main_runs w = Some (tester_main_step w)"
| "tester_handle P E C (Test_thread_runs t) w = test_thread_step P E C t w"
| "tester_handle P E C Shutdown_thread_runs w =
     Some ((tester_shutdown_and_cleanup w)\<lparr>shutdown_thread := Helper_done\<rparr>)"
| "tester_handle P E C Timer_thread_runs w =
     Some (if timer_thread w = Helper_running then timer_thread_step E C w
           else (tester_shutdown_and_cleanup w)\<lparr>timer_thread := Helper_running\<rparr>)"
| "tester_handle P E C Tester_signal w = Some (tester_shutdown_handler w)"
| "tester_handle P E C (Api_thread_starts i) w = Some (tester_api_start_func C i w)"
| "tester_handle P E C (Api_connected i) w = Some (change_api i (\<lambda>a. a\<lparr>at_connection := True\<rparr>) w)"
| "tester_handle P E C (Api_ready i) w = Some (tester_connection_ready E i w)"
| "tester_handle P E C (Api_registered i) w = Some (tester_registration_success i w)"
| "tester_handle P E C (Api_registration_failed i) w = Some (tester_registration_failure i w)"
| "tester_handle P E C (Api_disconnected i) w = Some (tester_disconnected i w)"
| "tester_handle P E C (Api_shutting_down i) w = Some (tester_shutdown_cb i w)"
| "tester_handle P E C (Api_cleans_up i) w =
     Some (change_api i (\<lambda>a. a\<lparr>at_connected := (at_pc a = Conn_cleanup True), at_pc := Conn_loop\<rparr>)
             (tester_shutdown_and_cleanup w))"
| "tester_handle P E C (Api_returns i rc) w = Some (tester_api_returns i rc w)"
| "tester_handle P E C (Api_device_registered i t d) w = device_registration_success i t d w"
| "tester_handle P E C (Api_device_registration_failed i t) w = Some (device_registration_failure t w)"
| "tester_handle P E C (Api_device_unregistered i t d) w = device_unregistration_success i t d w"
| "tester_handle P E C (Api_device_unregistration_failed i t d) w = Some (device_unregistration_failure w)"
| "tester_handle P E C (Api_write i d obj inst res operation) w =
     map_option snd (received_write_handler P E i d obj inst res operation w)"

inductive tester_step ::
  "'d pt_client_lib \<Rightarrow> env \<Rightarrow> tester_config \<Rightarrow> 'd tester_world \<Rightarrow> 'd tester_world \<Rightarrow> bool"
  for P E C where
  tester_event: "tester_enabled e w \<Longrightarrow> tester_handle P E C e w = Some w' \<Longrightarrow> tester_step P E C w w'"

fun tester_run ::
  "'d pt_client_lib \<Rightarrow> env \<Rightarrow> tester_config \<Rightarrow> tester_event list \<Rightarrow> 'd tester_world \<Rightarrow> 'd tester_world option" where
  "tester_run P E C [] w = Some w"
| "tester_run P E C (e # es) w =
     (if tester_enabled e w
      then (case tester_handle P E C e w of None \<Rightarrow> None | Some w \<Rightarrow> tester_run P E C es w)
      else None)"

end
