(* ===== verification/Stress_Laws.thy ===== *)
theory Stress_Laws
  imports Stress_Tester Thermal_Laws Transition_Systems
begin

text \<open>
  Laws of the stress tester: its random choices, what an operation on one thread's list leaves alone,
  the invariants of the lists and of the threads in every run, and the runs that never end.
\<close>

section \<open>Random choices\<close>

lemma random_index_bounds:
  assumes "0 \<le> r" "r \<le> RAND_MAX" "0 < n" "n \<le> RAND_MAX"
  shows "0 \<le> random_index r n" "random_index r n < n"
proof -
  let ?q = "RAND_MAX div n + 1"
  have q: "0 < ?q" using assms by (simp add: pos_imp_zdiv_nonneg_iff add_nonneg_pos)
  show "0 \<le> random_index r n" unfolding random_index_def by (rule pos_imp_zdiv_nonneg_iff [OF q, THEN iffD2, OF assms(1)])
  have "RAND_MAX mod n < n" "RAND_MAX = n * (RAND_MAX div n) + RAND_MAX mod n" using assms(3) by simp_all
  then have "RAND_MAX < n * (RAND_MAX div n) + n" by linarith
  then have "RAND_MAX < n * ?q" by (simp add: distrib_left)
  with assms have "r < n * ?q" by linarith
  moreover have "r div ?q * ?q \<le> r" using div_mult_mod_eq [of r ?q] q by (metis add_increasing2 order_refl pos_mod_sign le_add_same_cancel1)
  ultimately have "r div ?q * ?q < n * ?q" by linarith
  then show "random_index r n < n" using q unfolding random_index_def by (simp only: mult_less_cancel_right_pos)
qed

lemma random_index_onto:
  assumes k: "0 \<le> k" "k < n" and n: "n * n \<le> RAND_MAX"
  shows "random_index (k * (RAND_MAX div n + 1)) n = k" "k * (RAND_MAX div n + 1) \<le> RAND_MAX"
proof -
  let ?q = "RAND_MAX div n"
  have n0: "0 < n" using k by simp
  have q: "n \<le> ?q" using zdiv_mono1 [OF n n0] n0 by simp
  then show "random_index (k * (?q + 1)) n = k" unfolding random_index_def using n0 by simp
  have "k * (?q + 1) \<le> (n - 1) * (?q + 1)" using k q n0 by (intro mult_right_mono) auto
  also have "\<dots> = n * ?q + (n - 1) - ?q" by (simp add: algebra_simps)
  also have "\<dots> \<le> n * ?q" using q by simp
  also have "\<dots> \<le> RAND_MAX" using n0 by (metis add_le_cancel_left mult.commute div_mult_mod_eq pos_mod_sign add.right_neutral)
  finally show "k * (?q + 1) \<le> RAND_MAX" .
qed

section \<open>The device list\<close>

interpretation tester_list: field_list "\<lambda>k d. td_id d = k" find_device td_id
  by unfold_locales auto

lemma ids_change_device:
  "(\<And>d. td_id (f d) = td_id d) \<Longrightarrow> map td_id (change_device k f ds) = map td_id ds"
  by (induction k f ds rule: change_device.induct) auto

lemma ids_remove_device: "map td_id (remove_device k ds) = remove1 k (map td_id ds)"
  by (induction k ds rule: remove_device.induct) auto

section \<open>Names\<close>

text \<open>The identifiers of a thread's list: of the thread, all different, not more than the maximum.\<close>

definition tester_name :: "nat \<Rightarrow> nat \<Rightarrow> string" where
  "tester_name t n = ''rand-'' @ decimal t @ ''-'' @ decimal n"

definition names_ok :: "tester_config \<Rightarrow> nat \<Rightarrow> string list \<Rightarrow> bool" where
  "names_ok C t ns \<longleftrightarrow>
     distinct ns \<and> int (length ns) \<le> max 0 (max_number_of_devices C) \<and> (\<forall>s\<in>set ns. \<exists>n. s = tester_name t n)"

lemma names_ok_remove: "names_ok C t ns \<Longrightarrow> names_ok C t (remove1 k ns)"
  using notin_set_remove1 by (fastforce simp: names_ok_def length_remove1)

lemma names_ok_snoc:
  "names_ok C t ns \<Longrightarrow> tester_name t n \<notin> set ns \<Longrightarrow> int (length ns) < max_number_of_devices C \<Longrightarrow>
   names_ok C t (ns @ [tester_name t n])"
  by (auto simp: names_ok_def)

lemma decimal_before_dash: "takeWhile is_digit (decimal t @ CHR 0x2D # s) = decimal t"
proof -
  have "\<not> is_digit (CHR 0x2D)" by (simp add: is_digit_def)
  with takeWhile_append2 [of "decimal t" is_digit "CHR 0x2D # s"] decimal_digits [of t] show ?thesis
    by (metis append_Nil2 takeWhile.simps(2))
qed

lemma decimal_inj: "decimal m = decimal n \<Longrightarrow> m = n"
  by (metis decimal_foldl of_nat_eq_iff)

lemma tester_name_inj:
  assumes "tester_name s m = tester_name t n"
  shows "s = t"
proof (rule decimal_inj)
  have "decimal s @ CHR 0x2D # decimal m = decimal t @ CHR 0x2D # decimal n"
    using assms unfolding tester_name_def by (simp only: append_Cons append_Nil same_append_eq list.inject)
  then show "decimal s = decimal t" by (metis decimal_before_dash)
qed

section \<open>What operations leave alone\<close>

abbreviation (input) ids_of :: "nat \<Rightarrow> 'd tester_world \<Rightarrow> string list" where
  "ids_of t w \<equiv> map td_id (devices_of t w)"

text \<open>
  Everything but a step of \<open>main\<close> and the steps from one part of a test thread to the next leaves
  every thread where it stands, releases no lock and ends no connection's end; the identifiers change
  for the threads of \<open>T\<close> only.
\<close>

definition tester_frame :: "tester_config \<Rightarrow> nat set \<Rightarrow> 'd tester_world \<Rightarrow> 'd tester_world \<Rightarrow> bool" where
  "tester_frame C T w w' \<longleftrightarrow>
     tester_at w' = tester_at w \<and> test_threads_exited w' = test_threads_exited w \<and>
     length (test_threads w') = length (test_threads w) \<and> length (api_threads w') = length (api_threads w) \<and>
     (\<forall>i<length (api_threads w). at_pc (api_threads w ! i) = Conn_ended \<longrightarrow> at_pc (api_threads w' ! i) = Conn_ended) \<and>
     (\<forall>t<length (test_threads w).
        tt_at (test_threads w' ! t) = tt_at (test_threads w ! t) \<and>
        (tt_locked (test_threads w ! t) \<longrightarrow> tt_locked (test_threads w' ! t)) \<and>
        (if t \<in> T then names_ok C t (ids_of t w) \<longrightarrow> names_ok C t (ids_of t w') else ids_of t w' = ids_of t w))"

lemma tester_frame_refl [simp, intro]: "tester_frame C T w w"
  by (simp add: tester_frame_def)

lemma tester_frame_trans [trans]: "tester_frame C T u v \<Longrightarrow> tester_frame C T v w \<Longrightarrow> tester_frame C T u w"
  by (simp add: tester_frame_def split: if_splits)

lemma tester_frame_mono: "tester_frame C T u v \<Longrightarrow> T \<subseteq> S \<Longrightarrow> tester_frame C S u v"
  unfolding tester_frame_def by (auto split: if_splits)

lemma tester_call_simps [simp]:
  "test_threads (call e w) = test_threads w" "api_threads (call e w) = api_threads w"
  "tester_at (call e w) = tester_at w" "test_threads_exited (call e w) = test_threads_exited w"
  "shutdown_initiated (call e w) = shutdown_initiated w" "shutdown_thread (call e w) = shutdown_thread w"
  "timer_thread (call e w) = timer_thread w"
  by (simp_all add: call_def)

lemma tester_frame_call [simp]: "tester_frame C T w (call e w)"
  by (simp add: tester_frame_def)

lemma api_threads_change_test [simp]:
  "api_threads (change_test t f w) = api_threads w" "api_threads (set_devices t ds w) = api_threads w"
  by (simp_all add: set_devices_def change_test_def)

lemma tester_frame_calls_only: "calls_only w w' \<Longrightarrow> tester_frame C T w w'"
  by (cases w; cases w') (simp add: calls_only_def tester_frame_def)

lemma nth_update: "xs[i := x] ! j = (if i = j \<and> j < length xs then x else xs ! j)"
  by (cases "i = j"; cases "j < length xs") (auto simp: list_update_beyond)

lemma tester_frame_change_test:
  assumes "tt_at (f (test_threads w ! t)) = tt_at (test_threads w ! t)"
    "tt_locked (test_threads w ! t) \<Longrightarrow> tt_locked (f (test_threads w ! t))"
    "map td_id (tt_devices (f (test_threads w ! t))) = ids_of t w \<or>
     t \<in> T \<and> (names_ok C t (ids_of t w) \<longrightarrow> names_ok C t (map td_id (tt_devices (f (test_threads w ! t)))))"
  shows "tester_frame C T w (change_test t f w)"
  using assms by (auto simp: tester_frame_def change_test_def nth_update)

lemma tester_frame_set_same: "map td_id ds = ids_of t w \<Longrightarrow> tester_frame C T w (set_devices t ds w)"
  by (simp add: set_devices_def tester_frame_change_test)

lemma tester_frame_set:
  "t \<in> T \<Longrightarrow> (names_ok C t (ids_of t w) \<Longrightarrow> names_ok C t (map td_id ds)) \<Longrightarrow> tester_frame C T w (set_devices t ds w)"
  unfolding set_devices_def by (rule tester_frame_change_test) auto

lemma tester_frame_change_api:
  "(at_pc (api_threads w ! i) = Conn_ended \<Longrightarrow> at_pc (f (api_threads w ! i)) = Conn_ended) \<Longrightarrow>
   tester_frame C T w (change_api i f w)"
  by (auto simp: tester_frame_def change_api_def nth_update)

lemma tester_frame_flags [simp]:
  "tester_frame C T u (w\<lparr>shutdown_thread := h\<rparr>) = tester_frame C T u w" "tester_frame C T u (w\<lparr>timer_thread := h\<rparr>) = tester_frame C T u w"
  "tester_frame C T u (w\<lparr>shutdown_initiated := b\<rparr>) = tester_frame C T u w"
  by (simp_all add: tester_frame_def)

lemma tester_frame_call' [simp]: "tester_frame C T u w \<Longrightarrow> tester_frame C T u (call e w)"
  by (rule tester_frame_trans [OF _ tester_frame_call])

section \<open>Operations on one list\<close>

lemma tester_frame_set_registered:
  "test_data_set_device_registered t k b w = Some w' \<Longrightarrow> tester_frame C {} w w'"
  by (auto simp: test_data_set_device_registered_def ids_change_device intro!: tester_frame_set_same)

lemma tester_frame_unregister_entry: "tester_frame C {t} w (unregister_device_entry_common E t k w)"
  by (auto simp: unregister_device_entry_common_def ask_defs Let_def ids_remove_device
      intro!: tester_frame_trans [OF tester_frame_call tester_frame_set] tester_frame_set intro: names_ok_remove)

lemma tester_frame_unregister_devices: "tester_frame C {t} w (unregister_test_devices E t w)"
proof -
  have "tester_frame C {t} w (fold (\<lambda>d. unregister_device_entry_common E t (td_id d)) ds w)" for ds and w :: "'a tester_world"
    by (induction ds arbitrary: w) (auto intro: tester_frame_trans [OF tester_frame_unregister_entry])
  then show ?thesis by (simp add: unregister_test_devices_def)
qed

lemma new_device_id_fresh:
  assumes "new_device_id E t w = Some (k, w')"
  shows "calls_only w w' \<and> find_device k (devices_of t w) = None \<and> (\<exists>n. k = tester_name t n)"
proof -
  let ?P = "\<lambda>(E::env) t (w::'a tester_world) (k, w'). calls_only w w' \<and>
    find_device k (devices_of t w) = None \<and> (\<exists>n. k = tester_name t n)"
  have "?P E t w (k, w')"
  proof (rule new_device_id.raw_induct [where P = ?P, OF _ assms])
    fix f :: "env \<Rightarrow> nat \<Rightarrow> 'a tester_world \<Rightarrow> (string \<times> 'a tester_world) option" and E t w y
    assume IH: "\<And>E t w y. f E t w = Some y \<Longrightarrow> ?P E t w y"
      and b: "(let (device_id, w) = get_random_device_id E t w
        in if find_device device_id (devices_of t w) = None then Some (device_id, w) else f E t w) = Some y"
    let ?e = "Sys Rand"
    show "?P E t w y"
      using b IH [of E t "call ?e w" y]
      by (auto simp: get_random_device_id_def ask_defs tester_name_def Let_def split: if_splits
          intro: calls_only_trans [OF calls_only_call])
  qed
  then show ?thesis by simp
qed

lemma new_device_calls_only:
  "client_config_new_device P E k p u w = (d, w') \<Longrightarrow> calls_only w w'"
  by (auto simp: client_config_new_device_def ask_defs Let_def)

lemma thermometer_calls_only:
  "ipso_create_thermometer_in P E x False cb d w = Some (d', w') \<Longrightarrow> w' = w"
  by (auto simp: ipso_create_thermometer_in_def Let_def split: option.splits prod.splits)

lemma calls_only_tester:
  "calls_only w w' \<Longrightarrow> test_threads w' = test_threads w \<and> api_threads w' = api_threads w"
  by (cases w; cases w') (simp add: calls_only_def)

lemma tester_frame_register_random:
  assumes "register_random_device P E C t w = Some w'"
  shows "tester_frame C {t} w w'"
proof (cases "max_number_of_devices C \<le> int (length (devices_of t w))")
  case True
  with assms show ?thesis by (simp add: register_random_device_def)
next
  case False
  with assms obtain k v d v' d' where k: "new_device_id E t w = Some (k, v)"
    and d: "client_config_new_device P E k [] 1 v = (Some d, v')"
    and w': "w' = (let u = set_devices t (devices_of t v' @ [\<lparr>td_id = k, td_registered = False, td_device = d'\<rparr>]) v'
       in if at_connection (api_threads u ! api_of t u) then call (Pt (PtDeviceRegister (int (api_of t u)) k)) u else u)"
    by (auto simp: register_random_device_def Let_def split: Option.bind_splits prod.splits
        dest!: thermometer_calls_only)
  have c: "calls_only w v'"
    by (rule calls_only_trans [OF _ new_device_calls_only [OF d]]) (use new_device_id_fresh [OF k] in simp)
  obtain n where n: "k = tester_name t n" "tester_name t n \<notin> set (ids_of t w)"
    using new_device_id_fresh [OF k] by (auto simp: tester_list.lookup_None_key)
  have "tester_frame C {t} v' (set_devices t (devices_of t v' @ [\<lparr>td_id = k, td_registered = False, td_device = d'\<rparr>]) v')"
    using names_ok_snoc [of C t "ids_of t w" n] n False calls_only_tester [OF c] by (intro tester_frame_set) auto
  from tester_frame_trans [OF tester_frame_calls_only [OF c] this] show ?thesis by (simp add: w' Let_def)
qed

lemma tester_frame_unregister_random: "tester_frame C' {t} w (unregister_random_device E C t w)"
  by (auto simp: unregister_random_device_def ask_defs Let_def
      intro: tester_frame_trans [OF tester_frame_call tester_frame_unregister_entry])

lemma tester_frame_from_call: "tester_frame C T (call e w) w' \<Longrightarrow> tester_frame C T w w'"
  by (rule tester_frame_trans [OF tester_frame_call])

lemma tester_frame_set_random:
  assumes "set_random_value_for_device P E t k w = Some w'"
  shows "tester_frame C {} w w'"
proof -
  have "tester_frame C {} w (set_devices t (change_device k (\<lambda>x. x\<lparr>td_device := d\<rparr>) (devices_of t w)) (call (Sys Rand) w))" for d
    by (rule tester_frame_from_call [OF tester_frame_set_same]) (simp add: ids_change_device)
  with assms show ?thesis
    by (auto simp: set_random_value_for_device_def ask_defs Let_def split: Option.bind_splits if_splits)
qed

lemma tester_frame_set_random_value:
  assumes "set_random_value P E t w = Some w'"
  shows "tester_frame C {} w w'"
proof (cases "devices_of t w = []")
  case True
  with assms show ?thesis by (simp add: set_random_value_def)
next
  case False
  let ?k = "nat (random_index (env_int E (trace w) (Sys Rand)) (int (length (devices_of t w))))"
  have "w' = call (Sys Rand) w \<or>
      set_random_value_for_device P E t (td_id (devices_of t w ! ?k)) (call (Sys Rand) w) = Some w'"
    using assms False by (cases "?k < length (devices_of t w)") (simp_all add: set_random_value_def ask_int_def)
  then show ?thesis
    by (elim disjE) (auto intro: tester_frame_from_call [OF tester_frame_set_random])
qed

lemma tester_frame_action:
  assumes "run_test_action P E C t w = Some w'"
  shows "tester_frame C {t} w w'"
proof (rule tester_frame_from_call)
  let ?v = "call (Sys Rand) w" and ?a = "random_index (env_int E (trace w) (Sys Rand)) 3"
  have "w' = ?v \<or> register_random_device P E C t ?v = Some w' \<or> w' = unregister_random_device E C t ?v \<or>
      set_random_value P E t ?v = Some w'"
    using assms by (cases "?a = 0"; cases "?a = 1"; cases "?a = 2")
      (auto simp: run_test_action_def ask_int_def Let_def split: if_splits)
  then show "tester_frame C {t} ?v w'"
    by (elim disjE)
      (auto simp: tester_frame_register_random tester_frame_unregister_random intro: tester_frame_mono [OF tester_frame_set_random_value])
qed

section \<open>Callbacks\<close>

lemma calls_only_reset:
  assumes "ipso_reset_min_max_object_in P E obj i d w = Some (d', w')"
  shows "calls_only w w'"
  using assms by (auto simp: ipso_reset_min_max_object_in_def reset_extremum_def malloc_def ask_defs Let_def
      split: Option.bind_splits option.splits if_splits)

lemma calls_only_callback: "run_resource_callback P E cb obj i d w = Some (d', w') \<Longrightarrow> calls_only w w'"
  by (auto simp: run_resource_callback_def calls_only_reset split: if_splits)

lemma received_write_round:
  assumes r: "received_write P E i k obj inst res op t (Suc n) w = Some (rc, w')"
  obtains (blocked) "rc = 0" "w' = change_api i (\<lambda>a. a\<lparr>at_pc := Conn_blocked\<rparr>) w"
    | (refused) "rc = 1" "tt_at (test_threads w ! t) \<noteq> Test_exited"
        "w' = change_test t (\<lambda>th. th\<lparr>tt_locked := True\<rparr>) w"
    | (goes_on) x where "tester_frame C {} w x" "api_threads x = api_threads w"
        "received_write P E i k obj inst res op (t + 1) n x = Some (rc, w')"
proof (cases "\<not> tt_locked (test_threads w ! t) \<and> (\<exists>d r. find_device k (devices_of t w) = Some d \<and>
    pt_find_resource P (td_device d) obj inst res = Some r \<and> resource_operations r \<inter> op \<noteq> {} \<and>
    resource_callback r \<noteq> no_callback \<and> (OPERATION_WRITE \<in> op \<or> OPERATION_EXECUTE \<in> op))")
  case False
  with r have "(rc = 0 \<and> w' = change_api i (\<lambda>a. a\<lparr>at_pc := Conn_blocked\<rparr>) w) \<or>
      (rc = 1 \<and> tt_at (test_threads w ! t) \<noteq> Test_exited \<and> w' = change_test t (\<lambda>th. th\<lparr>tt_locked := True\<rparr>) w) \<or>
      received_write P E i k obj inst res op (t + 1) n w = Some (rc, w')"
    by (auto split: if_splits option.splits)
  then show thesis using that(1,2) that(3) [OF tester_frame_refl refl] by (elim disjE conjE)
next
  case True
  then obtain d r where f: "\<not> tt_locked (test_threads w ! t)" "find_device k (devices_of t w) = Some d"
    "pt_find_resource P (td_device d) obj inst res = Some r"
    "resource_operations r \<inter> op \<noteq> {}" "resource_callback r \<noteq> no_callback"
    "OPERATION_WRITE \<in> op \<or> OPERATION_EXECUTE \<in> op" by blast
  with r obtain d' v where c: "run_resource_callback P E (resource_callback r) obj inst (td_device d) w = Some (d', v)"
    by (auto split: if_splits Option.bind_splits)
  let ?u = "set_devices t (change_device k (\<lambda>x. x\<lparr>td_device := d'\<rparr>) (devices_of t v)) v"
  let ?x = "if OPERATION_WRITE \<notin> op \<and> at_connection (api_threads ?u ! i)
    then call (Pt (PtWriteValues (int i) k)) ?u else ?u"
  have "tester_frame C {} w ?u"
    by (rule tester_frame_trans [OF tester_frame_calls_only [OF calls_only_callback [OF c]] tester_frame_set_same])
      (simp add: ids_change_device)
  then have q: "tester_frame C {} w ?x" by simp
  have "api_threads ?x = api_threads w" "received_write P E i k obj inst res op (t + 1) n ?x = Some (rc, w')"
    using r f c calls_only_tester [OF calls_only_callback [OF c]] by (auto simp: Let_def split: if_splits)
  from that(3) [OF q this] show thesis .
qed

lemma tester_frame_received_write:
  "received_write P E i k obj inst res op t n w = Some (rc, w') \<Longrightarrow> at_pc (api_threads w ! i) = Conn_loop \<Longrightarrow>
   tester_frame C {} w w'"
proof (induction n arbitrary: t w)
  case (Suc n)
  from Suc.prems(1) show ?case
  proof (cases rule: received_write_round [where C = C])
    case blocked
    with Suc.prems(2) show ?thesis by (auto intro!: tester_frame_change_api)
  next
    case refused
    then show ?thesis by (auto intro!: tester_frame_change_test)
  next
    case (goes_on x)
    with Suc show ?thesis by (auto intro: tester_frame_trans)
  qed
qed simp

text \<open>A write that is refused leaves the list of a thread that is still there locked.\<close>

lemma refused_write_locks:
  "received_write P E i k obj inst res op t n w = Some (1, w') \<Longrightarrow> t + n \<le> length (test_threads w) \<Longrightarrow>
   \<exists>s<length (test_threads w). tt_locked (test_threads w' ! s) \<and> tt_at (test_threads w' ! s) \<noteq> Test_exited"
proof (induction n arbitrary: t w)
  case (Suc n)
  from Suc.prems(1) show ?case
  proof (cases rule: received_write_round [where C = undefined])
    case refused
    with Suc.prems(2) show ?thesis by (intro exI [of _ t]) (simp add: change_test_def)
  next
    case (goes_on x)
    then have "length (test_threads x) = length (test_threads w)" by (simp add: tester_frame_def)
    with Suc.IH [OF goes_on(3)] Suc.prems(2) show ?thesis by simp
  qed simp
qed simp

end
