(* ===== verification/Stress_Runs.thy ===== *)
theory Stress_Runs
  imports Stress_Laws
begin

text \<open>
  The runs of the stress tester: what each event changes, the invariant of every run, and the
  theorems about how the tester ends and why it may not.
\<close>

section \<open>Events\<close>

lemma tester_frame_with_list:
  assumes "with_device_list i t f w = Some w'" "in_loop i w" "\<And>v. f w = Some v \<Longrightarrow> tester_frame C T w v"
  shows "tester_frame C T w w' \<and> tt_at (test_threads w ! t) \<noteq> Test_exited"
  using assms by (auto simp: with_device_list_def in_loop_def split: if_splits intro!: tester_frame_change_api)

lemma tester_frame_unregistered:
  assumes "test_data_set_device_registered t k False w = Some v"
  shows "tester_frame C {t} w (set_devices t (remove_device k (devices_of t v)) v)"
  by (rule tester_frame_trans [OF tester_frame_mono [OF tester_frame_set_registered [OF assms]] tester_frame_set])
    (simp_all add: ids_remove_device names_ok_remove)

lemma tester_frame_cleanup: "tester_frame C T w (tester_shutdown_and_cleanup w)"
proof -
  have "tester_frame C T w (cleanup_connection i w)" for i and w :: "'a tester_world"
    unfolding cleanup_connection_def by (rule tester_frame_trans [where v = "if at_connection (api_threads w ! i)
      then call (Pt (PtConnectionShutdown (int i))) w else w"]) (auto intro!: tester_frame_change_api)
  then have "tester_frame C T w (fold cleanup_connection is w)" for "is" and w :: "'a tester_world"
    by (induction "is" arbitrary: w) (auto intro: tester_frame_trans)
  then show ?thesis by (simp add: tester_shutdown_and_cleanup_def)
qed

lemma pc_cleanup: "at_pc (api_threads (tester_shutdown_and_cleanup w) ! j) = at_pc (api_threads w ! j)"
proof -
  have "at_pc (api_threads (cleanup_connection i w) ! j) = at_pc (api_threads w ! j)" for i and w :: "'a tester_world"
    by (simp add: cleanup_connection_def change_api_def nth_update)
  then have "at_pc (api_threads (fold cleanup_connection is w) ! j) = at_pc (api_threads w ! j)"
    for "is" and w :: "'a tester_world"
    by (induction "is" arbitrary: w) auto
  then show ?thesis by (simp add: tester_shutdown_and_cleanup_def)
qed

text \<open>The thread whose list an event may shorten, and the events of the tester's own threads.\<close>

fun shortens :: "tester_event \<Rightarrow> nat set" where
  "shortens (Api_device_unregistered i t k) = {t}"
| "shortens e = {}"

fun own_step :: "tester_event \<Rightarrow> bool" where
  "own_step Tester_main_runs = True"
| "own_step (Test_thread_runs t) = True"
| "own_step e = False"

lemma in_loop_not_ended: "in_loop i w \<Longrightarrow> at_pc (api_threads w ! i) \<noteq> Conn_ended"
  by (simp add: in_loop_def)

lemma event_frame:
  assumes en: "tester_enabled e w" and h: "tester_handle P E C e w = Some w'" and e: "\<not> own_step e"
  shows "tester_frame C (shortens e) w w' \<and> (\<forall>t\<in>shortens e. tt_at (test_threads w ! t) \<noteq> Test_exited)"
proof (cases e)
  case (Api_device_unregistered i t k)
  let ?f = "\<lambda>w. map_option (\<lambda>w. set_devices t (remove_device k (devices_of t w)) w)
    (test_data_set_device_registered t k False w)"
  have "tester_frame C {t} w v" if "?f w = Some v" for v
    using that tester_frame_unregistered by fastforce
  moreover have "with_device_list i t ?f w = Some w'" "in_loop i w"
    using en h Api_device_unregistered by (simp_all add: device_unregistration_success_def)
  ultimately show ?thesis using tester_frame_with_list [of i t ?f w w' C "{t}"] Api_device_unregistered by simp
next
  case (Api_device_registered i t k)
  with tester_frame_with_list [of i t _ w w' C "{}"] show ?thesis
    using en h by (simp add: device_registration_success_def tester_frame_set_registered)
next
  case (Api_write i k obj inst res op)
  then show ?thesis using en h
    by (auto simp: received_write_handler_def in_loop_def intro: tester_frame_received_write)
next
  case (Api_ready i)
  then show ?thesis using en h
    by (auto simp: tester_connection_ready_def ask_defs Let_def in_loop_def
        intro!: tester_frame_from_call [OF tester_frame_change_api])
next
  case (Api_thread_starts i)
  then show ?thesis using en h
    by (auto simp: tester_api_start_func_def intro!: tester_frame_from_call [OF tester_frame_change_api])
next
  case (Api_cleans_up i)
  then show ?thesis using en h
    by (auto simp: pc_cleanup intro!: tester_frame_trans [OF tester_frame_cleanup tester_frame_change_api])
next
  case Shutdown_thread_runs
  then show ?thesis using h by (auto simp: tester_frame_cleanup)
next
  case Timer_thread_runs
  then show ?thesis using h by (auto simp: tester_frame_cleanup timer_thread_step_def ask_defs Let_def)
next
  case Tester_signal
  then show ?thesis using h by (auto simp: tester_shutdown_handler_def Let_def)
qed (use en h e in \<open>auto simp: tester_registration_failure_def tester_registration_success_def tester_disconnected_def
      tester_shutdown_cb_def device_registration_failure_def device_unregistration_failure_def
      tester_api_returns_def in_loop_def intro!: tester_frame_change_api\<close>)

text \<open>A step of a test thread.\<close>

lemma test_thread_cases:
  assumes en: "tester_enabled (Test_thread_runs t) w" and h: "tester_handle P E C (Test_thread_runs t) w = Some w'"
  obtains (acts) "tt_at (test_threads w ! t) = Test_running" "\<not> tt_locked (test_threads w ! t)" "tester_frame C {t} w w'"
    | (idle) "w' = w"
    | (stops) "tt_at (test_threads w ! t) = Test_running"
        "w' = change_test t (\<lambda>th. th\<lparr>tt_at := Test_unregistering\<rparr>) w"
    | (unregisters) v where "tt_at (test_threads w ! t) = Test_unregistering" "\<not> tt_locked (test_threads w ! t)"
        "tester_frame C {t} w v" "w' = change_test t (\<lambda>th. th\<lparr>tt_at := Test_waiting\<rparr>) v"
    | (exits) "tt_at (test_threads w ! t) = Test_waiting" "\<not> tt_locked (test_threads w ! t)"
        "devices_of t w = []" "w' = change_test t (\<lambda>th. th\<lparr>tt_at := Test_exited\<rparr>) w"
proof (cases "tt_at (test_threads w ! t)")
  case Test_running
  let ?a = "api_threads w ! api_of t w"
  show thesis
  proof (cases "at_keep_running ?a \<and> \<not> shutdown_initiated w \<and> at_connected ?a")
    case True
    with en h Test_running have "\<not> tt_locked (test_threads w ! t)" "run_test_action P E C t w = Some w'"
      by (simp_all add: test_thread_can_run_def test_thread_step_def)
    with that(1) [OF Test_running] tester_frame_action show thesis by blast
  next
    case False
    with h Test_running have "w' = w \<or> w' = change_test t (\<lambda>th. th\<lparr>tt_at := Test_unregistering\<rparr>) w"
      by (auto simp: test_thread_step_def Let_def split: if_splits)
    with that(2) that(3) [OF Test_running] show thesis by blast
  qed
next
  case Test_unregistering
  with en h have "\<not> tt_locked (test_threads w ! t)"
    "w' = change_test t (\<lambda>th. th\<lparr>tt_at := Test_waiting\<rparr>) (unregister_test_devices E t w)"
    by (simp_all add: test_thread_can_run_def test_thread_step_def)
  with that(4) [OF Test_unregistering _ tester_frame_unregister_devices] show thesis by blast
next
  case Test_waiting
  with en h have "\<not> tt_locked (test_threads w ! t)" and w': "w' = (if devices_of t w = []
      then change_test t (\<lambda>th. th\<lparr>tt_at := Test_exited\<rparr>) w else w)"
    by (auto simp: test_thread_can_run_def test_thread_step_def test_data_count_registered_devices_def split: if_splits)
  with that(2) that(5) [OF Test_waiting] show thesis by (cases "devices_of t w = []") simp_all
next
  case Test_exited
  with en show thesis by (simp add: test_thread_can_run_def)
qed

section \<open>The invariant\<close>

definition tester_started :: "env \<Rightarrow> tester_args \<Rightarrow> tester_config \<Rightarrow> 'd tester_world \<Rightarrow> bool" where
  "tester_started E A C w \<longleftrightarrow> tester_main E A tester_start = Some (Some C, w)"

definition tester_inv :: "tester_config \<Rightarrow> 'd tester_world \<Rightarrow> bool" where
  "tester_inv C w \<longleftrightarrow>
     (\<forall>t<length (test_threads w). names_ok C t (ids_of t w) \<and>
        (tt_at (test_threads w ! t) = Test_exited \<longrightarrow> devices_of t w = []) \<and>
        (tester_at w \<noteq> Tester_join_tests \<longrightarrow> tt_at (test_threads w ! t) = Test_exited)) \<and>
     (tester_at w \<notin> {Tester_join_tests, Tester_join_apis} \<longrightarrow>
        (\<forall>i<length (api_threads w). at_pc (api_threads w ! i) = Conn_ended)) \<and>
     (test_threads_exited w \<longleftrightarrow> tester_at w \<noteq> Tester_join_tests)"

lemma tester_started_inv:
  assumes "tester_started E A C w"
  shows "tester_inv C w"
proof -
  have s: "api_threads v = api_threads w \<and> test_threads v = test_threads w \<and> tester_at v = tester_at w \<and>
      test_threads_exited v = test_threads_exited w" if "tester_setup_signals E w = (b, v)" for b v and w :: "'a tester_world"
    using that by (auto simp: tester_setup_signals_def ask_defs Let_def split: if_splits)
  show ?thesis
    using assms
    by (auto simp: tester_started_def tester_main_def tester_start_def create_tester_def ask_defs Let_def
        tester_inv_def names_ok_def split: prod.splits option.splits if_splits Option.bind_splits dest!: s)
qed

lemma tester_frame_inv:
  assumes inv: "tester_inv C w" and q: "tester_frame C T w w'" and T: "\<forall>t\<in>T. tt_at (test_threads w ! t) \<noteq> Test_exited"
  shows "tester_inv C w'"
proof -
  have "names_ok C t (ids_of t w') \<and> (tt_at (test_threads w' ! t) = Test_exited \<longrightarrow> devices_of t w' = []) \<and>
        (tester_at w' \<noteq> Tester_join_tests \<longrightarrow> tt_at (test_threads w' ! t) = Test_exited)"
    if "t < length (test_threads w')" for t
    using inv q T that unfolding tester_inv_def tester_frame_def by (metis list.map_disc_iff)
  then show ?thesis using inv q by (simp add: tester_inv_def tester_frame_def)
qed

lemma change_test_at_inv:
  assumes inv: "tester_inv C w" and t: "tt_at (test_threads w ! t) \<noteq> Test_exited" "t < length (test_threads w)"
    and a: "a = Test_exited \<longrightarrow> devices_of t w = []"
  shows "tester_inv C (change_test t (\<lambda>th. th\<lparr>tt_at := a\<rparr>) w)"
  using assms by (auto simp: tester_inv_def change_test_def nth_update)

lemma main_step_tester_inv:
  assumes inv: "tester_inv C w" and en: "tester_enabled Tester_main_runs w"
  shows "tester_inv C (tester_main_step w)"
  using assms by (cases "tester_at w") (auto simp: tester_inv_def tester_main_step_def)

lemma tester_step_inv:
  assumes inv: "tester_inv C w" and s: "tester_step P E C w w'"
  shows "tester_inv C w'"
  using s
proof cases
  case (tester_event e)
  show ?thesis
  proof (cases "own_step e")
    case False
    with event_frame [OF tester_event] tester_frame_inv [OF inv] show ?thesis by blast
  next
    case True
    then consider "e = Tester_main_runs" | t where "e = Test_thread_runs t" by (cases e) auto
    then show ?thesis
    proof cases
      case 1
      with main_step_tester_inv [OF inv] tester_event show ?thesis by simp
    next
      case (2 t)
      with tester_event have t: "t < length (test_threads w)" by (simp add: test_thread_can_run_def)
      from tester_event [unfolded 2] show ?thesis
      proof (cases rule: test_thread_cases)
        case acts
        with tester_frame_inv [OF inv acts(3)] show ?thesis by simp
      next
        case (unregisters v)
        have "tester_inv C v" using tester_frame_inv [OF inv unregisters(3)] unregisters(1) by simp
        moreover have "tt_at (test_threads v ! t) \<noteq> Test_exited" "t < length (test_threads v)"
          using unregisters(1,3) t by (auto simp: tester_frame_def)
        ultimately show ?thesis using unregisters(4) change_test_at_inv by blast
      next
        case stops
        with change_test_at_inv [OF inv _ t, of Test_unregistering] show ?thesis by simp
      next
        case exits
        with change_test_at_inv [OF inv _ t, of Test_exited] show ?thesis by simp
      next
        case idle
        with inv show ?thesis by simp
      qed
    qed
  qed
qed

interpretation tester: step_invariant "tester_started E A C" "tester_step P E C" "tester_inv C"
  by unfold_locales (auto intro: tester_started_inv tester_step_inv)

lemmas tester_reached = tester.reached_inv

end
