(* ===== verification/Stress_Theorems.thy ===== *)
theory Stress_Theorems
  imports Stress_Runs
begin

text \<open>
  The properties of the stress tester, with a run of one thread and one translator that the
  witnesses use: the thread registers one device and is told to stop.
\<close>

section \<open>An example\<close>

text \<open>A library whose devices hold nothing: what is added is accepted, and no resource is found.\<close>

definition tester_example_lib :: "unit pt_client_lib" where
  "tester_example_lib =
     \<lparr>pt_new_device = (\<lambda>k. ()), pt_has_object = (\<lambda>d obj. False), pt_has_instance = (\<lambda>d obj i. False),
      pt_find_resource = (\<lambda>d obj i r. None), pt_add_object = (\<lambda>d obj. (PT_STATUS_SUCCESS, ())),
      pt_add_instance = (\<lambda>d obj i. (PT_STATUS_SUCCESS, ())),
      pt_add_resource = (\<lambda>d obj i r ty ops v cb. (PT_STATUS_SUCCESS, ())),
      pt_fill_resource = (\<lambda>d obj i r v. ()), pt_init_device_object = (\<lambda>d x. ())\<rparr>"

definition tester_env :: env where
  "tester_env = \<lparr>env_status = (\<lambda>es e. PT_STATUS_SUCCESS), env_ok = (\<lambda>es e. True), env_int = (\<lambda>es e. 0),
     env_data = (\<lambda>es e. None), env_str = (\<lambda>es e. None), env_strs = (\<lambda>es e. []), env_variant = (\<lambda>es e. None),
     env_objects = (\<lambda>es e. None), env_junk = (\<lambda>es. []), PT_API_CONNECTION_ID_INVALID = -1\<rparr>"

lemma tester_env_answers [simp]:
  "env_status tester_env es e = PT_STATUS_SUCCESS" "env_ok tester_env es e" "env_int tester_env es e = 0"
  by (simp_all add: tester_env_def)

definition tester_example_args :: tester_args where
  "tester_example_args = \<lparr>arg_translator_name = Some ''pt'', arg_threads = ''1'', arg_min_devices = ''0'',
     arg_max_devices = ''5'', arg_translators = ''1'', arg_duration = ''0''\<rparr>"

definition tester_example_config :: tester_config where
  "tester_example_config = \<lparr>min_number_of_devices = 0, max_number_of_devices = 5, test_duration_seconds = 0,
     start_time = 0, translator_name = ''pt''\<rparr>"

definition tester_example_start :: "unit tester_world" where
  "tester_example_start = snd (the (tester_main tester_env tester_example_args tester_start))"

abbreviation (input) tester_example_run :: "tester_event list \<Rightarrow> unit tester_world option" where
  "tester_example_run es \<equiv> tester_run tester_example_lib tester_env tester_example_config es tester_example_start"

text \<open>The thread has registered a device; it has also been told to stop.\<close>

abbreviation (input) tester_registers :: "tester_event list" where
  "tester_registers \<equiv> [Api_thread_starts 0, Api_connected 0, Api_ready 0, Api_registered 0, Test_thread_runs 0,
     Api_device_registered 0 0 ''rand-0-0'']"

abbreviation (input) tester_stops :: "tester_event list" where
  "tester_stops \<equiv> tester_registers @ [Tester_signal, Test_thread_runs 0, Test_thread_runs 0]"

lemma tester_run_steps:
  "tester_run P E C es w = Some w' \<Longrightarrow> (tester_step P E C)\<^sup>*\<^sup>* w w'"
proof (induction es arbitrary: w)
  case (Cons e es)
  then obtain v where v: "tester_enabled e w" "tester_handle P E C e w = Some v" "tester_run P E C es v = Some w'"
    by (auto split: if_splits option.splits)
  with Cons.IH show ?case by (blast intro: converse_rtranclp_into_rtranclp tester_step.intros)
qed simp

lemma tester_run_append:
  "tester_run P E C (es @ fs) w = (case tester_run P E C es w of None \<Rightarrow> None | Some v \<Rightarrow> tester_run P E C fs v)"
  by (induction es arbitrary: w) (auto split: option.splits)

lemmas tester_run_defs =
  tester_main_def tester_start_def create_tester_def tester_setup_signals_def ask_defs tester_example_args_def
  tester_example_lib_def tester_example_config_def change_api_def change_test_def set_devices_def
  tester_api_start_func_def tester_connection_ready_def tester_registration_success_def
  test_thread_can_run_def test_thread_step_def run_test_action_def register_random_device_def
  random_index_def in_loop_def get_random_device_id_def client_config_new_device_def
  ipso_create_thermometer_in_def ipso_create_next_free_object_instance_def
  ipso_get_next_free_object_instance_id_def add_readable_def device_registration_success_def
  with_device_list_def test_data_set_device_registered_def tester_shutdown_handler_def

lemma free_instance_first: "0 < n \<Longrightarrow> \<not> pt_has_instance P d obj (of_nat i) \<Longrightarrow> free_instance P d obj i n = Some (of_nat i)"
  by (cases n) auto

lemma decimal_0: "decimal 0 = ''0''"
  by (simp add: decimal.simps digit_def char_of_def bit_0)

lemma new_device_id_0:
  assumes "find_device ''rand-0-0'' (devices_of 0 w) = None"
  shows "new_device_id tester_env 0 w = Some (''rand-0-0'', call (Sys Rand) w)"
  by (subst new_device_id.simps) (use assms in \<open>simp add: get_random_device_id_def ask_defs decimal_0\<close>)

lemma tester_started_example: "tester_started tester_env tester_example_args tester_example_config tester_example_start"
proof -
  have "atoi ''1'' = Some 1" "atoi ''0'' = Some 0" "atoi ''5'' = Some 5" by code_simp+
  then show ?thesis
    by (simp add: tester_started_def tester_example_start_def tester_run_defs Let_def)
qed

text \<open>The states of the example.\<close>

definition tester_example_state :: "ev list \<Rightarrow> test_pc \<Rightarrow> unit tester_device list \<Rightarrow> bool \<Rightarrow> helper_pc \<Rightarrow> unit tester_world" where
  "tester_example_state tr pc ds sd h = \<lparr>trace = tr,
     test_threads = [\<lparr>tt_devices = ds, tt_api = 0, tt_locked = False, tt_at = pc\<rparr>],
     api_threads = [\<lparr>at_connection = True, at_running = True, at_connected = True, at_keep_running = True, at_pc = Conn_loop\<rparr>],
     shutdown_initiated = sd, test_threads_exited = False, shutdown_thread = h, timer_thread = Helper_none,
     tester_at = Tester_join_tests\<rparr>"

definition tester_example_device :: "unit tester_device" where
  "tester_example_device = \<lparr>td_id = ''rand-0-0'', td_registered = True, td_device = ()\<rparr>"

lemma tester_example_start_state: "\<exists>tr. tester_example_start = \<lparr>trace = tr,
     test_threads = [\<lparr>tt_devices = [], tt_api = 0, tt_locked = False, tt_at = Test_running\<rparr>],
     api_threads = [\<lparr>at_connection = False, at_running = False, at_connected = False, at_keep_running = True, at_pc = Conn_starting\<rparr>],
     shutdown_initiated = False, test_threads_exited = False, shutdown_thread = Helper_none, timer_thread = Helper_none,
     tester_at = Tester_join_tests\<rparr>"
proof -
  have "atoi ''1'' = Some 1" "atoi ''0'' = Some 0" "atoi ''5'' = Some 5" by code_simp+
  then show ?thesis
    by (simp add: tester_example_start_def tester_run_defs Let_def call_def)
qed

lemma tester_registers_state:
  "\<exists>tr. tester_example_run tester_registers = Some (tester_example_state tr Test_running [tester_example_device] False Helper_none)"
proof -
  obtain tr where s: "tester_example_start = \<lparr>trace = tr,
     test_threads = [\<lparr>tt_devices = [], tt_api = 0, tt_locked = False, tt_at = Test_running\<rparr>],
     api_threads = [\<lparr>at_connection = False, at_running = False, at_connected = False, at_keep_running = True, at_pc = Conn_starting\<rparr>],
     shutdown_initiated = False, test_threads_exited = False, shutdown_thread = Helper_none, timer_thread = Helper_none,
     tester_at = Tester_join_tests\<rparr>" using tester_example_start_state by blast
  show ?thesis
    by (simp add: s tester_run_defs Let_def call_def decimal_0 new_device_id_0 free_instance_first
        tester_example_state_def tester_example_device_def)
qed

lemma tester_stops_state:
  "\<exists>tr. tester_example_run tester_stops =
     Some (tester_example_state tr Test_waiting [tester_example_device] True Helper_waiting)"
proof -
  obtain tr where r: "tester_example_run tester_registers =
      Some (tester_example_state tr Test_running [tester_example_device] False Helper_none)"
    using tester_registers_state by blast
  show ?thesis unfolding tester_run_append r
    by (simp add: tester_example_state_def tester_example_device_def tester_run_defs Let_def call_def
        unregister_test_devices_def unregister_device_entry_common_def)
qed

section \<open>Random choices\<close>

text \<open>
  the random choice of the tester: while the square of the number of candidates is at most
  \<open>RAND_MAX\<close>, the numbers \<open>rand\<close> can answer are mapped onto exactly the indices of the candidates, so
  no choice falls outside and no candidate can never be chosen.
\<close>

theorem random_choice_covers:
  assumes "0 < n" "n * n \<le> RAND_MAX"
  shows "(\<lambda>r. random_index r n) ` {0..RAND_MAX} = {0..<n}"
proof
  have "n * 1 \<le> n * n" using assms(1) by (intro mult_left_mono) auto
  with assms have "n \<le> RAND_MAX" by linarith
  with random_index_bounds assms(1) show "(\<lambda>r. random_index r n) ` {0..RAND_MAX} \<subseteq> {0..<n}" by auto
  show "{0..<n} \<subseteq> (\<lambda>r. random_index r n) ` {0..RAND_MAX}"
  proof
    fix k assume k: "k \<in> {0..<n}"
    then have "k = random_index (k * (RAND_MAX div n + 1)) n" "k * (RAND_MAX div n + 1) \<in> {0..RAND_MAX}"
      using random_index_onto [of k n] assms pos_imp_zdiv_nonneg_iff [of n RAND_MAX]
      by (auto simp: RAND_MAX_def)
    then show "k \<in> (\<lambda>r. random_index r n) ` {0..RAND_MAX}" by (rule image_eqI)
  qed
qed

theorem random_choice_covers_witness: "(\<lambda>r. random_index r 3) ` {0..RAND_MAX} = {0..<3}"
  by (rule random_choice_covers) (simp_all add: RAND_MAX_def)

section \<open>The lists\<close>

text \<open>
  C37: in every state a tester that was started reaches, with any answers of the library and the
  system and any interleaving of its threads and callbacks, no identifier is in the lists of two
  threads or twice in one, and no list is longer than the maximum of the command line.
\<close>

theorem tester_identifiers_unique:
  assumes "tester_started E A C s" "(tester_step P E C)\<^sup>*\<^sup>* s w" "t < length (test_threads w)"
  shows "distinct (map td_id (tt_devices (test_threads w ! t))) \<and>
    int (length (tt_devices (test_threads w ! t))) \<le> max 0 (max_number_of_devices C) \<and>
    (\<forall>u. u < length (test_threads w) \<and> u \<noteq> t \<longrightarrow>
       set (map td_id (tt_devices (test_threads w ! u))) \<inter> set (map td_id (tt_devices (test_threads w ! t))) = {})"
proof -
  have n: "names_ok C u (ids_of u w)" if "u < length (test_threads w)" for u
    using tester_reached [OF assms(1,2)] that by (simp add: tester_inv_def)
  have "u = t" if "u < length (test_threads w)" "k \<in> set (ids_of u w)" "k \<in> set (ids_of t w)" for u k
    using n [OF that(1)] n [OF assms(3)] that(2,3) tester_name_inj unfolding names_ok_def by metis
  with n [OF assms(3)] show ?thesis unfolding names_ok_def length_map by blast
qed

theorem tester_identifiers_unique_witness:
  "\<exists>w. (tester_step tester_example_lib tester_env tester_example_config)\<^sup>*\<^sup>* tester_example_start w \<and>
     map td_id (tt_devices (test_threads w ! 0)) = [''rand-0-0''] \<and>
     int (length (tt_devices (test_threads w ! 0))) \<le> max 0 (max_number_of_devices tester_example_config)"
proof -
  obtain tr where r: "tester_example_run tester_registers =
      Some (tester_example_state tr Test_running [tester_example_device] False Helper_none)"
    using tester_registers_state by blast
  from tester_identifiers_unique [OF tester_started_example tester_run_steps [OF r], of 0] tester_run_steps [OF r]
  show ?thesis by (auto simp: tester_example_state_def tester_example_device_def)
qed

section \<open>The end of a run\<close>

text \<open>
  C38: when \<open>main\<close> of the stress tester has returned, every test thread has exited with an empty list
  and every thread of the library has returned, in every run.
\<close>

theorem tester_returns_clean:
  assumes "tester_started E A C s" "(tester_step P E C)\<^sup>*\<^sup>* s w" "tester_at w = Tester_returned rc"
  shows "(\<forall>th\<in>set (test_threads w). tt_at th = Test_exited \<and> tt_devices th = []) \<and>
    (\<forall>a\<in>set (api_threads w). at_pc a = Conn_ended)"
  using tester_reached [OF assms(1,2)] assms(3) by (auto simp: tester_inv_def in_set_conv_nth)

lemma tester_ends_state:
  "\<exists>w. tester_example_run (tester_stops @ [Api_device_unregistered 0 0 ''rand-0-0'', Test_thread_runs 0, Tester_main_runs,
       Shutdown_thread_runs, Api_shutting_down 0, Api_returns 0 0, Tester_main_runs, Tester_main_runs]) = Some w \<and>
     tester_at w = Tester_returned 0 \<and> length (test_threads w) = 1"
proof -
  obtain tr where r: "tester_example_run tester_stops =
      Some (tester_example_state tr Test_waiting [tester_example_device] True Helper_waiting)"
    using tester_stops_state by blast
  show ?thesis unfolding tester_run_append [of _ _ _ tester_stops] r
    by (simp add: tester_example_state_def tester_example_device_def tester_run_defs Let_def call_def
        device_unregistration_success_def test_data_count_registered_devices_def tester_main_step_def
        tester_shutdown_and_cleanup_def cleanup_connection_def tester_shutdown_cb_def tester_api_returns_def)
qed

theorem tester_returns_clean_witness:
  "\<exists>w. (tester_step tester_example_lib tester_env tester_example_config)\<^sup>*\<^sup>* tester_example_start w \<and>
     tester_at w = Tester_returned 0 \<and> length (test_threads w) = 1 \<and> tt_devices (test_threads w ! 0) = []"
proof -
  obtain w where w: "tester_example_run (tester_stops @ [Api_device_unregistered 0 0 ''rand-0-0'', Test_thread_runs 0,
       Tester_main_runs, Shutdown_thread_runs, Api_shutting_down 0, Api_returns 0 0, Tester_main_runs, Tester_main_runs]) = Some w"
    "tester_at w = Tester_returned 0" "length (test_threads w) = 1" using tester_ends_state by blast
  have "tt_devices (test_threads w ! 0) = []"
    using tester_returns_clean [OF tester_started_example tester_run_steps [OF w(1)] w(2)] w(3) by simp
  with tester_run_steps [OF w(1)] w(2,3) show ?thesis by blast
qed

section \<open>Runs that never end\<close>

lemma main_step_threads [simp]: "test_threads (tester_main_step w) = test_threads w"
  by (simp add: tester_main_step_def split: tester_pc.splits)

text \<open>A list that stays locked keeps its thread, and \<open>main\<close> with it.\<close>

definition stuck_list :: "nat \<Rightarrow> 'd tester_world \<Rightarrow> bool" where
  "stuck_list t w \<longleftrightarrow> t < length (test_threads w) \<and> tt_locked (test_threads w ! t) \<and>
     tt_at (test_threads w ! t) \<noteq> Test_exited"

lemma tester_frame_stuck: "stuck_list t w \<Longrightarrow> tester_frame C T w w' \<Longrightarrow> stuck_list t w'"
  by (simp add: stuck_list_def tester_frame_def)

lemma step_stuck:
  assumes s: "tester_step P E C w w'" and l: "stuck_list t w"
  shows "stuck_list t w'"
  using s
proof cases
  case (tester_event e)
  show ?thesis
  proof (cases "own_step e")
    case False
    with event_frame [OF tester_event] tester_frame_stuck [OF l] show ?thesis by blast
  next
    case True
    then consider "e = Tester_main_runs" | u where "e = Test_thread_runs u" by (cases e) auto
    then show ?thesis
    proof cases
      case 1
      with l tester_event show ?thesis by (auto simp: stuck_list_def)
    next
      case (2 u)
      from tester_event [unfolded 2] show ?thesis
      proof (cases rule: test_thread_cases)
        case acts
        with tester_frame_stuck [OF l] show ?thesis by blast
      next
        case (unregisters v)
        with tester_frame_stuck [OF l unregisters(3)] l show ?thesis
          by (auto simp: stuck_list_def change_test_def nth_update)
      qed (use l in \<open>auto simp: stuck_list_def change_test_def nth_update\<close>)
    qed
  qed
qed



text \<open>What keeps an identifier in the list of a thread that waits.\<close>

definition waits_for :: "nat \<Rightarrow> string \<Rightarrow> 'd tester_world \<Rightarrow> bool" where
  "waits_for t k w \<longleftrightarrow> t < length (test_threads w) \<and> tt_at (test_threads w ! t) = Test_waiting \<and> k \<in> set (ids_of t w)"

lemma tester_frame_waits: "waits_for t k w \<Longrightarrow> tester_frame C T w w' \<Longrightarrow> t \<notin> T \<Longrightarrow> waits_for t k w'"
  unfolding waits_for_def tester_frame_def by metis

lemma unregistered_other_waits:
  assumes "device_unregistration_success i t k' w = Some w'" "k' \<noteq> k" "waits_for t k w"
  shows "waits_for t k w'"
proof -
  have c: "waits_for t k (change_api i f w)" for f using assms(3) by (simp add: waits_for_def change_api_def)
  have "waits_for t k (set_devices t (remove_device k' (devices_of t v)) v)"
    if "test_data_set_device_registered t k' False w = Some v" for v
  proof -
    have "waits_for t k v" by (rule tester_frame_waits [OF assms(3) tester_frame_set_registered [OF that]]) simp
    with assms(2) show ?thesis
      by (simp add: waits_for_def set_devices_def change_test_def ids_remove_device del: set_map)
  qed
  with assms(1) c show ?thesis
    by (auto simp: device_unregistration_success_def with_device_list_def split: if_splits)
qed

lemma event_waits:
  assumes en: "tester_enabled e w" and h: "tester_handle P E C e w = Some w'"
    and l: "waits_for t k w" and n: "\<forall>i. e \<noteq> Api_device_unregistered i t k"
  shows "waits_for t k w'"
proof (cases "own_step e")
  case True
  then consider "e = Tester_main_runs" | u where "e = Test_thread_runs u" by (cases e) auto
  then show ?thesis
  proof cases
    case 1
    with l h show ?thesis by (auto simp: waits_for_def)
  next
    case (2 u)
    from en h [unfolded 2] show ?thesis unfolding 2
    proof (cases rule: test_thread_cases)
      case acts
      with l tester_frame_waits [OF l acts(3)] show ?thesis by (cases "u = t") (auto simp: waits_for_def)
    next
      case (unregisters v)
      with l tester_frame_waits [OF l unregisters(3)] show ?thesis
        by (cases "u = t") (auto simp: waits_for_def change_test_def)
    qed (use l in \<open>auto simp: waits_for_def change_test_def nth_update\<close>)
  qed
next
  case False
  show ?thesis
  proof (cases "t \<in> shortens e")
    case True
    then obtain i k' where "e = Api_device_unregistered i t k'" by (cases e) auto
    with unregistered_other_waits [OF _ _ l] h n show ?thesis by auto
  qed (use tester_frame_waits [OF l] event_frame [OF en h False] in blast)
qed

text \<open>
  C40: a device whose unregistration the library does not confirm stays in the list of its thread:
  from a state in which the thread waits for its list to become empty, no run without the callback
  for that device lets \<open>main\<close> leave its wait for the test threads; the callback for a failed
  unregistration changes nothing.
\<close>

theorem unconfirmed_device_never_returns:
  assumes "tester_started E A C s" "(tester_step P E C)\<^sup>*\<^sup>* s w" "t < length (test_threads w)"
    and "tt_at (test_threads w ! t) = Test_waiting" "k \<in> set (map td_id (tt_devices (test_threads w ! t)))"
    and "tester_run P E C es w = Some w'" "\<forall>i. Api_device_unregistered i t k \<notin> set es"
  shows "tester_at w' = Tester_join_tests \<and> k \<in> set (map td_id (tt_devices (test_threads w' ! t)))"
proof -
  have l: "waits_for t k w" using assms(3-5) by (simp add: waits_for_def)
  have "waits_for t k w'" using assms(6,7) l
  proof (induction es arbitrary: w)
    case (Cons e es)
    then obtain v where v: "tester_enabled e w" "tester_handle P E C e w = Some v" "tester_run P E C es v = Some w'"
      by (auto split: if_splits option.splits)
    have "waits_for t k v" by (rule event_waits [OF v(1,2) Cons.prems(3)]) (use Cons.prems(2) in auto)
    with Cons v(3) show ?case by simp
  qed simp
  moreover have "tester_inv C w'"
    by (rule tester.steps_inv [OF tester_run_steps [OF assms(6)] tester_reached [OF assms(1,2)]])
  ultimately show ?thesis by (auto simp: waits_for_def tester_inv_def)
qed

theorem unconfirmed_device_never_returns_witness:
  "\<exists>w w'. (tester_step tester_example_lib tester_env tester_example_config)\<^sup>*\<^sup>* tester_example_start w \<and>
     tester_run tester_example_lib tester_env tester_example_config
       [Api_device_unregistration_failed 0 0 ''rand-0-0'', Test_thread_runs 0, Tester_signal, Test_thread_runs 0] w = Some w' \<and>
     tester_at w' = Tester_join_tests \<and> ''rand-0-0'' \<in> set (map td_id (tt_devices (test_threads w' ! 0)))"
proof -
  let ?es = "[Api_device_unregistration_failed 0 0 ''rand-0-0'', Test_thread_runs 0, Tester_signal, Test_thread_runs 0]"
  obtain tr where r: "tester_example_run tester_stops =
      Some (tester_example_state tr Test_waiting [tester_example_device] True Helper_waiting)"
    using tester_stops_state by blast
  let ?w = "tester_example_state tr Test_waiting [tester_example_device] True Helper_waiting"
  have h: "tester_run tester_example_lib tester_env tester_example_config ?es ?w = Some ?w"
    by (simp add: tester_example_state_def tester_example_device_def tester_run_defs Let_def
        device_unregistration_failure_def)
  have "0 < length (test_threads ?w)" "tt_at (test_threads ?w ! 0) = Test_waiting"
    "''rand-0-0'' \<in> set (map td_id (tt_devices (test_threads ?w ! 0)))"
    by (simp_all add: tester_example_state_def tester_example_device_def)
  note u = unconfirmed_device_never_returns [OF tester_started_example tester_run_steps [OF r] this h]
  show ?thesis by (rule exI [of _ ?w], rule exI [of _ ?w]) (intro conjI tester_run_steps [OF r] h u [THEN conjunct1]
        u [THEN conjunct2], simp_all)
qed

end
