(* ===== verification/Stress_Values.thy ===== *)
theory Stress_Values
  imports Stress_Laws
begin

text \<open>
  The values the stress tester writes: an update of a device's temperature against what the library
  documents of resources.
\<close>

lemma resource_filled:
  assumes "resource_laws P" "pt_find_resource P d obj i r = Some x" "length v = length (resource_bytes x)"
  shows "pt_find_resource P (pt_fill_resource P d obj i r v) obj i r = Some (x\<lparr>resource_bytes := v\<rparr>)"
  using assms by (simp add: resource_laws_def)

lemma resource_other:
  assumes "resource_laws P" "r' \<noteq> r"
  shows "pt_find_resource P (pt_fill_resource P d obj i r v) obj i r' = pt_find_resource P d obj i r'"
  using assms unfolding resource_laws_def by blast

text \<open>The value of a minimum or maximum when it is copied over or left.\<close>

lemma copy_extremum_step:
  assumes P: "resource_laws P" and x: "pt_find_resource P d TEMPERATURE_SENSOR 0 r = Some x"
    and v: "convert_value_to_host_order_float (resource_bytes x) = Some c" "length (resource_bytes x) = length value"
  shows "\<exists>d'. copy_extremum P r beyond value d = Some d' \<and>
    pt_find_resource P d' TEMPERATURE_SENSOR 0 r =
      Some (x\<lparr>resource_bytes := if beyond c then value else resource_bytes x\<rparr>) \<and>
    (\<forall>r'. r' \<noteq> r \<longrightarrow> pt_find_resource P d' TEMPERATURE_SENSOR 0 r' = pt_find_resource P d TEMPERATURE_SENSOR 0 r')"
proof (cases "beyond c")
  case True
  then have "copy_extremum P r beyond value d = Some (pt_fill_resource P d TEMPERATURE_SENSOR 0 r value)"
    using x v by (simp add: copy_extremum_def)
  with True resource_filled [OF P x, of "value"] resource_other [OF P] v(2) show ?thesis by simp
next
  case False
  with x v show ?thesis by (simp add: copy_extremum_def)
qed


text \<open>A library whose devices are the functions from places to resources.\<close>

type_synonym resource_table = "u16 \<Rightarrow> u16 \<Rightarrow> u16 \<Rightarrow> pt_resource option"

definition table_lib :: "resource_table pt_client_lib" where
  "table_lib =
     \<lparr>pt_new_device = (\<lambda>k obj i r. None), pt_has_object = (\<lambda>d obj. True), pt_has_instance = (\<lambda>d obj i. False),
      pt_find_resource = (\<lambda>d obj i r. d obj i r), pt_add_object = (\<lambda>d obj. (PT_STATUS_SUCCESS, d)),
      pt_add_instance = (\<lambda>d obj i. (PT_STATUS_SUCCESS, d)),
      pt_add_resource = (\<lambda>d obj i r ty ops v cb. (PT_STATUS_SUCCESS, \<lambda>obj' i' r'. if (obj', i', r') = (obj, i, r)
        then Some \<lparr>resource_bytes = v, resource_operations = ops, resource_callback = cb\<rparr> else d obj' i' r')),
      pt_fill_resource = (\<lambda>d obj i r v obj' i' r'. if (obj', i', r') = (obj, i, r)
        then map_option (\<lambda>x. x\<lparr>resource_bytes := v\<rparr>) (d obj i r) else d obj' i' r'),
      pt_init_device_object = (\<lambda>d x. d)\<rparr>"

lemma table_lib_laws: "resource_laws table_lib"
  by (simp add: resource_laws_def table_lib_def)

definition table_resource :: "f32 \<Rightarrow> pt_resource" where
  "table_resource x = \<lparr>resource_bytes = convert_float_value_to_network_byte_order x,
     resource_operations = {OPERATION_READ}, resource_callback = no_callback\<rparr>"

definition table_sensor :: resource_table where
  "table_sensor = (\<lambda>obj i r. if r = SENSOR_VALUE then Some (table_resource 0x41C00000)
     else if r = MIN_MEASURED_VALUE then Some (table_resource 0x41C00000)
     else if r = MAX_MEASURED_VALUE then Some (table_resource 0x41C00000) else None)"


end
