(* ===== verification/Device_Map.thy ===== *)
theory Device_Map
  imports Event_Invariants
begin

text \<open>
  The list of devices as a map from identifiers to devices: every operation of \<^verbatim>\<open>devices.c\<close> on the
  list is the operation on the map one expects, so the rest of the program may think of the map.
\<close>

section \<open>Simulation\<close>

text \<open>The operations of a sequence are allowed where they are reached.\<close>

primrec allowed_along :: "('o \<Rightarrow> 'a \<Rightarrow> bool) \<Rightarrow> ('o \<Rightarrow> 'a \<Rightarrow> 'a) \<Rightarrow> 'o list \<Rightarrow> 'a \<Rightarrow> bool" where
  "allowed_along ok next_a [] a = True"
| "allowed_along ok next_a (op # ops) a = (ok op a \<and> allowed_along ok next_a ops (next_a op a))"

text \<open>
  A state with an invariant, and operations that are the ones of an abstract state where they are
  allowed: so are sequences of them.
\<close>

locale simulated =
  fixes inv :: "'s \<Rightarrow> bool" and abs :: "'s \<Rightarrow> 'a"
    and run :: "'o \<Rightarrow> 's \<Rightarrow> 's" and next_a :: "'o \<Rightarrow> 'a \<Rightarrow> 'a" and ok :: "'o \<Rightarrow> 'a \<Rightarrow> bool"
  assumes run_step: "inv s \<Longrightarrow> ok op (abs s) \<Longrightarrow> abs (run op s) = next_a op (abs s)"
    and run_inv: "inv s \<Longrightarrow> ok op (abs s) \<Longrightarrow> inv (run op s)"
begin

lemma runs_steps:
  "inv s \<Longrightarrow> allowed_along ok next_a ops (abs s) \<Longrightarrow>
   abs (fold run ops s) = fold next_a ops (abs s) \<and> inv (fold run ops s)"
  by (induction ops arbitrary: s) (simp_all add: run_step run_inv)

end

section \<open>Operations\<close>

datatype list_op =
    Link_device ble_device string
  | Delete_device nat
  | Stop_timer nat
  | Set_connected nat bool
  | Set_registered nat bool

fun run_list_op :: "list_op \<Rightarrow> 'a ble_world_scheme \<Rightarrow> 'a ble_world_scheme" where
  "run_list_op (Link_device d i) w = devices_link_device d i w"
| "run_list_op (Delete_device p) w = devices_del_device p w"
| "run_list_op (Stop_timer p) w = device_stop_retry_timer p w"
| "run_list_op (Set_connected p b) w = update_device p (\<lambda>d. device_set_connected d b) w"
| "run_list_op (Set_registered p b) w = update_device p (\<lambda>d. device_set_registered d b) w"

text \<open>What they mean of a map.\<close>

type_synonym device_map = "string \<Rightarrow> ble_device option"

definition change_ptr :: "nat \<Rightarrow> (ble_device \<Rightarrow> ble_device) \<Rightarrow> device_map \<Rightarrow> device_map" where
  "change_ptr p f m = map_option (\<lambda>d. if d_ptr d = p then f d else d) \<circ> m"

definition delete_ptr :: "nat \<Rightarrow> device_map \<Rightarrow> device_map" where
  "delete_ptr p m = (\<lambda>i. case m i of None \<Rightarrow> None | Some d \<Rightarrow> if d_ptr d = p then None else Some d)"

definition device_map :: "'a ble_world_scheme \<Rightarrow> device_map" where
  "device_map w = (\<lambda>i. devices_find_device_by_device_id i (devices w))"

definition devices_distinct :: "'a ble_world_scheme \<Rightarrow> bool" where
  "devices_distinct w \<longleftrightarrow> distinct (map d_device_id (devices w)) \<and> distinct (map d_ptr (devices w))"

lemma find_map:
  "(\<And>d. d_device_id (f d) = d_device_id d) \<Longrightarrow>
   devices_find_device_by_device_id i (map f ds) = map_option f (devices_find_device_by_device_id i ds)"
  by (rule by_id.lookup_map_same_key) simp

lemma find_filter:
  "distinct (map d_device_id ds) \<Longrightarrow> devices_find_device_by_device_id i (filter P ds) =
    (case devices_find_device_by_device_id i ds of None \<Rightarrow> None | Some d \<Rightarrow> if P d then Some d else None)"
proof (induction ds)
  case (Cons a ds)
  have "devices_find_device_by_device_id (d_device_id a) ds = None" if "a \<notin> set []"
    using Cons.prems by (auto simp: by_id.lookup_None_key)
  with Cons show ?case by (auto split: option.splits)
qed simp

lemma device_at_map:
  assumes "devices_distinct w"
  shows "device_at p (devices w) = Some d \<longleftrightarrow> device_map w (d_device_id d) = Some d \<and> d_ptr d = p"
proof -
  have "device_at p (devices w) = Some d \<longleftrightarrow> d \<in> set (devices w) \<and> d_ptr d = p"
    using assms by_ptr.lookup_SomeD [of p "devices w" d] by_ptr.lookup_unique [of "devices w" d]
    by (auto simp: devices_distinct_def)
  also have "d \<in> set (devices w) \<longleftrightarrow> device_map w (d_device_id d) = Some d"
    using assms by_id.lookup_SomeD [of "d_device_id d" "devices w" d] by_id.lookup_unique [of "devices w" d]
    by (auto simp: devices_distinct_def device_map_def)
  finally show ?thesis .
qed

text \<open>A device is linked under an identifier and a pointer that are not in the list.\<close>

fun map_list_op :: "list_op \<Rightarrow> device_map \<Rightarrow> device_map" where
  "map_list_op (Link_device d i) m = m(i \<mapsto> d\<lparr>d_device_id := i\<rparr>)"
| "map_list_op (Delete_device p) m = delete_ptr p m"
| "map_list_op (Stop_timer p) m = change_ptr p (\<lambda>d. d\<lparr>d_retry_timer_source := 0\<rparr>) m"
| "map_list_op (Set_connected p b) m = change_ptr p (\<lambda>d. device_set_connected d b) m"
| "map_list_op (Set_registered p b) m = change_ptr p (\<lambda>d. device_set_registered d b) m"

fun list_op_ok :: "list_op \<Rightarrow> device_map \<Rightarrow> bool" where
  "list_op_ok (Link_device d i) m = (m i = None \<and> (\<forall>e\<in>ran m. d_ptr e \<noteq> d_ptr d))"
| "list_op_ok op m = True"

lemma ran_device_map: "devices_distinct w \<Longrightarrow> ran (device_map w) = set (devices w)"
proof -
  assume d: "devices_distinct w"
  have "e \<in> set (devices w) \<Longrightarrow> device_map w (d_device_id e) = Some e" for e
    using d by_id.lookup_unique [of "devices w" e] by (simp add: device_map_def devices_distinct_def)
  moreover have "device_map w i = Some e \<Longrightarrow> e \<in> set (devices w)" for i e
    using by_id.lookup_SomeD [of i "devices w" e] by (simp add: device_map_def)
  ultimately show ?thesis by (auto simp: ran_def)
qed

lemma update_device_map:
  assumes "\<And>d. d_device_id (f d) = d_device_id d" "\<And>d. d_ptr (f d) = d_ptr d"
  shows "device_map (update_device p f w) = change_ptr p f (device_map w)"
    "devices_distinct (update_device p f w) \<longleftrightarrow> devices_distinct w"
proof -
  let ?g = "\<lambda>d. if d_ptr d = p then f d else d"
  show "device_map (update_device p f w) = change_ptr p f (device_map w)"
    using find_map [of ?g _ "devices w"] assms(1)
    by (auto simp: device_map_def change_ptr_def update_device_def)
  have "map d_device_id (map ?g ds) = map d_device_id ds" "map d_ptr (map ?g ds) = map d_ptr ds" for ds
    using assms by simp_all
  then show "devices_distinct (update_device p f w) \<longleftrightarrow> devices_distinct w"
    by (simp add: devices_distinct_def update_device_def del: map_map)
qed

lemma device_set_same [simp]:
  "d_device_id (device_set_connected d b) = d_device_id d" "d_ptr (device_set_connected d b) = d_ptr d"
  "d_device_id (device_set_registered d b) = d_device_id d" "d_ptr (device_set_registered d b) = d_ptr d"
  by (simp_all add: device_set_connected_def device_set_registered_def)

lemma change_ptr_same:
  assumes "\<And>i d. m i = Some d \<Longrightarrow> d_ptr d = p \<Longrightarrow> f d = d"
  shows "change_ptr p f m = m"
proof
  fix i show "change_ptr p f m i = m i" using assms [of i] by (cases "m i") (auto simp: change_ptr_def)
qed

lemma device_map_ptr:
  assumes "devices_distinct w" "device_map w i = Some d"
  shows "device_at (d_ptr d) (devices w) = Some d"
proof -
  have "d_device_id d = i" using assms(2) by_id.lookup_SomeD [of i "devices w" d] by (simp add: device_map_def)
  with assms device_at_map [OF assms(1), of "d_ptr d" d] show ?thesis by simp
qed

lemma source_remove_devices [simp]: "devices (g_source_remove s w) = devices w"
  by (simp add: g_source_remove_def call_def)

lemma delete_device_map:
  assumes "devices_distinct w"
  shows "device_map (devices_del_device p w) = delete_ptr p (device_map w) \<and>
    devices_distinct (devices_del_device p w)"
proof -
  have ds: "devices (devices_del_device p w) = filter (\<lambda>d. d_ptr d \<noteq> p) (devices w)"
    using by_ptr.lookup_None_iff [of p "devices w"]
    by (auto simp: devices_del_device_def device_free_def split: option.splits)
  show ?thesis
    using assms ds find_filter [of "devices w" _ "\<lambda>d. d_ptr d \<noteq> p"]
    by (auto simp: devices_distinct_def device_map_def delete_ptr_def distinct_map_filter split: option.splits)
qed

lemma stop_timer_map:
  assumes "devices_distinct w"
  shows "device_map (device_stop_retry_timer p w) = change_ptr p (\<lambda>d. d\<lparr>d_retry_timer_source := 0\<rparr>) (device_map w) \<and>
    devices_distinct (device_stop_retry_timer p w)"
proof (cases "\<exists>d. device_at p (devices w) = Some d \<and> d_retry_timer_source d \<noteq> 0")
  case True
  then obtain d where d: "device_at p (devices w) = Some d" "d_retry_timer_source d \<noteq> 0" by blast
  let ?w = "g_source_remove (d_retry_timer_source d) w"
  have "device_map ?w = device_map w" "devices_distinct ?w" using assms by (simp_all add: device_map_def devices_distinct_def)
  with d update_device_map [of "\<lambda>d. d\<lparr>d_retry_timer_source := 0\<rparr>" p ?w] show ?thesis
    by (simp add: device_stop_retry_timer_def)
next
  case False
  have "d\<lparr>d_retry_timer_source := 0\<rparr> = d" if "device_map w i = Some d" "d_ptr d = p" for i d
    using device_map_ptr [OF assms that(1)] that(2) False by (cases d) auto
  from change_ptr_same [of "device_map w", OF this] False assms show ?thesis
    by (auto simp: device_stop_retry_timer_def split: option.splits)
qed

lemma link_device_map:
  assumes "devices_distinct w" "list_op_ok (Link_device d i) (device_map w)"
  shows "device_map (devices_link_device d i w) = (device_map w)(i \<mapsto> d\<lparr>d_device_id := i\<rparr>) \<and>
    devices_distinct (devices_link_device d i w)"
proof -
  let ?d = "d\<lparr>d_device_id := i\<rparr>"
  have n: "devices_find_device_by_device_id (d_device_id ?d) (devices w) = None" "device_at (d_ptr ?d) (devices w) = None"
    using assms(2) by (simp_all add: ran_device_map [OF assms(1)] by_ptr.lookup_None_iff) (simp add: device_map_def)
  have "device_map (devices_link_device d i w) k = ((device_map w)(i \<mapsto> ?d)) k" for k
    using by_id.lookup_snoc_new [OF n(1)] by_id.lookup_snoc_other [of k ?d "devices w"]
    by (simp add: device_map_def devices_link_device_def)
  moreover have "devices_distinct (devices_link_device d i w)"
    using assms(1) by_id.distinct_snoc [OF _ n(1)] by_ptr.distinct_snoc [OF _ n(2)]
    by (simp add: devices_distinct_def devices_link_device_def)
  ultimately show ?thesis by blast
qed

interpretation device_list: simulated devices_distinct device_map run_list_op map_list_op list_op_ok
proof
  fix w :: "'a ble_world_scheme" and op
  assume w: "devices_distinct w" and ok: "list_op_ok op (device_map w)"
  have "device_map (run_list_op op w) = map_list_op op (device_map w) \<and> devices_distinct (run_list_op op w)"
    using w ok by (cases op) (simp_all add: delete_device_map stop_timer_map link_device_map update_device_map)
  then show "device_map (run_list_op op w) = map_list_op op (device_map w)" "devices_distinct (run_list_op op w)"
    by blast+
qed

text \<open>The states of the program are such lists, and a new device is linked as the map allows it.\<close>

lemma world_inv_distinct: "world_inv E w \<Longrightarrow> devices_distinct w"
  by (simp add: world_inv_def devices_distinct_def)

lemma create_context_links:
  assumes inv: "world_inv E w" and r: "ble_create_device_context E proxy ty w = Some w'"
  shows "device_map w' = device_map w \<or>
    (\<exists>d i. list_op_ok (Link_device d i) (device_map w) \<and> device_map w' = map_list_op (Link_device d i) (device_map w))"
proof (cases "devices w' = devices w")
  case True
  then show ?thesis by (simp add: device_map_def)
next
  case False
  then obtain px addr w1 where px: "proxy = Some px"
    and a: "ble_device_proxy_get_address E BLE_DEVICE_ADDRESS_SIZE px w = Some (Some addr, w1)"
    using r calls_only_same_core [OF proxy_get_address_calls_only]
    by (auto simp: ble_create_device_context_def same_core_def split: option.splits)
  have w1: "devices w1 = devices w" "next_ptr w1 = next_ptr w"
    using calls_only_same_core [OF proxy_get_address_calls_only [OF a]] by (simp_all add: same_core_def)
  define i where "i = devices_make_device_id BLE_DEVICE_NAME_MAX_LENGTH ''BLE'' addr (cfg_postfix w1)"
  have new: "device_map w i = None"
    using False a r w1(1) px
    by (auto simp: ble_create_device_context_def i_def Let_def device_map_def split: option.splits if_splits)
  with r px a w1 obtain d where d: "devices w' = devices w @ [d]" "d_ptr d = next_ptr w" and di: "d_device_id d = i"
    by (auto simp: ble_create_device_context_def device_create_def seconds_since_epoch_def ask_defs Let_def call_def
        devices_link_device_def device_map_def i_def split: if_splits)
  have "d\<lparr>d_device_id := i\<rparr> = d" using di by (cases d) simp
  note d = d this
  have "\<forall>e\<in>set (devices w). d_ptr e \<noteq> d_ptr d" using inv d(2) by (fastforce simp: world_inv_def)
  with new have ok: "list_op_ok (Link_device d i) (device_map w)"
    by (simp add: ran_device_map [OF world_inv_distinct [OF inv]])
  have "device_map w' = device_map (devices_link_device d i w)" by (simp add: device_map_def devices_link_device_def d)
  with ok link_device_map [OF world_inv_distinct [OF inv] ok] show ?thesis by auto
qed

section \<open>The list is a map\<close>

text \<open>
  C27: as long as devices are linked under fresh identifiers and pointers, every sequence of linking,
  deleting, stopping timers and setting flags does to the list of devices what it does to a map from
  identifiers to devices: a search by identifier answers what the map holds, and a search by D-Bus
  path finds a device exactly when the map holds one with that path.
\<close>

theorem device_list_refines_map:
  assumes "devices_distinct w" "allowed_along list_op_ok map_list_op ops (device_map w)"
  shows "devices_find_device_by_device_id i (devices (fold run_list_op ops w)) = fold map_list_op ops (device_map w) i \<and>
    ((\<exists>d. devices_find_device_by_dbus_path path (devices (fold run_list_op ops w)) = Some d) \<longleftrightarrow>
       (\<exists>d\<in>ran (fold map_list_op ops (device_map w)). d_dbus_path d = path)) \<and>
    devices_distinct (fold run_list_op ops w)"
proof -
  let ?w = "fold run_list_op ops w"
  have m: "fold map_list_op ops (device_map w) = device_map ?w" "devices_distinct ?w"
    using device_list.runs_steps [OF assms] by simp_all
  show ?thesis
    unfolding m(1) ran_device_map [OF m(2)] by_path.lookup_ex using m(2) by (simp add: device_map_def)
qed

text \<open>Two devices, one of them deleted.\<close>

definition listed_device :: "nat \<Rightarrow> string \<Rightarrow> ble_device" where
  "listed_device p path = \<lparr>d_ptr = p, d_last_connected_timestamp_secs = 0, d_flags = 0, d_device_id = [],
     d_proxy = None, d_services = [], d_bt_addr = [], d_dbus_path = path, d_json_list = None,
     d_device_type = BLE_DEVICE_UNKNOWN, d_translations = [], d_retry_timer_source = 7, d_connection_retries = 0,
     d_services_resolved = False\<rparr>"

definition empty_ble_world :: ble_world where
  "empty_ble_world = \<lparr>trace = [], devices = [], next_ptr = 0, g_connection_id = 0, unregistering_devices = False,
     global_keep_running = True, cfg_postfix = [], cfg_adapter = [], cfg_bluez_hci_path = [], cfg_white_list = None,
     cfg_service_based_discovery = False, idle_queue = [], timers = [], g_source_id_1 = 0, loop_quit = False\<rparr>"

abbreviation (input) list_ops :: "list_op list" where
  "list_ops \<equiv> [Link_device (listed_device 1 ''/dev_1'') ''one'', Link_device (listed_device 2 ''/dev_2'') ''two'',
     Stop_timer 2, Set_connected 2 True, Delete_device 1]"

theorem device_list_refines_map_witness:
  "devices_find_device_by_device_id ''two'' (devices (fold run_list_op list_ops empty_ble_world)) =
      Some ((listed_device 2 ''/dev_2'')\<lparr>d_device_id := ''two'', d_retry_timer_source := 0, d_flags := 2\<rparr>) \<and>
   devices_find_device_by_device_id ''one'' (devices (fold run_list_op list_ops empty_ble_world)) = None"
proof -
  have d: "devices_distinct empty_ble_world" and m: "device_map empty_ble_world = Map.empty"
    by (simp_all add: devices_distinct_def device_map_def empty_ble_world_def)
  have o: "allowed_along list_op_ok map_list_op list_ops (device_map empty_ble_world)"
    by (simp add: m listed_device_def)
  show ?thesis
    using device_list_refines_map [OF d o, of "''one''", THEN conjunct1]
      device_list_refines_map [OF d o, of "''two''", THEN conjunct1]
    by (simp add: m delete_ptr_def change_ptr_def listed_device_def device_set_connected_def)
qed

end
