(* ===== verification/Random_Range.thy ===== *)
theory Random_Range
  imports Thermal_Laws Stress_Tester
begin

text \<open>
  Rounding keeps a number between two integers it was between, when these have few enough bits;
  so the random temperatures of the examples stay in the ranges their formulas promise.
\<close>

section \<open>Rounding between representable numbers\<close>

lemma round_to_unit:
  assumes r: "round_to p emin n d = (m, e)" and e: "e \<le> int u" and d: "0 < d"
  shows "n \<le> h * 2 ^ u * d \<Longrightarrow> pair_val (m, e) \<le> of_int h * 2 ^ u"
    and "l * 2 ^ u * d \<le> n \<Longrightarrow> of_int l * 2 ^ u \<le> pair_val (m, e)"
proof -
  define k where "k = nat (int u - e)"
  obtain a b where ab: "scaled n d e = (a, b)" by fastforce
  have m: "m = div_rne a b" using r ab by (auto simp: round_to_def Let_def split: prod.splits)
  have b: "0 < b" using scaled_val [OF d ab] by simp
  have c: "c * 2 ^ k * b \<le> a \<longleftrightarrow> c * 2 ^ u * d \<le> n" "a \<le> c * 2 ^ k * b \<longleftrightarrow> n \<le> c * 2 ^ u * d" for c
  proof -
    have "(c * 2 ^ k * b \<le> a \<longleftrightarrow> c * 2 ^ u * d \<le> n) \<and> (a \<le> c * 2 ^ k * b \<longleftrightarrow> n \<le> c * 2 ^ u * d)"
    proof (cases "0 \<le> e")
      case True
      then have "a = n" "b = d * 2 ^ nat e" "u = k + nat e" using ab e by (auto simp: scaled_def k_def)
      then show ?thesis by (simp add: power_add mult_ac)
    next
      case False
      then have "a = n * 2 ^ nat (- e)" "b = d" "k = u + nat (- e)" using ab e by (auto simp: scaled_def k_def)
      moreover have "c * 2 ^ (u + nat (- e)) * d = (c * 2 ^ u * d) * 2 ^ nat (- e)" by (simp add: power_add mult_ac)
      ultimately show ?thesis by (simp only: mult_le_cancel_right) simp
    qed
    then show "c * 2 ^ k * b \<le> a \<longleftrightarrow> c * 2 ^ u * d \<le> n" "a \<le> c * 2 ^ k * b \<longleftrightarrow> n \<le> c * 2 ^ u * d" by auto
  qed
  have v: "of_int (x * 2 ^ k) * 2 powi e = (of_int x * 2 ^ u :: real)" for x
  proof -
    have "(2 :: real) ^ k * 2 powi e = 2 powi (int k + e)" by (simp add: powi_two_split)
    also have "int k + e = int u" using e by (simp add: k_def)
    finally show ?thesis by simp
  qed
  show "pair_val (m, e) \<le> of_int h * 2 ^ u" if "n \<le> h * 2 ^ u * d"
  proof -
    have "m \<le> h * 2 ^ k" unfolding m by (rule div_rne_mono_bounds(2) [OF b]) (use that c in simp)
    then have "of_int m * (2 :: real) powi e \<le> of_int (h * 2 ^ k) * 2 powi e"
      by (intro mult_right_mono) (simp_all only: of_int_le_iff, simp)
    then show ?thesis by (simp only: v pair_val_def fst_conv snd_conv)
  qed
  show "of_int l * 2 ^ u \<le> pair_val (m, e)" if "l * 2 ^ u * d \<le> n"
  proof -
    have "l * 2 ^ k \<le> m" unfolding m by (rule div_rne_mono_bounds(1) [OF b]) (use that c in simp)
    then have "of_int (l * 2 ^ k) * (2 :: real) powi e \<le> of_int m * 2 powi e"
      by (intro mult_right_mono) (simp_all only: of_int_le_iff, simp)
    then show ?thesis by (simp only: v pair_val_def fst_conv snd_conv)
  qed
qed

lemma round_between:
  assumes n: "0 \<le> n" and d: "0 < d" and p: "0 < p" "emin \<le> - int p" and h: "h < 2 ^ p"
    and x: "l * 2 ^ u * d \<le> n" "n \<le> h * 2 ^ u * d"
  shows "of_int l * 2 ^ u \<le> pair_val (round_to p emin n d) \<and> pair_val (round_to p emin n d) \<le> of_int h * 2 ^ u"
proof (cases "n = 0")
  case True
  obtain m e where r: "round_to p emin 0 d = (m, e)" by fastforce
  obtain a b where ab: "scaled 0 d e = (a, b)" by fastforce
  have "m = div_rne a b" using r ab by (auto simp: round_to_def Let_def split: prod.splits)
  moreover have "a = 0" using ab by (auto simp: scaled_def split: if_splits)
  moreover have "0 < b" using scaled_val [OF d ab] by simp
  ultimately have "pair_val (round_to p emin 0 d) = 0" by (simp add: r pair_val_def div_rne_def)
  moreover have "l * 2 ^ u \<le> 0" "0 \<le> h * 2 ^ u"
    using x d True by (simp_all add: mult_le_0_iff zero_le_mult_iff)
  then have "of_int (l * 2 ^ u) \<le> (0 :: real)" "(0 :: real) \<le> of_int (h * 2 ^ u)"
    by (simp_all only: of_int_le_0_iff of_int_0_le_iff)
  ultimately show ?thesis using True by simp
next
  case False
  with n have n: "0 < n" by simp
  obtain m e where r: "round_to p emin n d = (m, e)" by fastforce
  let ?x = "of_int n / of_int d :: real"
  have "of_int n \<le> (of_int (h * 2 ^ u * d) :: real)" using x(2) by (simp only: of_int_le_iff)
  then have "?x \<le> of_int h * 2 ^ u" using d by (simp add: pos_divide_le_eq)
  also have "\<dots> \<le> (2 ^ p - 1) * 2 ^ u"
  proof -
    have "h \<le> 2 ^ p - 1" using h by simp
    then have "(of_int h :: real) \<le> of_int (2 ^ p - 1)" by (simp only: of_int_le_iff)
    then show ?thesis by simp
  qed
  finally have xb: "?x \<le> (2 ^ p - 1) * 2 ^ u" .
  have pi: "(2 :: real) powi (- int p) = 1 / 2 ^ p" by (simp add: power_int_minus divide_simps power_int_def)
  have "e \<le> int u"
  proof (rule ccontr)
    assume e: "\<not> e \<le> int u"
    then have "2 ^ (p - 1) \<le> m" using round_to_bounds(5) [OF n d r] p by simp
    then have "(of_int (2 ^ (p - 1)) :: real) \<le> of_int m" by (simp only: of_int_le_iff)
    moreover have "(2 :: real) powi (int u + 1) \<le> 2 powi e" using e by (intro power_int_increasing) auto
    ultimately have "of_int (2 ^ (p - 1)) * (2 :: real) powi (int u + 1) \<le> pair_val (m, e)"
      unfolding pair_val_def fst_conv snd_conv
      using round_to_bounds(3) [OF n d r] by (intro mult_mono) simp_all
    moreover have "of_int (2 ^ (p - 1)) * (2 :: real) powi (int u + 1) = 2 ^ p * 2 ^ u"
      using p(1) by (cases p) (simp_all add: powi_two_split)
    ultimately have lo: "2 ^ p * 2 ^ u \<le> pair_val (m, e)" by simp
    have "(2 :: real) powi (emin - 1) < 2 powi (- int p)" using p(2) by (intro power_int_strict_increasing) auto
    moreover have "(1 :: real) / 2 ^ p \<le> 2 ^ u / 2 ^ p" by (intro divide_right_mono) simp_all
    ultimately have tiny: "(2 :: real) powi (emin - 1) < 2 ^ u / 2 ^ p" by (simp add: pi)
    have "pair_val (m, e) \<le> ?x + ?x * (1 / 2 ^ p) + 2 powi (emin - 1)"
      using round_to_bounds(1) [OF n d r] by (simp add: pi abs_le_iff)
    also have "\<dots> = ?x * (1 + 1 / 2 ^ p) + 2 powi (emin - 1)" by (simp add: distrib_left)
    also have "\<dots> \<le> (2 ^ p - 1) * 2 ^ u * (1 + 1 / 2 ^ p) + 2 powi (emin - 1)"
      by (intro add_right_mono mult_right_mono [OF xb]) simp
    also have "(2 ^ p - 1) * 2 ^ u * (1 + 1 / 2 ^ p) = 2 ^ p * 2 ^ u - 2 ^ u / (2 ^ p :: real)"
      by (simp add: field_simps)
    finally show False using lo tiny by simp
  qed
  from round_to_unit [OF r this d] x show ?thesis by (simp add: r)
qed

text \<open>The operations, on values between multiples of \<open>2 ^ u\<close>.\<close>

lemma round_value_between:
  assumes "0 < d" "of_int n / of_int d = (x :: real)" "0 \<le> x" "0 < p" "emin \<le> - int p" "h < 2 ^ p"
    and "of_int l * 2 ^ u \<le> x" "x \<le> of_int h * 2 ^ u"
  shows "of_int l * 2 ^ u \<le> pair_val (round_to p emin n d) \<and> pair_val (round_to p emin n d) \<le> of_int h * 2 ^ u"
proof (rule round_between)
  have nx: "of_int n = x * of_int d" using assms(1,2) by (auto simp: field_simps)
  have "(0 :: real) \<le> of_int n" using assms(1,3) by (simp add: nx)
  then show "0 \<le> n" by simp
  have "of_int (l * 2 ^ u * d) \<le> (of_int n :: real)" using assms(1,7) by (simp add: nx mult_right_mono)
  then show "l * 2 ^ u * d \<le> n" by (simp only: of_int_le_iff)
  have "(of_int n :: real) \<le> of_int (h * 2 ^ u * d)" using assms(1,8) by (simp add: nx mult_right_mono)
  then show "n \<le> h * 2 ^ u * d" by (simp only: of_int_le_iff)
qed (use assms in auto)

lemma double_mult_between:
  assumes "0 \<le> pair_val x * pair_val y" "of_int l \<le> pair_val x * pair_val y" "pair_val x * pair_val y \<le> of_int h" "h < 2 ^ 53"
  shows "of_int l \<le> pair_val (double_mult x y) \<and> pair_val (double_mult x y) \<le> of_int h"
proof -
  obtain n d where d: "dyadic (fst x * fst y, snd x + snd y) = (n, d)" by fastforce
  note v = dyadic_val [OF d, unfolded pair_val_mult]
  from round_value_between [of d n "pair_val x * pair_val y" 53 "-1074" h l 0] v assms show ?thesis
    by (simp add: double_mult_def d)
qed

lemma double_add_between:
  assumes "0 \<le> pair_val x + pair_val y" "of_int l \<le> pair_val x + pair_val y" "pair_val x + pair_val y \<le> of_int h" "h < 2 ^ 53"
  shows "of_int l \<le> pair_val (double_add x y) \<and> pair_val (double_add x y) \<le> of_int h"
proof -
  obtain n d where d: "dyadic x = (n, d)" by fastforce
  obtain n' d' where d': "dyadic y = (n', d')" by fastforce
  note v = dyadic_val [OF d] dyadic_val [OF d']
  have "0 < d * d'" using v by simp
  moreover have "of_int (n * d' + n' * d) / of_int (d * d') = pair_val x + pair_val y"
    using v by (auto simp: add_divide_distrib field_simps)
  ultimately show ?thesis
    using round_value_between [of "d * d'" "n * d' + n' * d" "pair_val x + pair_val y" 53 "-1074" h l 0] assms
    by (simp add: double_add_def d d')
qed

lemma narrow_between:
  assumes "0 \<le> pair_val x" "of_int l \<le> pair_val x" "pair_val x \<le> of_int h" "h < 2 ^ 24"
  shows "of_int l \<le> pair_val (narrow x) \<and> pair_val (narrow x) \<le> of_int h"
proof -
  obtain n d where d: "dyadic x = (n, d)" by fastforce
  note v = dyadic_val [OF d]
  from round_value_between [of d n "pair_val x" 24 "-149" h l 0] v assms show ?thesis
    by (simp add: narrow_def d)
qed

lemma float_div_between:
  assumes "0 \<le> pair_val x" "pair_val x \<le> pair_val y" "0 < pair_val y"
  shows "0 \<le> pair_val (float_div x y) \<and> pair_val (float_div x y) \<le> 1"
proof -
  obtain n d where d: "dyadic x = (n, d)" by fastforce
  obtain n' d' where d': "dyadic y = (n', d')" by fastforce
  note v = dyadic_val [OF d] dyadic_val [OF d']
  have "of_int n' = pair_val y * of_int d'" using v by (auto simp: field_simps)
  then have "0 < (of_int n' :: real)" using v assms(3) by simp
  then have n': "0 < n'" by simp
  have q: "of_int (n * d') / of_int (d * n') = pair_val x / pair_val y"
    using v n' by (auto simp: field_simps)
  have "0 < d * n'" using v n' by simp
  then show ?thesis
    using round_value_between [of "d * n'" "n * d'" "pair_val x / pair_val y" 24 "-149" 1 0 0] q assms
    by (simp add: float_div_def d d')
qed

lemma f32_of_narrow_value:
  assumes "0 < pair_val x" "pair_val (narrow x) < 2 ^ 40"
  shows "f32_value (f32_of_pair (narrow x)) = pair_val (narrow x)"
proof -
  obtain m e where r: "narrow x = (m, e)" by fastforce
  from narrow_range [OF assms(1) r] assms(2) f32_of_pair_value [of m e] show ?thesis by (simp add: r)
qed

section \<open>The random temperature of a missing thermal zone\<close>

lemma float_of_rand_max: "pair_val (float_of_nat RAND_MAX) = 2 ^ 31"
proof -
  have "float_of_nat 2147483647 = (16777216, 7)"
    by (simp add: float_of_nat_def round_to_def bit_length.simps scaled_def div_rne_def)
  then show ?thesis by (simp add: RAND_MAX_def pair_val_def)
qed

lemma random_temperature_range:
  assumes "0 \<le> r" "r \<le> RAND_MAX"
  shows "20 \<le> f32_value (random_temperature r) \<and> f32_value (random_temperature r) \<le> 100"
proof -
  let ?a = "float_of_nat r" and ?b = "float_of_nat RAND_MAX"
  let ?q = "float_div ?a ?b"
  let ?y = "double_mult ?q (80, 0)"
  let ?z = "double_add (20, 0) ?y"
  have "of_int 0 * 2 ^ 8 \<le> pair_val ?a \<and> pair_val ?a \<le> of_int (2 ^ 23) * 2 ^ 8"
    unfolding float_of_nat_def by (rule round_between) (use assms in \<open>simp_all add: RAND_MAX_def\<close>)
  then have q: "0 \<le> pair_val ?q \<and> pair_val ?q \<le> 1" by (intro float_div_between) (simp_all add: float_of_rand_max)
  have c: "pair_val (80, 0) = 80" "pair_val (20, 0) = 20" by (simp_all add: pair_val_def)
  have y: "0 \<le> pair_val ?y \<and> pair_val ?y \<le> 80" using double_mult_between [of ?q "(80, 0)" 0 80] q by (simp add: c)
  have z: "20 \<le> pair_val ?z \<and> pair_val ?z \<le> 100" using double_add_between [of "(20, 0)" ?y 20 100] y by (simp add: c)
  have "20 \<le> pair_val (narrow ?z) \<and> pair_val (narrow ?z) \<le> 100" using narrow_between [of ?z 20 100] z by simp
  with f32_of_narrow_value [of ?z] z show ?thesis by (simp add: random_temperature_def)
qed

section \<open>The random values of the stress tester\<close>

lemma sign_and_fields:
  fixes n :: int
  assumes "0 \<le> n" "n < 2 ^ 31"
  shows "n div 2 ^ 31 = 0" "(2 ^ 31 + n) div 2 ^ 31 = 1"
    "(2 ^ 31 + n) div 2 ^ 23 mod 256 = n div 2 ^ 23 mod 256" "(2 ^ 31 + n) mod 2 ^ 23 = n mod 2 ^ 23"
proof -
  have e: "2 ^ 31 + n = n + 256 * 2 ^ 23" by simp
  show z: "n div 2 ^ 31 = 0" using assms by (rule div_pos_pos_trivial)
  have "(2 ^ 31 + n) div 2 ^ 31 = n div 2 ^ 31 + 1" by (rule div_add_self1) simp
  then show "(2 ^ 31 + n) div 2 ^ 31 = 1" by (simp only: z add_0)
  have "(n + 256 * 2 ^ 23) div 2 ^ 23 = 256 + n div 2 ^ 23" by (rule div_mult_self1) simp
  then show "(2 ^ 31 + n) div 2 ^ 23 mod 256 = n div 2 ^ 23 mod 256" by (simp only: e mod_add_self1)
  show "(2 ^ 31 + n) mod 2 ^ 23 = n mod 2 ^ 23" unfolding e by (rule mod_mult_self1)
qed

lemma or_sign_bit:
  fixes w :: f32
  assumes "uint w < 2 ^ 31"
  shows "uint (0x80000000 OR w) = 2 ^ 31 + uint w"
proof -
  have "0x80000000 AND w = 0"
  proof (rule bit_word_eqI)
    fix n assume n: "n < LENGTH(32)"
    have "\<not> bit (uint w) 31" using sign_and_fields(1) [OF _ assms] by (simp only: bit_iff_odd) simp
    then have "\<not> bit w 31" by (simp add: bit_uint_iff)
    moreover have "bit (0x80000000 :: u32) n \<longleftrightarrow> n = 31"
      using bit_exp_iff [of 31 n, where 'a = "32 word"] n by simp
    ultimately show "bit (0x80000000 AND w) n \<longleftrightarrow> bit (0 :: u32) n" by (auto simp: bit_and_iff)
  qed
  then have "0x80000000 OR w = 0x80000000 + w" by (simp only: disjunctive_add_eq_or)
  then show ?thesis using assms by (simp add: uint_add_lem [THEN iffD1])
qed

lemma negative_float:
  fixes w :: f32
  assumes "uint w < 2 ^ 31"
  shows "f32_value (0x80000000 OR w) = - f32_value w"
  unfolding f32_value_def Let_def or_sign_bit [OF assms] sign_and_fields [OF uint_ge_0 assms] by simp

lemma f32_of_pair_small:
  assumes "narrow x = (m, e)" "0 < pair_val x" "pair_val (m, e) < 2 ^ 40"
  shows "uint (f32_of_pair (m, e)) < 2 ^ 31"
proof -
  note b = narrow_range [OF assms(2,1,3)]
  have "0 \<le> min 0x7F800000 ((e + 149) * 2 ^ 23 + m)" using b by simp
  then show ?thesis by (simp add: f32_of_pair_def uint_word_of_int)
qed

text \<open>A double narrowed and given its sign.\<close>

lemma signed_value:
  assumes "0 \<le> pair_val x" "pair_val x \<le> of_int h" "h < 2 ^ 24"
  shows "\<bar>f32_value (f32_of_signed (neg, narrow x))\<bar> \<le> of_int h \<and>
    (if neg then f32_value (f32_of_signed (neg, narrow x)) \<le> 0 else 0 \<le> f32_value (f32_of_signed (neg, narrow x)))"
proof -
  obtain m e where r: "narrow x = (m, e)" by fastforce
  have v: "0 \<le> pair_val (m, e)" "pair_val (m, e) \<le> of_int h"
    using narrow_between [of x 0 h] assms r by simp_all
  have h: "(0 :: real) \<le> of_int h" using assms(1,2) by linarith
  have zero: "f32_value 0 = 0" "f32_value 0x80000000 = 0" by (simp_all add: f32_value_def Let_def)
  show ?thesis
  proof (cases "m = 0")
    case True
    then show ?thesis using h by (simp add: f32_of_signed_def r zero)
  next
    case False
    have "pair_val x \<noteq> 0"
    proof
      assume z: "pair_val x = 0"
      then have "pair_val (narrow x) = 0" using narrow_between [of x 0 0] by simp
      with r False show False by (simp add: pair_val_def)
    qed
    with assms(1) have x: "0 < pair_val x" by simp
    have "(of_int h :: real) < 2 ^ 40"
    proof -
      have "h < 2 ^ 40" using assms(3) by simp
      then have "(of_int h :: real) < of_int (2 ^ 40)" by (simp only: of_int_less_iff)
      then show ?thesis by simp
    qed
    with v(2) have small: "pair_val (m, e) < 2 ^ 40" by linarith
    have val: "f32_value (f32_of_pair (m, e)) = pair_val (m, e)"
      using f32_of_narrow_value [OF x] r small by simp
    from negative_float [OF f32_of_pair_small [OF r x small]] val v False show ?thesis
      by (simp add: f32_of_signed_def r)
  qed
qed

lemma random_value_range:
  assumes "0 \<le> r" "r \<le> RAND_MAX"
  shows "-35 \<le> f32_value (random_value r) \<and> f32_value (random_value r) \<le> 100"
proof -
  let ?q = "round_to 53 (-1074) r RAND_MAX"
  let ?x = "double_mult ?q (135, 0)"
  obtain n d where nd: "dyadic ?x = (n, d)" by fastforce
  define s where "s = n - 35 * d"
  have "of_int 0 * 2 ^ 0 \<le> pair_val ?q \<and> pair_val ?q \<le> of_int 1 * 2 ^ 0"
    by (rule round_between) (use assms in \<open>simp_all add: RAND_MAX_def\<close>)
  then have q: "0 \<le> pair_val ?q \<and> pair_val ?q \<le> 1" by simp
  have "pair_val (135, 0) = 135" by (simp add: pair_val_def)
  then have x: "0 \<le> pair_val ?x \<and> pair_val ?x \<le> 135" using double_mult_between [of ?q "(135, 0)" 0 135] q by simp
  note v = dyadic_val [OF nd]
  have sd: "of_int s / of_int d = pair_val ?x - 35" using v by (auto simp: s_def diff_divide_distrib)
  let ?y = "round_to 53 (-1074) \<bar>s\<bar> d"
  let ?h = "if s < 0 then 35 else 100 :: int"
  have "s < 0 \<longleftrightarrow> of_int s / of_int d < (0 :: real)" using v by (simp add: divide_less_0_iff)
  then have sgn: "s < 0 \<longleftrightarrow> pair_val ?x < 35" by (simp add: sd)
  have "of_int \<bar>s\<bar> / of_int d = \<bar>pair_val ?x - 35\<bar>" unfolding sd [symmetric] using v by (simp add: abs_divide)
  moreover have "\<bar>pair_val ?x - 35\<bar> \<le> of_int ?h" using x sgn by auto
  ultimately have y: "0 \<le> pair_val ?y \<and> pair_val ?y \<le> of_int ?h"
    using round_value_between [of d "\<bar>s\<bar>" "\<bar>pair_val ?x - 35\<bar>" 53 "-1074" ?h 0 0] v by simp
  have "random_value r = f32_of_signed (s < 0, narrow ?y)"
    by (simp add: random_value_def nd s_def Let_def)
  with signed_value [of ?y ?h "s < 0"] y show ?thesis by (auto simp: abs_le_iff split: if_splits)
qed

section \<open>The ranges\<close>

text \<open>
  C34: with \<open>rand\<close> answering as documented, the temperature that stands for a missing thermal zone is
  a float between 20 and 100, and the random value the stress tester writes a float between -35 and
  100: no rounding of the single and double precision operations leaves the range of the formulas.
\<close>

theorem random_numbers_in_range:
  assumes "0 \<le> r" "r \<le> RAND_MAX"
  shows "20 \<le> f32_value (random_temperature r) \<and> f32_value (random_temperature r) \<le> 100 \<and>
    -35 \<le> f32_value (random_value r) \<and> f32_value (random_value r) \<le> 100"
  using random_temperature_range [OF assms] random_value_range [OF assms] by blast

theorem random_numbers_in_range_witness:
  "20 \<le> f32_value (random_temperature 2147483647) \<and> f32_value (random_value 0) \<le> 100"
  using random_numbers_in_range [of 2147483647] random_numbers_in_range [of 0] by (simp add: RAND_MAX_def)

end
