(* ===== verification/Command_Line.thy ===== *)
theory Command_Line
  imports Prelude
begin

text \<open>
  The command line of the four programs: the tokens of \<open>argv\<close>, the parsers of long options, short
  options, commands and of the whole line, and the loop that copies the options into the arguments of
  a program. The code of \<^verbatim>\<open>blept-example/blept_example_clip.h\<close> is modelled here; the other three files
  repeat it, and differ in the table of options, the defaults and the fields that are set, which are
  in the theories of the programs (\<open>Blept_Arguments\<close>, \<open>Mqtt_Arguments\<close>, \<open>Client_Arguments\<close>,
  \<open>Tester_Arguments\<close>). What the parsers and the usage print is the constructor of the result.
\<close>

section \<open>Tokens\<close>

text \<open>
  A word of \<open>argv\<close> with the address it is stored at, since \<open>parse_long\<close> computes with the address.
  The field \<open>current\<close> is only written by the two functions below, which keep it equal to
  \<open>argv[i]\<close>, and to NULL (\<open>None\<close>) when \<open>i\<close> is \<open>argc\<close>.
\<close>

type_synonym arg = "u64 \<times> string"

record tokens =
  ts_argv :: "arg list"
  ts_i :: nat

definition ts_current :: "tokens \<Rightarrow> arg option" where
  "ts_current ts = (if ts_i ts < length (ts_argv ts) then Some (ts_argv ts ! ts_i ts) else None)"

definition tokens_new :: "arg list \<Rightarrow> tokens" where
  "tokens_new argv = \<lparr>ts_argv = argv, ts_i = 0\<rparr>"

definition tokens_move :: "tokens \<Rightarrow> tokens" where
  "tokens_move ts = (if ts_i ts < length (ts_argv ts) then ts\<lparr>ts_i := ts_i ts + 1\<rparr> else ts)"

section \<open>Options and commands\<close>

text \<open>No program declares a positional argument, and no function sets one: there are none here.\<close>

record cl_option =
  oshort :: "string option"
  olong :: string
  argcount :: bool
  opt_value :: bool
  opt_argument :: "string option"

abbreviation (input) cl_opt :: "string option \<Rightarrow> string \<Rightarrow> bool \<Rightarrow> cl_option" where
  "cl_opt short long takes_value \<equiv>
     \<lparr>oshort = short, olong = long, argcount = takes_value, opt_value = False, opt_argument = None\<rparr>"

record cl_command =
  command_name :: string
  command_value :: bool

record elements =
  el_commands :: "cl_command list"
  el_options :: "cl_option list"

datatype cl_error =
    Not_recognized string
  | Short_not_recognized char
  | Requires_argument string
  | Must_not_have_argument string

type_synonym parsed = "cl_error + tokens \<times> elements"

text \<open>The search loops: the index of the first entry with a property.\<close>

fun first_index :: "('a \<Rightarrow> bool) \<Rightarrow> 'a list \<Rightarrow> nat option" where
  "first_index P [] = None"
| "first_index P (x # xs) = (if P x then Some 0 else map_option Suc (first_index P xs))"

definition set_flag :: "nat \<Rightarrow> elements \<Rightarrow> elements" where
  "set_flag i el = el\<lparr>el_options := (el_options el)[i := (el_options el ! i)\<lparr>opt_value := True\<rparr>]\<rparr>"

definition set_argument :: "nat \<Rightarrow> string \<Rightarrow> elements \<Rightarrow> elements" where
  "set_argument i v el =
     el\<lparr>el_options := (el_options el)[i := (el_options el ! i)\<lparr>opt_argument := Some v\<rparr>]\<rparr>"

section \<open>The parsers\<close>

text \<open>
  \<open>strchr(s, '=')\<close>, as an index. The length of the prefix to compare is the difference of two
  pointers, \<open>eq - current\<close>, converted to \<open>int\<close>; without an \<open>=\<close> the first pointer is NULL, so that the
  difference is undefined in C and minus the address on the machines the code runs on. \<open>strncmp\<close>
  takes it as a \<open>size_t\<close>.
\<close>

definition eq_index :: "string \<Rightarrow> nat option" where
  "eq_index s = first_index (\<lambda>c. c = CHR ''='') s"

definition len_prefix :: "u64 \<Rightarrow> nat option \<Rightarrow> int" where
  "len_prefix a eq =
     sint (word_of_int (case eq of None \<Rightarrow> - uint a | Some k \<Rightarrow> int k) :: u32)"

definition prefix_size :: "u64 \<Rightarrow> nat option \<Rightarrow> nat" where
  "prefix_size a eq = unat (word_of_int (len_prefix a eq) :: u64)"

definition parse_long :: "u64 \<Rightarrow> string \<Rightarrow> tokens \<Rightarrow> elements \<Rightarrow> parsed" where
  "parse_long a current ts el =
     (let eq = eq_index current in
      case first_index (\<lambda>opt. strncmp_eq (prefix_size a eq) current (olong opt)) (el_options el) of
        None \<Rightarrow> Inl (Not_recognized current)
      | Some i \<Rightarrow>
          let opt = el_options el ! i; ts = tokens_move ts in
          if argcount opt then
            (case eq of
               None \<Rightarrow> (case ts_current ts of
                          None \<Rightarrow> Inl (Requires_argument (olong opt))
                        | Some (_, v) \<Rightarrow> Inr (tokens_move ts, set_argument i v el))
             | Some k \<Rightarrow> Inr (ts, set_argument i (drop (k + 1) current) el))
          else if eq \<noteq> None then Inl (Must_not_have_argument (olong opt))
          else Inr (ts, set_flag i el))"

text \<open>The loop of \<open>parse_shorts\<close> over the characters after the dash.\<close>

definition has_short :: "char \<Rightarrow> cl_option \<Rightarrow> bool" where
  "has_short c opt \<longleftrightarrow> (case oshort opt of None \<Rightarrow> False | Some s \<Rightarrow> 1 < length s \<and> s ! 1 = c)"

fun short_options :: "string \<Rightarrow> tokens \<Rightarrow> elements \<Rightarrow> parsed" where
  "short_options [] ts el = Inr (ts, el)"
| "short_options (c # raw) ts el =
     (case first_index (has_short c) (el_options el) of
        None \<Rightarrow> Inl (Short_not_recognized c)
      | Some i \<Rightarrow>
          let opt = el_options el ! i in
          if \<not> argcount opt then short_options raw ts (set_flag i el)
          else if raw = [] then
            (case ts_current ts of
               None \<Rightarrow> Inl (Requires_argument (case oshort opt of None \<Rightarrow> [] | Some s \<Rightarrow> s))
             | Some (_, v) \<Rightarrow> Inr (tokens_move ts, set_argument i v el))
          else Inr (ts, set_argument i raw el))"

definition parse_shorts :: "string \<Rightarrow> tokens \<Rightarrow> elements \<Rightarrow> parsed" where
  "parse_shorts current ts el = short_options (drop 1 current) (tokens_move ts) el"

text \<open>A word that is no option sets the command of its name, and is skipped when there is none.\<close>

definition parse_argcmd :: "string \<Rightarrow> tokens \<Rightarrow> elements \<Rightarrow> parsed" where
  "parse_argcmd current ts el =
     (case first_index (\<lambda>c. command_name c = current) (el_commands el) of
        None \<Rightarrow> Inr (tokens_move ts, el)
      | Some i \<Rightarrow>
          Inr (tokens_move ts,
               el\<lparr>el_commands := (el_commands el)[i := (el_commands el ! i)\<lparr>command_value := True\<rparr>]\<rparr>))"

definition parse_token :: "u64 \<Rightarrow> string \<Rightarrow> tokens \<Rightarrow> elements \<Rightarrow> parsed" where
  "parse_token a current ts el =
     (if take 2 current = ''--'' then parse_long a current ts el
      else if take 1 current = ''-'' \<and> length current \<noteq> 1 then parse_shorts current ts el
      else parse_argcmd current ts el)"

text \<open>\<open>--\<close> ends the options; what follows is not looked at.\<close>

definition parse_doubledash :: "tokens \<Rightarrow> elements \<Rightarrow> parsed" where
  "parse_doubledash ts el = Inr (ts, el)"

subsection \<open>Every token moves on, and \<open>argv\<close> stays\<close>

definition moves_on :: "tokens \<Rightarrow> tokens \<Rightarrow> bool" where
  "moves_on ts ts' \<longleftrightarrow> ts_argv ts' = ts_argv ts \<and> ts_i ts \<le> ts_i ts'"

lemma moves_on_refl [simp]: "moves_on ts ts"
  by (simp add: moves_on_def)

lemma moves_on_move [simp]: "moves_on ts ts' \<Longrightarrow> moves_on ts (tokens_move ts')"
  by (simp add: moves_on_def tokens_move_def)

lemma short_options_moves_on: "short_options raw ts el = Inr (ts', el') \<Longrightarrow> moves_on ts ts'"
  by (induction raw ts el rule: short_options.induct) (auto simp: Let_def split: option.splits if_splits)

lemma parse_token_moves_on:
  assumes "parse_token a current ts el = Inr (ts', el')"
  shows "moves_on (tokens_move ts) ts'"
  using assms
  by (auto simp: parse_token_def parse_long_def parse_shorts_def parse_argcmd_def Let_def
           split: if_splits option.splits dest: short_options_moves_on)

lemma parse_token_progress:
  assumes "parse_token a current ts el = Inr (ts', el')" and "ts_current ts = Some w"
  shows "ts_argv ts' = ts_argv ts" and "ts_i ts < ts_i ts'"
  using parse_token_moves_on [OF assms(1)] assms(2)
  by (auto simp: moves_on_def tokens_move_def ts_current_def split: if_splits)

function parse_args :: "tokens \<Rightarrow> elements \<Rightarrow> parsed" where
  "parse_args ts el =
     (case ts_current ts of
        None \<Rightarrow> Inr (ts, el)
      | Some (a, current) \<Rightarrow>
          if current = ''--'' then parse_doubledash ts el else
          (case parse_token a current ts el of Inl e \<Rightarrow> Inl e | Inr (ts, el) \<Rightarrow> parse_args ts el))"
  by pat_completeness auto

termination
proof (relation "measure (\<lambda>(ts, el). length (ts_argv ts) - ts_i ts)", goal_cases)
  case (2 ts el w a current r ts' el')
  then have "ts_argv ts' = ts_argv ts" "ts_i ts < ts_i ts'" "ts_i ts < length (ts_argv ts)"
    using parse_token_progress [of a current ts el ts' el' w] by (auto simp: ts_current_def split: if_splits)
  then show ?case by simp
qed simp

declare parse_args.simps [simp del]

section \<open>From the options to the arguments of a program\<close>

text \<open>
  \<open>None\<close> when the help or the version is printed; \<open>put\<close> is the chain of comparisons of a program
  that copies one option into its arguments.
\<close>

fun elems_to_args :: "(cl_option \<Rightarrow> 'a \<Rightarrow> 'a) \<Rightarrow> bool \<Rightarrow> string option \<Rightarrow> cl_option list \<Rightarrow> 'a \<Rightarrow> 'a option" where
  "elems_to_args put help_on version [] args = Some args"
| "elems_to_args put help_on version (opt # opts) args =
     (if help_on \<and> opt_value opt \<and> olong opt = ''--help'' then None
      else if version \<noteq> None \<and> opt_value opt \<and> olong opt = ''--version'' then None
      else elems_to_args put help_on version opts (put opt args))"

text \<open>The assignments of \<^verbatim>\<open>if (option->argument) args->field = option->argument;\<close>, to a field that is
  never NULL and to one that may be.\<close>

definition given :: "string option \<Rightarrow> string \<Rightarrow> string" where
  "given argument old = (case argument of None \<Rightarrow> old | Some v \<Rightarrow> v)"

definition given_or_null :: "string option \<Rightarrow> string option \<Rightarrow> string option" where
  "given_or_null argument old = (case argument of None \<Rightarrow> old | Some v \<Rightarrow> Some v)"

lemma given_simps [simp]:
  "given None old = old" "given (Some v) old = v"
  "given_or_null None old' = old'" "given_or_null argument None = argument"
  by (simp_all add: given_def given_or_null_def split: option.split)

datatype 'a docopt_result = Exit_failure cl_error | Exit_success | Docopt_args 'a

definition docopt ::
  "(cl_option \<Rightarrow> 'a \<Rightarrow> 'a) \<Rightarrow> cl_option list \<Rightarrow> 'a \<Rightarrow> arg list \<Rightarrow> bool \<Rightarrow> string option \<Rightarrow> 'a docopt_result" where
  "docopt put opts args argv help_on version =
     (case parse_args (tokens_new argv) \<lparr>el_commands = [], el_options = opts\<rparr> of
        Inl e \<Rightarrow> Exit_failure e
      | Inr (_, el) \<Rightarrow>
          (case elems_to_args put help_on version (el_options el) args of
             None \<Rightarrow> Exit_success
           | Some args \<Rightarrow> Docopt_args args))"

end
