(* ===== verification/Command_Line_Laws.thy ===== *)
theory Command_Line_Laws
  imports Command_Line
begin

text \<open>
  The command line read back: a line written from settings, each in one of the forms of the usage, is
  parsed to these settings, the last one of a name deciding. The tables of options for which it holds
  are the locale \<open>option_table\<close>, interpreted in the theory of each program.
\<close>

section \<open>Settings and how they are written\<close>

datatype setting =
    Long_flag string
  | Long_separate string string
  | Long_equals string string
  | Short_flag string
  | Short_separate string string
  | Short_attached string string
  | Positional string

definition option_named :: "cl_option list \<Rightarrow> string \<Rightarrow> cl_option" where
  "option_named T name = T ! the (first_index (\<lambda>opt. olong opt = name) T)"

definition short_of :: "cl_option list \<Rightarrow> string \<Rightarrow> string" where
  "short_of T name = the (oshort (option_named T name))"

fun setting_words :: "cl_option list \<Rightarrow> setting \<Rightarrow> string list" where
  "setting_words T (Long_flag name) = [name]"
| "setting_words T (Long_separate name v) = [name, v]"
| "setting_words T (Long_equals name v) = [name @ ''='' @ v]"
| "setting_words T (Short_flag name) = [short_of T name]"
| "setting_words T (Short_separate name v) = [short_of T name, v]"
| "setting_words T (Short_attached name v) = [short_of T name @ v]"
| "setting_words T (Positional word) = [word]"

definition declares :: "cl_option list \<Rightarrow> string \<Rightarrow> bool \<Rightarrow> bool \<Rightarrow> bool" where
  "declares T name takes_value short \<longleftrightarrow>
     (\<exists>opt\<in>set T. olong opt = name \<and> argcount opt = takes_value \<and> (short \<longrightarrow> oshort opt \<noteq> None))"

fun setting_ok :: "cl_option list \<Rightarrow> setting \<Rightarrow> bool" where
  "setting_ok T (Long_flag name) = declares T name False False"
| "setting_ok T (Long_separate name v) = declares T name True False"
| "setting_ok T (Long_equals name v) = declares T name True False"
| "setting_ok T (Short_flag name) = declares T name False True"
| "setting_ok T (Short_separate name v) = declares T name True True"
| "setting_ok T (Short_attached name v) = (declares T name True True \<and> v \<noteq> [])"
| "setting_ok T (Positional word) = (word = ''-'' \<or> take 1 word \<noteq> ''-'')"

text \<open>What settings say of a name: whether its flag is set, and its last value.\<close>

fun sets_flag :: "setting \<Rightarrow> string \<Rightarrow> bool" where
  "sets_flag (Long_flag n) name = (n = name)"
| "sets_flag (Short_flag n) name = (n = name)"
| "sets_flag _ name = False"

fun sets_value :: "setting \<Rightarrow> string \<Rightarrow> string option" where
  "sets_value (Long_separate n v) name = (if n = name then Some v else None)"
| "sets_value (Long_equals n v) name = (if n = name then Some v else None)"
| "sets_value (Short_separate n v) name = (if n = name then Some v else None)"
| "sets_value (Short_attached n v) name = (if n = name then Some v else None)"
| "sets_value _ name = None"

definition flagged :: "setting list \<Rightarrow> string \<Rightarrow> bool" where
  "flagged ss name \<longleftrightarrow> list_ex (\<lambda>s. sets_flag s name) ss"

fun last_value :: "setting list \<Rightarrow> string \<Rightarrow> string option" where
  "last_value [] name = None"
| "last_value (s # ss) name = (case last_value ss name of None \<Rightarrow> sets_value s name | Some v \<Rightarrow> Some v)"

definition chosen :: "setting list \<Rightarrow> cl_option \<Rightarrow> cl_option" where
  "chosen ss opt =
     opt\<lparr>opt_value := opt_value opt \<or> flagged ss (olong opt),
         opt_argument := given_or_null (last_value ss (olong opt)) (opt_argument opt)\<rparr>"

text \<open>
  The words of \<open>argv\<close>: a program name that is no option, the settings, and possibly \<open>--\<close> with anything
  after it. The address of a word is such that the length \<open>parse_long\<close> computes without an \<open>=\<close> is more
  than the word's.
\<close>

definition line_starts :: "cl_option list \<Rightarrow> setting list \<Rightarrow> string list \<Rightarrow> arg list \<Rightarrow> bool" where
  "line_starts T ss ws argv \<longleftrightarrow>
     (\<exists>program. map snd argv = program # concat (map (setting_words T) ss) @ ws \<and> take 1 program \<noteq> ''-'') \<and>
     (\<forall>s\<in>set ss. setting_ok T s) \<and>
     (\<forall>(a, s)\<in>set argv. length s < prefix_size a None)"

definition written_line :: "cl_option list \<Rightarrow> setting list \<Rightarrow> arg list \<Rightarrow> bool" where
  "written_line T ss argv \<longleftrightarrow> (\<exists>ws. line_starts T ss ws argv \<and> (ws = [] \<or> hd ws = ''--''))"

text \<open>Words after which the line is refused, with the error that is printed.\<close>

inductive rejected :: "cl_option list \<Rightarrow> string list \<Rightarrow> cl_error \<Rightarrow> bool" for T where
  unknown_long: "take 2 w = ''--'' \<Longrightarrow> w \<noteq> ''--'' \<Longrightarrow> CHR ''='' \<notin> set w \<Longrightarrow> \<forall>opt\<in>set T. olong opt \<noteq> w \<Longrightarrow>
    rejected T (w # ws) (Not_recognized w)"
| unknown_short: "c \<noteq> CHR ''-'' \<Longrightarrow> \<forall>opt\<in>set T. oshort opt \<noteq> Some [CHR ''-'', c] \<Longrightarrow>
    rejected T ([CHR ''-'', c] # ws) (Short_not_recognized c)"
| no_value: "declares T name True False \<Longrightarrow> rejected T [name] (Requires_argument name)"
| no_short_value: "declares T name True True \<Longrightarrow>
    rejected T [short_of T name] (Requires_argument (short_of T name))"
| value_of_flag: "declares T name False False \<Longrightarrow>
    rejected T ((name @ ''='' @ v) # ws) (Must_not_have_argument name)"

section \<open>Search and positions\<close>

lemma first_index_eqI:
  "i < length xs \<Longrightarrow> P (xs ! i) \<Longrightarrow> (\<And>j. j < length xs \<Longrightarrow> P (xs ! j) \<Longrightarrow> j = i) \<Longrightarrow> first_index P xs = Some i"
proof (induction xs arbitrary: i)
  case (Cons x xs)
  show ?case
  proof (cases i)
    case 0
    with Cons.prems show ?thesis by simp
  next
    case (Suc k)
    have "\<not> P x" using Cons.prems(3) [of 0] Suc by auto
    moreover have "first_index P xs = Some k"
      using Cons.prems(1,2) Suc Cons.prems(3) [of "Suc _"] by (intro Cons.IH) auto
    ultimately show ?thesis using Suc by simp
  qed
qed simp

lemma first_index_none: "(\<And>x. x \<in> set xs \<Longrightarrow> \<not> P x) \<Longrightarrow> first_index P xs = None"
  by (induction xs) auto

lemma eq_index_absent: "CHR ''='' \<notin> set s \<Longrightarrow> eq_index s = None"
  unfolding eq_index_def by (induction s) auto

lemma eq_index_first: "CHR ''='' \<notin> set s \<Longrightarrow> eq_index (s @ CHR ''='' # v) = Some (length s)"
  unfolding eq_index_def by (induction s) auto

text \<open>
  With an \<open>=\<close> the comparison is over what stands before it. Without one it is over the whole word when
  the low half of the address, minus one, is in the lower half of its range.
\<close>

lemma prefix_size_arith:
  "prefix_size a eq =
     (let d = (case eq of None \<Rightarrow> - uint a | Some k \<Rightarrow> int k)
      in nat (((d + 2147483648) mod 4294967296 - 2147483648) mod 18446744073709551616))"
proof -
  have s: "sint (word_of_int x :: u32) = (x + 2147483648) mod 4294967296 - 2147483648" for x
    by (subst int_word_sint) simp
  have u: "unat (word_of_int x :: u64) = nat (x mod 18446744073709551616)" for x
    by (simp only: unat_eq_nat_uint uint_word_of_int) simp
  show ?thesis by (simp only: prefix_size_def len_prefix_def s u Let_def)
qed

lemma prefix_size_eq: "k < 2147483648 \<Longrightarrow> prefix_size a (Some k) = k"
  by (simp add: prefix_size_arith)

lemma prefix_size_no_eq:
  assumes "0 < uint a mod 4294967296" and "uint a mod 4294967296 \<le> 2147483648"
  shows "18446744071562067968 \<le> prefix_size a None"
proof -
  obtain q r where a: "uint a = 4294967296 * q + r" and r: "0 < r" "r \<le> 2147483648"
    using assms by (metis mult_div_mod_eq)
  have "(2147483648 - uint a) mod 4294967296 = (2147483648 - r + (- q) * 4294967296) mod 4294967296"
    by (simp add: a algebra_simps)
  also have "... = 2147483648 - r" using r by (simp only: mod_mult_self1) simp
  finally have "(- uint a + 2147483648) mod 4294967296 - 2147483648 = - r" by (simp add: algebra_simps)
  moreover have "(- r) mod 18446744073709551616 = 18446744073709551616 - r"
    using r by (simp add: zmod_zminus1_eq_if)
  ultimately show ?thesis
    using r by (simp add: prefix_size_arith)
qed

text \<open>Where the tokens stand: the words that are left.\<close>

definition words_left :: "tokens \<Rightarrow> string list" where
  "words_left ts = map snd (drop (ts_i ts) (ts_argv ts))"

lemma words_left_Nil: "words_left ts = [] \<Longrightarrow> ts_current ts = None"
  by (simp add: words_left_def ts_current_def)

lemma words_left_Cons:
  assumes "words_left ts = w # ws"
  obtains a where "ts_current ts = Some (a, w)" "(a, w) \<in> set (ts_argv ts)"
    "words_left (tokens_move ts) = ws" "ts_argv (tokens_move ts) = ts_argv ts"
proof -
  have i: "ts_i ts < length (ts_argv ts)"
    using assms by (auto simp: words_left_def intro: ccontr)
  with assms have w: "snd (ts_argv ts ! ts_i ts) = w" and ws: "words_left (tokens_move ts) = ws"
    by (auto simp: words_left_def tokens_move_def Cons_nth_drop_Suc [symmetric])
  have "(fst (ts_argv ts ! ts_i ts), w) = ts_argv ts ! ts_i ts" using w by auto
  with i ws show thesis
    by (intro that [of "fst (ts_argv ts ! ts_i ts)"]) (auto simp: ts_current_def tokens_move_def)
qed

lemma first_index_map [simp]: "first_index P (map f xs) = first_index (\<lambda>x. P (f x)) xs"
  by (induction xs) auto

section \<open>What settings leave in the options\<close>

lemma chosen_keeps [simp]:
  "oshort (chosen ss opt) = oshort opt" "olong (chosen ss opt) = olong opt"
  "argcount (chosen ss opt) = argcount opt"
  by (simp_all add: chosen_def)

lemma has_short_chosen [simp]: "has_short c (chosen ss opt) = has_short c opt"
  by (simp add: has_short_def)

lemma chosen_Nil [simp]: "chosen [] = (\<lambda>opt. opt)"
  by (simp add: chosen_def flagged_def fun_eq_iff)

lemma last_value_append: "last_value (ss @ ss') name =
   (case last_value ss' name of None \<Rightarrow> last_value ss name | Some v \<Rightarrow> Some v)"
  by (induction ss) (auto split: option.splits)

lemma chosen_snoc: "chosen (ss @ [s]) opt =
   (chosen ss opt)\<lparr>opt_value := opt_value (chosen ss opt) \<or> sets_flag s (olong opt),
      opt_argument := (case sets_value s (olong opt) of
         None \<Rightarrow> opt_argument (chosen ss opt) | Some v \<Rightarrow> Some v)\<rparr>"
  by (auto simp: chosen_def flagged_def last_value_append given_or_null_def split: option.splits)

lemma update_named:
  assumes "distinct (map olong T)" and "i < length T"
  shows "(map f T)[i := g (f (T ! i))] = map (\<lambda>opt. if olong opt = olong (T ! i) then g (f opt) else f opt) T"
  using assms by (intro nth_equalityI) (auto simp: nth_list_update distinct_conv_nth)

locale option_table =
  fixes T :: "cl_option list"
  assumes long_distinct: "distinct (map olong T)"
    and long_name: "opt \<in> set T \<Longrightarrow> take 2 (olong opt) = ''--'' \<and> olong opt \<noteq> ''--'' \<and>
      CHR ''='' \<notin> set (olong opt) \<and> length (olong opt) < 2147483648"
    and long_prefix: "opt \<in> set T \<Longrightarrow> opt' \<in> set T \<Longrightarrow>
      take (length (olong opt)) (olong opt') = olong opt \<Longrightarrow> olong opt' = olong opt"
    and short_name: "opt \<in> set T \<Longrightarrow> oshort opt = Some s \<Longrightarrow> \<exists>c. s = [CHR ''-'', c] \<and> c \<noteq> CHR ''-''"
    and short_distinct: "opt \<in> set T \<Longrightarrow> opt' \<in> set T \<Longrightarrow> oshort opt = Some s \<Longrightarrow>
      oshort opt' = Some s \<Longrightarrow> olong opt' = olong opt"
    and unset: "opt \<in> set T \<Longrightarrow> \<not> opt_value opt"
    and no_version: "opt \<in> set T \<Longrightarrow> olong opt \<noteq> ''--version''"
begin

abbreviation elements_with :: "setting list \<Rightarrow> elements" where
  "elements_with ss \<equiv> \<lparr>el_commands = [], el_options = map (chosen ss) T\<rparr>"

lemma same_index: "i < length T \<Longrightarrow> j < length T \<Longrightarrow> olong (T ! i) = olong (T ! j) \<Longrightarrow> i = j"
  using long_distinct by (auto simp: distinct_conv_nth)

lemma declared_option:
  assumes "declares T name takes_value short"
  obtains i where "i < length T" "option_named T name = T ! i" "olong (T ! i) = name"
    "argcount (T ! i) = takes_value" "T ! i \<in> set T" "short \<longrightarrow> oshort (T ! i) = Some (short_of T name)"
proof -
  obtain i where i: "i < length T" "olong (T ! i) = name" "argcount (T ! i) = takes_value"
    "short \<longrightarrow> oshort (T ! i) \<noteq> None"
    using assms by (auto simp: declares_def in_set_conv_nth)
  then have "first_index (\<lambda>opt. olong opt = name) T = Some i"
    by (intro first_index_eqI) (auto intro: same_index)
  then have "option_named T name = T ! i" by (simp add: option_named_def)
  with i show thesis by (intro that [of i]) (auto simp: short_of_def)
qed

lemma set_flag_chosen:
  assumes "i < length T" and "sets_value s = (\<lambda>_. None)" and "sets_flag s = (\<lambda>n. olong (T ! i) = n)"
  shows "set_flag i (elements_with ss) = elements_with (ss @ [s])"
  using assms(1)
  by (simp add: set_flag_def update_named [OF long_distinct, of i "chosen ss"] chosen_snoc assms(2,3))

lemma set_argument_chosen:
  assumes "i < length T" and "sets_value s = (\<lambda>n. if olong (T ! i) = n then Some v else None)"
    and "sets_flag s = (\<lambda>_. False)"
  shows "set_argument i v (elements_with ss) = elements_with (ss @ [s])"
  using assms(1)
  by (simp add: set_argument_def update_named [OF long_distinct, of i "chosen ss"] chosen_snoc assms(2,3))

lemma long_found:
  assumes "i < length T" and "length (olong (T ! i)) < prefix_size a None"
  shows "first_index (\<lambda>opt. strncmp_eq (prefix_size a (eq_index (olong (T ! i)))) (olong (T ! i)) (olong opt)) T = Some i"
  using assms long_name [of "T ! i"]
  by (intro first_index_eqI) (auto simp: eq_index_absent strncmp_eq_short intro: same_index)

lemma long_equals_found:
  assumes "i < length T"
  shows "first_index (\<lambda>opt. strncmp_eq (prefix_size a (eq_index (olong (T ! i) @ ''='' @ v)))
           (olong (T ! i) @ ''='' @ v) (olong opt)) T = Some i"
  using assms long_name [of "T ! i"] long_prefix [of "T ! i"]
  by (intro first_index_eqI)
     (auto simp: eq_index_first prefix_size_eq strncmp_eq_def intro: same_index)

lemma short_found:
  assumes "i < length T" and "oshort (T ! i) = Some s"
  obtains c where "s = [CHR ''-'', c]" "c \<noteq> CHR ''-''" "first_index (has_short c) T = Some i"
proof -
  obtain c where s: "s = [CHR ''-'', c]" "c \<noteq> CHR ''-''" using short_name [of "T ! i" s] assms by auto
  have unique: "j = i" if "j < length T" "has_short c (T ! j)" for j
  proof -
    have "\<exists>s'. oshort (T ! j) = Some s' \<and> 1 < length s' \<and> s' ! 1 = c"
      using that(2) by (auto simp: has_short_def split: option.splits)
    then obtain s' where s': "oshort (T ! j) = Some s'" "1 < length s'" "s' ! 1 = c" by blast
    then have "s' = s" using short_name [of "T ! j" s'] that(1) s by auto
    then have "olong (T ! j) = olong (T ! i)"
      using short_distinct [OF nth_mem nth_mem, OF assms(1) that(1) assms(2)] s'(1) by blast
    then show ?thesis by (rule same_index [OF that(1) assms(1)])
  qed
  have "has_short c (T ! i)" using assms(2) s by (simp add: has_short_def)
  from first_index_eqI [of i T "has_short c", OF assms(1) this unique] have "first_index (has_short c) T = Some i" .
  with s show thesis by (rule that)
qed

subsection \<open>One setting\<close>

lemma option_word:
  assumes "i < length T"
  shows "take 2 (olong (T ! i)) = ''--''" "olong (T ! i) \<noteq> ''--''"
    "take 2 (olong (T ! i) @ v) = ''--''" "olong (T ! i) @ CHR ''='' # v \<noteq> ''--''"
    "eq_index (olong (T ! i)) = None" "eq_index (olong (T ! i) @ CHR ''='' # v) = Some (length (olong (T ! i)))"
proof -
  have n: "take 2 (olong (T ! i)) = ''--''" "olong (T ! i) \<noteq> ''--''" "CHR ''='' \<notin> set (olong (T ! i))"
    using long_name [of "T ! i"] assms by auto
  then show "take 2 (olong (T ! i)) = ''--''" "olong (T ! i) \<noteq> ''--''" "eq_index (olong (T ! i)) = None"
    "eq_index (olong (T ! i) @ CHR ''='' # v) = Some (length (olong (T ! i)))"
    by (simp_all add: eq_index_absent eq_index_first)
  have l: "2 < length (olong (T ! i))"
    using n by (cases "olong (T ! i)"; cases "tl (olong (T ! i))"; cases "tl (tl (olong (T ! i)))") auto
  then show "take 2 (olong (T ! i) @ v) = ''--''" using n by simp
  have "length (olong (T ! i) @ CHR ''='' # v) \<noteq> length ''--''" using l by simp
  then show "olong (T ! i) @ CHR ''='' # v \<noteq> ''--''" by metis
qed

lemma long_flag_parsed:
  assumes "declares T name False False" and "length name < prefix_size a None"
  shows "parse_token a name ts (elements_with ss) = Inr (tokens_move ts, elements_with (ss @ [Long_flag name]))"
proof -
  obtain i where i: "i < length T" "olong (T ! i) = name" "\<not> argcount (T ! i)"
    using declared_option [OF assms(1)] by metis
  show ?thesis
    using i option_word [OF i(1)] long_found [OF i(1), of a] assms(2) set_flag_chosen [of i "Long_flag name" ss]
    by (simp add: parse_token_def parse_long_def fun_eq_iff)
qed

lemma long_separate_parsed:
  assumes "declares T name True False" and "length name < prefix_size a None"
    and "ts_current (tokens_move ts) = Some (a', v)"
  shows "parse_token a name ts (elements_with ss) =
           Inr (tokens_move (tokens_move ts), elements_with (ss @ [Long_separate name v]))"
proof -
  obtain i where i: "i < length T" "olong (T ! i) = name" "argcount (T ! i)"
    using declared_option [OF assms(1)] by metis
  show ?thesis
    using i option_word [OF i(1)] long_found [OF i(1), of a] assms(2,3)
      set_argument_chosen [of i "Long_separate name v" v ss]
    by (simp add: parse_token_def parse_long_def fun_eq_iff)
qed

lemma long_equals_parsed:
  assumes "declares T name True False"
  shows "parse_token a (name @ CHR ''='' # v) ts (elements_with ss) =
           Inr (tokens_move ts, elements_with (ss @ [Long_equals name v]))"
proof -
  obtain i where i: "i < length T" "olong (T ! i) = name" "argcount (T ! i)"
    using declared_option [OF assms(1)] by metis
  show ?thesis
    using i option_word(3) [OF i(1), of "CHR ''='' # v"] option_word(4,6) [OF i(1), of v]
      long_equals_found [OF i(1), of a v] set_argument_chosen [of i "Long_equals name v" v ss]
    by (simp add: parse_token_def parse_long_def fun_eq_iff)
qed

lemma declared_short:
  assumes "declares T name takes_value True"
  obtains i c where "i < length T" "olong (T ! i) = name" "argcount (T ! i) = takes_value"
    "short_of T name = [CHR ''-'', c]" "c \<noteq> CHR ''-''" "first_index (has_short c) T = Some i"
    "oshort (T ! i) = Some (short_of T name)"
proof -
  obtain i where i: "i < length T" "olong (T ! i) = name" "argcount (T ! i) = takes_value"
    "oshort (T ! i) = Some (short_of T name)"
    using declared_option [OF assms] by metis
  obtain c where "short_of T name = [CHR ''-'', c]" "c \<noteq> CHR ''-''" "first_index (has_short c) T = Some i"
    using short_found [OF i(1,4)] .
  with i show thesis by (intro that)
qed

lemma short_flag_parsed:
  assumes "declares T name False True"
  shows "parse_token a (short_of T name) ts (elements_with ss) =
           Inr (tokens_move ts, elements_with (ss @ [Short_flag name]))"
proof -
  obtain i c where i: "i < length T" "olong (T ! i) = name" "\<not> argcount (T ! i)"
    "short_of T name = [CHR ''-'', c]" "c \<noteq> CHR ''-''" "first_index (has_short c) T = Some i"
    using declared_short [OF assms] by metis
  then show ?thesis
    using set_flag_chosen [of i "Short_flag name" ss]
    by (simp add: parse_token_def parse_shorts_def fun_eq_iff)
qed

lemma short_separate_parsed:
  assumes "declares T name True True" and "ts_current (tokens_move ts) = Some (a', v)"
  shows "parse_token a (short_of T name) ts (elements_with ss) =
           Inr (tokens_move (tokens_move ts), elements_with (ss @ [Short_separate name v]))"
proof -
  obtain i c where i: "i < length T" "olong (T ! i) = name" "argcount (T ! i)"
    "short_of T name = [CHR ''-'', c]" "c \<noteq> CHR ''-''" "first_index (has_short c) T = Some i"
    using declared_short [OF assms(1)] by metis
  then show ?thesis
    using assms(2) set_argument_chosen [of i "Short_separate name v" v ss]
    by (simp add: parse_token_def parse_shorts_def fun_eq_iff)
qed

lemma short_attached_parsed:
  assumes "declares T name True True" and "v \<noteq> []"
  shows "parse_token a (short_of T name @ v) ts (elements_with ss) =
           Inr (tokens_move ts, elements_with (ss @ [Short_attached name v]))"
proof -
  obtain i c where i: "i < length T" "olong (T ! i) = name" "argcount (T ! i)"
    "short_of T name = [CHR ''-'', c]" "c \<noteq> CHR ''-''" "first_index (has_short c) T = Some i"
    using declared_short [OF assms(1)] by metis
  then show ?thesis
    using assms(2) set_argument_chosen [of i "Short_attached name v" v ss]
    by (simp add: parse_token_def parse_shorts_def fun_eq_iff)
qed

lemma positional_parsed:
  assumes "word = ''-'' \<or> take 1 word \<noteq> ''-''"
  shows "word \<noteq> ''--''" and "parse_token a word ts (elements_with ss) =
     Inr (tokens_move ts, elements_with (ss @ [Positional word]))"
  using assms
  by (cases word; cases "tl word"; auto simp: parse_token_def parse_argcmd_def chosen_snoc)+

subsection \<open>The whole line\<close>

lemma parse_args_token:
  assumes "ts_current ts = Some (a, w)" and "w \<noteq> ''--''" and "parse_token a w ts el = Inr (ts', el')"
  shows "parse_args ts el = parse_args ts' el'"
  using assms by (subst parse_args.simps) simp

lemma short_no_dashes:
  "declares T name takes_value True \<Longrightarrow> short_of T name \<noteq> ''--'' \<and> (\<forall>v. short_of T name @ v \<noteq> ''--'')"
  by (elim declared_short) auto

lemma long_no_dashes:
  "declares T name takes_value short \<Longrightarrow> name \<noteq> ''--'' \<and> (\<forall>v. name @ CHR ''='' # v \<noteq> ''--'')"
  by (elim declared_option) (use option_word(2,4) in blast)

lemma setting_no_dashes: "setting_ok T s \<Longrightarrow> setting_words T s = w # ws \<Longrightarrow> w \<noteq> ''--''"
  by (cases s) (auto dest: short_no_dashes long_no_dashes positional_parsed(1))

lemma setting_parsed:
  assumes "setting_ok T s" and "words_left ts = setting_words T s @ rest"
    and long: "\<forall>(a, w)\<in>set (ts_argv ts). length w < prefix_size a None"
  obtains ts' where "parse_args ts (elements_with ss) = parse_args ts' (elements_with (ss @ [s]))"
    "words_left ts' = rest" "ts_argv ts' = ts_argv ts"
proof -
  obtain w ws where w: "setting_words T s = w # ws" by (cases s) auto
  obtain a where a: "ts_current ts = Some (a, w)" "(a, w) \<in> set (ts_argv ts)"
    "words_left (tokens_move ts) = ws @ rest" "ts_argv (tokens_move ts) = ts_argv ts"
    using words_left_Cons [of ts w "ws @ rest"] assms(2) w by auto
  have l: "length w < prefix_size a None" using a(2) long by auto
  have step: "parse_args ts (elements_with ss) = parse_args ts' el'"
    if "parse_token a w ts (elements_with ss) = Inr (ts', el')" for ts' el'
    using parse_args_token [OF a(1) setting_no_dashes [OF assms(1) w] that] .
  show thesis
  proof (cases "\<exists>v. ws = [v]")
    case True
    then obtain v where v: "ws = [v]" by blast
    obtain a' where a': "ts_current (tokens_move ts) = Some (a', v)"
      "words_left (tokens_move (tokens_move ts)) = rest"
      "ts_argv (tokens_move (tokens_move ts)) = ts_argv ts"
      using words_left_Cons [of "tokens_move ts" v rest] a(3,4) v by auto
    have "parse_token a w ts (elements_with ss) = Inr (tokens_move (tokens_move ts), elements_with (ss @ [s]))"
      using assms(1) w v long_separate_parsed [OF _ l a'(1)] short_separate_parsed [OF _ a'(1)]
      by (cases s) auto
    from that [OF step [OF this] a'(2,3)] show ?thesis .
  next
    case False
    then have ws: "ws = []" using w by (cases s) auto
    then have "parse_token a w ts (elements_with ss) = Inr (tokens_move ts, elements_with (ss @ [s]))"
      using False assms(1) w l
      by (cases s) (auto simp: long_flag_parsed long_equals_parsed short_flag_parsed short_attached_parsed
                         positional_parsed(2))
    with ws that [OF step] a(3,4) show ?thesis by simp
  qed
qed

lemma settings_parsed:
  assumes "list_all (setting_ok T) ss" and "words_left ts = concat (map (setting_words T) ss) @ rest"
    and "\<forall>(a, w)\<in>set (ts_argv ts). length w < prefix_size a None"
  shows "\<exists>ts'. parse_args ts (elements_with ss') = parse_args ts' (elements_with (ss' @ ss)) \<and>
           words_left ts' = rest \<and> ts_argv ts' = ts_argv ts"
  using assms
proof (induction ss arbitrary: ts ss')
  case (Cons s ss)
  obtain ts' where "parse_args ts (elements_with ss') = parse_args ts' (elements_with (ss' @ [s]))"
    "words_left ts' = concat (map (setting_words T) ss) @ rest" "ts_argv ts' = ts_argv ts"
    by (rule setting_parsed [of s ts "concat (map (setting_words T) ss) @ rest" ss']) (use Cons.prems in auto)
  with Cons.IH [of ts' "ss' @ [s]"] Cons.prems show ?case by auto
qed auto

lemma line_starts_parsed:
  assumes "line_starts T ss ws argv"
  obtains ts where "parse_args (tokens_new argv) (elements_with []) = parse_args ts (elements_with ss)"
    "words_left ts = ws" "ts_argv ts = argv"
proof -
  obtain program where l: "map snd argv = program # concat (map (setting_words T) ss) @ ws"
    "take 1 program \<noteq> ''-''" "list_all (setting_ok T) ss"
    "\<forall>(a, s)\<in>set argv. length s < prefix_size a None"
    using assms by (auto simp: line_starts_def list_all_iff)
  define ps where "ps = Positional program # ss"
  have "words_left (tokens_new argv) = concat (map (setting_words T) ps) @ ws"
    using l(1) by (simp add: words_left_def tokens_new_def ps_def)
  then obtain ts where ts: "parse_args (tokens_new argv) (elements_with []) = parse_args ts (elements_with ([] @ ps))"
    "words_left ts = ws" "ts_argv ts = argv"
    using settings_parsed [of ps "tokens_new argv" ws "[]"] l(2-4) by (auto simp: ps_def tokens_new_def)
  have "chosen ps = chosen ss"
    by (simp add: fun_eq_iff ps_def chosen_def flagged_def given_or_null_def split: option.split)
  with ts show thesis by (intro that [of ts]) simp_all
qed

lemma line_parsed:
  assumes "written_line T ss argv"
  shows "\<exists>ts. parse_args (tokens_new argv) (elements_with []) = Inr (ts, elements_with ss)"
proof -
  obtain ws where "line_starts T ss ws argv" and ws: "ws = [] \<or> hd ws = ''--''"
    using assms by (auto simp: written_line_def)
  then obtain ts where ts: "parse_args (tokens_new argv) (elements_with []) = parse_args ts (elements_with ss)"
    "words_left ts = ws"
    using line_starts_parsed by metis
  have "parse_args ts el = Inr (ts, el)" for el
  proof (cases ws)
    case Nil
    then show ?thesis using words_left_Nil [OF ts(2) [unfolded Nil]] by (subst parse_args.simps) simp
  next
    case (Cons w ws')
    then obtain a where "ts_current ts = Some (a, ''--'')"
      using words_left_Cons [of ts w ws'] ts(2) ws by auto
    then show ?thesis by (subst parse_args.simps) (simp add: parse_doubledash_def)
  qed
  with ts(1) show ?thesis by auto
qed

subsection \<open>Lines that are refused\<close>

lemma no_short: "\<forall>opt\<in>set T. oshort opt \<noteq> Some [CHR ''-'', c] \<Longrightarrow> first_index (has_short c) T = None"
  by (rule first_index_none) (fastforce simp: has_short_def dest: short_name split: option.splits)

lemma rejected_token:
  assumes "rejected T ws e" and "ws = w # ws'" and "words_left ts = ws" and "length w < prefix_size a None"
  shows "w \<noteq> ''--'' \<and> parse_token a w ts (elements_with ss) = Inl e"
  using assms
proof (induction rule: rejected.induct)
  case (unknown_long v vs)
  then have "first_index (\<lambda>opt. strncmp_eq (prefix_size a (eq_index w)) w (olong opt)) T = None"
    by (intro first_index_none) (auto simp: eq_index_absent strncmp_eq_short)
  with unknown_long show ?case by (auto simp: parse_token_def parse_long_def eq_index_absent)
next
  case (unknown_short c vs)
  then show ?case by (auto simp: parse_token_def parse_shorts_def no_short)
next
  case (no_value name)
  then obtain i where i: "i < length T" "olong (T ! i) = name" "argcount (T ! i)"
    using declared_option by metis
  have "ts_current (tokens_move ts) = None"
    using no_value by (auto elim: words_left_Cons intro: words_left_Nil)
  with no_value i option_word [OF i(1)] long_found [OF i(1), of a] show ?case
    by (auto simp: parse_token_def parse_long_def)
next
  case (no_short_value name)
  then obtain i c where i: "i < length T" "olong (T ! i) = name" "argcount (T ! i)"
    "short_of T name = [CHR ''-'', c]" "c \<noteq> CHR ''-''" "first_index (has_short c) T = Some i"
    "oshort (T ! i) = Some (short_of T name)"
    using declared_short by metis
  have "ts_current (tokens_move ts) = None"
    using no_short_value by (auto elim: words_left_Cons intro: words_left_Nil)
  moreover have "w = [CHR ''-'', c]" "short_of T name = w" using no_short_value i(4) by simp_all
  ultimately show ?case
    using i by (auto simp: parse_token_def parse_shorts_def)
next
  case (value_of_flag name v vs)
  then obtain i where i: "i < length T" "olong (T ! i) = name" "\<not> argcount (T ! i)"
    using declared_option by metis
  with value_of_flag option_word(3) [OF i(1), of "CHR ''='' # v"] option_word(4,6) [OF i(1), of v]
    long_equals_found [OF i(1), of a v] show ?case
    by (auto simp: parse_token_def parse_long_def)
qed

lemma docopt_rejected:
  assumes "line_starts T ss ws argv" and "rejected T ws e"
  shows "docopt put T args argv help_on version = Exit_failure e"
proof -
  obtain ts where ts: "parse_args (tokens_new argv) (elements_with []) = parse_args ts (elements_with ss)"
    "words_left ts = ws" "ts_argv ts = argv"
    using line_starts_parsed [OF assms(1)] .
  obtain w ws' where ws: "ws = w # ws'" using assms(2) by (cases rule: rejected.cases) auto
  obtain a where a: "ts_current ts = Some (a, w)" "(a, w) \<in> set argv"
    using words_left_Cons [of ts w ws'] ts ws by metis
  then have "length w < prefix_size a None" using assms(1) by (auto simp: line_starts_def)
  then have "w \<noteq> ''--'' \<and> parse_token a w ts (elements_with ss) = Inl e"
    using rejected_token [OF assms(2) ws ts(2)] by blast
  then have "parse_args ts (elements_with ss) = Inl e"
    using a(1) by (subst parse_args.simps) simp
  with ts(1) show ?thesis by (simp add: docopt_def)
qed

subsection \<open>The result\<close>

lemma elems_copied:
  assumes "\<forall>opt\<in>set opts. olong opt \<noteq> ''--version'' \<and> \<not> (help_on \<and> opt_value opt \<and> olong opt = ''--help'')"
  shows "elems_to_args put help_on version opts args = Some (fold put opts args)"
  using assms by (induction opts arbitrary: args) auto

lemma elems_help:
  assumes "opt \<in> set opts" "opt_value opt" "olong opt = ''--help''"
  shows "elems_to_args put True version opts args = None"
  using assms by (induction opts arbitrary: args) auto

lemma docopt_line:
  assumes "written_line T ss argv" and "\<not> (help_on \<and> flagged ss ''--help'')"
  shows "docopt put T args argv help_on version = Docopt_args (fold put (map (chosen ss) T) args)"
proof -
  have "elems_to_args put help_on version (map (chosen ss) T) args = Some (fold put (map (chosen ss) T) args)"
    by (rule elems_copied) (use assms(2) unset no_version in \<open>auto simp: chosen_def\<close>)
  with line_parsed [OF assms(1)] show ?thesis by (auto simp: docopt_def)
qed

lemma docopt_help:
  assumes "written_line T ss argv" and "flagged ss ''--help''" and "opt \<in> set T" "olong opt = ''--help''"
  shows "docopt put T args argv True version = Exit_success"
proof -
  have "elems_to_args put True version (map (chosen ss) T) args = None"
  proof (rule elems_help)
    show "chosen ss opt \<in> set (map (chosen ss) T)" using assms(3) by simp
    show "opt_value (chosen ss opt)" using assms(2,4) by (simp add: chosen_def)
    show "olong (chosen ss opt) = ''--help''" using assms(4) by simp
  qed
  with line_parsed [OF assms(1)] show ?thesis by (auto simp: docopt_def)
qed

end

section \<open>What the address of a word decides\<close>

text \<open>
  A long option without \<open>=\<close> is looked up with the whole word, or, when the low half of its address is
  zero, with none of it, so that the first option of the table is taken whatever the word is.
\<close>

lemma prefix_size_zero: "uint a mod 4294967296 = 0 \<Longrightarrow> prefix_size a None = 0"
proof -
  assume z: "uint a mod 4294967296 = 0"
  have "(- uint a + 2147483648) mod 4294967296 = (2147483648 - uint a mod 4294967296) mod 4294967296"
    by (simp add: mod_diff_right_eq)
  then show ?thesis by (simp add: prefix_size_arith z)
qed

text \<open>
  Without an \<open>=\<close> the lookup of a long option uses the address of the word. Where the low half of the
  address, minus one, is below \<open>2 ^ 31\<close>, a word that no option has as its name is not recognized; where the
  low half is zero, every word sets the flag that is first in the table.
\<close>

lemma long_option_depends_on_address:
  assumes "CHR ''='' \<notin> set w" and "length w < 9223372036854775808" and "el_options el = opt # opts"
  shows "(0 < uint a mod 4294967296 \<and> uint a mod 4294967296 \<le> 2147483648 \<and> w \<notin> olong ` set (opt # opts) \<longrightarrow>
            parse_long a w ts el = Inl (Not_recognized w)) \<and>
         (uint a mod 4294967296 = 0 \<and> \<not> argcount opt \<longrightarrow>
            parse_long a w ts el = Inr (tokens_move ts, set_flag 0 el))"
proof -
  have "first_index (\<lambda>opt. strncmp_eq (prefix_size a None) w (olong opt)) (opt # opts) = None"
    if "0 < uint a mod 4294967296" "uint a mod 4294967296 \<le> 2147483648" "w \<notin> olong ` set (opt # opts)"
    using prefix_size_no_eq [OF that(1,2)] assms(2) that(3)
    by (intro first_index_none) (auto simp: strncmp_eq_short)
  then show ?thesis
    using assms by (auto simp: parse_long_def eq_index_absent prefix_size_zero strncmp_eq_def)
qed

end
