(* ===== verification/Mqtt_Arguments.thy ===== *)
theory Mqtt_Arguments
  imports Command_Line_Laws Mqtt_Main
begin

text \<open>
  The arguments of the MQTT translator: the table of options, the defaults and the copying of the
  options of \<^verbatim>\<open>mqttpt-example/mqttpt_example_clip.h\<close>, into the record of arguments of \<open>Mqtt_Main\<close> with the
  fields that are not used there.
\<close>

record mqtt_docopt_args = mqtt_args +
  mqtt_color_log :: bool
  mqtt_help :: bool

definition mqtt_options :: "cl_option list" where
  "mqtt_options =
     [cl_opt None ''--color-log'' False,
      cl_opt (Some ''-h'') ''--help'' False,
      cl_opt None ''--edge-domain-socket'' True,
      cl_opt None ''--keep-alive'' True,
      cl_opt None ''--mosquitto-host'' True,
      cl_opt None ''--mosquitto-port'' True]"

definition mqtt_defaults :: mqtt_docopt_args where
  "mqtt_defaults =
     \<lparr>mosquitto_host = ''127.0.0.1'',
      mosquitto_port = ''1883'',
      keep_alive = ''60'',
      mq_edge_domain_socket = ''/tmp/edge.sock'',
      mqtt_color_log = False,
      mqtt_help = False\<rparr>"

definition mqtt_put :: "cl_option \<Rightarrow> mqtt_docopt_args \<Rightarrow> mqtt_docopt_args" where
  "mqtt_put opt args =
     (if olong opt = ''--color-log'' then args\<lparr>mqtt_color_log := opt_value opt\<rparr>
      else if olong opt = ''--help'' then args\<lparr>mqtt_help := opt_value opt\<rparr>
      else if olong opt = ''--edge-domain-socket'' then
        args\<lparr>mq_edge_domain_socket := given (opt_argument opt) (mq_edge_domain_socket args)\<rparr>
      else if olong opt = ''--keep-alive'' then
        args\<lparr>keep_alive := given (opt_argument opt) (keep_alive args)\<rparr>
      else if olong opt = ''--mosquitto-host'' then
        args\<lparr>mosquitto_host := given (opt_argument opt) (mosquitto_host args)\<rparr>
      else if olong opt = ''--mosquitto-port'' then
        args\<lparr>mosquitto_port := given (opt_argument opt) (mosquitto_port args)\<rparr>
      else args)"

definition mqtt_docopt :: "arg list \<Rightarrow> bool \<Rightarrow> string option \<Rightarrow> mqtt_docopt_args docopt_result" where
  "mqtt_docopt argv help_on version = docopt mqtt_put mqtt_options mqtt_defaults argv help_on version"

text \<open>What \<open>main\<close> calls \<open>docopt\<close> with.\<close>

definition mqtt_arguments :: "arg list \<Rightarrow> mqtt_docopt_args docopt_result" where
  "mqtt_arguments argv = mqtt_docopt argv True (Some ''0.1'')"

interpretation mqtt_line: option_table mqtt_options
  by unfold_locales (auto simp: mqtt_options_def)

text \<open>A written line is read back: every field has the last value given for it, or its default.\<close>

lemma mqtt_line_read:
  assumes "written_line mqtt_options ss argv" and "\<not> flagged ss ''--help''"
  shows "mqtt_arguments argv = Docopt_args
     \<lparr>mosquitto_host = given (last_value ss ''--mosquitto-host'') ''127.0.0.1'',
      mosquitto_port = given (last_value ss ''--mosquitto-port'') ''1883'',
      keep_alive = given (last_value ss ''--keep-alive'') ''60'',
      mq_edge_domain_socket = given (last_value ss ''--edge-domain-socket'') ''/tmp/edge.sock'',
      mqtt_color_log = flagged ss ''--color-log'',
      mqtt_help = False\<rparr>"
  unfolding mqtt_arguments_def mqtt_docopt_def
  using mqtt_line.docopt_line [OF assms(1), of True mqtt_put mqtt_defaults "Some ''0.1''"] assms(2)
  by (simp add: mqtt_options_def mqtt_put_def mqtt_defaults_def chosen_def)

section \<open>\<open>main\<close> with its command line\<close>

text \<open>The signals are set up before the command line is read.\<close>

definition mqtt_program :: "env \<Rightarrow> arg list \<Rightarrow> mqtt_world \<Rightarrow> ((int + unit) \<times> mqtt_world) option" where
  "mqtt_program E argv w =
     (case mqtt_arguments argv of
        Exit_failure e \<Rightarrow> Some (Inl 1, snd (setup_signals E w))
      | Exit_success \<Rightarrow> Some (Inl 0, snd (setup_signals E w))
      | Docopt_args A \<Rightarrow> mqtt_main_init E (mqtt_args.truncate A) w)"

end
