(* ===== verification/Mqtt_Runs.thy ===== *)
theory Mqtt_Runs
  imports Mqtt_Frames Mqtt_Arguments Transition_Systems
begin

text \<open>
  The MQTT translator from its command line to its end: when an event can happen, the steps of
  mosquitto's loop interleaved with the library's thread, the invariant of the translator's thread
  (the locale of \<open>Transition_Systems\<close> interpreted), and what holds when \<open>main\<close> has returned.
\<close>

section \<open>Steps\<close>

text \<open>
  Messages and signals can always come. The translator's thread runs once it has been created, and
  calls \<open>pt_client_start\<close> once; the callbacks of the library come after that call.
\<close>

fun mqtt_enabled :: "mqtt_event \<Rightarrow> mqtt_world \<Rightarrow> bool" where
  "mqtt_enabled (Message topic payload) w = True"
| "mqtt_enabled (Connected result) w = True"
| "mqtt_enabled Signal_received w = True"
| "mqtt_enabled Translator_thread w =
     (Sys ThreadCreate \<in> set (trace w) \<and> Pt (PtClientStart ''testing-mqtt'') \<notin> set (trace w))"
| "mqtt_enabled _ w = (Pt (PtClientStart ''testing-mqtt'') \<in> set (trace w))"

inductive mqtt_step :: "mqtt_libs \<Rightarrow> env \<Rightarrow> mqtt_world \<Rightarrow> mqtt_world \<Rightarrow> bool" for L E where
  mqtt_event: "mqtt_enabled e w \<Longrightarrow> mqtt_handle L E e w = Some w' \<Longrightarrow> mqtt_step L E w w'"

definition mqtt_started :: "env \<Rightarrow> arg list \<Rightarrow> mqtt_world \<Rightarrow> bool" where
  "mqtt_started E argv w \<longleftrightarrow> mqtt_program E argv mqtt_zero = Some (Inr (), w)"

section \<open>The invariant of the translator's thread\<close>

fun thread_call :: "ev \<Rightarrow> bool" where
  "thread_call (Sys ThreadCreate) = True"
| "thread_call (Sys ThreadJoin) = True"
| "thread_call (Pt (PtClientStart n)) = True"
| "thread_call _ = False"

interpretation thread_calls: call_class thread_call
  by unfold_locales (auto elim!: thread_call.elims)

text \<open>The thread has not been created, or was created once, or has called \<open>pt_client_start\<close> once.\<close>

definition thread_inv :: "mqtt_world \<Rightarrow> bool" where
  "thread_inv w \<longleftrightarrow>
     filter thread_call (trace w) = [] \<and> mqttpt_translator_started w = 0 \<or>
     filter thread_call (trace w) = [Sys ThreadCreate] \<and> 0 < mqttpt_translator_started w \<or>
     filter thread_call (trace w) = [Pt (PtClientStart ''testing-mqtt''), Sys ThreadCreate] \<and>
       0 < mqttpt_translator_started w"

lemma thread_call_seen: "thread_call e \<Longrightarrow> e \<in> set (trace w) \<longleftrightarrow> e \<in> set (filter thread_call (trace w))"
  by simp

lemma client_started: "thread_inv w \<Longrightarrow> Pt (PtClientStart ''testing-mqtt'') \<in> set (trace w) \<Longrightarrow>
    0 < mqttpt_translator_started w"
  by (subst (asm) thread_call_seen) (auto simp only: thread_call.simps thread_inv_def list.set empty_iff)

lemma client_not_started: "thread_inv w \<Longrightarrow> Sys ThreadCreate \<in> set (trace w) \<Longrightarrow>
    Pt (PtClientStart ''testing-mqtt'') \<notin> set (trace w) \<Longrightarrow>
    filter thread_call (trace w) = [Sys ThreadCreate] \<and> 0 < mqttpt_translator_started w"
  by (subst (asm) (1 2) thread_call_seen)
     (auto simp only: thread_call.simps thread_inv_def list.set empty_iff insert_iff)

lemma thread_inv_unmoved: "unmoved thread_call w w' \<Longrightarrow> thread_inv w \<Longrightarrow> thread_inv w'"
  by (simp add: thread_inv_def unmoved_def)

lemma mqtt_started_inv:
  assumes "mqtt_started E argv w"
  shows "thread_inv w"
proof -
  obtain A where "mqtt_main_init E A mqtt_zero = Some (Inr (), w)"
    using assms by (auto simp: mqtt_started_def mqtt_program_def split: docopt_result.splits)
  then have "filter thread_call (trace w) = [] \<and> mqttpt_translator_started w = 0"
    by (auto simp: mqtt_main_init_def setup_signals_def ask_defs call_def mqtt_zero_def Let_def
        split: if_splits Option.bind_splits)
  then show ?thesis by (simp add: thread_inv_def)
qed

lemma thread_inv_step:
  assumes "thread_inv w" and "mqtt_step L E w w'"
  shows "thread_inv w'"
proof -
  obtain e where e: "mqtt_enabled e w" "effect thread_call e w w'"
    using assms(2) by (auto elim!: mqtt_step.cases intro: thread_calls.handled_effect)
  from e(2) show ?thesis
  proof cases
    case starts
    have "thread_inv (mqttpt_start_translator w)"
      using assms(1) starts(1) by (auto simp: thread_inv_def mqttpt_start_translator_def sem_post_started_def call_def)
    with starts(2) show ?thesis by (rule thread_inv_unmoved)
  next
    case (writes_values v d n)
    have "thread_inv v" using writes_values(2) assms(1) by (rule thread_inv_unmoved)
    then show ?thesis unfolding writes_values(1) by (simp add: thread_inv_def write_or_register_def call_def)
  next
    case (registers d v)
    have "thread_inv v" using registers(3) assms(1) by (rule thread_inv_unmoved)
    then show ?thesis unfolding registers(1) by (simp add: thread_inv_def)
  next
    case registered
    have "thread_inv (sem_post_started w)"
      using assms(1) client_started [OF assms(1)] e(1) registered(1)
      by (simp add: thread_inv_def sem_post_started_def)
    with registered(2) show ?thesis by (rule thread_inv_unmoved)
  next
    case runs_client
    then show ?thesis using client_not_started [OF assms(1)] e(1)
      by (simp add: thread_inv_def mqttpt_translator_thread_routine_def call_def)
  qed (rule thread_inv_unmoved [OF _ assms(1)])
qed

interpretation mqtt_runs: step_invariant "mqtt_started E argv" "mqtt_step L E" thread_inv
  for E argv L
  by unfold_locales (auto intro: mqtt_started_inv thread_inv_step)

text \<open>A stop that was asked for is not forgotten.\<close>

lemma stop_kept:
  assumes "mqtt_step L E w w'"
  shows "mosquitto_stop w \<le> mosquitto_stop w'"
proof -
  obtain e where "effect thread_call e w w'"
    using assms by (auto elim!: mqtt_step.cases intro: thread_calls.handled_effect)
  then show ?thesis
    by cases (auto simp: unmoved_def mqttpt_start_translator_def sem_post_started_def write_or_register_def
        mqttpt_translator_thread_routine_def call_def split: if_splits)
qed

lemma stop_stays: "(mqtt_step L E)\<^sup>*\<^sup>* w w' \<Longrightarrow> mosquitto_stop w \<le> mosquitto_stop w'"
  by (induction rule: rtranclp.induct) (auto dest: stop_kept)

text \<open>A signal ends the loop: whatever comes after it, mosquitto's loop finds the stop.\<close>

lemma signal_ends_loop:
  assumes "mqtt_handle L E Signal_received u = Some v" and "(mqtt_step L E)\<^sup>*\<^sup>* v w"
  shows "0 < mosquitto_stop w"
  using assms(1) stop_stays [OF assms(2)] by (auto simp: shutdown_handler_def)

section \<open>When \<open>main\<close> has returned\<close>

lemma count_thread_call:
  "thread_call e \<Longrightarrow> count_list (trace w) e = count_list (filter thread_call (trace w)) e"
  for w :: "'a ext_scheme"
proof -
  have "thread_call e \<Longrightarrow> count_list es e = count_list (filter thread_call es) e" for es
    by (induction es) auto
  then show "thread_call e \<Longrightarrow> count_list (trace w) e = count_list (filter thread_call (trace w)) e" .
qed


definition start_request :: json where
  "start_request = JObject [(''method'', JString ''start_pt''), (''request_id'', JString ''r'')]"

definition default_args :: mqtt_args where
  "default_args = \<lparr>mosquitto_host = ''127.0.0.1'', mosquitto_port = ''1883'', keep_alive = ''60'',
     mq_edge_domain_socket = ''/tmp/edge.sock''\<rparr>"

lemma default_line:
  "mqtt_program E [(4096, ''mqttpt-example'')] w = mqtt_main_init E default_args w"
proof -
  have "line_starts mqtt_options [] [] [(4096, ''mqttpt-example'')]"
    by (simp add: line_starts_def prefix_size_arith)
  then have "written_line mqtt_options [] [(4096, ''mqttpt-example'')]" by (auto simp: written_line_def)
  from mqtt_line_read [OF this] show ?thesis
    by (simp add: mqtt_program_def flagged_def default_args_def mqtt_args.defs)
qed

lemma default_start:
  "\<exists>w. mqtt_main_init mqtt_env default_args mqtt_zero = Some (Inr (), w) \<and> mqttpt_translator_started w = 0"
proof -
  have "atoi ''1883'' = Some 1883" "atoi ''60'' = Some 60"
    by (simp_all add: atoi_def is_space_def digits_value_def is_digit_def)
  then show ?thesis
    by (simp add: mqtt_main_init_def setup_signals_def ask_defs call_def mqtt_zero_def default_args_def)
qed

lemma start_message:
  assumes "mqttpt_translator_started w = 0"
  shows "\<exists>v. mqtt_handle (mqtt_libs_for start_request) mqtt_env (Message (Some ''MQTT/x'') ''p'') w = Some v \<and>
           Sys ThreadCreate \<in> set (trace v)"
proof -
  have "topic_offsets MQTT_TOPIC_OFFSET_COUNT ''MQTT/x'' ! 0 = Some ''MQTT''" by code_simp
  then show ?thesis using assms
    by (simp add: mqtt_message_callback_def mqttpt_handle_message_def mqttpt_translate_gw_status_message_def
        request_without_params_def start_request_def mqtt_libs_for_def mqttpt_start_translator_def
        sem_post_started_def call_def construct_and_send_success_def publish_object_def publish_to_mqtt_def
        ask_defs Let_def)
qed


end
