(* ===== verification/Blept_Arguments.thy ===== *)
theory Blept_Arguments
  imports Command_Line_Laws Main_Loop
begin

text \<open>
  The arguments of the BLE translator: the table of options, the defaults and the copying of the
  options of \<^verbatim>\<open>blept-example/blept_example_clip.h\<close>, into the record of arguments of \<open>Main_Loop\<close> with
  the two fields that \<open>main\<close> does not pass on.
\<close>

record blept_docopt_args = blept_args +
  blept_color_log :: bool
  blept_help :: bool

definition blept_options :: "cl_option list" where
  "blept_options =
     [cl_opt (Some ''-c'') ''--clear-cache'' False,
      cl_opt None ''--color-log'' False,
      cl_opt (Some ''-h'') ''--help'' False,
      cl_opt (Some ''-a'') ''--address'' True,
      cl_opt (Some ''-b'') ''--bluetooth-interface'' True,
      cl_opt None ''--edge-domain-socket'' True,
      cl_opt (Some ''-e'') ''--endpoint-postfix'' True,
      cl_opt (Some ''-d'') ''--extended-discovery-file'' True,
      cl_opt (Some ''-n'') ''--protocol-translator-name'' True]"

definition blept_defaults :: blept_docopt_args where
  "blept_defaults =
     \<lparr>protocol_translator_name = None, endpoint_postfix = ''-0'', edge_domain_socket = ''/tmp/edge.sock'',
      bluetooth_interface = ''hci0'', address = Some ''unix:path=/var/run/dbus/system_bus_socket'',
      clear_cache = False, extended_discovery_file = None, blept_color_log = False, blept_help = False\<rparr>"

definition blept_put :: "cl_option \<Rightarrow> blept_docopt_args \<Rightarrow> blept_docopt_args" where
  "blept_put opt args =
     (if olong opt = ''--clear-cache'' then args\<lparr>clear_cache := opt_value opt\<rparr>
      else if olong opt = ''--color-log'' then args\<lparr>blept_color_log := opt_value opt\<rparr>
      else if olong opt = ''--help'' then args\<lparr>blept_help := opt_value opt\<rparr>
      else if olong opt = ''--address'' then
        args\<lparr>address := given_or_null (opt_argument opt) (address args)\<rparr>
      else if olong opt = ''--bluetooth-interface'' then
        args\<lparr>bluetooth_interface := given (opt_argument opt) (bluetooth_interface args)\<rparr>
      else if olong opt = ''--edge-domain-socket'' then
        args\<lparr>edge_domain_socket := given (opt_argument opt) (edge_domain_socket args)\<rparr>
      else if olong opt = ''--endpoint-postfix'' then
        args\<lparr>endpoint_postfix := given (opt_argument opt) (endpoint_postfix args)\<rparr>
      else if olong opt = ''--extended-discovery-file'' then
        args\<lparr>extended_discovery_file := given_or_null (opt_argument opt) (extended_discovery_file args)\<rparr>
      else if olong opt = ''--protocol-translator-name'' then
        args\<lparr>protocol_translator_name := given_or_null (opt_argument opt) (protocol_translator_name args)\<rparr>
      else args)"

definition blept_docopt :: "arg list \<Rightarrow> bool \<Rightarrow> string option \<Rightarrow> blept_docopt_args docopt_result" where
  "blept_docopt argv help_on version = docopt blept_put blept_options blept_defaults argv help_on version"

text \<open>What \<open>main\<close> calls \<open>docopt\<close> with.\<close>

definition blept_arguments :: "arg list \<Rightarrow> blept_docopt_args docopt_result" where
  "blept_arguments argv = blept_docopt argv True (Some ''0.1'')"

interpretation blept_line: option_table blept_options
  by unfold_locales (auto simp: blept_options_def)

text \<open>A written line is read back: every field has the last value given for it, or its default.\<close>

lemma blept_line_read:
  assumes "written_line blept_options ss argv" and "\<not> flagged ss ''--help''"
  shows "blept_arguments argv = Docopt_args
     \<lparr>protocol_translator_name = last_value ss ''--protocol-translator-name'',
      endpoint_postfix = given (last_value ss ''--endpoint-postfix'') ''-0'',
      edge_domain_socket = given (last_value ss ''--edge-domain-socket'') ''/tmp/edge.sock'',
      bluetooth_interface = given (last_value ss ''--bluetooth-interface'') ''hci0'',
      address = given_or_null (last_value ss ''--address'') (Some ''unix:path=/var/run/dbus/system_bus_socket''),
      clear_cache = flagged ss ''--clear-cache'',
      extended_discovery_file = last_value ss ''--extended-discovery-file'',
      blept_color_log = flagged ss ''--color-log'', blept_help = False\<rparr>"
  unfolding blept_arguments_def blept_docopt_def
  using blept_line.docopt_line [OF assms(1), of True blept_put blept_defaults "Some ''0.1''"] assms(2)
  by (simp add: blept_options_def blept_put_def blept_defaults_def chosen_def)



text \<open>The help, if nothing is wrong with the rest of the line.\<close>

lemma blept_line_help:
  assumes "written_line blept_options ss argv" and "flagged ss ''--help''"
  shows "blept_arguments argv = Exit_success"
  unfolding blept_arguments_def blept_docopt_def
  by (rule blept_line.docopt_help [OF assms, of "cl_opt (Some ''-h'') ''--help'' False"])
     (simp_all add: blept_options_def)

text \<open>
  A prefix with \<open>=\<close> takes the first option it begins, although another one may be meant: here the
  socket and not the postfix of the endpoint.
\<close>

lemma ambiguous_prefix_takes_first:
  "\<exists>A. blept_arguments [(4096, ''blept-example''), (4110, ''--e=x'')] = Docopt_args A \<and>
     edge_domain_socket A = ''x'' \<and> endpoint_postfix A = ''-0''"
  by (simp add: blept_arguments_def blept_docopt_def docopt_def parse_args.simps ts_current_def tokens_new_def
      parse_token_def parse_long_def parse_argcmd_def tokens_move_def eq_index_def prefix_size_arith strncmp_eq_def
      set_argument_def blept_options_def blept_put_def blept_defaults_def)

section \<open>\<open>main\<close> with its command line\<close>

definition blept_program :: "env \<Rightarrow> arg list \<Rightarrow> ble_world \<Rightarrow> (int + unit) \<times> ble_world" where
  "blept_program E argv w =
     (case blept_arguments argv of
        Exit_failure e \<Rightarrow> (Inl 1, w)
      | Exit_success \<Rightarrow> (Inl 0, w)
      | Docopt_args A \<Rightarrow> main_init E (blept_args.truncate A) w)"




lemma blept_name_mandatory:
  "written_line blept_options ss argv \<Longrightarrow> \<not> flagged ss ''--help'' \<Longrightarrow>
   last_value ss ''--protocol-translator-name'' = None \<Longrightarrow> blept_program E argv w = (Inl 1, w)"
  by (simp add: blept_program_def blept_line_read blept_args.defs main_init_def)

end
