(* ===== verification/Client_Arguments.thy ===== *)
theory Client_Arguments
  imports Command_Line_Laws Client_Example
begin

text \<open>
  The arguments of the protocol translator example: the table of options, the defaults and the copying of the
  options of \<^verbatim>\<open>pt-example/client_example_clip.h\<close>, into the record of arguments of \<open>Client_Example\<close> with the
  fields that are not used there.
\<close>

record client_docopt_args = client_args +
  client_color_log :: bool
  client_help :: bool

definition client_options :: "cl_option list" where
  "client_options =
     [cl_opt None ''--color-log'' False,
      cl_opt (Some ''-h'') ''--help'' False,
      cl_opt None ''--edge-domain-socket'' True,
      cl_opt (Some ''-e'') ''--endpoint-postfix'' True,
      cl_opt (Some ''-n'') ''--protocol-translator-name'' True]"

definition client_defaults :: client_docopt_args where
  "client_defaults =
     \<lparr>protocol_translator_name = None,
      endpoint_postfix = ''-0'',
      edge_domain_socket = ''/tmp/edge.sock'',
      client_color_log = False,
      client_help = False\<rparr>"

definition client_put :: "cl_option \<Rightarrow> client_docopt_args \<Rightarrow> client_docopt_args" where
  "client_put opt args =
     (if olong opt = ''--color-log'' then args\<lparr>client_color_log := opt_value opt\<rparr>
      else if olong opt = ''--help'' then args\<lparr>client_help := opt_value opt\<rparr>
      else if olong opt = ''--edge-domain-socket'' then
        args\<lparr>edge_domain_socket := given (opt_argument opt) (edge_domain_socket args)\<rparr>
      else if olong opt = ''--endpoint-postfix'' then
        args\<lparr>endpoint_postfix := given (opt_argument opt) (endpoint_postfix args)\<rparr>
      else if olong opt = ''--protocol-translator-name'' then
        args\<lparr>protocol_translator_name := given_or_null (opt_argument opt) (protocol_translator_name args)\<rparr>
      else args)"

definition client_docopt :: "arg list \<Rightarrow> bool \<Rightarrow> string option \<Rightarrow> client_docopt_args docopt_result" where
  "client_docopt argv help_on version = docopt client_put client_options client_defaults argv help_on version"

text \<open>What \<open>main\<close> calls \<open>docopt\<close> with.\<close>

definition client_arguments :: "arg list \<Rightarrow> client_docopt_args docopt_result" where
  "client_arguments argv = client_docopt argv True (Some ''0.1'')"

interpretation client_line: option_table client_options
  by unfold_locales (auto simp: client_options_def)

text \<open>A written line is read back: every field has the last value given for it, or its default.\<close>

lemma client_line_read:
  assumes "written_line client_options ss argv" and "\<not> flagged ss ''--help''"
  shows "client_arguments argv = Docopt_args
     \<lparr>protocol_translator_name = last_value ss ''--protocol-translator-name'',
      endpoint_postfix = given (last_value ss ''--endpoint-postfix'') ''-0'',
      edge_domain_socket = given (last_value ss ''--edge-domain-socket'') ''/tmp/edge.sock'',
      client_color_log = flagged ss ''--color-log'',
      client_help = False\<rparr>"
  unfolding client_arguments_def client_docopt_def
  using client_line.docopt_line [OF assms(1), of True client_put client_defaults "Some ''0.1''"] assms(2)
  by (simp add: client_options_def client_put_def client_defaults_def chosen_def)

section \<open>\<open>main\<close> with its command line\<close>

definition client_program :: "env \<Rightarrow> arg list \<Rightarrow> client_world \<Rightarrow> client_world" where
  "client_program E argv w =
     (case client_arguments argv of
        Exit_failure e \<Rightarrow> w\<lparr>main_at := Main_returned 1\<rparr>
      | Exit_success \<Rightarrow> w\<lparr>main_at := Main_returned 0\<rparr>
      | Docopt_args A \<Rightarrow> client_main E (client_args.truncate A) w)"

lemma client_name_mandatory:
  "written_line client_options ss argv \<Longrightarrow> \<not> flagged ss ''--help'' \<Longrightarrow>
   last_value ss ''--protocol-translator-name'' = None \<Longrightarrow>
   client_program E argv w = w\<lparr>g_shutdown_handler_called := 0, main_at := Main_returned 1\<rparr>"
  by (simp add: client_program_def client_line_read client_args.defs client_main_def)

end
