(* ===== verification/Tester_Arguments.thy ===== *)
theory Tester_Arguments
  imports Command_Line_Laws Stress_Tester
begin

text \<open>
  The arguments of the stress tester: the table of options, the defaults and the copying of the
  options of \<^verbatim>\<open>c-api-stress-tester/stress_tester_clip.h\<close>, into the record of arguments of \<open>Stress_Tester\<close> with the
  fields that are not used there.
\<close>

record tester_docopt_args = tester_args +
  arg_color_log :: bool
  arg_help :: bool
  arg_edge_domain_socket :: string
  arg_parallel_connection_lock :: string
  arg_sleep_time_ms :: string

definition tester_options :: "cl_option list" where
  "tester_options =
     [cl_opt None ''--color-log'' False,
      cl_opt (Some ''-h'') ''--help'' False,
      cl_opt None ''--edge-domain-socket'' True,
      cl_opt (Some ''-a'') ''--max-devices'' True,
      cl_opt (Some ''-i'') ''--min-devices'' True,
      cl_opt (Some ''-u'') ''--number-of-protocol-translators'' True,
      cl_opt (Some ''-t'') ''--number-of-threads'' True,
      cl_opt (Some ''-l'') ''--parallel-connection-lock'' True,
      cl_opt (Some ''-n'') ''--protocol-translator-name'' True,
      cl_opt (Some ''-s'') ''--sleep-time-ms'' True,
      cl_opt (Some ''-r'') ''--test-duration-seconds'' True]"

definition tester_defaults :: tester_docopt_args where
  "tester_defaults =
     \<lparr>arg_translator_name = None,
      arg_threads = ''1'',
      arg_min_devices = ''10'',
      arg_max_devices = ''100'',
      arg_translators = ''1'',
      arg_duration = ''0'',
      arg_color_log = False,
      arg_help = False,
      arg_edge_domain_socket = ''/tmp/edge.sock'',
      arg_parallel_connection_lock = ''1'',
      arg_sleep_time_ms = ''1000''\<rparr>"

definition tester_put :: "cl_option \<Rightarrow> tester_docopt_args \<Rightarrow> tester_docopt_args" where
  "tester_put opt args =
     (if olong opt = ''--color-log'' then args\<lparr>arg_color_log := opt_value opt\<rparr>
      else if olong opt = ''--help'' then args\<lparr>arg_help := opt_value opt\<rparr>
      else if olong opt = ''--edge-domain-socket'' then
        args\<lparr>arg_edge_domain_socket := given (opt_argument opt) (arg_edge_domain_socket args)\<rparr>
      else if olong opt = ''--max-devices'' then
        args\<lparr>arg_max_devices := given (opt_argument opt) (arg_max_devices args)\<rparr>
      else if olong opt = ''--min-devices'' then
        args\<lparr>arg_min_devices := given (opt_argument opt) (arg_min_devices args)\<rparr>
      else if olong opt = ''--number-of-protocol-translators'' then
        args\<lparr>arg_translators := given (opt_argument opt) (arg_translators args)\<rparr>
      else if olong opt = ''--number-of-threads'' then
        args\<lparr>arg_threads := given (opt_argument opt) (arg_threads args)\<rparr>
      else if olong opt = ''--parallel-connection-lock'' then
        args\<lparr>arg_parallel_connection_lock := given (opt_argument opt) (arg_parallel_connection_lock args)\<rparr>
      else if olong opt = ''--protocol-translator-name'' then
        args\<lparr>arg_translator_name := given_or_null (opt_argument opt) (arg_translator_name args)\<rparr>
      else if olong opt = ''--sleep-time-ms'' then
        args\<lparr>arg_sleep_time_ms := given (opt_argument opt) (arg_sleep_time_ms args)\<rparr>
      else if olong opt = ''--test-duration-seconds'' then
        args\<lparr>arg_duration := given (opt_argument opt) (arg_duration args)\<rparr>
      else args)"

definition tester_docopt :: "arg list \<Rightarrow> bool \<Rightarrow> string option \<Rightarrow> tester_docopt_args docopt_result" where
  "tester_docopt argv help_on version = docopt tester_put tester_options tester_defaults argv help_on version"

text \<open>What \<open>main\<close> calls \<open>docopt\<close> with.\<close>

definition tester_arguments :: "arg list \<Rightarrow> tester_docopt_args docopt_result" where
  "tester_arguments argv = tester_docopt argv True (Some ''0.1'')"

interpretation tester_line: option_table tester_options
  by unfold_locales (auto simp: tester_options_def)

text \<open>A written line is read back: every field has the last value given for it, or its default.\<close>

lemma tester_line_read:
  assumes "written_line tester_options ss argv" and "\<not> flagged ss ''--help''"
  shows "tester_arguments argv = Docopt_args
     \<lparr>arg_translator_name = last_value ss ''--protocol-translator-name'',
      arg_threads = given (last_value ss ''--number-of-threads'') ''1'',
      arg_min_devices = given (last_value ss ''--min-devices'') ''10'',
      arg_max_devices = given (last_value ss ''--max-devices'') ''100'',
      arg_translators = given (last_value ss ''--number-of-protocol-translators'') ''1'',
      arg_duration = given (last_value ss ''--test-duration-seconds'') ''0'',
      arg_color_log = flagged ss ''--color-log'',
      arg_help = False,
      arg_edge_domain_socket = given (last_value ss ''--edge-domain-socket'') ''/tmp/edge.sock'',
      arg_parallel_connection_lock = given (last_value ss ''--parallel-connection-lock'') ''1'',
      arg_sleep_time_ms = given (last_value ss ''--sleep-time-ms'') ''1000''\<rparr>"
  unfolding tester_arguments_def tester_docopt_def
  using tester_line.docopt_line [OF assms(1), of True tester_put tester_defaults "Some ''0.1''"] assms(2)
  by (simp add: tester_options_def tester_put_def tester_defaults_def chosen_def)

section \<open>\<open>main\<close> with its command line\<close>

text \<open>The clock is read before the command line, which \<open>tester_main\<close> does first.\<close>

definition tester_program ::
  "env \<Rightarrow> arg list \<Rightarrow> 'd tester_world \<Rightarrow> (tester_config option \<times> 'd tester_world) option" where
  "tester_program E argv w =
     (case tester_arguments argv of
        Exit_failure e \<Rightarrow> Some (None, (snd (ask_int E (Sys ClockGettime) w))\<lparr>tester_at := Tester_returned 1\<rparr>)
      | Exit_success \<Rightarrow> Some (None, (snd (ask_int E (Sys ClockGettime) w))\<lparr>tester_at := Tester_returned 0\<rparr>)
      | Docopt_args A \<Rightarrow> tester_main E (tester_args.truncate A) w)"

lemma tester_name_mandatory:
  assumes "written_line tester_options ss argv" and "\<not> flagged ss ''--help''"
    and "last_value ss ''--protocol-translator-name'' = None"
  shows "\<exists>w'. tester_program E argv w = Some (None, w') \<and> tester_at w' = Tester_returned 1 \<and>
           api_threads w' = api_threads w \<and> test_threads w' = test_threads w"
  using assms
  by (auto simp: tester_program_def tester_line_read tester_args.defs tester_main_def tester_setup_signals_def
      ask_ok_def ask_int_def call_def Let_def)

end
