(* ===== verification/Argument_Theorems.thy ===== *)
theory Argument_Theorems
  imports Blept_Arguments Mqtt_Arguments Client_Arguments Tester_Arguments
begin

text \<open>
  What the command lines of the programs have in common: the mandatory name of the translator, which
  only the mains check, and the numbers the MQTT translator and the tester run with.
\<close>



text \<open>
  The numbers of a line are those \<open>atoi\<close> reads in the last value given. More translators than threads,
  one by default, and the tester does not start.
\<close>

lemma more_translators_than_threads:
  assumes "written_line tester_options ss argv" and "\<not> flagged ss ''--help''"
    and "last_value ss ''--number-of-protocol-translators'' = Some ''2''"
    and "last_value ss ''--number-of-threads'' = None" "last_value ss ''--min-devices'' = None"
      "last_value ss ''--max-devices'' = None"
  shows "\<exists>v. tester_program E argv w = Some (None, v) \<and> tester_at v = Tester_returned 1"
proof (cases "last_value ss ''--protocol-translator-name''")
  case None
  then show ?thesis using tester_name_mandatory [OF assms(1,2)] by blast
next
  case (Some name)
  have "atoi ''1'' = Some 1" "atoi ''2'' = Some 2" "atoi ''10'' = Some 10" "atoi ''100'' = Some 100"
    by (simp_all add: atoi_def is_space_def digits_value_def is_digit_def)
  then show ?thesis
    using assms Some
    by (auto simp: tester_program_def tester_line_read tester_args.defs tester_main_def create_tester_def
        tester_setup_signals_def ask_ok_def ask_int_def call_def Let_def)
qed

end
