(* ===== verification/Spec2Isabelle.thy ===== *)
theory Spec2Isabelle
  imports Float_Accuracy Runtime_Laws Shutdown Mqtt_Laws Mqtt_Value_Laws Thermal_Laws Client_Theorems Stress_Theorems Stress_Values Device_Map Random_Range Mqtt_Runs Argument_Theorems
begin

text \<open>
  The C programs of \<^verbatim>\<open>mbed-edge-examples\<close>: protocol translators that sit between a gateway's
  own devices and Pelion Edge. Each is a client of the pt-client library of mbed-edge (a git
  submodule), with which it creates devices and their LwM2M resources, and each has a source of
  values: Bluetooth devices through BlueZ on D-Bus (\<^verbatim>\<open>blept-example\<close>), MQTT messages
  (\<^verbatim>\<open>mqttpt-example\<close>), the temperature of the CPU (\<^verbatim>\<open>pt-example\<close>), random devices
  (\<^verbatim>\<open>c-api-stress-tester\<close>).

  \<^bold>\<open>How the model is made.\<close> \<open>External\<close> has a constructor for every call that leaves the repository
  (the library, D-Bus, GLib, mosquitto, the allocator, the clock). A state is a record that starts
  with the history of these calls; the environment, a parameter of every definition, answers a call
  from that history. A C function is a HOL function on such a state; a result \<open>None\<close> is undefined
  behaviour, so that a theorem which says \<open>= Some _\<close> says that there is none. Integers have their C
  width, floats are their 32 bits with the rounding of IEEE 754 (\<open>C_Float\<close>), strings are lists of
  characters without the NUL. Nothing is assumed of an answer unless a theorem says so, with the
  hypothesis named (\<open>keeps_values\<close>, \<open>json_never_fails\<close> and so on) and a witness that it can hold.

  \<^bold>\<open>Shared parts.\<close> \<open>Prelude\<close>: machine integers, C strings, the locales of a keyed list and of an encoder
  with its decoder. \<open>Json\<close>: jansson's documents and accessors. \<open>Byte_Order\<close>
  (\<^verbatim>\<open>byte-order/byte_order.c\<close>). \<open>Ipso_Objects\<close> (\<^verbatim>\<open>examples-common-2/ipso_objects.c\<close>), with the running
  minimum and maximum of a sensor and the hex strings.

  \<^bold>\<open>The Bluetooth translator.\<close>
  \<open>Devices\<close> is the list of devices of \<^verbatim>\<open>devices.c\<close> and \<open>Gatt_Resources\<close> its GATT tables, JSON and
  writes from Edge; \<open>Descriptors\<close> and \<open>Translations\<close> are the translation tables and the conversion
  of values (\<^verbatim>\<open>pt_ble_translations.c\<close>, \<^verbatim>\<open>pt_ble_supported_translations.c\<close>); \<open>Bus_Access\<close>,
  \<open>Discovery\<close>, \<open>Reconnect\<close>, \<open>Event_Loop\<close> and \<open>Main_Loop\<close> are \<^verbatim>\<open>pt_ble.c\<close>, \<^verbatim>\<open>main.c\<close> and the callbacks
  of \<^verbatim>\<open>pt_edge.c\<close>; \<open>Edge_Api\<close> is the rest of \<^verbatim>\<open>pt_edge.c\<close>. \<open>Main_Loop\<close> composes them into the
  transition system of the GLib loop: one step is one source of the loop dispatched.
  \<open>Float_Accuracy\<close> and \<open>Translation_Laws\<close> bound the error of decoded values and show the fields of a
  digital characteristic independent; \<open>Gatt_Laws\<close> is about writes from Edge, resources and JSON;
  \<open>Event_Invariants\<close> and \<open>Handler_Invariants\<close> carry the invariant of the device list (identifiers
  distinct, retry timers owned by a device of the list, counters in bounds) through every handler,
  \<open>Transition_Systems\<close> is the locale of an invariant of a transition system, \<open>Reachable_States\<close>
  interprets it on \<open>Main_Loop\<close>, and \<open>Runtime_Laws\<close> states what follows of reachable states.
  \<open>Device_Map\<close> shows that the list of devices is a map from identifiers to devices under every operation
  on it (a simulation, with its locale). \<open>Shutdown\<close> shows that a requested shutdown ends the loop once the library has answered, and the
  run in which it does not. \<open>Example_Runs\<close> holds the runs the witnesses use.

  \<^bold>\<open>The MQTT translator\<close> (\<^verbatim>\<open>mqttpt-example/mqttpt_example.c\<close>).
  \<open>Mqtt_Messages\<close> is its state, what it publishes and the library's callbacks, \<open>Mqtt_Requests\<close> the
  requests of the gateway, \<open>Mqtt_Values\<close> the two formats of node values, \<open>Mqtt_Main\<close> the topics,
  mosquitto's callbacks and \<open>main\<close>. \<open>Mqtt_Laws\<close>: a topic decides its handler (against a declarative
  routing table), a request is answered exactly once, and which requests are undefined.
  \<open>Mqtt_Frames\<close> says what any event can do beyond calls outside a class of calls (the locale
  \<open>call_class\<close>, interpreted for writing values and for the translator's thread). \<open>Mqtt_Runs\<close> is the
  program from its command line to the return of \<open>main\<close>: when each event can happen, the steps, and the
  invariant by which the thread is created once and joined.
  \<open>Mqtt_Value_Laws\<close>: the two value formats agree, every entry is set, only registered devices are
  written, and the certificate chain that repeats its first element.

  \<^bold>\<open>The protocol translator example.\<close> \<open>C_Double\<close> has \<open>atoi\<close>, \<open>atof\<close> and the sums and quotients of doubles,
  \<open>Thermal_Zone\<close> is \<^verbatim>\<open>device-interface/thermal_zone.c\<close>, \<open>Client_Config\<close> is
  \<^verbatim>\<open>examples-common-2/client_config.c\<close> and \<open>Client_Example\<close> is \<^verbatim>\<open>pt-example/client_example.c\<close>: the
  place each of its two threads stands at, their flags and condition variables, the handlers, one round
  of the main loop, and the interleaved events as a step relation. \<open>Thermal_Laws\<close> bounds the error of
  a temperature read; \<open>Client_Laws\<close> shows which calls the operations make and what they leave alone,
  \<open>Client_Runs\<close> the invariant of every run (the locale of \<open>Transition_Systems\<close> interpreted once more) and
  \<open>Client_Theorems\<close> the order of registration and updates, when the main thread ends and the two runs
  in which it does not, and that both ways of keeping a sensor's minimum and maximum agree.

  \<^bold>\<open>The stress tester\<close> (\<^verbatim>\<open>c-api-stress-tester/stress_tester.c\<close>) uses the older library, in which a device
  is a structure of the library: \<open>Pt_Client\<close> is the record of the functions used of it, a parameter, and
  \<open>Ipso_Devices\<close> is \<^verbatim>\<open>examples-common/ipso_objects.c\<close> and \<^verbatim>\<open>examples-common/client_config.c\<close>.
  \<open>Stress_Tester\<close> has the state of every thread, the random actions, the callbacks, the shutdown and
  \<open>main\<close>, with one step for every event of any thread. \<open>Stress_Laws\<close> holds the law of its random choices
  and the relation \<open>tester_frame\<close> of everything that is not a thread's own progress, \<open>Stress_Runs\<close> the
  invariant of every run, \<open>Stress_Theorems\<close> the identifiers, what holds when \<open>main\<close> returns, and the two
  kinds of run in which it never does, \<open>Stress_Values\<close> that an update writes the value and tracks the
  minimum and maximum under what the library documents (\<open>resource_laws\<close>). \<open>Random_Range\<close> shows that rounding keeps a number between representable
  ones, so that the random temperatures of both examples stay in their ranges.

  \<^bold>\<open>The command lines\<close> (the four \<^verbatim>\<open>*_clip.h\<close>, generated by docopt and compiled into the programs).
  \<open>Command_Line\<close> has the tokens and the parsers, the same text in the four files; a word has an address,
  because the code subtracts it from NULL to get the length of a prefix. \<open>Blept_Arguments\<close>,
  \<open>Mqtt_Arguments\<close>, \<open>Client_Arguments\<close> and \<open>Tester_Arguments\<close> have the table, the defaults and the copying
  of each program, and its \<open>main\<close> with the command line before it. \<open>Command_Line_Laws\<close> shows that a line
  written from settings is read back and which lines are refused, for any table that keeps the laws of
  the locale \<open>option_table\<close> (no name is a prefix of another, short names are distinct), interpreted
  for the four tables, and what the address decides; \<open>Argument_Theorems\<close> is about all programs.

  \<^bold>\<open>Bounds and fuel.\<close> The loops of the code are structural recursions, but for the loop over the words of the command line,
  whose every round moves on (a measure); the outer loop of \<open>ble_start\<close> and
  the GLib loop have no bound in the code and are relations on states, so no fuel is used for them. The search for a free instance tries the 65535
  identifiers of the code; the tester draws identifiers until one is new, a loop that need not end and
  is a partial function.

  \<^bold>\<open>Not modelled.\<close> Trace output, releasing memory (so neither leaks nor double frees are visible; what
  was seen of them is in the findings), the locks that only protect single accesses, the texts
  of the help and the usage, D-Bus notifications (compiled out), the JavaScript and shell
  examples, spurious wake-ups of condition variables, and numbers in a zone file that are hexadecimal,
  infinite or not numbers.
  In the stress tester the work of a test thread under the lock of its list is one step; the lock of a
  connection is not a part of the state, since no call waits while it is held.
\<close>

end
